(* ===== verification/OCN_Prelude.thy ===== *)
theory OCN_Prelude
  imports Main "HOL-Library.Word" "HOL-Library.AList" "HOL-Library.Sublist"
begin

text \<open>
  Shared vocabulary of the OpenCarrier Network development: the types that stand for
  Go's built-in data, the few pieces of Go's standard library the components use
  (decimal formatting, little-endian integers, map types), and the generic lemmas on
  association lists, options and byte lists that the component proofs rest on.

  \<^item> A Go \<open>string\<close> is a byte sequence, here \<^typ>\<open>string\<close> (a list of 8-bit characters);
    \<open>len\<close> is \<^const>\<open>length\<close>.
  \<^item> A \<open>[]byte\<close> is a list of \<^typ>\<open>8 word\<close>.
  \<^item> A Go \<open>map\<close> that the code iterates over is an association list (\<open>gomap\<close>); Go leaves
    the iteration order open and so does the model, which never relies on the order of
    the list.
  \<^item> A call that can fail returns a sum: \<^term>\<open>Inl e\<close> is the error, \<^term>\<open>Inr x\<close> the result.
  \<^item> Time is an integer number of nanoseconds since the epoch; \<open>unix_secs\<close> is \<open>Time.Unix\<close>.
\<close>

unbundle bit_operations_syntax

type_synonym byte = "8 word"
type_synonym bytes = "8 word list"
type_synonym ('k, 'v) gomap = "('k \<times> 'v) list"
type_synonym gotime = int

named_theorems gomap_simps \<open>lookup after update and delete of association lists\<close>
named_theorems store_defs \<open>definitions of the statement-level store operations\<close>

section \<open>Standard-library functions the code uses\<close>

definition unix_secs :: "gotime \<Rightarrow> int" where
  "unix_secs t = t div 1000000000"

definition secs :: "int \<Rightarrow> gotime" where
  "secs n = n * 1000000000"

fun dec_rev :: "nat \<Rightarrow> string" where
  "dec_rev n = (if n < 10 then [char_of (48 + n)] else char_of (48 + n mod 10) # dec_rev (n div 10))"

declare dec_rev.simps [simp del]

definition dec :: "nat \<Rightarrow> string" where
  "dec n = rev (dec_rev n)"

definition pad_left :: "nat \<Rightarrow> string \<Rightarrow> string" where
  "pad_left w s = replicate (w - length s) (CHR ''0'') @ s"

definition is_digit :: "char \<Rightarrow> bool" where
  "is_digit c \<longleftrightarrow> 48 \<le> (of_char c :: nat) \<and> (of_char c :: nat) \<le> 57"

fun undec :: "string \<Rightarrow> nat \<Rightarrow> nat" where
  "undec [] a = a"
| "undec (c # cs) a = undec cs (10 * a + (of_char c - 48))"

definition has_prefix :: "'a list \<Rightarrow> 'a list \<Rightarrow> bool" where
  "has_prefix s p \<longleftrightarrow> take (length p) s = p"

text \<open>\<open>strings.TrimSpace(s) == ""\<close>: the whole string is white space, in UTF-8.\<close>

definition is_space :: "char \<Rightarrow> bool" where
  "is_space c \<longleftrightarrow> (of_char c :: nat) \<in> {9, 10, 11, 12, 13, 32}"

definition is_space2 :: "char \<Rightarrow> char \<Rightarrow> bool" where
  "is_space2 c d \<longleftrightarrow> (of_char c :: nat) = 0xC2 \<and> (of_char d :: nat) \<in> {0x85, 0xA0}"

definition is_space3 :: "char \<Rightarrow> char \<Rightarrow> char \<Rightarrow> bool" where
  "is_space3 c d e \<longleftrightarrow>
     ((of_char c :: nat), (of_char d :: nat), (of_char e :: nat)) \<in> {(0xE1, 0x9A, 0x80), (0xE2, 0x81, 0x9F), (0xE3, 0x80, 0x80)} \<or>
     (of_char c :: nat) = 0xE2 \<and> (of_char d :: nat) = 0x80 \<and>
       ((of_char e :: nat) \<in> {0xA8, 0xA9, 0xAF} \<or> 0x80 \<le> (of_char e :: nat) \<and> (of_char e :: nat) \<le> 0x8A)"

fun is_blank :: "string \<Rightarrow> bool" where
  "is_blank [] = True"
| "is_blank [c] = is_space c"
| "is_blank [c, d] = (if is_space c then is_blank [d] else is_space2 c d)"
| "is_blank (c # d # e # s) =
     (if is_space c then is_blank (d # e # s)
      else if is_space2 c d then is_blank (e # s)
      else is_space3 c d e \<and> is_blank s)"

text \<open>
  \<open>strings.TrimSpace\<close>: the number of bytes of the white space character a string begins with, where
  the two predicates say which two and three bytes form one. The end of the string is trimmed on
  the reversed bytes.
\<close>

definition space_len :: "(char \<Rightarrow> char \<Rightarrow> bool) \<Rightarrow> (char \<Rightarrow> char \<Rightarrow> char \<Rightarrow> bool) \<Rightarrow> string \<Rightarrow> nat" where
  "space_len p2 p3 s =
     (case s of
        [] \<Rightarrow> 0
      | c # s1 \<Rightarrow>
          if is_space c then 1
          else (case s1 of
                  [] \<Rightarrow> 0
                | d # s2 \<Rightarrow>
                    if p2 c d then 2
                    else (case s2 of [] \<Rightarrow> 0 | e # _ \<Rightarrow> if p3 c d e then 3 else 0)))"

function trim_front ::
  "(char \<Rightarrow> char \<Rightarrow> bool) \<Rightarrow> (char \<Rightarrow> char \<Rightarrow> char \<Rightarrow> bool) \<Rightarrow> string \<Rightarrow> string" where
  "trim_front p2 p3 s =
     (if space_len p2 p3 s = 0 then s else trim_front p2 p3 (drop (space_len p2 p3 s) s))"
  by pat_completeness auto
termination
  by (relation "measure (\<lambda>(_, _, s). length s)") (auto simp: space_len_def split: list.splits if_splits)

declare trim_front.simps [simp del]

definition TrimSpace :: "string \<Rightarrow> string" where
  "TrimSpace s =
     rev (trim_front (\<lambda>e d. is_space2 d e) (\<lambda>e d c. is_space3 c d e) (rev (trim_front is_space2 is_space3 s)))"

text \<open>\<open>%d\<close> of a signed integer.\<close>

definition fmt_d :: "int \<Rightarrow> string" where
  "fmt_d n = (if n < 0 then CHR ''-'' # dec (nat (- n)) else dec (nat n))"

definition le_bytes :: "nat \<Rightarrow> nat \<Rightarrow> bytes" where
  "le_bytes k x = map (\<lambda>i. word_of_nat (x div 256 ^ i)) [0..<k]"

fun le_nat :: "bytes \<Rightarrow> nat" where
  "le_nat [] = 0"
| "le_nat (b # bs) = unat b + 256 * le_nat bs"

definition str_bytes :: "string \<Rightarrow> bytes" where
  "str_bytes s = map (\<lambda>c. word_of_nat (of_char c)) s"

definition bytes_str :: "bytes \<Rightarrow> string" where
  "bytes_str bs = map (\<lambda>b. char_of (unat b)) bs"

section \<open>Association lists\<close>

abbreviation aput :: "'k \<Rightarrow> 'v \<Rightarrow> ('k, 'v) gomap \<Rightarrow> ('k, 'v) gomap" where
  "aput \<equiv> AList.update"

abbreviation adel :: "'k \<Rightarrow> ('k, 'v) gomap \<Rightarrow> ('k, 'v) gomap" where
  "adel \<equiv> AList.delete"

abbreviation akeys :: "('k, 'v) gomap \<Rightarrow> 'k list" where
  "akeys m \<equiv> map fst m"

lemma map_of_aput [simp, gomap_simps]: "map_of (aput k v m) = (map_of m)(k \<mapsto> v)"
  by (rule update_conv')

lemma map_of_adel [simp, gomap_simps]: "map_of (adel k m) = (map_of m)(k := None)"
  by (rule delete_conv')

lemma distinct_aput [simp]: "distinct (akeys m) \<Longrightarrow> distinct (akeys (aput k v m))"
  by (rule distinct_update)

lemma distinct_adel [simp]: "distinct (akeys m) \<Longrightarrow> distinct (akeys (adel k m))"
  by (rule distinct_delete)

lemma set_adel: "(k', v) \<in> set (adel k m) \<longleftrightarrow> k' \<noteq> k \<and> (k', v) \<in> set m"
  by (auto simp: AList.delete_eq)

lemma set_akeys_aput [simp]: "set (akeys (aput k v m)) = insert k (set (akeys m))"
  by (metis dom_map_of_conv_image_fst map_of_aput list.set_map option.distinct(1) dom_fun_upd)

lemma set_akeys_adel [simp]: "set (akeys (adel k m)) = set (akeys m) - {k}"
  by (auto simp: AList.delete_eq)

lemma adel_absent: "k \<notin> set (akeys m) \<Longrightarrow> adel k m = m"
  by (simp add: AList.delete_eq filter_id_conv) force

lemma find_unique:
  assumes "m \<in> set xs" and "distinct (map f xs)" and "P m" and "\<And>x. P x \<Longrightarrow> f x = f m"
  shows "find P xs = Some m"
  using assms(1,2)
proof (induction xs)
  case (Cons a xs)
  show ?case
  proof (cases "P a")
    case True
    then have "f a = f m" by (rule assms(4))
    with Cons.prems have "a = m" by (auto simp: image_iff)
    with True show ?thesis by simp
  next
    case False
    with assms(3) Cons show ?thesis by auto
  qed
qed simp

lemma last_singleton_set: "set xs = {a} \<Longrightarrow> xs \<noteq> [] \<and> last xs = a"
  using last_in_set [of xs] by (cases xs) auto

lemma filter_eq_unique: "a \<in> set xs \<Longrightarrow> distinct xs \<Longrightarrow> filter ((=) a) xs = [a]"
  by (induction xs) (auto simp: filter_empty_conv)

section \<open>Decimal numerals\<close>

lemma of_char_char_of_digit: "n < 10 \<Longrightarrow> (of_char (char_of (48 + n)) :: nat) = 48 + n"
  by simp

lemma dec_rev_digits: "c \<in> set (dec_rev n) \<Longrightarrow> is_digit c"
proof (induction n rule: dec_rev.induct)
  case (1 n)
  then show ?case
    by (subst (asm) (2) dec_rev.simps) (auto simp: is_digit_def split: if_splits)
qed

lemma dec_digits: "list_all is_digit (dec n)"
  by (auto simp: dec_def list_all_iff dest: dec_rev_digits)

lemma dec_not_Nil [simp]: "dec n \<noteq> []"
  by (subst dec_def, subst dec_rev.simps) simp

lemma undec_append: "undec (xs @ ys) a = undec ys (undec xs a)"
  by (induction xs arbitrary: a) auto

lemma undec_dec_rev: "undec (rev (dec_rev n)) 0 = n"
proof (induction n rule: dec_rev.induct)
  case (1 n)
  show ?case
  proof (cases "n < 10")
    case True
    then show ?thesis by (subst dec_rev.simps) simp
  next
    case False
    with "1.IH" have "undec (rev (dec_rev (n div 10))) 0 = n div 10" by simp
    then show ?thesis by (subst dec_rev.simps) (simp add: False undec_append)
  qed
qed

lemma undec_dec [simp]: "undec (dec n) 0 = n"
  by (simp add: dec_def undec_dec_rev)

lemma undec_zeros [simp]: "undec (replicate k (CHR ''0'') @ s) 0 = undec s 0"
  by (induction k) auto

lemma undec_pad_left [simp]: "undec (pad_left w s) 0 = undec s 0"
  by (simp add: pad_left_def)

lemma pad_left_dec_inject: "pad_left w (dec m) = pad_left w (dec n) \<Longrightarrow> m = n"
  by (metis undec_dec undec_pad_left)

lemma length_dec_rev: "10 ^ k \<le> n \<Longrightarrow> n < 10 ^ Suc k \<Longrightarrow> length (dec_rev n) = Suc k"
proof (induction k arbitrary: n)
  case 0
  then show ?case by (subst dec_rev.simps) simp
next
  case (Suc k)
  have "10 * 10 ^ k \<le> n" and "n < 10 * 10 ^ Suc k"
    using Suc.prems by simp_all
  then have lo: "10 ^ k \<le> n div 10" and hi: "n div 10 < 10 ^ Suc k"
    by (simp_all add: less_eq_div_iff_mult_less_eq div_less_iff_less_mult)
  have "(1::nat) \<le> 10 ^ k" by simp
  with Suc.prems have "\<not> n < 10"
    using \<open>10 * 10 ^ k \<le> n\<close> by linarith
  then show ?case
    using Suc.IH [OF lo hi] by (subst dec_rev.simps) simp
qed

lemma length_dec: "10 ^ k \<le> n \<Longrightarrow> n < 10 ^ Suc k \<Longrightarrow> length (dec n) = Suc k"
  by (simp add: dec_def length_dec_rev)

lemma length_pad_left [simp]: "length (pad_left w s) = max w (length s)"
  by (simp add: pad_left_def)

lemma pad_left_digits: "list_all is_digit s \<Longrightarrow> list_all is_digit (pad_left w s)"
  by (auto simp: pad_left_def is_digit_def list_all_iff)

lemma undec_acc: "undec s a = a * 10 ^ length s + undec s 0"
proof (induction s arbitrary: a)
  case (Cons c s)
  show ?case using Cons [of "10 * a + (of_char c - 48)"] Cons [of "of_char c - 48"]
    by (simp add: algebra_simps)
qed simp

lemma undec_less: "list_all is_digit s \<Longrightarrow> undec s 0 < 10 ^ length s"
proof (induction s)
  case (Cons c s)
  then have "of_char c - 48 \<le> (9 :: nat)" and "undec s 0 < 10 ^ length s" by (auto simp: is_digit_def)
  then have "(of_char c - 48) * 10 ^ length s + undec s 0 < 9 * 10 ^ length s + 10 ^ length s"
    by (intro add_le_less_mono mult_right_mono) auto
  then show ?case by (simp add: undec_acc [of s "of_char c - 48"])
qed simp

lemma undec_inject:
  "list_all is_digit s \<Longrightarrow> list_all is_digit t \<Longrightarrow> length s = length t \<Longrightarrow> undec s 0 = undec t 0 \<Longrightarrow> s = t"
proof (induction s arbitrary: t)
  case (Cons c s)
  then obtain d u where t: "t = d # u" by (cases t) auto
  let ?m = "10 ^ length s :: nat"
  have l: "undec s 0 < ?m" "undec u 0 < ?m" "length u = length s"
    using undec_less [of s] undec_less [of u] Cons.prems t by auto
  have e: "(of_char c - 48) * ?m + undec s 0 = (of_char d - 48) * ?m + undec u 0"
    using Cons.prems(4) undec_acc [of s "of_char c - 48"] undec_acc [of u "of_char d - 48"] t l(3) by simp
  have "((of_char c - 48) * ?m + undec s 0) div ?m = of_char c - 48"
    "((of_char d - 48) * ?m + undec u 0) div ?m = of_char d - 48" using l by simp_all
  with e have c: "of_char c - 48 = (of_char d - 48 :: nat)" by metis
  have "48 \<le> (of_char c :: nat)" "48 \<le> (of_char d :: nat)" using Cons.prems t by (simp_all add: is_digit_def)
  with c have "(of_char c :: nat) = of_char d" by (metis le_add_diff_inverse2)
  then have "c = d" by simp
  moreover have "undec s 0 = undec u 0" using e unfolding c by simp
  then have "s = u" using Cons.IH [of u] Cons.prems(1-2) t l(3) by simp
  ultimately show ?case using t by simp
qed simp

lemma dec_inject [simp]: "dec m = dec n \<longleftrightarrow> m = n"
  by (metis undec_dec)

lemma dec_no_minus: "dec m \<noteq> CHR ''-'' # s"
  using dec_digits [of m] by (auto simp: is_digit_def)

lemma fmt_d_inject [simp]: "fmt_d m = fmt_d n \<longleftrightarrow> m = n"
  using dec_no_minus [of "nat m"] dec_no_minus [of "nat n"] by (auto simp: fmt_d_def dest: sym)

section \<open>White space\<close>

definition graphic_char :: "char \<Rightarrow> bool" where
  "graphic_char c \<longleftrightarrow> 32 < (of_char c :: nat) \<and> (of_char c :: nat) < 128"

lemma is_digit_plain: "is_digit c \<Longrightarrow> graphic_char c"
  by (simp add: is_digit_def graphic_char_def)

lemma plain_not_space:
  "graphic_char c \<Longrightarrow> \<not> is_space c \<and> \<not> is_space2 c d \<and> \<not> is_space2 d c \<and> \<not> is_space3 c d e \<and> \<not> is_space3 d e c"
  by (auto simp: graphic_char_def is_space_def is_space2_def is_space3_def)

lemma TrimSpace_plain:
  assumes "s = [] \<or> graphic_char (hd s) \<and> graphic_char (last s)"
  shows "TrimSpace s = s"
proof -
  have "trim_front is_space2 is_space3 s = s"
    using assms by (subst trim_front.simps) (auto simp: space_len_def plain_not_space split: list.splits)
  moreover have "trim_front (\<lambda>e d. is_space2 d e) (\<lambda>e d c. is_space3 c d e) (rev s) = rev s"
  proof (cases "rev s")
    case (Cons c r)
    then have "graphic_char c" using assms by (metis hd_rev list.sel(1) rev_is_Nil_conv list.distinct(1))
    then show ?thesis using Cons
      by (subst trim_front.simps) (auto simp: space_len_def plain_not_space split: list.splits)
  qed (subst trim_front.simps, simp add: space_len_def)
  ultimately show ?thesis by (simp add: TrimSpace_def)
qed

lemma TrimSpace_digits: "list_all is_digit s \<Longrightarrow> TrimSpace s = s"
  by (rule TrimSpace_plain) (auto simp: list_all_iff is_digit_plain)

lemma TrimSpace_Nil [simp]: "TrimSpace [] = []"
  by (simp add: TrimSpace_plain)

section \<open>Little-endian integers\<close>

lemma length_le_bytes [simp]: "length (le_bytes k x) = k"
  by (simp add: le_bytes_def)

lemma le_bytes_Suc: "le_bytes (Suc k) x = word_of_nat x # le_bytes k (x div 256)"
proof -
  have "map (\<lambda>i. word_of_nat (x div 256 ^ i)) [0..<Suc k]
      = word_of_nat x # map (\<lambda>i. word_of_nat (x div 256 ^ Suc i) :: byte) [0..<k]"
    by (simp add: upt_conv_Cons map_Suc_upt [symmetric] del: upt_Suc)
  then show ?thesis
    by (simp add: le_bytes_def div_mult2_eq)
qed

lemma le_nat_le_bytes: "le_nat (le_bytes k x) = x mod 256 ^ k"
proof (induction k arbitrary: x)
  case 0
  then show ?case by (simp add: le_bytes_def)
next
  case (Suc k)
  have "unat (word_of_nat x :: byte) = x mod 256"
    by (simp add: unat_of_nat)
  then show ?case
    by (simp add: le_bytes_Suc Suc.IH mod_mult2_eq)
qed

lemma le_nat_le_bytes_exact: "x < 256 ^ k \<Longrightarrow> le_nat (le_bytes k x) = x"
  by (simp add: le_nat_le_bytes)

lemma bytes_str_bytes [simp]: "bytes_str (str_bytes s) = s"
  by (induction s) (auto simp: bytes_str_def str_bytes_def unat_of_nat take_bit_eq_mod)

lemma length_str_bytes [simp]: "length (str_bytes s) = length s"
  by (simp add: str_bytes_def)

section \<open>Transition systems\<close>

text \<open>
  The components with a state are given as a step relation; an invariant is proved once per step
  and then holds in every state reached, through the following interface.
\<close>

locale invariant_system =
  fixes init :: "'s \<Rightarrow> bool"
    and step :: "'s \<Rightarrow> 's \<Rightarrow> bool"
    and inv :: "'s \<Rightarrow> bool"
  assumes init_inv: "init s \<Longrightarrow> inv s"
    and step_inv: "inv s \<Longrightarrow> step s s' \<Longrightarrow> inv s'"
begin

lemma steps_inv: "step\<^sup>*\<^sup>* s s' \<Longrightarrow> inv s \<Longrightarrow> inv s'"
  by (induction rule: rtranclp_induct) (auto intro: step_inv)

lemma reachable_inv: "init s \<Longrightarrow> step\<^sup>*\<^sup>* s s' \<Longrightarrow> inv s'"
  using steps_inv init_inv by blast

lemma steps_keep:
  assumes "\<And>a b. inv a \<Longrightarrow> P a \<Longrightarrow> step a b \<Longrightarrow> P b"
    and "step\<^sup>*\<^sup>* s s'" and "inv s" and "P s"
  shows "P s'"
proof -
  from assms(2) have "inv s' \<and> P s'"
    by (induction rule: rtranclp_induct) (use assms step_inv in auto)
  then show ?thesis ..
qed

end

end
