(* ===== verification/Numbers.thy ===== *)
theory Numbers
  imports OCN_Prelude
begin

text \<open>
  Telephone numbers: \<open>ocnserver/internal/numbers/allocator.go\<close> (formatting and parsing of
  dial strings, allocation of a free 7-digit local number) and the two helpers that build a
  canonical full number (\<open>dm.Canonical\<close> and \<open>canonicalNumber\<close> of the signaling server).

  The existence check of the allocator is a callback, here the argument \<open>existsFn\<close>; the
  random source of \<open>math/rand\<close> is the argument \<open>rnd\<close>, whose \<open>i\<close>-th value reduced modulo
  \<open>n\<close> is the \<open>i\<close>-th call of \<open>rand.Intn(n)\<close>.
\<close>

section \<open>Formatting and parsing\<close>

definition FormatLocal :: "string \<Rightarrow> string" where
  "FormatLocal number =
     (if length number = 7 then take 3 number @ ''-'' @ drop 3 number else number)"

definition FormatNumber :: "string \<Rightarrow> string \<Rightarrow> string" where
  "FormatNumber areaCode number =
     (if areaCode = [] then FormatLocal number else areaCode @ ''-'' @ FormatLocal number)"

definition strip_dashes :: "string \<Rightarrow> string" where
  "strip_dashes s = filter (\<lambda>c. c \<noteq> CHR ''-'') s"

definition ParseNumber :: "string \<Rightarrow> string \<Rightarrow> string + (string \<times> string)" where
  "ParseNumber dial defaultAreaCode =
     (let clean = strip_dashes dial in
      if length clean = 7 then Inr (defaultAreaCode, clean)
      else if length clean = 10 then
        (if defaultAreaCode = [] then Inr (take 3 clean, drop 3 clean)
         else Inr (take 3 clean, drop 3 clean))
      else Inl (''invalid number format: '' @ dial @ '' (expected 7 or 10 digits)''))"

definition Canonical :: "string \<Rightarrow> string \<Rightarrow> string" where
  "Canonical area number = (if area = [] then number else area @ number)"

definition canonicalNumber :: "string \<Rightarrow> string \<Rightarrow> string" where
  "canonicalNumber area number = (if area = [] then number else area @ number)"

section \<open>Allocation\<close>

definition minNumber :: nat where "minNumber = 1000000"
definition maxNumber :: nat where "maxNumber = 9999999"

definition fmt07 :: "nat \<Rightarrow> string" where
  "fmt07 n = pad_left 7 (dec n)"

fun alloc_random ::
  "(string \<Rightarrow> string + bool) \<Rightarrow> (nat \<Rightarrow> nat) \<Rightarrow> nat \<Rightarrow> nat \<Rightarrow> string + string option" where
  "alloc_random existsFn rnd i 0 = Inr None"
| "alloc_random existsFn rnd i (Suc k) =
     (let num = minNumber + rnd i mod (maxNumber - minNumber + 1);
          numStr = fmt07 num
      in case existsFn numStr of
           Inl e \<Rightarrow> Inl (''checking number existence: '' @ e)
         | Inr taken \<Rightarrow>
             if \<not> taken then Inr (Some numStr) else alloc_random existsFn rnd (Suc i) k)"

function alloc_scan :: "(string \<Rightarrow> string + bool) \<Rightarrow> nat \<Rightarrow> string + string option" where
  "alloc_scan existsFn num =
     (if num \<le> maxNumber then
        (case existsFn (fmt07 num) of
           Inl e \<Rightarrow> Inl (''checking number existence: '' @ e)
         | Inr taken \<Rightarrow>
             if \<not> taken then Inr (Some (fmt07 num)) else alloc_scan existsFn (num + 1))
      else Inr None)"
  by pat_completeness auto
termination
  by (relation "measure (\<lambda>(_, num). maxNumber + 1 - num)") auto

declare alloc_scan.simps [simp del]

definition Allocate :: "(string \<Rightarrow> string + bool) \<Rightarrow> (nat \<Rightarrow> nat) \<Rightarrow> string + string" where
  "Allocate existsFn rnd =
     (case alloc_random existsFn rnd 0 100 of
        Inl e \<Rightarrow> Inl e
      | Inr (Some s) \<Rightarrow> Inr s
      | Inr None \<Rightarrow>
          (case alloc_scan existsFn minNumber of
             Inl e \<Rightarrow> Inl e
           | Inr (Some s) \<Rightarrow> Inr s
           | Inr None \<Rightarrow> Inl ''no available numbers''))"

text \<open>A local number of the pool: the decimal form of a number between the two bounds.\<close>

definition pool_number :: "string \<Rightarrow> bool" where
  "pool_number s \<longleftrightarrow> (\<exists>n. minNumber \<le> n \<and> n \<le> maxNumber \<and> s = fmt07 n)"

section \<open>Lemmas\<close>

lemma length_fmt07: "minNumber \<le> n \<Longrightarrow> n \<le> maxNumber \<Longrightarrow> length (fmt07 n) = 7"
  using length_dec [of 6 n] by (simp add: fmt07_def minNumber_def maxNumber_def)

lemma fmt07_digits: "list_all is_digit (fmt07 n)"
  by (simp add: fmt07_def pad_left_digits dec_digits)

lemma fmt07_inject: "fmt07 m = fmt07 n \<Longrightarrow> m = n"
  by (auto simp: fmt07_def dest: pad_left_dec_inject)

lemma pool_numberD:
  assumes "pool_number s"
  shows "length s = 7" and "list_all is_digit s"
  using assms by (auto simp: pool_number_def length_fmt07 fmt07_digits)

lemma pool_draw: "pool_number (fmt07 (minNumber + r mod (maxNumber - minNumber + 1)))"
proof -
  have "r mod (maxNumber - minNumber + 1) < maxNumber - minNumber + 1" by simp
  moreover have "minNumber \<le> maxNumber" by (simp add: minNumber_def maxNumber_def)
  ultimately have "minNumber + r mod (maxNumber - minNumber + 1) \<le> maxNumber" by linarith
  then show ?thesis unfolding pool_number_def by (blast intro: le_add1)
qed

lemma strip_dashes_append: "strip_dashes (xs @ ys) = strip_dashes xs @ strip_dashes ys"
  by (simp add: strip_dashes_def)

lemma strip_dashes_id: "CHR ''-'' \<notin> set s \<Longrightarrow> strip_dashes s = s"
  by (induction s) (auto simp: strip_dashes_def)

lemma digits_no_dash: "list_all is_digit s \<Longrightarrow> CHR ''-'' \<notin> set s"
  by (auto simp: list_all_iff is_digit_def)

lemma strip_dashes_FormatLocal:
  assumes "CHR ''-'' \<notin> set n"
  shows "strip_dashes (FormatLocal n) = n"
proof (cases "length n = 7")
  case True
  have "CHR ''-'' \<notin> set (take 3 n)" and "CHR ''-'' \<notin> set (drop 3 n)"
    using assms by (auto dest: in_set_takeD in_set_dropD)
  then have "strip_dashes (take 3 n) = take 3 n" and "strip_dashes (drop 3 n) = drop 3 n"
    by (simp_all add: strip_dashes_id)
  with True show ?thesis
    by (simp add: FormatLocal_def strip_dashes_append) (simp add: strip_dashes_def)
next
  case False
  with assms show ?thesis by (simp add: FormatLocal_def strip_dashes_id)
qed

lemma strip_dashes_FormatNumber:
  assumes "CHR ''-'' \<notin> set a" and "CHR ''-'' \<notin> set n"
  shows "strip_dashes (FormatNumber a n) = a @ n"
proof (cases "a = []")
  case True
  then show ?thesis using assms(2) by (simp add: FormatNumber_def strip_dashes_FormatLocal)
next
  case False
  have dash: "strip_dashes ''-'' = []" by (simp add: strip_dashes_def)
  have "strip_dashes (a @ ''-'' @ FormatLocal n) = a @ n"
    by (simp only: strip_dashes_append dash strip_dashes_id [OF assms(1)]
        strip_dashes_FormatLocal [OF assms(2)] append_Nil)
  with False show ?thesis by (simp add: FormatNumber_def)
qed

lemma ParseNumber_7 [simp]:
  "length (strip_dashes d) = 7 \<Longrightarrow> ParseNumber d a = Inr (a, strip_dashes d)"
  by (simp add: ParseNumber_def)

lemma ParseNumber_10 [simp]:
  "length (strip_dashes d) = 10 \<Longrightarrow>
   ParseNumber d a = Inr (take 3 (strip_dashes d), drop 3 (strip_dashes d))"
  by (simp add: ParseNumber_def Let_def)

lemma ParseNumber_bad:
  "length (strip_dashes d) \<noteq> 7 \<Longrightarrow> length (strip_dashes d) \<noteq> 10 \<Longrightarrow>
   ParseNumber d a = Inl (''invalid number format: '' @ d @ '' (expected 7 or 10 digits)'')"
  by (simp add: ParseNumber_def Let_def)

lemma ParseNumber_cases:
  assumes "ParseNumber d a = Inr (ar, loc)"
  shows "length loc = 7" and "ar = a \<or> length ar = 3"
  using assms by (auto simp: ParseNumber_def Let_def split: if_splits)

lemma alloc_random_sound:
  "alloc_random ex rnd i k = Inr (Some s) \<Longrightarrow> pool_number s \<and> ex s = Inr False"
proof (induction k arbitrary: i)
  case (Suc k)
  then show ?case
    using pool_draw [of "rnd i"] by (auto simp: Let_def split: sum.splits if_splits)
qed simp

lemma alloc_scan_sound:
  "alloc_scan ex num = Inr (Some s) \<Longrightarrow> minNumber \<le> num \<Longrightarrow>
   pool_number s \<and> ex s = Inr False"
proof (induction ex num rule: alloc_scan.induct)
  case (1 ex num)
  show ?case
  proof (cases "num \<le> maxNumber \<and> ex (fmt07 num) = Inr True")
    case True
    with "1.prems" have "alloc_scan ex (num + 1) = Inr (Some s)"
      by (simp add: alloc_scan.simps [of ex num])
    with True "1.prems" show ?thesis by (intro "1.IH") auto
  next
    case False
    with "1.prems" show ?thesis
      by (subst (asm) alloc_scan.simps)
        (auto simp: pool_number_def split: if_splits sum.splits)
  qed
qed

lemma alloc_scan_finds:
  assumes "\<And>s. ex s = Inr (taken s)" and "num \<le> n" and "n \<le> maxNumber" and "\<not> taken (fmt07 n)"
  shows "\<exists>s. alloc_scan ex num = Inr (Some s)"
  using assms(2)
proof (induction "n - num" arbitrary: num)
  case 0
  then show ?case using assms by (subst alloc_scan.simps) simp
next
  case (Suc k)
  then have "\<exists>s. alloc_scan ex (num + 1) = Inr (Some s)" by simp
  with Suc.prems assms show ?case by (subst alloc_scan.simps) simp
qed

lemma alloc_random_total:
  assumes "\<And>s. ex s = Inr (taken s)"
  shows "\<exists>r. alloc_random ex rnd i k = Inr r"
  using assms by (induction k arbitrary: i) (auto simp: Let_def)

lemma Allocate_sound: "Allocate ex rnd = Inr s \<Longrightarrow> pool_number s \<and> ex s = Inr False"
  using alloc_random_sound [of ex rnd 0 100] alloc_scan_sound [of ex minNumber]
  by (auto simp: Allocate_def simp del: alloc_random.simps split: sum.splits option.splits)

lemma Allocate_total:
  assumes tk: "\<And>s. ex s = Inr (taken s)" and free: "pool_number s" "\<not> taken s"
  shows "\<exists>s'. Allocate ex rnd = Inr s'"
proof -
  obtain r where r: "alloc_random ex rnd 0 100 = Inr r"
    using alloc_random_total [of ex taken, OF tk] by blast
  obtain n where "minNumber \<le> n" "n \<le> maxNumber" "\<not> taken (fmt07 n)"
    using free by (auto simp: pool_number_def)
  then obtain s' where "alloc_scan ex minNumber = Inr (Some s')"
    using alloc_scan_finds [of ex taken, OF tk] by blast
  with r show ?thesis
    by (cases r) (auto simp: Allocate_def simp del: alloc_random.simps)
qed

text \<open>
  The allocator is sound and complete: when the existence check never errors, \<open>Allocate\<close>
  returns a number exactly when some number of the pool 1000000--9999999 is free, and the
  number it returns is a free 7-digit number of the pool, whatever the random draws are.
\<close>

theorem Allocate_correct:
  assumes "\<And>s. existsFn s = Inr (taken s)"
  shows "((\<exists>s. Allocate existsFn rnd = Inr s) \<longleftrightarrow> (\<exists>s. pool_number s \<and> \<not> taken s)) \<and>
         (\<forall>s. Allocate existsFn rnd = Inr s \<longrightarrow>
            pool_number s \<and> length s = 7 \<and> list_all is_digit s \<and> \<not> taken s)"
proof -
  have "pool_number s \<and> \<not> taken s" if "Allocate existsFn rnd = Inr s" for s
    using Allocate_sound [OF that] assms by auto
  then show ?thesis
    using Allocate_total [of existsFn taken, OF assms] pool_numberD by blast
qed

theorem Allocate_correct_witness:
  "\<exists>s. Allocate (\<lambda>s. Inr (s = fmt07 1000000)) (\<lambda>_. 0) = Inr s \<and> s \<noteq> fmt07 1000000 \<and> length s = 7"
proof -
  let ?ex = "\<lambda>s. Inr (s = fmt07 1000000) :: string + bool"
  have "pool_number (fmt07 2000000)"
    unfolding pool_number_def by (rule exI [of _ 2000000]) (simp add: minNumber_def maxNumber_def)
  moreover have "fmt07 2000000 \<noteq> fmt07 1000000" by (auto dest: fmt07_inject)
  ultimately have free: "\<exists>s. pool_number s \<and> \<not> s = fmt07 1000000" by blast
  show ?thesis
    using Allocate_correct [of ?ex "\<lambda>s. s = fmt07 1000000" "\<lambda>_. 0"] free by blast
qed

text \<open>
  Formatting and parsing are inverse: a dashed rendering of an area code and a local
  number is parsed back into the same pair, and a rendering without an area code is completed
  with the exchange's own area code.
\<close>

theorem parse_format_roundtrip:
  assumes "CHR ''-'' \<notin> set a" and "CHR ''-'' \<notin> set n" and "length n = 7"
    and "a = [] \<or> length a = 3"
  shows "ParseNumber (FormatNumber a n) d = Inr (if a = [] then d else a, n)"
  using assms by (auto simp: strip_dashes_FormatNumber)

theorem parse_format_roundtrip_witness:
  "ParseNumber (FormatNumber ''440'' ''9522575'') ''216'' = Inr (''440'', ''9522575'') \<and>
   ParseNumber (FormatNumber [] ''9522575'') ''216'' = Inr (''216'', ''9522575'')"
  using parse_format_roundtrip [of "''440''" "''9522575''" "''216''"]
    parse_format_roundtrip [of "[]" "''9522575''" "''216''"]
  by simp

text \<open>
  Which dial strings are accepted: exactly those with 7 or 10 characters left after the
  dashes are dropped. The characters are not inspected, so a string of letters is accepted as a
  number although the error text and the comment speak of digits.
\<close>

theorem ParseNumber_accepts:
  "((\<exists>r. ParseNumber d a = Inr r) \<longleftrightarrow> length (strip_dashes d) \<in> {7, 10}) \<and>
   ParseNumber ''abc-defg'' ''440'' = Inr (''440'', ''abcdefg'')"
proof
  show "(\<exists>r. ParseNumber d a = Inr r) \<longleftrightarrow> length (strip_dashes d) \<in> {7, 10}"
    by (auto simp: ParseNumber_def Let_def)
  show "ParseNumber ''abc-defg'' ''440'' = Inr (''440'', ''abcdefg'')"
    by (simp add: ParseNumber_def strip_dashes_def)
qed

end
