(* ===== verification/Store_Lines.thy ===== *)
theory Store_Lines
  imports Numbers
begin

text \<open>
  The exchange's SQLite store, \<open>ocnserver/internal/store\<close>: the tables, and the operations on
  lines (\<open>store.go\<close>, \<open>lines.go\<close>) and on provisioning tokens (\<open>provisioning.go\<close>).

  A table is the list of its rows in insertion order. Every statement is translated by what it
  does to the rows, including the uniqueness constraints of \<open>migrate\<close>; a statement also fails
  with \<open>DbFault\<close> when the database does not answer (\<open>db_up\<close> is false), and that state does not
  change within one store operation. A transaction that returns an error is rolled back, so an
  operation either returns an error and no new store, or the new store. Time stamps are Unix
  seconds, computed from the clock argument \<open>now\<close>. \<open>ORDER BY\<close> is a stable sort: rows with
  equal keys keep their insertion order, an order SQLite leaves open.
\<close>

section \<open>Tables\<close>

record User =
  KSimPublicKey :: bytes
  AreaCode :: string
  Number :: string
  DisplayName :: string
  FCMToken :: string
  RegisteredAt :: int
  LastSeen :: int

record ProvisionToken =
  TokenHash :: string
  TNumber :: "string option"
  TDisplayName :: string
  Notes :: string
  CreatedBy :: string
  TCreatedAt :: int
  ExpiresAt :: int
  Status :: string
  ClaimedPubKey :: "bytes option"
  ClaimedAt :: "int option"

record ProvisionTokenView =
  tv_token_hash :: string
  tv_number :: string
  tv_display_name :: string
  tv_notes :: string
  tv_created_by :: string
  tv_created_at :: int
  tv_expires_at :: int
  tv_status :: string

record Voicemail =
  VmID :: string
  CallerNumber :: string
  CallerName :: string
  RecipientNumber :: string
  EncryptedAudio :: bytes
  Format :: string
  DurationSeconds :: int
  Listened :: bool
  VmCreatedAt :: int

record DMMessage =
  DmID :: string
  DmRecipient :: string
  DmEnvelope :: bytes
  DmCreatedAt :: int

record AdminAccount =
  Username :: string
  PasswordHash :: string
  AaCreatedAt :: int
  LastLogin :: int
  MustChange :: bool

record AdminSession =
  SessHash :: string
  SessUser :: string
  SessCreated :: int
  SessExpires :: int

record store =
  db_up :: bool
  users :: "User list"
  voicemail :: "Voicemail list"
  admin_accounts :: "AdminAccount list"
  admin_sessions :: "AdminSession list"
  provisioning_tokens :: "ProvisionToken list"
  settings :: "(string, string) gomap"
  dm_outbox :: "DMMessage list"

datatype store_error =
    ErrTokenNotFound | ErrTokenUsed | ErrTokenExpired | ErrTokenRevoked
  | ErrNumberTaken | ErrTokenRequired | ErrNoNumbers | ErrLineNotFound
  | ErrBadCredentials | ErrShortPassword | ErrHash | ErrRand | ErrNoRows | ErrUnique | DbFault

section \<open>Lines: store.go\<close>

definition insert_user :: "store \<Rightarrow> User \<Rightarrow> store_error + store" where
  "insert_user s u =
     (if \<not> db_up s then Inl DbFault
      else if (\<exists>v \<in> set (users s). KSimPublicKey v = KSimPublicKey u \<or> Number v = Number u)
      then Inl ErrUnique
      else Inr (s\<lparr>users := users s @ [u]\<rparr>))"

definition CreateUser :: "store \<Rightarrow> User \<Rightarrow> store_error + store" where
  "CreateUser s u = insert_user s u"

definition GetUserByPublicKey :: "store \<Rightarrow> bytes \<Rightarrow> store_error + User option" where
  "GetUserByPublicKey s pubKey =
     (if \<not> db_up s then Inl DbFault
      else Inr (find (\<lambda>u. KSimPublicKey u = pubKey) (users s)))"

definition GetUserByNumber :: "store \<Rightarrow> string \<Rightarrow> store_error + User option" where
  "GetUserByNumber s number =
     (if \<not> db_up s then Inl DbFault else Inr (find (\<lambda>u. Number u = number) (users s)))"

definition update_user :: "store \<Rightarrow> bytes \<Rightarrow> (User \<Rightarrow> User) \<Rightarrow> store_error + store" where
  "update_user s pubKey f =
     (if \<not> db_up s then Inl DbFault
      else Inr (s\<lparr>users := map (\<lambda>u. if KSimPublicKey u = pubKey then f u else u) (users s)\<rparr>))"

definition UpdateFCMToken :: "store \<Rightarrow> bytes \<Rightarrow> string \<Rightarrow> store_error + store" where
  "UpdateFCMToken s pubKey token = update_user s pubKey (\<lambda>u. u\<lparr>FCMToken := token\<rparr>)"

definition UpdateLastSeen :: "store \<Rightarrow> gotime \<Rightarrow> bytes \<Rightarrow> store_error + store" where
  "UpdateLastSeen s now pubKey = update_user s pubKey (\<lambda>u. u\<lparr>LastSeen := unix_secs now\<rparr>)"

definition UpdateDisplayName :: "store \<Rightarrow> bytes \<Rightarrow> string \<Rightarrow> store_error + store" where
  "UpdateDisplayName s pubKey name = update_user s pubKey (\<lambda>u. u\<lparr>DisplayName := name\<rparr>)"

definition count_number :: "store \<Rightarrow> string \<Rightarrow> nat" where
  "count_number s number = length (filter (\<lambda>u. Number u = number) (users s))"

definition NumberExists :: "store \<Rightarrow> string \<Rightarrow> store_error + bool" where
  "NumberExists s number =
     (if \<not> db_up s then Inl DbFault else Inr (0 < count_number s number))"

definition CountUsers :: "store \<Rightarrow> store_error + nat" where
  "CountUsers s = (if \<not> db_up s then Inl DbFault else Inr (length (users s)))"

section \<open>Provisioning tokens: provisioning.go\<close>

definition nullIfEmpty :: "string \<Rightarrow> string option" where
  "nullIfEmpty s = (if s = [] then None else Some s)"

definition NewProvisionToken ::
  "store \<Rightarrow> gotime \<Rightarrow> string \<Rightarrow> string \<Rightarrow> string \<Rightarrow> string \<Rightarrow> string \<Rightarrow> gotime \<Rightarrow> store_error + store" where
  "NewProvisionToken s now tokenHash number displayName notes createdBy ttl =
     (let t = \<lparr>TokenHash = tokenHash, TNumber = nullIfEmpty number, TDisplayName = displayName,
               Notes = notes, CreatedBy = createdBy, TCreatedAt = unix_secs now,
               ExpiresAt = unix_secs (now + ttl), Status = ''issued'',
               ClaimedPubKey = None, ClaimedAt = None\<rparr>
      in if \<not> db_up s then Inl DbFault
         else if (\<exists>v \<in> set (provisioning_tokens s). TokenHash v = tokenHash \<or>
                    (TNumber v \<noteq> None \<and> Status v = ''issued'' \<and> TNumber v = TNumber t))
         then Inl ErrNumberTaken
         else Inr (s\<lparr>provisioning_tokens := provisioning_tokens s @ [t]\<rparr>))"

definition token_view :: "ProvisionToken \<Rightarrow> ProvisionTokenView" where
  "token_view t = \<lparr>tv_token_hash = TokenHash t,
     tv_number = (case TNumber t of None \<Rightarrow> [] | Some n \<Rightarrow> n), tv_display_name = TDisplayName t,
     tv_notes = Notes t, tv_created_by = CreatedBy t, tv_created_at = TCreatedAt t,
     tv_expires_at = ExpiresAt t, tv_status = Status t\<rparr>"

definition sql_page :: "int \<Rightarrow> int \<Rightarrow> 'a list \<Rightarrow> 'a list" where
  "sql_page limit offset xs =
     (let ys = drop (nat offset) xs in if limit < 0 then ys else take (nat limit) ys)"

definition ListProvisionTokens :: "store \<Rightarrow> int \<Rightarrow> store_error + ProvisionTokenView list" where
  "ListProvisionTokens s limit =
     (if \<not> db_up s then Inl DbFault
      else Inr (map token_view
             (sql_page limit 0 (sort_key (\<lambda>t. - TCreatedAt t) (provisioning_tokens s)))))"

definition RevokeProvisionToken :: "store \<Rightarrow> string \<Rightarrow> store_error + store" where
  "RevokeProvisionToken s tokenHash =
     (let hit = (\<lambda>t. TokenHash t = tokenHash \<and> Status t = ''issued'') in
      if \<not> db_up s then Inl DbFault
      else if filter hit (provisioning_tokens s) = [] then Inl ErrTokenNotFound
      else Inr (s\<lparr>provisioning_tokens :=
                  map (\<lambda>t. if hit t then t\<lparr>Status := ''revoked''\<rparr> else t) (provisioning_tokens s)\<rparr>))"

definition takenNumberSet :: "store \<Rightarrow> string set" where
  "takenNumberSet s =
     set (map Number (users s)) \<union>
     set (map (\<lambda>t. case TNumber t of None \<Rightarrow> [] | Some n \<Rightarrow> n)
           (filter (\<lambda>t. Status t = ''issued'' \<and> TNumber t \<noteq> None) (provisioning_tokens s)))"

fun pick_random ::
  "(nat \<Rightarrow> nat) \<Rightarrow> nat \<Rightarrow> nat \<Rightarrow> nat \<Rightarrow> string set \<Rightarrow> string list \<Rightarrow> string set \<times> string list" where
  "pick_random rnd n i 0 used out = (used, out)"
| "pick_random rnd n i (Suc k) used out =
     (if length out < n then
        (let ns = fmt07 (minNumber + rnd i mod (maxNumber - minNumber + 1)) in
         if ns \<notin> used then pick_random rnd n (i + 1) k (insert ns used) (out @ [ns])
         else pick_random rnd n (i + 1) k used out)
      else (used, out))"

function pick_scan :: "nat \<Rightarrow> nat \<Rightarrow> string set \<Rightarrow> string list \<Rightarrow> string list" where
  "pick_scan n num used out =
     (if num \<le> maxNumber \<and> length out < n then
        (let ns = fmt07 num in
         if ns \<notin> used then pick_scan n (num + 1) (insert ns used) (out @ [ns])
         else pick_scan n (num + 1) used out)
      else out)"
  by pat_completeness auto
termination
  by (relation "measure (\<lambda>(_, num, _, _). maxNumber + 1 - num)") (auto simp: Let_def)

declare pick_scan.simps [simp del]

definition pickFreeNumbers :: "(nat \<Rightarrow> nat) \<Rightarrow> nat \<Rightarrow> string set \<Rightarrow> string list" where
  "pickFreeNumbers rnd n used =
     (case pick_random rnd n 0 2000 used [] of (used', out) \<Rightarrow> pick_scan n minNumber used' out)"

definition pickFreeNumber :: "(nat \<Rightarrow> nat) \<Rightarrow> string set \<Rightarrow> store_error + string" where
  "pickFreeNumber rnd used =
     (case pickFreeNumbers rnd 1 used of [] \<Rightarrow> Inl ErrNoNumbers | n # _ \<Rightarrow> Inr n)"

definition claim_token :: "store \<Rightarrow> gotime \<Rightarrow> string \<Rightarrow> bytes \<Rightarrow> store" where
  "claim_token s now tokenHash pubKey =
     s\<lparr>provisioning_tokens := map (\<lambda>t. if TokenHash t = tokenHash
         then t\<lparr>Status := ''used'', ClaimedPubKey := Some pubKey, ClaimedAt := Some (unix_secs now)\<rparr>
         else t) (provisioning_tokens s)\<rparr>"

definition provisionUserOnce ::
  "(nat \<Rightarrow> nat) \<Rightarrow> store \<Rightarrow> gotime \<Rightarrow> string \<Rightarrow> bytes \<Rightarrow> string \<Rightarrow> string \<Rightarrow> store_error + (string \<times> store)" where
  "provisionUserOnce rnd s now tokenHash pubKey areaCode displayName =
     (if \<not> db_up s then Inl DbFault
      else case find (\<lambda>t. TokenHash t = tokenHash) (provisioning_tokens s) of
        None \<Rightarrow> Inl ErrTokenNotFound
      | Some t \<Rightarrow>
          if Status t = ''used'' then Inl ErrTokenUsed
          else if Status t = ''revoked'' then Inl ErrTokenRevoked
          else if unix_secs now > ExpiresAt t then Inl ErrTokenExpired
          else if Status t \<noteq> ''issued'' then Inl ErrTokenNotFound
          else
            (case (case TNumber t of
                     Some num \<Rightarrow>
                       if num \<noteq> [] then
                         (if 0 < count_number s num then Inl ErrNumberTaken else Inr num)
                       else pickFreeNumber rnd (takenNumberSet s)
                   | None \<Rightarrow> pickFreeNumber rnd (takenNumberSet s)) of
               Inl e \<Rightarrow> Inl e
             | Inr num \<Rightarrow>
                 (case insert_user s \<lparr>KSimPublicKey = pubKey, AreaCode = areaCode, Number = num,
                         DisplayName = displayName, FCMToken = [], RegisteredAt = unix_secs now,
                         LastSeen = unix_secs now\<rparr> of
                    Inl e \<Rightarrow> Inl (if e = ErrUnique then ErrNumberTaken else e)
                  | Inr s' \<Rightarrow> Inr (num, claim_token s' now tokenHash pubKey))))"

fun provision_attempts ::
  "(nat \<Rightarrow> nat \<Rightarrow> nat) \<Rightarrow> nat \<Rightarrow> nat \<Rightarrow> store_error \<Rightarrow> store \<Rightarrow> gotime \<Rightarrow> string \<Rightarrow> bytes \<Rightarrow> string \<Rightarrow> string \<Rightarrow>
   store_error + (string \<times> store)" where
  "provision_attempts rnd a 0 lastErr s now th pk area name = Inl lastErr"
| "provision_attempts rnd a (Suc k) lastErr s now th pk area name =
     (case provisionUserOnce (rnd a) s now th pk area name of
        Inr r \<Rightarrow> Inr r
      | Inl e \<Rightarrow>
          if e = ErrNumberTaken then provision_attempts rnd (a + 1) k e s now th pk area name
          else Inl e)"

definition ProvisionUser ::
  "(nat \<Rightarrow> nat \<Rightarrow> nat) \<Rightarrow> store \<Rightarrow> gotime \<Rightarrow> string \<Rightarrow> bytes \<Rightarrow> string \<Rightarrow> string \<Rightarrow> store_error + (string \<times> store)" where
  "ProvisionUser rnd s now tokenHash pubKey areaCode displayName =
     (if tokenHash = [] then Inl ErrTokenRequired
      else provision_attempts rnd 0 5 ErrNumberTaken s now tokenHash pubKey areaCode displayName)"

definition TakenNumbers :: "store \<Rightarrow> store_error + string set" where
  "TakenNumbers s = (if \<not> db_up s then Inl DbFault else Inr (takenNumberSet s))"

definition RandomFreeNumbers :: "(nat \<Rightarrow> nat) \<Rightarrow> store \<Rightarrow> nat \<Rightarrow> store_error + string list" where
  "RandomFreeNumbers rnd s n =
     (if \<not> db_up s then Inl DbFault else Inr (pickFreeNumbers rnd n (takenNumberSet s)))"

definition ProvisionTokenCounts :: "store \<Rightarrow> store_error + (nat \<times> nat)" where
  "ProvisionTokenCounts s =
     (if \<not> db_up s then Inl DbFault
      else Inr (length (filter (\<lambda>t. Status t = ''issued'') (provisioning_tokens s)),
                length (filter (\<lambda>t. Status t = ''used'') (provisioning_tokens s))))"

section \<open>Line management: lines.go\<close>

definition ascii_fold :: "char \<Rightarrow> char" where
  "ascii_fold c = (if 65 \<le> (of_char c :: nat) \<and> (of_char c :: nat) \<le> 90 then char_of ((of_char c :: nat) + 32) else c)"

fun sql_like :: "string \<Rightarrow> string \<Rightarrow> bool" where
  "sql_like [] s = (s = [])"
| "sql_like (p # ps) s =
     (if p = CHR ''%'' then sql_like ps s \<or> (case s of [] \<Rightarrow> False | _ # cs \<Rightarrow> sql_like (p # ps) cs)
      else case s of
             [] \<Rightarrow> False
           | c # cs \<Rightarrow> (p = CHR ''_'' \<or> ascii_fold p = ascii_fold c) \<and> sql_like ps cs)"

definition ListLines :: "store \<Rightarrow> string \<Rightarrow> int \<Rightarrow> int \<Rightarrow> store_error + (User list \<times> nat)" where
  "ListLines s search offset limit =
     (let hit = (\<lambda>u. search = [] \<or> sql_like (''%'' @ search @ ''%'') (Number u) \<or>
                        sql_like (''%'' @ search @ ''%'') (DisplayName u));
          rows = filter hit (users s)
      in if \<not> db_up s then Inl DbFault
         else Inr (sql_page limit offset (sort_key (\<lambda>u. - LastSeen u) rows), length rows))"

definition DeleteLineByNumber :: "store \<Rightarrow> string \<Rightarrow> store_error + store" where
  "DeleteLineByNumber s number =
     (if \<not> db_up s then Inl DbFault
      else if count_number s number = 0 then Inl ErrLineNotFound
      else Inr (s\<lparr>users := filter (\<lambda>u. Number u \<noteq> number) (users s)\<rparr>))"

definition count_reserved :: "store \<Rightarrow> string \<Rightarrow> nat" where
  "count_reserved s number =
     length (filter (\<lambda>t. Status t = ''issued'' \<and> TNumber t = Some number) (provisioning_tokens s))"

definition UpdateLine :: "store \<Rightarrow> string \<Rightarrow> string option \<Rightarrow> string option \<Rightarrow> store_error + store" where
  "UpdateLine s number newName newNumber =
     (if \<not> db_up s then Inl DbFault
      else case find (\<lambda>u. Number u = number) (users s) of
        None \<Rightarrow> Inl ErrLineNotFound
      | Some cur \<Rightarrow>
          let name = (case newName of None \<Rightarrow> DisplayName cur | Some n \<Rightarrow> n);
              target = (case newNumber of None \<Rightarrow> number | Some n \<Rightarrow> n)
          in if target \<noteq> number \<and> 0 < count_number s target then Inl ErrNumberTaken
             else if target \<noteq> number \<and> 0 < count_reserved s target then Inl ErrNumberTaken
             else Inr (s\<lparr>users := map (\<lambda>u. if Number u = number
                                         then u\<lparr>DisplayName := name, Number := target\<rparr> else u)
                                    (users s)\<rparr>))"

definition NumberAvailable :: "store \<Rightarrow> string \<Rightarrow> store_error + bool" where
  "NumberAvailable s number =
     (if \<not> db_up s then Inl DbFault
      else if 0 < count_number s number then Inr False
      else Inr (count_reserved s number = 0))"

definition LinesTotal :: "store \<Rightarrow> store_error + nat" where
  "LinesTotal s = CountUsers s"

definition FreeNumberEstimate :: "store \<Rightarrow> store_error + nat" where
  "FreeNumberEstimate s =
     (case CountUsers s of
        Inl e \<Rightarrow> Inl e
      | Inr cnt \<Rightarrow>
          let pool_size = 9999999 - 1000000 + 1 in Inr (pool_size - (if cnt > pool_size then pool_size else cnt)))"

definition UpdateAreaCodeForUsers :: "store \<Rightarrow> string \<Rightarrow> store_error + store" where
  "UpdateAreaCodeForUsers s area =
     (if area = [] then Inr s
      else if \<not> db_up s then Inl DbFault
      else Inr (s\<lparr>users := map (\<lambda>u. if AreaCode u = [] then u\<lparr>AreaCode := area\<rparr> else u) (users s)\<rparr>))"

section \<open>The uniqueness invariant\<close>

text \<open>
  What the constraints of \<open>migrate\<close> promise: no two lines share a key or a number, no two tokens
  a hash, and no two issued tokens a reserved number.
\<close>

definition issued_numbers :: "store \<Rightarrow> string list" where
  "issued_numbers s =
     map (\<lambda>t. case TNumber t of None \<Rightarrow> [] | Some n \<Rightarrow> n)
       (filter (\<lambda>t. Status t = ''issued'' \<and> TNumber t \<noteq> None) (provisioning_tokens s))"

definition lines_wf :: "store \<Rightarrow> bool" where
  "lines_wf s \<longleftrightarrow>
     distinct (map KSimPublicKey (users s)) \<and> distinct (map Number (users s)) \<and>
     distinct (map TokenHash (provisioning_tokens s)) \<and> distinct (issued_numbers s)"

definition empty_store :: store where
  "empty_store = \<lparr>db_up = True, users = [], voicemail = [], admin_accounts = [],
     admin_sessions = [], provisioning_tokens = [], settings = [], dm_outbox = []\<rparr>"

text \<open>
  The history of the lines and tokens tables: each step is one successful operation of the store,
  or the database becoming unavailable or available again.
\<close>

inductive line_step :: "store \<Rightarrow> store \<Rightarrow> bool" where
  step_db: "line_step s (s\<lparr>db_up := b\<rparr>)"
| step_create: "CreateUser s u = Inr s' \<Longrightarrow> line_step s s'"
| step_fcm: "UpdateFCMToken s pk tok = Inr s' \<Longrightarrow> line_step s s'"
| step_seen: "UpdateLastSeen s now pk = Inr s' \<Longrightarrow> line_step s s'"
| step_name: "UpdateDisplayName s pk nm = Inr s' \<Longrightarrow> line_step s s'"
| step_token: "NewProvisionToken s now th num nm nts by_whom ttl = Inr s' \<Longrightarrow> line_step s s'"
| step_revoke: "RevokeProvisionToken s th = Inr s' \<Longrightarrow> line_step s s'"
| step_provision: "ProvisionUser rnd s now th pk area nm = Inr (num, s') \<Longrightarrow> line_step s s'"
| step_delete: "DeleteLineByNumber s num = Inr s' \<Longrightarrow> line_step s s'"
| step_update: "UpdateLine s num nm num' = Inr s' \<Longrightarrow> line_step s s'"
| step_area: "UpdateAreaCodeForUsers s area = Inr s' \<Longrightarrow> line_step s s'"

section \<open>Lemmas\<close>

lemma find_Some_iff_distinct:
  "distinct (map f xs) \<Longrightarrow> find (\<lambda>x. f x = k) xs = Some x \<longleftrightarrow> x \<in> set xs \<and> f x = k"
  by (induction xs) auto

lemma find_None_iff': "find P xs = None \<longleftrightarrow> (\<forall>x\<in>set xs. \<not> P x)"
  by (auto simp: find_None_iff)

lemma count_number_0: "count_number s n = 0 \<longleftrightarrow> n \<notin> set (map Number (users s))"
  by (auto simp: count_number_def filter_empty_conv)

lemma count_number_pos: "0 < count_number s n \<longleftrightarrow> n \<in> set (map Number (users s))"
  using count_number_0 [of s n] by auto

lemma count_reserved_pos: "0 < count_reserved s n \<longleftrightarrow> n \<in> set (issued_numbers s)"
  by (force simp: count_reserved_def issued_numbers_def filter_empty_conv split: option.splits)

lemma takenNumberSet_eq: "takenNumberSet s = set (map Number (users s)) \<union> set (issued_numbers s)"
  by (simp add: takenNumberSet_def issued_numbers_def)

lemma map_update_same:
  "(\<And>x. x \<in> set xs \<Longrightarrow> P x \<Longrightarrow> g (f x) = g x) \<Longrightarrow> map g (map (\<lambda>x. if P x then f x else x) xs) = map g xs"
  by simp

lemma pick_random_spec:
  assumes "pick_random rnd n i k used out = (used', out')" and "set out \<subseteq> used" and "distinct out"
  shows "\<exists>new. out' = out @ new \<and> distinct out' \<and> used' = used \<union> set new \<and> set new \<inter> used = {} \<and>
           list_all pool_number new \<and> (length out \<le> n \<longrightarrow> length out' \<le> n)"
  using assms
proof (induction k arbitrary: i used out)
  case (Suc k)
  let ?ns = "fmt07 (minNumber + rnd i mod (maxNumber - minNumber + 1))"
  consider "\<not> length out < n" | "length out < n" "?ns \<in> used" | "length out < n" "?ns \<notin> used" by blast
  then show ?case
  proof cases
    case 3
    with Suc.prems have r: "pick_random rnd n (i + 1) k (insert ?ns used) (out @ [?ns]) = (used', out')"
      by (simp add: Let_def)
    have d: "set (out @ [?ns]) \<subseteq> insert ?ns used" "distinct (out @ [?ns])"
      using Suc.prems(2,3) 3 by auto
    obtain new where
      "out' = (out @ [?ns]) @ new" "distinct out'" "used' = insert ?ns used \<union> set new"
      "set new \<inter> insert ?ns used = {}" "list_all pool_number new"
      "length (out @ [?ns]) \<le> n \<longrightarrow> length out' \<le> n"
      using Suc.IH [OF r d] by blast
    with 3 show ?thesis using pool_draw [of "rnd i"] by (intro exI [of _ "?ns # new"]) auto
  next
    case 2
    with Suc.prems have "pick_random rnd n (i + 1) k used out = (used', out')" by (simp add: Let_def)
    from Suc.IH [OF this Suc.prems(2,3)] show ?thesis .
  next
    case 1
    with Suc.prems show ?thesis by auto
  qed
qed auto

lemma pick_scan_spec:
  assumes "set out \<subseteq> used" and "distinct out" and "minNumber \<le> num"
  shows "\<exists>new. pick_scan n num used out = out @ new \<and> distinct (out @ new) \<and> set new \<inter> used = {} \<and>
           list_all pool_number new \<and> (length out \<le> n \<longrightarrow> length (out @ new) \<le> n)"
  using assms
proof (induction n num used out rule: pick_scan.induct)
  case (1 n num used out)
  show ?case
  proof (cases "num \<le> maxNumber \<and> length out < n")
    case True
    show ?thesis
    proof (cases "fmt07 num \<in> used")
      case False
      with True "1.prems" "1.IH"(1) obtain new where new:
        "pick_scan n (num + 1) (insert (fmt07 num) used) (out @ [fmt07 num]) = (out @ [fmt07 num]) @ new"
        "distinct ((out @ [fmt07 num]) @ new)" "set new \<inter> insert (fmt07 num) used = {}"
        "list_all pool_number new" "length ((out @ [fmt07 num]) @ new) \<le> n"
        by auto
      have "pool_number (fmt07 num)" using True "1.prems"(3) by (auto simp: pool_number_def)
      with True False new show ?thesis
        by (subst pick_scan.simps) (rule exI [of _ "fmt07 num # new"], simp add: Let_def)
    qed (use True 1 in \<open>simp add: pick_scan.simps [of n num] Let_def\<close>)
  next
    case False
    then have "pick_scan n num used out = out" by (subst pick_scan.simps) auto
    with "1.prems" show ?thesis by simp
  qed
qed

lemma pick_scan_extends: "\<exists>new. pick_scan n num used out = out @ new"
proof (induction n num used out rule: pick_scan.induct)
  case (1 n num used out)
  show ?case
  proof (cases "num \<le> maxNumber \<and> length out < n")
    case True
    with 1 show ?thesis by (subst pick_scan.simps) (force simp: Let_def)
  qed (subst pick_scan.simps, auto)
qed

lemma pick_scan_fills:
  assumes "pool_number m" and "m \<notin> used" and "fmt07 k = m" and "num \<le> k" and "k \<le> maxNumber"
    and "out = []" and "0 < n"
  shows "pick_scan n num used out \<noteq> []"
  using assms
proof (induction n num used out rule: pick_scan.induct)
  case (1 n num used out)
  show ?case
  proof (cases "fmt07 num \<in> used")
    case True
    with "1.prems" have "num \<noteq> k" by auto
    with True 1 show ?thesis by (subst pick_scan.simps) (simp add: Let_def)
  next
    case False
    with "1.prems" show ?thesis
      using pick_scan_extends [of n "num + 1" "insert (fmt07 num) used" "[fmt07 num]"]
      by (subst pick_scan.simps) (auto simp: Let_def)
  qed
qed


lemma pickFreeNumbers_spec:
  "distinct (pickFreeNumbers rnd n used) \<and> set (pickFreeNumbers rnd n used) \<inter> used = {} \<and>
   list_all pool_number (pickFreeNumbers rnd n used) \<and> length (pickFreeNumbers rnd n used) \<le> n"
proof -
  obtain used' out where r: "pick_random rnd n 0 2000 used [] = (used', out)" by fastforce
  from pick_random_spec [OF this] have a: "distinct out" "used' = used \<union> set out" "set out \<inter> used = {}"
    "list_all pool_number out" "length out \<le> n" by auto
  obtain new where "pick_scan n minNumber used' out = out @ new" "distinct (out @ new)"
    "set new \<inter> used' = {}" "list_all pool_number new" "length (out @ new) \<le> n"
    using pick_scan_spec [of out used' minNumber n] a by auto
  with a r show ?thesis by (auto simp: pickFreeNumbers_def)
qed

lemma pickFreeNumbers_total:
  assumes "pool_number m" and "m \<notin> used" and "0 < n"
  shows "pickFreeNumbers rnd n used \<noteq> []"
proof -
  obtain used' out where r: "pick_random rnd n 0 2000 used [] = (used', out)" by fastforce
  from pick_random_spec [OF this] have a: "distinct out" "used' = used \<union> set out" by auto
  show ?thesis
  proof (cases "out = []")
    case True
    obtain k where k: "fmt07 k = m" "minNumber \<le> k" "k \<le> maxNumber"
      using assms(1) unfolding pool_number_def by blast
    have "m \<notin> used'" using a(2) True assms(2) by simp
    from pick_scan_fills [OF assms(1) this k True assms(3)]
    show ?thesis unfolding pickFreeNumbers_def r by simp
  next
    case False
    have "\<exists>new. pick_scan n minNumber used' out = out @ new"
      using pick_scan_spec [of out used' minNumber n] a by blast
    with False show ?thesis unfolding pickFreeNumbers_def r by auto
  qed
qed

lemma pickFreeNumber_spec:
  "pickFreeNumber rnd used = Inr num \<Longrightarrow> num \<notin> used \<and> pool_number num"
  using pickFreeNumbers_spec [of rnd 1 used]
  by (auto simp: pickFreeNumber_def split: list.splits)

lemma pickFreeNumber_total:
  "pool_number m \<Longrightarrow> m \<notin> used \<Longrightarrow> \<exists>num. pickFreeNumber rnd used = Inr num"
  using pickFreeNumbers_total [of m used 1 rnd]
  by (auto simp: pickFreeNumber_def split: list.splits)

lemma pickFreeNumber_errors: "pickFreeNumber rnd used = Inl e \<Longrightarrow> e = ErrNoNumbers"
  by (auto simp: pickFreeNumber_def split: list.splits)


lemma pick_scan_exhausts:
  "num \<le> k \<Longrightarrow> k \<le> maxNumber \<Longrightarrow> length out \<le> n \<Longrightarrow>
   length (pick_scan n num used out) = n \<or> fmt07 k \<in> used \<union> set (pick_scan n num used out)"
proof (induction n num used out rule: pick_scan.induct)
  case (1 n num used out)
  consider "\<not> length out < n" | "length out < n" "fmt07 num \<in> used" | "length out < n" "fmt07 num \<notin> used"
    by blast
  then show ?case
  proof cases
    case 1
    then show ?thesis using "1.prems" by (subst pick_scan.simps) auto
  next
    case 2
    then have e: "pick_scan n num used out = pick_scan n (num + 1) used out"
      using "1.prems" by (subst pick_scan.simps) auto
    have "num + 1 \<le> k \<Longrightarrow> ?thesis" using "1.IH"(2) [OF _ refl] 2 "1.prems" e by auto
    moreover have "num = k \<Longrightarrow> ?thesis" using 2 by auto
    ultimately show ?thesis using "1.prems" by linarith
  next
    case 3
    let ?r = "pick_scan n (num + 1) (insert (fmt07 num) used) (out @ [fmt07 num])"
    have e: "pick_scan n num used out = ?r"
      using 3 "1.prems" by (subst pick_scan.simps) (simp add: Let_def)
    have "num + 1 \<le> k \<Longrightarrow> length ?r = n \<or> fmt07 k \<in> insert (fmt07 num) used \<union> set ?r"
      using "1.IH"(1) [OF _ refl] 3 "1.prems" by auto
    moreover have "fmt07 num \<in> set ?r"
      using pick_scan_extends [of n "num + 1" "insert (fmt07 num) used" "out @ [fmt07 num]"] by auto
    moreover have "fmt07 k = fmt07 num \<Longrightarrow> ?thesis" using \<open>fmt07 num \<in> set ?r\<close> e by simp
    ultimately show ?thesis using "1.prems" e by (cases "num = k") auto
  qed
qed

lemma pickFreeNumbers_exhausts:
  assumes "length (pickFreeNumbers rnd n used) < n" and "pool_number m"
  shows "m \<in> used \<union> set (pickFreeNumbers rnd n used)"
proof -
  obtain used' out where r: "pick_random rnd n 0 2000 used [] = (used', out)" by fastforce
  from pick_random_spec [OF this] have a: "used' = used \<union> set out" "length out \<le> n" by auto
  obtain k where k: "minNumber \<le> k" "k \<le> maxNumber" "m = fmt07 k"
    using assms(2) unfolding pool_number_def by blast
  have e: "pickFreeNumbers rnd n used = pick_scan n minNumber used' out"
    unfolding pickFreeNumbers_def r by simp
  obtain new where "pick_scan n minNumber used' out = out @ new" using pick_scan_extends by blast
  with pick_scan_exhausts [OF k(1,2) a(2), of used'] assms(1) a(1) k(3) e show ?thesis by auto
qed


section \<open>Every operation keeps the invariant\<close>

lemma distinct_map_if_same:
  "(\<And>x. x \<in> set xs \<Longrightarrow> g (f x) = g x) \<Longrightarrow> distinct (map g (map f xs)) = distinct (map g xs)"
  by (metis (mono_tags, lifting) map_eq_conv map_map comp_apply)

lemma insert_user_wf: "insert_user s u = Inr s' \<Longrightarrow> lines_wf s \<Longrightarrow> lines_wf s'"
  by (fastforce simp: insert_user_def lines_wf_def issued_numbers_def split: if_splits)

lemma update_user_wf:
  assumes "update_user s pk f = Inr s'" and "lines_wf s"
    and "\<And>u. KSimPublicKey (f u) = KSimPublicKey u" and "\<And>u. Number (f u) = Number u"
  shows "lines_wf s'"
proof -
  have "s' = s\<lparr>users := map (\<lambda>u. if KSimPublicKey u = pk then f u else u) (users s)\<rparr>"
    using assms(1) by (auto simp: update_user_def split: if_splits)
  then show ?thesis using assms(2-)
    by (simp add: lines_wf_def issued_numbers_def comp_def if_distrib cong: if_cong)
qed

lemma issued_numbers_map:
  assumes "\<And>t. t \<in> set (provisioning_tokens s) \<Longrightarrow> TNumber (f t) = TNumber t"
    and "\<And>t. t \<in> set (provisioning_tokens s) \<Longrightarrow> Status (f t) = ''issued'' \<Longrightarrow> Status t = ''issued''"
    and "distinct (issued_numbers s)"
  shows "distinct (issued_numbers (s\<lparr>provisioning_tokens := map f (provisioning_tokens s)\<rparr>))"
proof -
  let ?n = "\<lambda>t. case TNumber t of None \<Rightarrow> [] | Some n \<Rightarrow> n"
  let ?p = "\<lambda>t. Status t = ''issued'' \<and> TNumber t \<noteq> None"
  let ?ts = "provisioning_tokens s"
  have "map ?n (filter ?p (map f ?ts)) = map ?n (filter (?p \<circ> f) ?ts)"
    using assms(1) by (simp add: filter_map)
  also have "filter (?p \<circ> f) ?ts = filter (?p \<circ> f) (filter ?p ?ts)"
    using assms(1,2) by (auto intro: filter_cong)
  finally have "map ?n (filter ?p (map f ?ts)) = map ?n (filter (?p \<circ> f) (filter ?p ?ts))" .
  then have "issued_numbers (s\<lparr>provisioning_tokens := map f ?ts\<rparr>) = map ?n (filter (?p \<circ> f) (filter ?p ?ts))"
    by (simp add: issued_numbers_def)
  moreover have "distinct (map ?n (filter ?p ?ts))" using assms(3) by (simp add: issued_numbers_def)
  ultimately show ?thesis by (simp only: distinct_map_filter)
qed

lemma retag_tokens_wf:
  assumes "lines_wf s" and "\<And>t. TNumber (f t) = TNumber t" and "\<And>t. TokenHash (f t) = TokenHash t"
    and "\<And>t. Status (f t) = ''issued'' \<Longrightarrow> Status t = ''issued''"
  shows "lines_wf (s\<lparr>provisioning_tokens := map f (provisioning_tokens s)\<rparr>)"
  using assms issued_numbers_map [of s f] by (simp add: lines_wf_def comp_def)

lemma NewProvisionToken_wf:
  assumes "NewProvisionToken s now th num nm nts wh ttl = Inr s'" and "lines_wf s"
  shows "lines_wf s'"
proof -
  let ?t = "\<lparr>TokenHash = th, TNumber = nullIfEmpty num, TDisplayName = nm, Notes = nts,
     CreatedBy = wh, TCreatedAt = unix_secs now, ExpiresAt = unix_secs (now + ttl),
     Status = ''issued'', ClaimedPubKey = None, ClaimedAt = None\<rparr>"
  have s': "s' = s\<lparr>provisioning_tokens := provisioning_tokens s @ [?t]\<rparr>"
    and u: "\<forall>v \<in> set (provisioning_tokens s). TokenHash v \<noteq> th \<and>
       (Status v = ''issued'' \<longrightarrow> TNumber v \<noteq> None \<longrightarrow> TNumber v \<noteq> nullIfEmpty num)"
    using assms(1) by (auto simp: NewProvisionToken_def Let_def split: if_splits)
  have "n \<notin> set (issued_numbers s)" if "nullIfEmpty num = Some n" for n
    using u that by (fastforce simp: issued_numbers_def)
  moreover have "issued_numbers s' =
      issued_numbers s @ (case nullIfEmpty num of None \<Rightarrow> [] | Some n \<Rightarrow> [n])"
    by (simp add: s' issued_numbers_def split: option.splits)
  ultimately have "distinct (issued_numbers s')"
    using assms(2) by (auto simp: lines_wf_def split: option.splits)
  with assms(2) s' u show ?thesis by (fastforce simp: lines_wf_def)
qed

lemma RevokeProvisionToken_wf:
  assumes "RevokeProvisionToken s th = Inr s'" and "lines_wf s"
  shows "lines_wf s'"
proof -
  have "s' = s\<lparr>provisioning_tokens := map (\<lambda>t. if TokenHash t = th \<and> Status t = ''issued''
           then t\<lparr>Status := ''revoked''\<rparr> else t) (provisioning_tokens s)\<rparr>"
    using assms(1) by (simp add: RevokeProvisionToken_def Let_def split: if_splits)
  then show ?thesis using retag_tokens_wf [OF assms(2)] by (simp split: if_splits)
qed

lemma claim_token_wf: "lines_wf s \<Longrightarrow> lines_wf (claim_token s now th pk)"
  unfolding claim_token_def by (rule retag_tokens_wf) (auto split: if_splits)

lemma provisionUserOnce_cases:
  assumes "provisionUserOnce rnd s now th pk area nm = Inr (num, s')"
  obtains t s1 where "find (\<lambda>t. TokenHash t = th) (provisioning_tokens s) = Some t" "db_up s"
    "Status t = ''issued''" "unix_secs now \<le> ExpiresAt t"
    "(TNumber t = Some num \<and> num \<noteq> []) \<or>
     (TNumber t \<in> {None, Some []} \<and> pool_number num \<and> num \<notin> takenNumberSet s)"
    "insert_user s \<lparr>KSimPublicKey = pk, AreaCode = area, Number = num, DisplayName = nm,
       FCMToken = [], RegisteredAt = unix_secs now, LastSeen = unix_secs now\<rparr> = Inr s1"
    "s' = claim_token s1 now th pk"
  using assms pickFreeNumber_spec [of rnd "takenNumberSet s"]
  unfolding provisionUserOnce_def
  by (auto split: if_splits option.splits sum.splits)

lemma provision_attempts_once:
  "provision_attempts rnd a k e s now th pk area nm = Inr r \<Longrightarrow>
   \<exists>b. provisionUserOnce (rnd b) s now th pk area nm = Inr r"
  by (induction k arbitrary: a e) (auto split: sum.splits if_splits)

lemma ProvisionUser_once:
  "ProvisionUser rnd s now th pk area nm = Inr r \<Longrightarrow>
   \<exists>b. provisionUserOnce (rnd b) s now th pk area nm = Inr r"
  unfolding ProvisionUser_def using provision_attempts_once by (auto split: if_splits)

lemma ProvisionUser_wf:
  assumes "ProvisionUser rnd s now th pk area nm = Inr (num, s')" and "lines_wf s"
  shows "lines_wf s'"
  using ProvisionUser_once [OF assms(1)] assms(2)
  by (blast elim: provisionUserOnce_cases intro: insert_user_wf claim_token_wf)

lemma DeleteLineByNumber_wf: "DeleteLineByNumber s num = Inr s' \<Longrightarrow> lines_wf s \<Longrightarrow> lines_wf s'"
  by (auto simp: DeleteLineByNumber_def lines_wf_def issued_numbers_def distinct_map_filter split: if_splits)

lemma UpdateLine_result:
  assumes "UpdateLine s num nm num' = Inr s'"
  obtains cur where "find (\<lambda>u. Number u = num) (users s) = Some cur" "db_up s"
    "num' = None \<or> num' = Some num \<or> (the num' \<notin> takenNumberSet s)"
    "s' = s\<lparr>users := map (\<lambda>u. if Number u = num
        then u\<lparr>DisplayName := (case nm of None \<Rightarrow> DisplayName cur | Some n \<Rightarrow> n),
               Number := (case num' of None \<Rightarrow> num | Some n \<Rightarrow> n)\<rparr> else u) (users s)\<rparr>"
proof -
  have "count_number s n = 0 \<Longrightarrow> count_reserved s n = 0 \<Longrightarrow> n \<notin> takenNumberSet s" for n
    using count_number_pos [of s n] count_reserved_pos [of s n] by (auto simp: takenNumberSet_eq)
  with assms that show ?thesis
    unfolding UpdateLine_def by (auto simp: Let_def split: if_splits option.splits)
qed

lemma distinct_rename:
  "distinct (map g xs) \<Longrightarrow> b \<notin> g ` set xs \<Longrightarrow> (\<And>x. g (f x) = (if g x = a then b else g x)) \<Longrightarrow>
   distinct (map g (map f xs))"
  by (induction xs) (auto simp: image_iff)

lemma rename_line_wf:
  assumes "lines_wf s" and "num' = num \<or> num' \<notin> takenNumberSet s"
  shows "lines_wf (s\<lparr>users := map (\<lambda>u. if Number u = num
           then u\<lparr>DisplayName := nm, Number := num'\<rparr> else u) (users s)\<rparr>)"
proof -
  let ?f = "\<lambda>u. if Number u = num then u\<lparr>DisplayName := nm, Number := num'\<rparr> else u"
  have k: "distinct (map KSimPublicKey (map ?f (users s)))"
    using assms(1) by (subst distinct_map_if_same) (auto simp: lines_wf_def)
  have "distinct (map Number (map ?f (users s)))"
  proof (cases "num' = num")
    case True
    then show ?thesis
      using assms(1) by (subst distinct_map_if_same) (auto simp: lines_wf_def)
  next
    case False
    then show ?thesis
      using assms distinct_rename [of Number "users s" num' ?f num]
      by (auto simp: lines_wf_def takenNumberSet_eq)
  qed
  with k assms(1) show ?thesis by (simp add: lines_wf_def issued_numbers_def)
qed

lemma UpdateLine_wf: "UpdateLine s num nm num' = Inr s' \<Longrightarrow> lines_wf s \<Longrightarrow> lines_wf s'"
  by (erule UpdateLine_result) (auto intro!: rename_line_wf split: option.splits)

lemma UpdateAreaCodeForUsers_wf: "UpdateAreaCodeForUsers s area = Inr s' \<Longrightarrow> lines_wf s \<Longrightarrow> lines_wf s'"
  unfolding UpdateAreaCodeForUsers_def
  by (auto simp: lines_wf_def issued_numbers_def distinct_map_if_same simp del: map_map split: if_splits)

lemma line_step_wf: "line_step s s' \<Longrightarrow> lines_wf s \<Longrightarrow> lines_wf s'"
proof (induction rule: line_step.induct)
  case (step_db s b)
  then show ?case by (simp add: lines_wf_def issued_numbers_def)
next
  case (step_create s u s')
  then show ?case by (simp add: CreateUser_def insert_user_wf)
qed (auto simp: UpdateFCMToken_def UpdateLastSeen_def UpdateDisplayName_def
    intro: update_user_wf NewProvisionToken_wf RevokeProvisionToken_wf ProvisionUser_wf
      DeleteLineByNumber_wf UpdateLine_wf UpdateAreaCodeForUsers_wf)

interpretation lines: invariant_system "\<lambda>s. s = empty_store" line_step lines_wf
  by unfold_locales (simp add: empty_store_def lines_wf_def issued_numbers_def, rule line_step_wf)


section \<open>Tokens are consumed once\<close>

definition token_used :: "string \<Rightarrow> store \<Rightarrow> bool" where
  "token_used th s \<longleftrightarrow> (\<exists>t \<in> set (provisioning_tokens s). TokenHash t = th \<and> Status t = ''used'')"

lemma token_used_find:
  assumes "token_used th s" and "lines_wf s"
  obtains t where "find (\<lambda>t. TokenHash t = th) (provisioning_tokens s) = Some t" "Status t = ''used''"
  using assms find_Some_iff_distinct [of TokenHash "provisioning_tokens s" th]
  unfolding token_used_def lines_wf_def by blast

lemma token_used_once:
  "token_used th s \<Longrightarrow> lines_wf s \<Longrightarrow> db_up s \<Longrightarrow>
   provisionUserOnce rnd s now th pk area nm = Inl ErrTokenUsed"
  by (erule (1) token_used_find) (simp add: provisionUserOnce_def)

lemma provision_attempts_error:
  assumes "\<And>b. provisionUserOnce (rnd b) s now th pk area nm = Inl e" and "e \<noteq> ErrNumberTaken"
  shows "provision_attempts rnd a (Suc k) e0 s now th pk area nm = Inl e"
  using assms by simp

lemma token_used_map:
  "token_used th s \<Longrightarrow> (\<And>t. TokenHash (f t) = TokenHash t) \<Longrightarrow> (\<And>t. Status t = ''used'' \<Longrightarrow> Status (f t) = ''used'') \<Longrightarrow>
   token_used th (s\<lparr>provisioning_tokens := map f (provisioning_tokens s)\<rparr>)"
  by (auto simp: token_used_def)

lemma insert_user_result:
  "insert_user s u = Inr s' \<Longrightarrow> s' = s\<lparr>users := users s @ [u]\<rparr> \<and> KSimPublicKey u \<notin> KSimPublicKey ` set (users s) \<and>
   Number u \<notin> Number ` set (users s) \<and> db_up s"
  by (fastforce simp: insert_user_def split: if_splits)

lemma token_used_claim: "token_used th s \<Longrightarrow> token_used th (claim_token s now th' pk)"
  unfolding claim_token_def by (rule token_used_map) auto

lemma token_used_claimed:
  "t \<in> set (provisioning_tokens s) \<Longrightarrow> TokenHash t = th \<Longrightarrow> token_used th (claim_token s now th pk)"
  by (auto simp: token_used_def claim_token_def simp del: if_image_distrib intro!: bexI [of _ t])

lemma ProvisionUser_token_used:
  assumes "ProvisionUser rnd s now th' pk area nm = Inr (num, s')" and "token_used th s"
  shows "token_used th s'"
proof -
  obtain b where "provisionUserOnce (rnd b) s now th' pk area nm = Inr (num, s')"
    using ProvisionUser_once [OF assms(1)] by blast
  then show ?thesis
  proof (rule provisionUserOnce_cases)
    fix t s1 assume a: "s' = claim_token s1 now th' pk"
      "insert_user s \<lparr>KSimPublicKey = pk, AreaCode = area, Number = num, DisplayName = nm,
         FCMToken = [], RegisteredAt = unix_secs now, LastSeen = unix_secs now\<rparr> = Inr s1"
    then have "token_used th s1" using assms(2) insert_user_result [OF a(2)] by (simp add: token_used_def)
    with a show ?thesis by (simp add: token_used_claim)
  qed
qed

lemma UpdateLine_tokens: "UpdateLine s num nm num' = Inr s' \<Longrightarrow> provisioning_tokens s' = provisioning_tokens s"
  by (erule UpdateLine_result) simp

lemma RevokeProvisionToken_used:
  "RevokeProvisionToken s th' = Inr s' \<Longrightarrow> token_used th s \<Longrightarrow> token_used th s'"
  by (auto simp: RevokeProvisionToken_def Let_def token_used_def split: if_splits)

lemma users_only_token_used:
  "provisioning_tokens s' = provisioning_tokens s \<Longrightarrow> token_used th s \<Longrightarrow> token_used th s'"
  by (simp add: token_used_def)

lemma update_user_tokens: "update_user s pk f = Inr s' \<Longrightarrow> provisioning_tokens s' = provisioning_tokens s"
  by (auto simp: update_user_def split: if_splits)

lemma other_ops_tokens:
  "CreateUser s u = Inr s' \<Longrightarrow> provisioning_tokens s' = provisioning_tokens s"
  "UpdateFCMToken s pk tok = Inr s' \<Longrightarrow> provisioning_tokens s' = provisioning_tokens s"
  "UpdateLastSeen s now pk = Inr s' \<Longrightarrow> provisioning_tokens s' = provisioning_tokens s"
  "UpdateDisplayName s pk nm = Inr s' \<Longrightarrow> provisioning_tokens s' = provisioning_tokens s"
  "DeleteLineByNumber s num = Inr s' \<Longrightarrow> provisioning_tokens s' = provisioning_tokens s"
  "UpdateAreaCodeForUsers s area = Inr s' \<Longrightarrow> provisioning_tokens s' = provisioning_tokens s"
  by (auto simp: CreateUser_def insert_user_def UpdateFCMToken_def UpdateLastSeen_def
    UpdateDisplayName_def DeleteLineByNumber_def UpdateAreaCodeForUsers_def
    dest: update_user_tokens split: if_splits)

lemma line_step_token_used: "line_step s s' \<Longrightarrow> token_used th s \<Longrightarrow> token_used th s'"
proof (induction rule: line_step.induct)
  case (step_token s now th' num nm nts wh ttl s')
  then show ?case by (auto simp: NewProvisionToken_def token_used_def Let_def split: if_splits)
qed (simp add: token_used_def,
    (rule users_only_token_used [OF other_ops_tokens(1)] users_only_token_used [OF other_ops_tokens(2)]
      users_only_token_used [OF other_ops_tokens(3)] users_only_token_used [OF other_ops_tokens(4)]
      users_only_token_used [OF other_ops_tokens(5)] users_only_token_used [OF other_ops_tokens(6)]
      users_only_token_used [OF UpdateLine_tokens] ProvisionUser_token_used RevokeProvisionToken_used;
     assumption)+)

lemma ProvisionUser_marks_used:
  assumes "ProvisionUser rnd s now th pk area nm = Inr (num, s')"
  shows "token_used th s'"
proof -
  obtain b where "provisionUserOnce (rnd b) s now th pk area nm = Inr (num, s')"
    using ProvisionUser_once [OF assms] by blast
  then show ?thesis
  proof (rule provisionUserOnce_cases)
    fix t s1 assume a: "find (\<lambda>t. TokenHash t = th) (provisioning_tokens s) = Some t"
      "s' = claim_token s1 now th pk"
      "insert_user s \<lparr>KSimPublicKey = pk, AreaCode = area, Number = num, DisplayName = nm,
         FCMToken = [], RegisteredAt = unix_secs now, LastSeen = unix_secs now\<rparr> = Inr s1"
    then have "t \<in> set (provisioning_tokens s1)" "TokenHash t = th"
      using insert_user_result by (fastforce simp: find_Some_iff)+
    then show ?thesis unfolding a(2) by (rule token_used_claimed)
  qed
qed

lemma ProvisionUser_not_empty: "ProvisionUser rnd s now th pk area nm = Inr r \<Longrightarrow> th \<noteq> []"
  by (auto simp: ProvisionUser_def)

lemma ProvisionUser_first:
  assumes "th \<noteq> []" and "provisionUserOnce (rnd 0) s now th pk area nm = Inr r"
  shows "ProvisionUser rnd s now th pk area nm = Inr r"
proof -
  have "(5::nat) = Suc 4" by simp
  with assms show ?thesis unfolding ProvisionUser_def by (simp only: provision_attempts.simps) simp
qed

section \<open>A sample history\<close>

definition sample_issued :: store where
  "sample_issued = empty_store\<lparr>provisioning_tokens := [\<lparr>TokenHash = ''h'', TNumber = Some ''5551234'',
     TDisplayName = ''Ann'', Notes = [], CreatedBy = ''admin'', TCreatedAt = 0, ExpiresAt = 3600,
     Status = ''issued'', ClaimedPubKey = None, ClaimedAt = None\<rparr>]\<rparr>"

definition sample_line :: store where
  "sample_line = empty_store\<lparr>
     users := [\<lparr>KSimPublicKey = [1], AreaCode = ''440'', Number = ''5551234'', DisplayName = ''Ann'',
        FCMToken = [], RegisteredAt = 1, LastSeen = 1\<rparr>],
     provisioning_tokens := [\<lparr>TokenHash = ''h'', TNumber = Some ''5551234'',
        TDisplayName = ''Ann'', Notes = [], CreatedBy = ''admin'', TCreatedAt = 0, ExpiresAt = 3600,
        Status = ''used'', ClaimedPubKey = Some [1], ClaimedAt = Some 1\<rparr>]\<rparr>"

lemmas sample_store_defs = sample_issued_def sample_line_def empty_store_def

lemma sample_issue: "NewProvisionToken empty_store 0 ''h'' ''5551234'' ''Ann'' [] ''admin'' (secs 3600) = Inr sample_issued"
  by (simp add: NewProvisionToken_def sample_store_defs nullIfEmpty_def unix_secs_def secs_def)

lemma sample_provision:
  "ProvisionUser (\<lambda>_ _. 0) sample_issued (secs 1) ''h'' [1] ''440'' ''Ann'' = Inr (''5551234'', sample_line)"
  by (rule ProvisionUser_first) (simp_all add: provisionUserOnce_def sample_store_defs count_number_def
      insert_user_def claim_token_def unix_secs_def secs_def)

lemma sample_reach: "line_step\<^sup>*\<^sup>* empty_store sample_line"
  using step_token [OF sample_issue] step_provision [OF sample_provision]
  by (blast intro: rtranclp.intros)

lemma sample_wf: "lines_wf sample_issued" "lines_wf sample_line"
  by (simp_all add: lines_wf_def issued_numbers_def sample_store_defs)

section \<open>Properties\<close>

text \<open>
  C23. In every state the store can reach through its line and token operations (with the database
  failing and recovering in between) no two lines share a key or a number, no two tokens a hash,
  and no two outstanding tokens reserve the same number.
\<close>

theorem lines_always_unique:
  assumes "line_step\<^sup>*\<^sup>* empty_store s"
  shows "distinct (map KSimPublicKey (users s)) \<and> distinct (map Number (users s)) \<and>
         distinct (map TokenHash (provisioning_tokens s)) \<and> distinct (issued_numbers s)"
  using lines.reachable_inv [OF refl assms] by (simp add: lines_wf_def)

theorem lines_always_unique_witness:
  "line_step\<^sup>*\<^sup>* empty_store sample_line \<and> distinct (map Number (users sample_line)) \<and> users sample_line \<noteq> []"
  using lines_always_unique [OF sample_reach] sample_reach by (simp add: sample_line_def)

text \<open>
  C22. An activation token is good for one line: once \<open>ProvisionUser\<close> has accepted it, every later
  attempt with the same token, by any key and after any further history of the store, is refused
  with \<open>ErrTokenUsed\<close>.
\<close>

theorem token_one_time:
  assumes "lines_wf s" and "ProvisionUser rnd s now th pk area nm = Inr (num, s')"
    and "line_step\<^sup>*\<^sup>* s' s''" and "db_up s''"
  shows "ProvisionUser rnd' s'' now' th pk' area' nm' = Inl ErrTokenUsed"
proof -
  have wf: "lines_wf s'" using ProvisionUser_wf assms(1,2) by blast
  have "token_used th s''"
    by (rule lines.steps_keep [of "token_used th", OF _ assms(3) wf ProvisionUser_marks_used [OF assms(2)]])
      (rule line_step_token_used)
  moreover have "lines_wf s''" using lines.steps_inv assms(3) wf by blast
  ultimately have "provisionUserOnce (rnd' b) s'' now' th pk' area' nm' = Inl ErrTokenUsed" for b
    using token_used_once assms(4) by blast
  then show ?thesis
    using ProvisionUser_not_empty [OF assms(2)] by (simp add: ProvisionUser_def numeral_eq_Suc)
qed

theorem token_one_time_witness:
  "ProvisionUser (\<lambda>_ _. 0) sample_issued (secs 1) ''h'' [1] ''440'' ''Ann'' = Inr (''5551234'', sample_line) \<and>
   ProvisionUser (\<lambda>_ _. 7) sample_line (secs 2) ''h'' [2] ''440'' ''Bob'' = Inl ErrTokenUsed"
  using token_one_time [OF sample_wf(1) sample_provision rtranclp.rtrancl_refl,
      of "\<lambda>_ _. 7" "secs 2" "[2]" "''440''" "''Bob''"] sample_provision
  by (simp add: sample_line_def empty_store_def)

text \<open>
  What a successful activation does: the token was outstanding and not expired, the number is
  the token's own number or, for an auto-assign token, a seven-digit pool number that no line
  holds and no outstanding token reserves; exactly one line is added, with the caller's key, and
  neither that key nor that number was in use.
\<close>

theorem ProvisionUser_ok:
  assumes "lines_wf s" and "ProvisionUser rnd s now th pk area nm = Inr (num, s')"
  shows "\<exists>t. t \<in> set (provisioning_tokens s) \<and> TokenHash t = th \<and> Status t = ''issued'' \<and>
           unix_secs now \<le> ExpiresAt t \<and>
           (TNumber t = Some num \<or> (TNumber t \<in> {None, Some []} \<and> pool_number num \<and> num \<notin> takenNumberSet s)) \<and>
           users s' = users s @ [\<lparr>KSimPublicKey = pk, AreaCode = area, Number = num, DisplayName = nm,
              FCMToken = [], RegisteredAt = unix_secs now, LastSeen = unix_secs now\<rparr>] \<and>
           pk \<notin> KSimPublicKey ` set (users s) \<and> num \<notin> Number ` set (users s) \<and> lines_wf s'"
proof -
  obtain b where "provisionUserOnce (rnd b) s now th pk area nm = Inr (num, s')"
    using ProvisionUser_once [OF assms(2)] by blast
  then show ?thesis
  proof (rule provisionUserOnce_cases)
    fix t s1 assume a: "find (\<lambda>t. TokenHash t = th) (provisioning_tokens s) = Some t" "Status t = ''issued''"
      "unix_secs now \<le> ExpiresAt t" "s' = claim_token s1 now th pk"
      "(TNumber t = Some num \<and> num \<noteq> []) \<or>
       (TNumber t \<in> {None, Some []} \<and> pool_number num \<and> num \<notin> takenNumberSet s)"
      "insert_user s \<lparr>KSimPublicKey = pk, AreaCode = area, Number = num, DisplayName = nm,
         FCMToken = [], RegisteredAt = unix_secs now, LastSeen = unix_secs now\<rparr> = Inr s1"
    have "t \<in> set (provisioning_tokens s) \<and> TokenHash t = th"
      using a(1) assms(1) find_Some_iff_distinct by (metis lines_wf_def)
    with a insert_user_result [OF a(6)] ProvisionUser_wf [OF assms(2,1)] show ?thesis
      by (intro exI [of _ t]) (auto simp: claim_token_def)
  qed
qed

theorem ProvisionUser_ok_witness:
  "lines_wf sample_issued \<and> lines_wf sample_line \<and> [1] \<notin> KSimPublicKey ` set (users sample_issued)"
  using ProvisionUser_ok [OF sample_wf(1) sample_provision] sample_wf by blast

text \<open>
  \<open>NumberAvailable\<close> and \<open>TakenNumbers\<close> agree: the panel is told that a number is free exactly
  when it is not in the set of taken numbers, and both fail together when the database does.
\<close>

theorem NumberAvailable_iff:
  "NumberAvailable s n = (case TakenNumbers s of Inl e \<Rightarrow> Inl e | Inr T \<Rightarrow> Inr (n \<notin> T))"
  using count_number_pos [of s n] count_reserved_pos [of s n]
  by (auto simp: NumberAvailable_def TakenNumbers_def takenNumberSet_eq)

text \<open>
  The numbers offered by \<open>RandomFreeNumbers\<close> are distinct seven-digit pool numbers, all free,
  at most \<open>n\<close> of them, and fewer than \<open>n\<close> only when every free number of the pool is offered,
  whatever the random source returns.
\<close>

theorem RandomFreeNumbers_correct:
  assumes "RandomFreeNumbers rnd s n = Inr out"
  shows "distinct out \<and> length out \<le> n \<and>
         (\<forall>m \<in> set out. pool_number m \<and> NumberAvailable s m = Inr True) \<and>
         (length out < n \<longrightarrow> (\<forall>m. pool_number m \<longrightarrow> NumberAvailable s m = Inr True \<longrightarrow> m \<in> set out))"
proof -
  have out: "out = pickFreeNumbers rnd n (takenNumberSet s)" and up: "db_up s"
    using assms by (auto simp: RandomFreeNumbers_def split: if_splits)
  have av: "NumberAvailable s m = Inr True \<longleftrightarrow> m \<notin> takenNumberSet s" for m
    using up count_number_pos [of s m] count_reserved_pos [of s m]
    by (auto simp: NumberAvailable_def takenNumberSet_eq)
  show ?thesis
    unfolding av using out pickFreeNumbers_spec [of rnd n "takenNumberSet s"]
      pickFreeNumbers_exhausts [of rnd n "takenNumberSet s"]
    by (auto simp: list_all_iff)
qed

lemma sample_offer: "RandomFreeNumbers (\<lambda>_. 0) sample_line 1 = Inr [fmt07 minNumber]"
proof -
  have "fmt07 minNumber \<notin> takenNumberSet sample_line"
    by (simp add: takenNumberSet_def sample_store_defs fmt07_def minNumber_def dec_def dec_rev.simps
        pad_left_def char_of_def)
  moreover have "(2000::nat) = Suc (Suc 1998)" by simp
  ultimately have "pick_random (\<lambda>_. 0) 1 0 2000 (takenNumberSet sample_line) [] =
      (insert (fmt07 minNumber) (takenNumberSet sample_line), [fmt07 minNumber])"
    by (simp only: pick_random.simps) (simp add: Let_def)
  then show ?thesis
    by (simp add: RandomFreeNumbers_def pickFreeNumbers_def pick_scan.simps sample_store_defs)
qed

theorem RandomFreeNumbers_correct_witness:
  "\<exists>m. RandomFreeNumbers (\<lambda>_. 0) sample_line 1 = Inr [m] \<and> pool_number m \<and> NumberAvailable sample_line m = Inr True"
  using RandomFreeNumbers_correct [OF sample_offer] sample_offer by auto

end
