(* ===== verification/Store_Mail.thy ===== *)
theory Store_Mail
  imports Store_Lines "HOL-Library.Multiset"
begin

text \<open>
  The mailbox tables of the exchange's store: recorded voicemail
  (\<open>ocnserver/internal/store/voicemail.go\<close>) and queued direct messages
  (\<open>ocnserver/internal/store/dm.go\<close>).

  Every operation is scoped to a recipient's local number. The identifier that \<open>uuid.New\<close>
  draws is an argument; the tables reject a second row with the same identifier. The interface
  \<open>mailbox\<close> states what the two tables have in common, and is interpreted on both.
\<close>

section \<open>Voicemail\<close>

definition StoreVoicemail ::
  "string \<Rightarrow> store \<Rightarrow> gotime \<Rightarrow> string \<Rightarrow> string \<Rightarrow> string \<Rightarrow> bytes \<Rightarrow> string \<Rightarrow> int \<Rightarrow> store_error + (string \<times> store)" where
  "StoreVoicemail uid s now recipientNumber callerNumber callerName audio fmt duration =
     (if \<not> db_up s then Inl DbFault
      else if uid \<in> VmID ` set (voicemail s) then Inl ErrUnique
      else Inr (uid, s\<lparr>voicemail := voicemail s @
             [\<lparr>VmID = uid, CallerNumber = callerNumber, CallerName = callerName,
               RecipientNumber = recipientNumber, EncryptedAudio = audio, Format = fmt,
               DurationSeconds = duration, Listened = False, VmCreatedAt = unix_secs now\<rparr>]\<rparr>))"

definition GetVoicemail :: "store \<Rightarrow> string \<Rightarrow> string \<Rightarrow> store_error + Voicemail option" where
  "GetVoicemail s vid recipientNumber =
     (if \<not> db_up s then Inl DbFault
      else Inr (find (\<lambda>v. VmID v = vid \<and> RecipientNumber v = recipientNumber) (voicemail s)))"

definition ListVoicemails :: "store \<Rightarrow> string \<Rightarrow> store_error + Voicemail list" where
  "ListVoicemails s recipientNumber =
     (if \<not> db_up s then Inl DbFault
      else Inr (sort_key (\<lambda>v. - VmCreatedAt v)
                 (filter (\<lambda>v. RecipientNumber v = recipientNumber) (voicemail s))))"

record VoicemailMeta =
  vmm_ID :: string
  vmm_CallerNumber :: string
  vmm_CallerName :: string
  vmm_RecipientNumber :: string
  vmm_Format :: string
  vmm_DurationSeconds :: int
  vmm_Listened :: bool
  vmm_CreatedAt :: int

definition vm_meta :: "Voicemail \<Rightarrow> VoicemailMeta" where
  "vm_meta v = \<lparr>vmm_ID = VmID v, vmm_CallerNumber = CallerNumber v, vmm_CallerName = CallerName v,
     vmm_RecipientNumber = RecipientNumber v, vmm_Format = Format v,
     vmm_DurationSeconds = DurationSeconds v, vmm_Listened = Listened v,
     vmm_CreatedAt = VmCreatedAt v\<rparr>"

definition ListVoicemailMeta :: "store \<Rightarrow> string \<Rightarrow> store_error + VoicemailMeta list" where
  "ListVoicemailMeta s recipientNumber =
     (if \<not> db_up s then Inl DbFault
      else Inr (map vm_meta (sort_key (\<lambda>v. - VmCreatedAt v)
                 (filter (\<lambda>v. RecipientNumber v = recipientNumber) (voicemail s)))))"

definition MarkListened :: "store \<Rightarrow> string \<Rightarrow> string \<Rightarrow> store_error + store" where
  "MarkListened s vid recipientNumber =
     (if \<not> db_up s then Inl DbFault
      else Inr (s\<lparr>voicemail := map (\<lambda>v. if VmID v = vid \<and> RecipientNumber v = recipientNumber
                                      then v\<lparr>Listened := True\<rparr> else v) (voicemail s)\<rparr>))"

definition DeleteVoicemail :: "store \<Rightarrow> string \<Rightarrow> string \<Rightarrow> store_error + store" where
  "DeleteVoicemail s vid recipientNumber =
     (if \<not> db_up s then Inl DbFault
      else Inr (s\<lparr>voicemail := filter (\<lambda>v. \<not> (VmID v = vid \<and> RecipientNumber v = recipientNumber))
                                  (voicemail s)\<rparr>))"

definition CountUnlistened :: "store \<Rightarrow> string \<Rightarrow> store_error + nat" where
  "CountUnlistened s recipientNumber =
     (if \<not> db_up s then Inl DbFault
      else Inr (length (filter (\<lambda>v. RecipientNumber v = recipientNumber \<and> \<not> Listened v) (voicemail s))))"

section \<open>Direct messages\<close>

definition StoreDMPreassigned ::
  "store \<Rightarrow> gotime \<Rightarrow> string \<Rightarrow> string \<Rightarrow> bytes \<Rightarrow> store_error + store" where
  "StoreDMPreassigned s now messageID recipient envelope =
     (if \<not> db_up s then Inl DbFault
      else if messageID \<in> DmID ` set (dm_outbox s) then Inl ErrUnique
      else Inr (s\<lparr>dm_outbox := dm_outbox s @
             [\<lparr>DmID = messageID, DmRecipient = recipient, DmEnvelope = envelope,
               DmCreatedAt = unix_secs now\<rparr>]\<rparr>))"

definition EnqueueDM :: "string \<Rightarrow> store \<Rightarrow> gotime \<Rightarrow> string \<Rightarrow> bytes \<Rightarrow> store_error + (string \<times> store)" where
  "EnqueueDM uid s now recipient envelope =
     (case StoreDMPreassigned s now uid recipient envelope of
        Inl e \<Rightarrow> Inl e
      | Inr s' \<Rightarrow> Inr (uid, s'))"

definition ListPendingDM :: "store \<Rightarrow> string \<Rightarrow> store_error + DMMessage list" where
  "ListPendingDM s recipient =
     (if \<not> db_up s then Inl DbFault
      else Inr (sort_key DmCreatedAt (filter (\<lambda>m. DmRecipient m = recipient) (dm_outbox s))))"

definition GetDM :: "store \<Rightarrow> string \<Rightarrow> string \<Rightarrow> store_error + DMMessage option" where
  "GetDM s messageID recipient =
     (if \<not> db_up s then Inl DbFault
      else Inr (find (\<lambda>m. DmID m = messageID \<and> DmRecipient m = recipient) (dm_outbox s)))"

definition DeleteDM :: "store \<Rightarrow> string \<Rightarrow> string \<Rightarrow> store_error + store" where
  "DeleteDM s messageID recipient =
     (if \<not> db_up s then Inl DbFault
      else Inr (s\<lparr>dm_outbox := filter (\<lambda>m. \<not> (DmID m = messageID \<and> DmRecipient m = recipient))
                                  (dm_outbox s)\<rparr>))"

definition PruneDM :: "store \<Rightarrow> gotime \<Rightarrow> store_error + (nat \<times> store)" where
  "PruneDM s before =
     (let old = (\<lambda>m. DmCreatedAt m < unix_secs before) in
      if \<not> db_up s then Inl DbFault
      else Inr (length (filter old (dm_outbox s)),
                s\<lparr>dm_outbox := filter (\<lambda>m. \<not> old m) (dm_outbox s)\<rparr>))"

section \<open>The mailbox interface\<close>

locale mailbox =
  fixes rows :: "'s \<Rightarrow> 'm list"
    and mid :: "'m \<Rightarrow> string"
    and rcpt :: "'m \<Rightarrow> string"
    and get :: "'s \<Rightarrow> string \<Rightarrow> string \<Rightarrow> store_error + 'm option"
    and listing :: "'s \<Rightarrow> string \<Rightarrow> store_error + 'm list"
    and put :: "'s \<Rightarrow> 'm \<Rightarrow> store_error + 's"
    and del :: "'s \<Rightarrow> string \<Rightarrow> string \<Rightarrow> store_error + 's"
  assumes get_ok: "get s i r = Inr x \<Longrightarrow> x = find (\<lambda>m. mid m = i \<and> rcpt m = r) (rows s)"
    and list_ok: "listing s r = Inr ms \<Longrightarrow> mset ms = mset (filter (\<lambda>m. rcpt m = r) (rows s))"
    and put_ok: "put s m = Inr s' \<Longrightarrow> rows s' = rows s @ [m] \<and> mid m \<notin> mid ` set (rows s)"
    and del_ok: "del s i r = Inr s' \<Longrightarrow> rows s' = filter (\<lambda>m. \<not> (mid m = i \<and> rcpt m = r)) (rows s)"
begin

lemma put_unique: "put s m = Inr s' \<Longrightarrow> distinct (map mid (rows s)) \<Longrightarrow> distinct (map mid (rows s'))"
  using put_ok by fastforce

lemma del_unique: "del s i r = Inr s' \<Longrightarrow> distinct (map mid (rows s)) \<Longrightarrow> distinct (map mid (rows s'))"
  by (simp add: del_ok distinct_map_filter)

lemma get_after_put:
  assumes "put s m = Inr s'" and "get s' i r = Inr x" and "i = mid m" and "r = rcpt m"
  shows "x = Some m"
proof -
  have "rows s' = rows s @ [m]" "mid m \<notin> mid ` set (rows s)" using put_ok assms(1) by auto
  moreover have "find (\<lambda>v. mid v = mid m \<and> rcpt v = rcpt m) (xs @ [m]) = Some m"
    if "mid m \<notin> mid ` set xs" for xs
    using that by (induction xs) auto
  ultimately show ?thesis using get_ok [OF assms(2)] assms(3,4) by simp
qed

lemma get_after_del: "del s i r = Inr s' \<Longrightarrow> get s' i r = Inr x \<Longrightarrow> x = None"
  using get_ok del_ok by (fastforce simp: find_None_iff)

lemma get_scoped: "get s i r = Inr (Some m) \<Longrightarrow> m \<in> set (rows s) \<and> mid m = i \<and> rcpt m = r"
  using get_ok [of s i r "Some m"] by (fastforce simp: find_Some_iff eq_commute [of "Some m"])

lemma list_scoped: "listing s r = Inr ms \<Longrightarrow> set ms = {m \<in> set (rows s). rcpt m = r}"
  using list_ok [THEN mset_eq_setD] by simp

lemma del_isolated:
  "del s i r = Inr s' \<Longrightarrow> r' \<noteq> r \<Longrightarrow>
   filter (\<lambda>m. rcpt m = r') (rows s') = filter (\<lambda>m. rcpt m = r') (rows s)"
  using del_ok by (auto intro!: filter_cong)

end

definition put_voicemail :: "store \<Rightarrow> Voicemail \<Rightarrow> store_error + store" where
  "put_voicemail s v =
     (if \<not> db_up s then Inl DbFault
      else if VmID v \<in> VmID ` set (voicemail s) then Inl ErrUnique
      else Inr (s\<lparr>voicemail := voicemail s @ [v]\<rparr>))"

definition put_dm :: "store \<Rightarrow> DMMessage \<Rightarrow> store_error + store" where
  "put_dm s m =
     (if \<not> db_up s then Inl DbFault
      else if DmID m \<in> DmID ` set (dm_outbox s) then Inl ErrUnique
      else Inr (s\<lparr>dm_outbox := dm_outbox s @ [m]\<rparr>))"

interpretation vm_box: mailbox voicemail VmID RecipientNumber GetVoicemail ListVoicemails
  put_voicemail DeleteVoicemail
  by unfold_locales
    (auto simp: GetVoicemail_def ListVoicemails_def put_voicemail_def DeleteVoicemail_def split: if_splits)

interpretation dm_box: mailbox dm_outbox DmID DmRecipient GetDM ListPendingDM put_dm DeleteDM
  by unfold_locales
    (auto simp: GetDM_def ListPendingDM_def put_dm_def DeleteDM_def split: if_splits)

lemma StoreVoicemail_put:
  "StoreVoicemail uid s now r cn cname audio fmt d =
     (case put_voicemail s \<lparr>VmID = uid, CallerNumber = cn, CallerName = cname, RecipientNumber = r,
         EncryptedAudio = audio, Format = fmt, DurationSeconds = d, Listened = False,
         VmCreatedAt = unix_secs now\<rparr> of Inl e \<Rightarrow> Inl e | Inr s' \<Rightarrow> Inr (uid, s'))"
  by (simp add: StoreVoicemail_def put_voicemail_def)

lemma StoreDMPreassigned_put:
  "StoreDMPreassigned s now i r env =
     put_dm s \<lparr>DmID = i, DmRecipient = r, DmEnvelope = env, DmCreatedAt = unix_secs now\<rparr>"
  by (simp add: StoreDMPreassigned_def put_dm_def)

section \<open>The queue of a recipient\<close>

text \<open>The history of the message queue: deliveries, acknowledgements and pruning.\<close>

inductive dm_step :: "store \<Rightarrow> store \<Rightarrow> bool" where
  dm_store: "StoreDMPreassigned s now i r env = Inr s' \<Longrightarrow> dm_step s s'"
| dm_ack: "DeleteDM s i r = Inr s' \<Longrightarrow> dm_step s s'"
| dm_prune: "PruneDM s t = Inr (n, s') \<Longrightarrow> dm_step s s'"
| dm_db: "dm_step s (s\<lparr>db_up := b\<rparr>)"

definition dm_wf :: "store \<Rightarrow> bool" where
  "dm_wf s \<longleftrightarrow> distinct (map DmID (dm_outbox s))"

lemma PruneDM_rows:
  "PruneDM s t = Inr (n, s') \<Longrightarrow> dm_outbox s' = filter (\<lambda>m. unix_secs t \<le> DmCreatedAt m) (dm_outbox s)"
  by (auto simp: PruneDM_def Let_def not_less split: if_splits)

interpretation dmq: invariant_system "\<lambda>s. s = empty_store" dm_step dm_wf
proof
  show "s = empty_store \<Longrightarrow> dm_wf s" for s by (simp add: empty_store_def dm_wf_def)
  show "dm_wf s \<Longrightarrow> dm_step s s' \<Longrightarrow> dm_wf s'" for s s'
    by (erule dm_step.cases)
      (auto simp: dm_wf_def StoreDMPreassigned_put PruneDM_rows distinct_map_filter
        intro: dm_box.put_unique dm_box.del_unique)
qed

text \<open>The steps of a history that can remove message \<open>i\<close> of recipient \<open>r\<close>.\<close>

definition removes :: "string \<Rightarrow> string \<Rightarrow> int \<Rightarrow> store \<Rightarrow> store \<Rightarrow> bool" where
  "removes i r created s s' \<longleftrightarrow>
     DeleteDM s i r = Inr s' \<or> (\<exists>t n. PruneDM s t = Inr (n, s') \<and> created < unix_secs t)"

inductive dm_quiet :: "string \<Rightarrow> string \<Rightarrow> int \<Rightarrow> store \<Rightarrow> store \<Rightarrow> bool" for i r created where
  quiet_refl: "dm_quiet i r created s s"
| quiet_step: "dm_quiet i r created s s' \<Longrightarrow> dm_step s' s'' \<Longrightarrow> \<not> removes i r created s' s'' \<Longrightarrow>
    dm_quiet i r created s s''"

lemma quiet_keeps_step:
  assumes "dm_step s s'" and "\<not> removes (DmID m) (DmRecipient m) (DmCreatedAt m) s s'"
    and "m \<in> set (dm_outbox s)" and "dm_wf s"
  shows "m \<in> set (dm_outbox s')"
  using assms
proof (induction rule: dm_step.cases)
  case (dm_store s now i r env s')
  then show ?case using dm_box.put_ok by (fastforce simp: StoreDMPreassigned_put)
next
  case (dm_ack s i r s')
  then show ?case using dm_box.del_ok [of s i r s'] by (auto simp: removes_def)
next
  case (dm_prune s t n s')
  then show ?case using PruneDM_rows [of s t n s'] by (auto simp: removes_def not_less)
next
  case (dm_db s b)
  then show ?case by simp
qed

lemma quiet_keeps:
  assumes "dm_quiet (DmID m) (DmRecipient m) (DmCreatedAt m) s s'" and "m \<in> set (dm_outbox s)" and "dm_wf s"
  shows "m \<in> set (dm_outbox s') \<and> dm_wf s'"
  using assms by (induction rule: dm_quiet.induct) (use quiet_keeps_step dmq.step_inv in blast)+

section \<open>Sample mailboxes\<close>

definition sample_vm :: "string \<Rightarrow> string \<Rightarrow> Voicemail" where
  "sample_vm vid r = \<lparr>VmID = vid, CallerNumber = ''4409522575'', CallerName = ''Ann'', RecipientNumber = r,
     EncryptedAudio = [1, 2], Format = ''opus'', DurationSeconds = 3, Listened = False, VmCreatedAt = 7\<rparr>"

definition sample_box :: store where
  "sample_box = empty_store\<lparr>voicemail := [sample_vm ''v1'' ''5551234'', sample_vm ''v2'' ''5550000'']\<rparr>"

definition sample_queue :: store where
  "sample_queue = empty_store\<lparr>dm_outbox := [\<lparr>DmID = ''m1'', DmRecipient = ''5551234'',
     DmEnvelope = [9], DmCreatedAt = 1\<rparr>]\<rparr>"

lemma sample_queue_store: "StoreDMPreassigned empty_store (secs 1) ''m1'' ''5551234'' [9] = Inr sample_queue"
  by (simp add: StoreDMPreassigned_def sample_queue_def empty_store_def unix_secs_def secs_def)

lemma sample_queue_quiet: "dm_quiet ''m1'' ''5551234'' (unix_secs (secs 1)) sample_queue sample_queue"
proof (rule quiet_step [OF quiet_refl])
  show "dm_step sample_queue sample_queue"
    by (rule dm_prune [of _ "secs 1" 0])
      (simp add: PruneDM_def sample_queue_def empty_store_def unix_secs_def secs_def)
  show "\<not> removes ''m1'' ''5551234'' (unix_secs (secs 1)) sample_queue sample_queue"
    by (auto simp: removes_def PruneDM_def DeleteDM_def sample_queue_def empty_store_def unix_secs_def secs_def)
qed

section \<open>Properties\<close>

text \<open>
  C26. Mailboxes are isolated: what a recipient reads (one message, the list, the list of headers)
  is addressed to that recipient, and marking or deleting through one mailbox leaves the messages
  of every other recipient exactly as they were.
\<close>

theorem voicemail_isolated:
  "(GetVoicemail s vid r = Inr (Some v) \<longrightarrow> v \<in> set (voicemail s) \<and> RecipientNumber v = r) \<and>
   (ListVoicemails s r = Inr vs \<longrightarrow> set vs = {v \<in> set (voicemail s). RecipientNumber v = r}) \<and>
   (ListVoicemailMeta s r = Inr ms \<longrightarrow> set ms = vm_meta ` {v \<in> set (voicemail s). RecipientNumber v = r}) \<and>
   (MarkListened s vid r = Inr s' \<or> DeleteVoicemail s vid r = Inr s' \<longrightarrow> r' \<noteq> r \<longrightarrow>
      filter (\<lambda>v. RecipientNumber v = r') (voicemail s') = filter (\<lambda>v. RecipientNumber v = r') (voicemail s))"
proof -
  have mark: "filter (\<lambda>v. RecipientNumber v = r')
        (map (\<lambda>v. if VmID v = vid \<and> RecipientNumber v = r then v\<lparr>Listened := True\<rparr> else v) vs)
      = filter (\<lambda>v. RecipientNumber v = r') vs" if "r' \<noteq> r" for vs
    using that by (induction vs) auto
  have "MarkListened s vid r = Inr s' \<Longrightarrow> r' \<noteq> r \<Longrightarrow>
      filter (\<lambda>v. RecipientNumber v = r') (voicemail s') = filter (\<lambda>v. RecipientNumber v = r') (voicemail s)"
    using mark by (auto simp: MarkListened_def split: if_splits)
  then show ?thesis
    using vm_box.get_scoped vm_box.list_scoped [of s r vs] vm_box.del_isolated [of s vid r s' r']
    by (auto simp: ListVoicemailMeta_def split: if_splits)
qed

theorem voicemail_isolated_witness:
  "\<exists>s'. DeleteVoicemail sample_box ''v1'' ''5551234'' = Inr s' \<and> voicemail s' = [sample_vm ''v2'' ''5550000''] \<and>
     filter (\<lambda>v. RecipientNumber v = ''5550000'') (voicemail s') =
     filter (\<lambda>v. RecipientNumber v = ''5550000'') (voicemail sample_box)"
proof -
  let ?s = "empty_store\<lparr>voicemail := [sample_vm ''v2'' ''5550000'']\<rparr>"
  have d: "DeleteVoicemail sample_box ''v1'' ''5551234'' = Inr ?s"
    by (simp add: DeleteVoicemail_def sample_box_def sample_vm_def empty_store_def)
  show ?thesis
    using voicemail_isolated [of sample_box "''v1''" "''5551234''" undefined undefined undefined ?s "''5550000''"] d
    by (intro exI [of _ ?s]) simp
qed

text \<open>
  C25. Queued messages are not lost: a message accepted for a recipient is returned by \<open>GetDM\<close> and
  by \<open>ListPendingDM\<close> after any further history of the queue in which that recipient has not
  acknowledged it and no pruning pass with a later cut-off has run, and a second message with the
  same identifier is refused in the meantime.
\<close>

theorem dm_kept_until_acked:
  assumes "dm_wf s" and "StoreDMPreassigned s now i r env = Inr s'"
    and "dm_quiet i r (unix_secs now) s' s''" and "db_up s''"
  shows "GetDM s'' i r = Inr (Some \<lparr>DmID = i, DmRecipient = r, DmEnvelope = env, DmCreatedAt = unix_secs now\<rparr>) \<and>
         (\<exists>ms. ListPendingDM s'' r = Inr ms \<and>
            \<lparr>DmID = i, DmRecipient = r, DmEnvelope = env, DmCreatedAt = unix_secs now\<rparr> \<in> set ms) \<and>
         StoreDMPreassigned s'' now' i r' env' = Inl ErrUnique"
proof -
  let ?m = "\<lparr>DmID = i, DmRecipient = r, DmEnvelope = env, DmCreatedAt = unix_secs now\<rparr>"
  have p: "put_dm s ?m = Inr s'" using assms(2) by (simp add: StoreDMPreassigned_put)
  have "?m \<in> set (dm_outbox s')" "dm_wf s'"
    using dm_box.put_ok [OF p] dm_box.put_unique [OF p] assms(1) by (auto simp: dm_wf_def)
  with quiet_keeps [of ?m s' s''] assms(3) have in'': "?m \<in> set (dm_outbox s'')" and wf: "dm_wf s''" by auto
  have "find (\<lambda>m. DmID m = i \<and> DmRecipient m = r) (dm_outbox s'') = Some ?m"
    using wf by (intro find_unique [OF in'', of DmID]) (auto simp: dm_wf_def)
  then show ?thesis
    using in'' assms(4) by (force simp: GetDM_def ListPendingDM_def StoreDMPreassigned_def)
qed

theorem dm_kept_until_acked_witness:
  "GetDM sample_queue ''m1'' ''5551234'' =
     Inr (Some \<lparr>DmID = ''m1'', DmRecipient = ''5551234'', DmEnvelope = [9], DmCreatedAt = unix_secs (secs 1)\<rparr>) \<and>
   StoreDMPreassigned sample_queue (secs 2) ''m1'' ''5550000'' [] = Inl ErrUnique"
  using dm_kept_until_acked [OF _ sample_queue_store sample_queue_quiet, of "secs 2" "''5550000''" "[]"]
  by (simp add: dm_wf_def empty_store_def sample_queue_def)

end
