(* ===== verification/Go_Crypto.thy ===== *)
theory Go_Crypto
  imports OCN_Prelude
begin

text \<open>
  The parts of Go's standard library that the exchange computes with: \<open>crypto/sha256\<close>,
  \<open>crypto/hmac\<close> over it, the verb \<open>%x\<close> of \<open>fmt\<close>, and the two alphabets of
  \<open>encoding/base64\<close> (with and without padding). They are given by their public definitions
  (FIPS 180-4, RFC 2104, RFC 4648), so that keys, token hashes and encoded secrets are computed
  rather than assumed. The lemmas give the lengths of the digests, and that base64 decoding
  inverts encoding.
\<close>

section \<open>SHA-256\<close>

text \<open>The round constants: the first 32 bits of the fractional parts of the cube roots of the first 64 primes.\<close>

definition sha_K :: "32 word list" where
  "sha_K = [
    1116352408, 1899447441, 3049323471, 3921009573, 961987163, 1508970993, 2453635748, 2870763221,
    3624381080, 310598401, 607225278, 1426881987, 1925078388, 2162078206, 2614888103, 3248222580,
    3835390401, 4022224774, 264347078, 604807628, 770255983, 1249150122, 1555081692, 1996064986,
    2554220882, 2821834349, 2952996808, 3210313671, 3336571891, 3584528711, 113926993, 338241895,
    666307205, 773529912, 1294757372, 1396182291, 1695183700, 1986661051, 2177026350, 2456956037,
    2730485921, 2820302411, 3259730800, 3345764771, 3516065817, 3600352804, 4094571909, 275423344,
    430227734, 506948616, 659060556, 883997877, 958139571, 1322822218, 1537002063, 1747873779,
    1955562222, 2024104815, 2227730452, 2361852424, 2428436474, 2756734187, 3204031479, 3329325298]"

definition sha_H0 :: "32 word list" where
  "sha_H0 = [1779033703, 3144134277, 1013904242, 2773480762, 1359893119, 2600822924, 528734635, 1541459225]"

definition be_word :: "bytes \<Rightarrow> 32 word" where
  "be_word bs = fold (\<lambda>b w. push_bit 8 w OR ucast b) bs 0"

definition be_bytes :: "nat \<Rightarrow> nat \<Rightarrow> bytes" where
  "be_bytes k x = rev (le_bytes k x)"

fun chunks :: "nat \<Rightarrow> nat \<Rightarrow> 'a list \<Rightarrow> 'a list list" where
  "chunks k 0 xs = []"
| "chunks k (Suc n) xs = take k xs # chunks k n (drop k xs)"

definition sha_pad :: "bytes \<Rightarrow> bytes" where
  "sha_pad m =
     (let z = (119 - length m mod 64) mod 64 in
      m @ [0x80] @ replicate z 0 @ be_bytes 8 (8 * length m))"

fun sha_schedule :: "nat \<Rightarrow> 32 word list \<Rightarrow> 32 word list" where
  "sha_schedule 0 w = w"
| "sha_schedule (Suc n) w =
     (let t = length w;
          w15 = w ! (t - 15); w2 = w ! (t - 2);
          s0 = word_rotr 7 w15 XOR word_rotr 18 w15 XOR drop_bit 3 w15;
          s1 = word_rotr 17 w2 XOR word_rotr 19 w2 XOR drop_bit 10 w2
      in sha_schedule n (w @ [w ! (t - 16) + s0 + w ! (t - 7) + s1]))"

type_synonym sha_state = "32 word \<times> 32 word \<times> 32 word \<times> 32 word \<times> 32 word \<times> 32 word \<times> 32 word \<times> 32 word"

definition sha_round :: "32 word \<times> 32 word \<Rightarrow> sha_state \<Rightarrow> sha_state" where
  "sha_round kw st =
     (case st of (a, b, c, d, e, f, g, h) \<Rightarrow>
      let S1 = word_rotr 6 e XOR word_rotr 11 e XOR word_rotr 25 e;
          ch = (e AND f) XOR (NOT e AND g);
          t1 = h + S1 + ch + fst kw + snd kw;
          S0 = word_rotr 2 a XOR word_rotr 13 a XOR word_rotr 22 a;
          maj = (a AND b) XOR (a AND c) XOR (b AND c);
          t2 = S0 + maj
      in (t1 + t2, a, b, c, d + t1, e, f, g))"

definition sha_block :: "bytes \<Rightarrow> sha_state \<Rightarrow> sha_state" where
  "sha_block blk st =
     (let w = sha_schedule 48 (map be_word (chunks 4 16 blk)) in
      case st of (a0, b0, c0, d0, e0, f0, g0, h0) \<Rightarrow>
      case fold sha_round (zip sha_K w) st of (a, b, c, d, e, f, g, h) \<Rightarrow>
        (a0 + a, b0 + b, c0 + c, d0 + d, e0 + e, f0 + f, g0 + g, h0 + h))"

definition Sum256 :: "bytes \<Rightarrow> bytes" where
  "Sum256 m =
     (let p = sha_pad m;
          init = (sha_H0 ! 0, sha_H0 ! 1, sha_H0 ! 2, sha_H0 ! 3,
                  sha_H0 ! 4, sha_H0 ! 5, sha_H0 ! 6, sha_H0 ! 7)
      in case fold sha_block (chunks 64 (length p div 64) p) init of
           (a, b, c, d, e, f, g, h) \<Rightarrow>
             concat (map (\<lambda>w. be_bytes 4 (unat w)) [a, b, c, d, e, f, g, h]))"

section \<open>HMAC-SHA256\<close>

definition hmac_key :: "bytes \<Rightarrow> bytes" where
  "hmac_key k = (let k' = (if length k > 64 then Sum256 k else k) in k' @ replicate (64 - length k') 0)"

definition hmac_sha256 :: "bytes \<Rightarrow> bytes \<Rightarrow> bytes" where
  "hmac_sha256 k m =
     Sum256 (map (\<lambda>b. b XOR 0x5c) (hmac_key k) @ Sum256 (map (\<lambda>b. b XOR 0x36) (hmac_key k) @ m))"

section \<open>Hexadecimal\<close>

definition hex_digit :: "nat \<Rightarrow> char" where
  "hex_digit n = (if n < 10 then char_of (48 + n) else char_of (87 + n))"

definition hex :: "bytes \<Rightarrow> string" where
  "hex bs = concat (map (\<lambda>b. [hex_digit (unat b div 16), hex_digit (unat b mod 16)]) bs)"

section \<open>Base64\<close>

definition b64_char :: "bool \<Rightarrow> nat \<Rightarrow> char" where
  "b64_char url n =
     (if n < 26 then char_of (65 + n)
      else if n < 52 then char_of (71 + n)
      else if n < 62 then char_of (n - 4)
      else if n = 62 then (if url then CHR ''-'' else CHR ''+'')
      else (if url then CHR ''_'' else CHR ''/''))"

definition b64_val :: "bool \<Rightarrow> char \<Rightarrow> nat option" where
  "b64_val url ch =
     (let c = (of_char ch :: nat) in
      if 65 \<le> c \<and> c \<le> 90 then Some (c - 65)
      else if 97 \<le> c \<and> c \<le> 122 then Some (c - 71)
      else if 48 \<le> c \<and> c \<le> 57 then Some (c + 4)
      else if ch = (if url then CHR ''-'' else CHR ''+'') then Some 62
      else if ch = (if url then CHR ''_'' else CHR ''/'') then Some 63
      else None)"

fun b64_encode :: "bool \<Rightarrow> bool \<Rightarrow> bytes \<Rightarrow> string" where
  "b64_encode url padded [] = []"
| "b64_encode url padded [a] =
     (let n = unat a * 16 in
      [b64_char url (n div 64), b64_char url (n mod 64)] @ (if padded then ''=='' else []))"
| "b64_encode url padded [a, b] =
     (let n = (unat a * 256 + unat b) * 4 in
      [b64_char url (n div 4096), b64_char url (n div 64 mod 64), b64_char url (n mod 64)] @
      (if padded then ''='' else []))"
| "b64_encode url padded (a # b # c # rest) =
     (let n = unat a * 65536 + unat b * 256 + unat c in
      [b64_char url (n div 262144), b64_char url (n div 4096 mod 64),
       b64_char url (n div 64 mod 64), b64_char url (n mod 64)] @
      b64_encode url padded rest)"

definition b64_3 :: "nat \<Rightarrow> nat \<Rightarrow> nat \<Rightarrow> nat \<Rightarrow> bytes" where
  "b64_3 p q r s =
     (let n = p * 262144 + q * 4096 + r * 64 + s in
      [word_of_nat (n div 65536), word_of_nat (n div 256), word_of_nat n])"

fun b64_quads :: "bool \<Rightarrow> bool \<Rightarrow> string \<Rightarrow> bytes option" where
  "b64_quads url padded [] = Some []"
| "b64_quads url padded [c1, c2] =
     (if padded then None
      else case (b64_val url c1, b64_val url c2) of
             (Some p, Some q) \<Rightarrow> Some (take 1 (b64_3 p q 0 0))
           | _ \<Rightarrow> None)"
| "b64_quads url padded [c1, c2, c3] =
     (if padded then None
      else case (b64_val url c1, b64_val url c2, b64_val url c3) of
             (Some p, Some q, Some r) \<Rightarrow> Some (take 2 (b64_3 p q r 0))
           | _ \<Rightarrow> None)"
| "b64_quads url padded (c1 # c2 # c3 # c4 # rest) =
     (case (b64_val url c1, b64_val url c2, b64_val url c3, b64_val url c4) of
        (Some p, Some q, Some r, Some s) \<Rightarrow>
          (case b64_quads url padded rest of None \<Rightarrow> None | Some bs \<Rightarrow> Some (b64_3 p q r s @ bs))
      | (Some p, Some q, Some r, None) \<Rightarrow>
          if padded \<and> c4 = CHR ''='' \<and> rest = [] then Some (take 2 (b64_3 p q r 0)) else None
      | (Some p, Some q, None, _) \<Rightarrow>
          if padded \<and> c3 = CHR ''='' \<and> c4 = CHR ''='' \<and> rest = [] then Some (take 1 (b64_3 p q 0 0)) else None
      | _ \<Rightarrow> None)"
| "b64_quads url padded [c1] = None"

text \<open>The decoder skips line breaks.\<close>

definition b64_decode :: "bool \<Rightarrow> bool \<Rightarrow> string \<Rightarrow> bytes option" where
  "b64_decode url padded s =
     b64_quads url padded (filter (\<lambda>c. c \<noteq> CHR 0x0A \<and> c \<noteq> CHR 0x0D) s)"

abbreviation StdEncode :: "bytes \<Rightarrow> string" where "StdEncode \<equiv> b64_encode False True"
abbreviation StdDecode :: "string \<Rightarrow> bytes option" where "StdDecode \<equiv> b64_decode False True"
abbreviation RawURLEncode :: "bytes \<Rightarrow> string" where "RawURLEncode \<equiv> b64_encode True False"
abbreviation RawURLDecode :: "string \<Rightarrow> bytes option" where "RawURLDecode \<equiv> b64_decode True False"

section \<open>Lemmas\<close>

lemma length_be_bytes [simp]: "length (be_bytes k x) = k"
  by (simp add: be_bytes_def)

lemma length_Sum256 [simp]: "length (Sum256 m) = 32"
  by (simp add: Sum256_def Let_def split: prod.splits)

lemma length_hmac [simp]: "length (hmac_sha256 k m) = 32"
  by (simp add: hmac_sha256_def)

lemma length_hex [simp]: "length (hex bs) = 2 * length bs"
  by (induction bs) (auto simp: hex_def)

lemma b64_val_char: "n < 64 \<Longrightarrow> b64_val url (b64_char url n) = Some n"
  by (auto simp: b64_val_def b64_char_def Let_def)

lemma b64_val_pad: "b64_val url (CHR ''='') = None"
  by (auto simp: b64_val_def)

lemma radix64_join:
  fixes n :: nat
  shows "n div 262144 * 262144 + n div 4096 mod 64 * 4096 + n div 64 mod 64 * 64 + n mod 64 = n"
proof -
  have j: "n = q1 * 64 + r0 \<Longrightarrow> q1 = q2 * 64 + r1 \<Longrightarrow> q2 = q3 * 64 + r2 \<Longrightarrow>
      q3 * 262144 + r2 * 4096 + r1 * 64 + r0 = n" for q1 q2 q3 r0 r1 r2 :: nat by simp
  have d: "n div 4096 = n div 64 div 64" "n div 262144 = n div 64 div 64 div 64"
    using div_mult2_eq [of n 64 64] div_mult2_eq [of n 4096 64] by simp_all
  show ?thesis unfolding d by (rule j) (rule div_mult_mod_eq [symmetric])+
qed

lemma unat_byte_lt: "unat (b :: byte) < 256"
proof -
  have "unat b < 2 ^ LENGTH(8)" by (rule unsigned_less)
  then show ?thesis by simp
qed

lemma word8_of_nat_shift: "(word_of_nat (256 * k + unat b) :: byte) = b"
proof -
  have "unat (word_of_nat (256 * k + unat b) :: byte) = (256 * k + unat b) mod 256"
    by (simp only: unat_of_nat) simp
  also have "\<dots> = unat b" using unat_byte_lt [of b] by simp
  finally show ?thesis by (simp only: word_unat_eq_iff)
qed

lemma b64_3_join:
  assumes "n = unat a * 65536 + unat b * 256 + unat c"
  shows "b64_3 (n div 262144) (n div 4096 mod 64) (n div 64 mod 64) (n mod 64) = [a, b, c]"
proof -
  have lt: "unat a < 256" "unat b < 256" "unat c < 256" by (rule unat_byte_lt)+
  have d: "n div 65536 = unat a" "n div 256 = 256 * unat a + unat b" "n = 256 * (256 * unat a + unat b) + unat c"
    using lt assms by simp_all
  have "[word_of_nat (n div 65536), word_of_nat (n div 256), word_of_nat n] = [a, b, c]"
    unfolding d(1,2) by (subst d(3)) (simp only: word8_of_nat_shift, simp)
  then show ?thesis unfolding b64_3_def radix64_join Let_def .
qed

lemma b64_char_no_break: "n < 64 \<Longrightarrow> b64_char url n \<noteq> CHR 0x0A \<and> b64_char url n \<noteq> CHR 0x0D"
proof -
  assume "n < 64"
  moreover have "b64_val url (CHR 0x0A) = None" "b64_val url (CHR 0x0D) = None"
    by (auto simp: b64_val_def)
  ultimately show ?thesis by (metis b64_val_char option.distinct(1))
qed

lemma byte_groups:
  "unat (a :: byte) * 16 div 64 < 64"
  "(unat a * 256 + unat (b :: byte)) * 4 div 4096 < 64"
  "(unat a * 65536 + unat b * 256 + unat (c :: byte)) div 262144 < 64"
  using unat_byte_lt [of a] unat_byte_lt [of b] unat_byte_lt [of c] by simp_all

lemma b64_encode_no_break:
  "filter (\<lambda>c. c \<noteq> CHR 0x0A \<and> c \<noteq> CHR 0x0D) (b64_encode url padded bs) = b64_encode url padded bs"
proof (induction url padded bs rule: b64_encode.induct)
  case (4 url padded a b c rest)
  then show ?case using b64_char_no_break [of _ url] byte_groups by (simp add: Let_def)
qed (use b64_char_no_break byte_groups in \<open>simp_all add: Let_def\<close>)

lemma b64_quads_encode: "b64_quads url padded (b64_encode url padded bs) = Some bs"
proof (induction url padded bs rule: b64_encode.induct)
  case (2 url padded a)
  then show ?case using byte_groups(1) [of a] b64_3_join [of "unat a * 65536" a 0 0]
    by (auto simp: Let_def b64_val_char b64_val_pad ac_simps)
next
  case (3 url padded a b)
  let ?m = "(unat a * 256 + unat b) * 4"
  have "?m * 64 div 262144 = ?m div 4096" "?m * 64 div 4096 = ?m div 64"
    using div_mult_mult2 [of 64 ?m 4096] div_mult_mult2 [of 64 ?m 64] by simp_all
  then have "b64_3 (?m div 4096) (?m div 64 mod 64) (?m mod 64) 0 = [a, b, 0]"
    using b64_3_join [of "?m * 64" a b 0] by (simp add: mult.commute)
  then show ?case using byte_groups(2) [of a b]
    by (simp add: Let_def b64_val_char b64_val_pad del: div_mult_self1_is_m)
next
  case (4 url padded a b c rest)
  then show ?case using byte_groups(3) [of a b c] b64_3_join [OF refl, of a b c]
    by (simp add: Let_def b64_val_char)
qed simp

lemma b64_roundtrip: "b64_decode url padded (b64_encode url padded bs) = Some bs"
  by (simp add: b64_decode_def b64_encode_no_break b64_quads_encode)

end
