(* ===== verification/Session_Spec.thy ===== *)
theory Session_Spec
  imports OCN_Prelude
begin

text \<open>
  The contract of the opaque panel sessions. Both the exchange and the registry server keep a
  table of hashed bearer tokens with an expiry time; the two panels rely on the laws below, which
  are discharged for each of the two stores where it is defined.
\<close>

locale session_store =
  fixes create :: "'s \<Rightarrow> gotime \<Rightarrow> bytes \<Rightarrow> string \<Rightarrow> 'e + (string \<times> 's)"
    and lookup :: "'s \<Rightarrow> gotime \<Rightarrow> string \<Rightarrow> ('e + string) \<times> 's"
    and revoke :: "'s \<Rightarrow> string \<Rightarrow> 'e + 's"
    and same :: "string \<Rightarrow> string \<Rightarrow> bool"
    and ttl :: gotime
    and wf :: "'s \<Rightarrow> bool"
  assumes create_lookup: "wf s \<Longrightarrow> create s now raw u = Inr (tok, s') \<Longrightarrow>
      fst (lookup s' now' tok) = Inr u \<longleftrightarrow> unix_secs now' \<le> unix_secs (now + ttl)"
    and create_wf: "wf s \<Longrightarrow> create s now raw u = Inr (tok, s') \<Longrightarrow> wf s'"
    and create_other: "wf s \<Longrightarrow> create s now raw u = Inr (tok, s') \<Longrightarrow> \<not> same t tok \<Longrightarrow>
      fst (lookup s' now' t) = fst (lookup s now' t)"
    and lookup_wf: "wf s \<Longrightarrow> wf (snd (lookup s now t))"
    and lookup_idem: "wf s \<Longrightarrow> fst (lookup s now t) = Inr u \<Longrightarrow> snd (lookup s now t) = s"
    and lookup_rejects: "wf s \<Longrightarrow> fst (lookup s now t) = Inl e \<Longrightarrow>
      fst (lookup s now' t) = Inr u \<Longrightarrow> fst (lookup (snd (lookup s now t)) now'' t) \<noteq> Inr v"
    and revoke_ends: "wf s \<Longrightarrow> revoke s t = Inr s' \<Longrightarrow> fst (lookup s' now t) \<noteq> Inr u"
    and revoke_wf: "wf s \<Longrightarrow> revoke s t = Inr s' \<Longrightarrow> wf s'"
    and revoke_other: "wf s \<Longrightarrow> revoke s tok = Inr s' \<Longrightarrow> \<not> same t tok \<Longrightarrow>
      fst (lookup s' now t) = fst (lookup s now t)"
begin

lemma fresh_session_usable:
  assumes "wf s" and "create s now raw u = Inr (tok, s')" and "now \<le> now'" and "now' \<le> now + ttl"
  shows "lookup s' now' tok = (Inr u, s')"
proof -
  have "unix_secs now' \<le> unix_secs (now + ttl)"
    using assms(4) by (simp add: unix_secs_def zdiv_mono1)
  then have "fst (lookup s' now' tok) = Inr u" using create_lookup assms(1,2) by blast
  moreover have "wf s'" using create_wf assms(1,2) by blast
  ultimately show ?thesis using lookup_idem by (metis prod.collapse)
qed

text \<open>A session that was once refused as expired stays refused, even if the clock is set back.\<close>

lemma expired_session_gone:
  assumes "wf s" and "create s now raw u = Inr (tok, s')" and "unix_secs (now + ttl) < unix_secs now'"
    and "fst (lookup s' now' tok) = Inl e"
  shows "fst (lookup (snd (lookup s' now' tok)) now'' tok) \<noteq> Inr v"
proof -
  have "fst (lookup s' now tok) = Inr u \<or> unix_secs (now + ttl) < unix_secs now"
    using create_lookup [OF assms(1,2)] by force
  moreover obtain t0 where "unix_secs t0 \<le> unix_secs (now + ttl)" by blast
  ultimately show ?thesis
    using create_lookup [OF assms(1,2)] lookup_rejects create_wf assms by (metis order_refl)
qed

text \<open>Logging out ends one session and no other.\<close>

lemma logout_exact:
  assumes "wf s" and "create s now raw u = Inr (tok, s1)" and "revoke s1 tok = Inr s2"
  shows "fst (lookup s2 now' tok) \<noteq> Inr v \<and> (\<not> same t tok \<longrightarrow> fst (lookup s2 now' t) = fst (lookup s now' t))"
  using assms create_wf revoke_ends revoke_other create_other by metis

end

text \<open>
  The way both stores meet the contract: the state records, for each bearer token, the user and the
  last second of the session (\<open>sess\<close>); the table is keyed by a hash, so tokens with the same hash
  are one session (\<open>same\<close>).
\<close>

locale session_table =
  fixes create :: "'s \<Rightarrow> gotime \<Rightarrow> bytes \<Rightarrow> string \<Rightarrow> 'e + (string \<times> 's)"
    and lookup :: "'s \<Rightarrow> gotime \<Rightarrow> string \<Rightarrow> ('e + string) \<times> 's"
    and revoke :: "'s \<Rightarrow> string \<Rightarrow> 'e + 's"
    and same :: "string \<Rightarrow> string \<Rightarrow> bool"
    and ttl :: gotime
    and sess :: "'s \<Rightarrow> string \<Rightarrow> (string \<times> int) option"
    and bad :: 'e
  assumes lookup_result: "fst (lookup s now t) =
      (case sess s t of None \<Rightarrow> Inl bad | Some (u, x) \<Rightarrow> if x < unix_secs now then Inl bad else Inr u)"
    and lookup_state: "snd (lookup s now t) = s \<or>
      fst (lookup s now t) = Inl bad \<and> sess (snd (lookup s now t)) t = None"
    and lookup_expires: "sess s t = Some (u, x) \<Longrightarrow> x < unix_secs now \<Longrightarrow> sess (snd (lookup s now t)) t = None"
    and create_sess: "create s now raw u = Inr (tok, s') \<Longrightarrow>
      sess s' t = (if same t tok then Some (u, unix_secs (now + ttl)) else sess s t)"
    and create_same: "create s now raw u = Inr (tok, s') \<Longrightarrow> same tok tok"
    and revoke_sess: "revoke s tok = Inr s' \<Longrightarrow> sess s' t = (if same t tok then None else sess s t)"
    and not_same: "\<not> same t t \<Longrightarrow> sess s t = None"

sublocale session_table \<subseteq> session_store create lookup revoke same ttl "\<lambda>_. True"
proof
  fix s now raw u tok s' now' t
  assume c: "create s now raw u = Inr (tok, s')"
  show "fst (lookup s' now' tok) = Inr u \<longleftrightarrow> unix_secs now' \<le> unix_secs (now + ttl)"
    using create_sess [OF c] create_same [OF c] by (auto simp: lookup_result)
  show "fst (lookup s' now' t) = fst (lookup s now' t)" if "\<not> same t tok"
    using create_sess [OF c] that by (auto simp: lookup_result)
next
  fix s now t u
  assume "fst (lookup s now t) = Inr u"
  then show "snd (lookup s now t) = s" using lookup_state [of s now t] by auto
next
  fix s now t e now' now'' u v
  assume "fst (lookup s now t) = Inl e" and "fst (lookup s now' t) = Inr u"
  then have "sess (snd (lookup s now t)) t = None"
    using lookup_expires [of s t _ _ now] by (auto simp: lookup_result split: option.splits if_splits)
  then show "fst (lookup (snd (lookup s now t)) now'' t) \<noteq> Inr v" by (simp add: lookup_result)
next
  fix s t s' now u
  assume "revoke s t = Inr s'"
  then show "fst (lookup s' now t) \<noteq> Inr u"
    using revoke_sess [of s t s' t] not_same [of t s'] by (auto simp: lookup_result split: if_splits)
next
  fix s tok s' t now
  assume "revoke s tok = Inr s'" "\<not> same t tok"
  then show "fst (lookup s' now t) = fst (lookup s now t)"
    using revoke_sess [of s tok s' t] by (simp add: lookup_result)
qed auto

end
