(* ===== verification/Store_Admin.thy ===== *)
theory Store_Admin
  imports Store_Lines Go_Crypto Session_Spec
begin

text \<open>
  The panel accounts and sessions of the exchange (\<open>ocnserver/internal/store/admin.go\<close>) and its
  key/value settings, with the federation settings stored in them (\<open>settings.go\<close>).

  The password hash of \<open>golang.org/x/crypto/bcrypt\<close> is a parameter: \<open>gen\<close> is
  \<open>GenerateFromPassword\<close> and \<open>cmp\<close> is the success of \<open>CompareHashAndPassword\<close>. Random bytes are
  an argument (\<open>None\<close> when the source fails). Token hashes are computed (\<open>HashToken\<close>).
\<close>

section \<open>Accounts\<close>

definition ensureDefaultAdmin :: "(string \<Rightarrow> string option) \<Rightarrow> store \<Rightarrow> gotime \<Rightarrow> store_error + store" where
  "ensureDefaultAdmin gen s now =
     (if \<not> db_up s then Inl DbFault
      else if 0 < length (admin_accounts s) then Inr s
      else case gen ''admin'' of
             None \<Rightarrow> Inl ErrHash
           | Some h \<Rightarrow> Inr (s\<lparr>admin_accounts := [\<lparr>Username = ''admin'', PasswordHash = h,
                 AaCreatedAt = unix_secs now, LastLogin = 0, MustChange = True\<rparr>]\<rparr>))"

text \<open>Opening the database: the migrations only create what is missing, and report a database that does not answer.\<close>

definition store_New :: "(string \<Rightarrow> string option) \<Rightarrow> gotime \<Rightarrow> store \<Rightarrow> store_error + store" where
  "store_New gen now s = (if \<not> db_up s then Inl DbFault else ensureDefaultAdmin gen s now)"

definition account :: "store \<Rightarrow> string \<Rightarrow> AdminAccount option" where
  "account s username = find (\<lambda>a. Username a = username) (admin_accounts s)"

definition update_account :: "store \<Rightarrow> string \<Rightarrow> (AdminAccount \<Rightarrow> AdminAccount) \<Rightarrow> store" where
  "update_account s username f =
     s\<lparr>admin_accounts := map (\<lambda>a. if Username a = username then f a else a) (admin_accounts s)\<rparr>"

definition VerifyAdminLogin ::
  "(string \<Rightarrow> string \<Rightarrow> bool) \<Rightarrow> store \<Rightarrow> gotime \<Rightarrow> string \<Rightarrow> string \<Rightarrow> store_error + (bool \<times> store)" where
  "VerifyAdminLogin cmp s now username password =
     (if \<not> db_up s then Inl ErrBadCredentials
      else case account s username of
             None \<Rightarrow> Inl ErrBadCredentials
           | Some a \<Rightarrow>
               if \<not> cmp (PasswordHash a) password then Inl ErrBadCredentials
               else Inr (MustChange a, update_account s username (\<lambda>a. a\<lparr>LastLogin := unix_secs now\<rparr>)))"

definition AdminMustChange :: "store \<Rightarrow> string \<Rightarrow> store_error + bool" where
  "AdminMustChange s username =
     (if \<not> db_up s then Inl DbFault
      else case account s username of None \<Rightarrow> Inl ErrNoRows | Some a \<Rightarrow> Inr (MustChange a))"

definition set_password :: "(string \<Rightarrow> string option) \<Rightarrow> store \<Rightarrow> string \<Rightarrow> string \<Rightarrow> store_error + store" where
  "set_password gen s username pw =
     (if length pw < 6 then Inl ErrShortPassword
      else case gen pw of
             None \<Rightarrow> Inl ErrHash
           | Some h \<Rightarrow>
               if \<not> db_up s then Inl DbFault
               else Inr (update_account s username (\<lambda>a. a\<lparr>PasswordHash := h, MustChange := False\<rparr>)))"

definition ChangeAdminPassword ::
  "(string \<Rightarrow> string option) \<Rightarrow> (string \<Rightarrow> string \<Rightarrow> bool) \<Rightarrow> store \<Rightarrow> string \<Rightarrow> string \<Rightarrow> string \<Rightarrow> store_error + store" where
  "ChangeAdminPassword gen cmp s username cur pw =
     (if \<not> db_up s then Inl ErrBadCredentials
      else case account s username of
             None \<Rightarrow> Inl ErrBadCredentials
           | Some a \<Rightarrow>
               if \<not> cmp (PasswordHash a) cur then Inl ErrBadCredentials
               else set_password gen s username pw)"

definition SetAdminPassword :: "(string \<Rightarrow> string option) \<Rightarrow> store \<Rightarrow> string \<Rightarrow> string \<Rightarrow> store_error + store" where
  "SetAdminPassword gen s username pw = set_password gen s username pw"

section \<open>Sessions\<close>

definition HashToken :: "string \<Rightarrow> string" where
  "HashToken v = hex (Sum256 (str_bytes v))"

definition sessionTTL :: gotime where
  "sessionTTL = secs (12 * 3600)"

definition CreateSession ::
  "store \<Rightarrow> gotime \<Rightarrow> bytes option \<Rightarrow> string \<Rightarrow> store_error + (string \<times> store)" where
  "CreateSession s now rand username =
     (case rand of
        None \<Rightarrow> Inl ErrRand
      | Some raw \<Rightarrow>
          let token = RawURLEncode raw; h = HashToken token in
          if \<not> db_up s then Inl DbFault
          else if h \<in> SessHash ` set (admin_sessions s) then Inl ErrUnique
          else Inr (token, s\<lparr>admin_sessions := admin_sessions s @
                 [\<lparr>SessHash = h, SessUser = username, SessCreated = unix_secs now,
                   SessExpires = unix_secs (now + sessionTTL)\<rparr>]\<rparr>))"

definition drop_session :: "store \<Rightarrow> string \<Rightarrow> store" where
  "drop_session s h = s\<lparr>admin_sessions := filter (\<lambda>r. SessHash r \<noteq> h) (admin_sessions s)\<rparr>"

definition SessionUsername :: "store \<Rightarrow> gotime \<Rightarrow> string \<Rightarrow> (store_error + string) \<times> store" where
  "SessionUsername s now token =
     (if token = [] then (Inl ErrBadCredentials, s)
      else if \<not> db_up s then (Inl ErrBadCredentials, s)
      else case find (\<lambda>r. SessHash r = HashToken token) (admin_sessions s) of
             None \<Rightarrow> (Inl ErrBadCredentials, s)
           | Some r \<Rightarrow>
               if unix_secs now > SessExpires r
               then (Inl ErrBadCredentials, drop_session s (HashToken token))
               else (Inr (SessUser r), s))"

definition DeleteSession :: "store \<Rightarrow> string \<Rightarrow> store_error + store" where
  "DeleteSession s token =
     (if token = [] then Inr s
      else if \<not> db_up s then Inl DbFault
      else Inr (drop_session s (HashToken token)))"

section \<open>Settings\<close>

definition SetSetting :: "store \<Rightarrow> string \<Rightarrow> string \<Rightarrow> store_error + store" where
  "SetSetting s key val =
     (if \<not> db_up s then Inl DbFault else Inr (s\<lparr>settings := aput key val (settings s)\<rparr>))"

definition GetSetting :: "store \<Rightarrow> string \<Rightarrow> store_error + string" where
  "GetSetting s key =
     (if \<not> db_up s then Inl DbFault
      else Inr (case map_of (settings s) key of None \<Rightarrow> [] | Some v \<Rightarrow> v))"

record FederationSettings =
  RegistryAddress :: string
  RegistryInsecure :: bool
  RequestedAreaCode :: string
  FederationPublicAddr :: string

definition keyRegistryAddress :: string where "keyRegistryAddress = ''registry_address''"
definition keyRegistryInsecure :: string where "keyRegistryInsecure = ''registry_insecure''"
definition keyRegistryAreaCode :: string where "keyRegistryAreaCode = ''registry_area_code''"
definition keyFedPublic :: string where "keyFedPublic = ''federation_public_address''"

definition GetFederationSettings :: "store \<Rightarrow> store_error + FederationSettings" where
  "GetFederationSettings s =
     (case GetSetting s keyRegistryAddress of Inl e \<Rightarrow> Inl e | Inr reg \<Rightarrow>
     (case GetSetting s keyRegistryInsecure of Inl e \<Rightarrow> Inl e | Inr insec \<Rightarrow>
     (case GetSetting s keyRegistryAreaCode of Inl e \<Rightarrow> Inl e | Inr area \<Rightarrow>
     (case GetSetting s keyFedPublic of Inl e \<Rightarrow> Inl e | Inr fed \<Rightarrow>
        Inr \<lparr>RegistryAddress = reg, RegistryInsecure = (insec = ''true''),
             RequestedAreaCode = area, FederationPublicAddr = fed\<rparr>))))"

definition FormatBool :: "bool \<Rightarrow> string" where
  "FormatBool b = (if b then ''true'' else ''false'')"

definition SaveFederationSettings :: "store \<Rightarrow> FederationSettings \<Rightarrow> store_error + store" where
  "SaveFederationSettings s fs =
     (case SetSetting s keyRegistryAddress (RegistryAddress fs) of Inl e \<Rightarrow> Inl e | Inr s \<Rightarrow>
     (case SetSetting s keyRegistryInsecure (FormatBool (RegistryInsecure fs)) of Inl e \<Rightarrow> Inl e | Inr s \<Rightarrow>
     (case SetSetting s keyRegistryAreaCode (RequestedAreaCode fs) of Inl e \<Rightarrow> Inl e | Inr s \<Rightarrow>
        SetSetting s keyFedPublic (FederationPublicAddr fs))))"

definition ClearFederationSettings :: "store \<Rightarrow> store_error + store" where
  "ClearFederationSettings s =
     (if \<not> db_up s then Inl DbFault
      else Inr (s\<lparr>settings := fold adel [keyRegistryAddress, keyRegistryInsecure, keyRegistryAreaCode, keyFedPublic]
                  (settings s)\<rparr>))"

section \<open>Lemmas\<close>

lemma length_HashToken [simp]: "length (HashToken v) = 64"
  by (simp add: HashToken_def)

lemma HashToken_not_empty [simp]: "HashToken v \<noteq> []"
  using length_HashToken [of v] by (metis list.size(3) zero_neq_numeral)

lemma RawURLEncode_empty [simp]: "RawURLEncode raw = [] \<longleftrightarrow> raw = []"
  by (cases "(True, False, raw)" rule: b64_encode.cases) (auto simp: Let_def)

lemma find_drop_session:
  "find (\<lambda>r. SessHash r = h) (admin_sessions (drop_session s h')) =
   (if h = h' then None else find (\<lambda>r. SessHash r = h) (admin_sessions s))"
proof -
  have "find (\<lambda>r. SessHash r = h) (filter (\<lambda>r. SessHash r \<noteq> h') rs) =
      (if h = h' then None else find (\<lambda>r. SessHash r = h) rs)" for rs :: "AdminSession list"
    by (induction rs) (auto simp: find_None_iff)
  then show ?thesis by (simp add: drop_session_def)
qed

lemma find_append: "find P (xs @ ys) = (case find P xs of None \<Rightarrow> find P ys | Some x \<Rightarrow> Some x)"
  by (induction xs) auto

lemma find_hash_None: "h \<notin> SessHash ` set rs \<Longrightarrow> find (\<lambda>r. SessHash r = h) rs = None"
  by (auto simp: find_None_iff)

definition exchange_create :: "store \<Rightarrow> gotime \<Rightarrow> bytes \<Rightarrow> string \<Rightarrow> store_error + (string \<times> store)" where
  "exchange_create s now raw u = (if raw = [] then Inl ErrRand else CreateSession s now (Some raw) u)"

lemma exchange_create_result:
  "exchange_create s now raw u = Inr (tok, s') \<Longrightarrow>
   tok \<noteq> [] \<and> db_up s \<and> find (\<lambda>r. SessHash r = HashToken tok) (admin_sessions s) = None \<and>
   s' = s\<lparr>admin_sessions := admin_sessions s @ [\<lparr>SessHash = HashToken tok, SessUser = u,
      SessCreated = unix_secs now, SessExpires = unix_secs (now + sessionTTL)\<rparr>]\<rparr>"
  by (auto simp: exchange_create_def CreateSession_def Let_def find_hash_None split: if_splits)

lemma drop_session_up [simp]: "db_up (drop_session s h) = db_up s"
  by (simp add: drop_session_def)

definition exchange_sess :: "store \<Rightarrow> string \<Rightarrow> (string \<times> int) option" where
  "exchange_sess s t =
     (if t = [] \<or> \<not> db_up s then None
      else map_option (\<lambda>r. (SessUser r, SessExpires r)) (find (\<lambda>r. SessHash r = HashToken t) (admin_sessions s)))"

interpretation exchange_sessions: session_table exchange_create SessionUsername DeleteSession
  "\<lambda>t t'. t \<noteq> [] \<and> t' \<noteq> [] \<and> HashToken t = HashToken t'" sessionTTL exchange_sess ErrBadCredentials
proof
  fix s :: store and now :: gotime and raw u tok s' t
  assume "exchange_create s now raw u = Inr (tok, s')"
  note r = exchange_create_result [OF this]
  show "exchange_sess s' t = (if t \<noteq> [] \<and> tok \<noteq> [] \<and> HashToken t = HashToken tok
      then Some (u, unix_secs (now + sessionTTL)) else exchange_sess s t)"
    using r by (auto simp: exchange_sess_def find_append split: option.splits)
  show "tok \<noteq> [] \<and> tok \<noteq> [] \<and> HashToken tok = HashToken tok" using r by simp
qed (auto simp: exchange_sess_def SessionUsername_def DeleteSession_def find_drop_session split: option.splits if_splits)

lemma exchange_create_eq: "raw \<noteq> [] \<Longrightarrow> exchange_create s now raw u = CreateSession s now (Some raw) u"
  by (simp add: exchange_create_def)

lemma account_update:
  "(\<And>a. Username (f a) = Username a) \<Longrightarrow>
   account (update_account s u f) v = (if v = u then map_option f (account s v) else account s v)"
proof -
  assume f: "\<And>a. Username (f a) = Username a"
  have "find (\<lambda>a. Username a = v) (map (\<lambda>a. if Username a = u then f a else a) as) =
      (if v = u then map_option f (find (\<lambda>a. Username a = v) as) else find (\<lambda>a. Username a = v) as)"
    for as :: "AdminAccount list"
    by (induction as) (auto simp: f)
  then show ?thesis by (simp add: account_def update_account_def)
qed

lemma update_account_up [simp]: "db_up (update_account s u f) = db_up s"
  by (simp add: update_account_def)

section \<open>Properties\<close>

text \<open>
  A panel session opens exactly for its user and its twelve hours: right after login the token
  names the user until the expiry second has passed; the token never works again after logout or
  after it was once refused as expired, and no other session is affected by the logout.
\<close>

theorem session_lifecycle:
  assumes "raw \<noteq> []" and "CreateSession s now (Some raw) u = Inr (tok, s1)"
  shows "(fst (SessionUsername s1 t tok) = Inr u \<longleftrightarrow> unix_secs t \<le> unix_secs (now + sessionTTL)) \<and>
         (DeleteSession s1 tok = Inr s2 \<longrightarrow> fst (SessionUsername s2 t tok) = Inl ErrBadCredentials) \<and>
         (unix_secs (now + sessionTTL) < unix_secs t \<longrightarrow>
            fst (SessionUsername (snd (SessionUsername s1 t tok)) t' tok) = Inl ErrBadCredentials) \<and>
         (DeleteSession s1 tok = Inr s2 \<longrightarrow> HashToken tok' \<noteq> HashToken tok \<longrightarrow>
            fst (SessionUsername s2 t tok') = fst (SessionUsername s t tok'))"
proof -
  have c: "exchange_create s now raw u = Inr (tok, s1)" using assms by (simp add: exchange_create_eq)
  have bad: "fst (SessionUsername st tm tk) = Inl ErrBadCredentials \<or> (\<exists>v. fst (SessionUsername st tm tk) = Inr v)"
    for st tm tk by (auto simp: SessionUsername_def split: option.splits)
  have win: "fst (SessionUsername s1 t tok) = Inr u \<longleftrightarrow> unix_secs t \<le> unix_secs (now + sessionTTL)"
    using exchange_sessions.create_lookup [OF TrueI c] .
  have out: "DeleteSession s1 tok = Inr s2 \<Longrightarrow>
      fst (SessionUsername s2 t tok) \<noteq> Inr v \<and> (HashToken tok' \<noteq> HashToken tok \<longrightarrow>
        fst (SessionUsername s2 t tok') = fst (SessionUsername s t tok'))" for v
    using exchange_sessions.logout_exact [OF TrueI c, of s2] by metis
  have late: "unix_secs (now + sessionTTL) < unix_secs t \<Longrightarrow> fst (SessionUsername s1 t tok) = Inl ErrBadCredentials"
    using exchange_create_result [OF c] by (auto simp: SessionUsername_def find_append)
  have "unix_secs (now + sessionTTL) < unix_secs t \<Longrightarrow>
      fst (SessionUsername (snd (SessionUsername s1 t tok)) t' tok) = Inl ErrBadCredentials"
    using exchange_sessions.expired_session_gone [OF TrueI c _ late]
      bad [of "snd (SessionUsername s1 t tok)" t' tok] by blast
  then show ?thesis using win out bad [of s2 t tok] by blast
qed

theorem session_lifecycle_witness:
  "\<exists>tok s1. CreateSession empty_store (secs 100) (Some [1, 2, 3]) ''admin'' = Inr (tok, s1) \<and>
     fst (SessionUsername s1 (secs 200) tok) = Inr ''admin''"
proof -
  obtain tok s1 where c: "CreateSession empty_store (secs 100) (Some [1, 2, 3]) ''admin'' = Inr (tok, s1)"
    by (auto simp: CreateSession_def empty_store_def Let_def)
  show ?thesis
    using session_lifecycle [OF _ c, of "secs 200" undefined undefined undefined] c
    by (auto simp: unix_secs_def secs_def sessionTTL_def)
qed

text \<open>
  The default account: on an empty store the seeded account opens with \<open>admin\<close>/\<open>admin\<close> and
  demands a password change; the change needs at least six characters, after which the new
  password opens the account without the demand and the default one no longer does.
\<close>

theorem default_admin_lifecycle:
  assumes bcrypt: "\<And>pw h pw'. gen pw = Some h \<Longrightarrow> cmp h pw' = (pw' = pw)"
    and "db_up s" and "admin_accounts s = []" and "gen ''admin'' = Some h" and "gen pw = Some h'" and "pw \<noteq> ''admin''"
  shows "\<exists>s1. ensureDefaultAdmin gen s now = Inr s1 \<and> ensureDefaultAdmin gen s1 now' = Inr s1 \<and>
          (\<exists>s2. VerifyAdminLogin cmp s1 now ''admin'' ''admin'' = Inr (True, s2)) \<and>
          (if length pw < 6 then ChangeAdminPassword gen cmp s1 ''admin'' ''admin'' pw = Inl ErrShortPassword
           else \<exists>s3 s4. ChangeAdminPassword gen cmp s1 ''admin'' ''admin'' pw = Inr s3 \<and>
                  VerifyAdminLogin cmp s3 now' ''admin'' pw = Inr (False, s4) \<and>
                  VerifyAdminLogin cmp s3 now' ''admin'' ''admin'' = Inl ErrBadCredentials)"
proof -
  let ?a = "\<lparr>Username = ''admin'', PasswordHash = h, AaCreatedAt = unix_secs now, LastLogin = 0, MustChange = True\<rparr>"
  let ?s1 = "s\<lparr>admin_accounts := [?a]\<rparr>"
  have e: "ensureDefaultAdmin gen s now = Inr ?s1" "ensureDefaultAdmin gen ?s1 now' = Inr ?s1"
    using assms by (simp_all add: ensureDefaultAdmin_def)
  have acc: "account ?s1 ''admin'' = Some ?a" by (simp add: account_def)
  let ?s3 = "update_account ?s1 ''admin'' (\<lambda>a. a\<lparr>PasswordHash := h', MustChange := False\<rparr>)"
  have acc3: "account ?s3 ''admin'' = Some (?a\<lparr>PasswordHash := h', MustChange := False\<rparr>)"
    by (subst account_update) (simp_all add: acc)
  have cmp1: "cmp h ''admin''" "cmp h' pw" "\<not> cmp h' ''admin''"
    using bcrypt [OF assms(4)] bcrypt [OF assms(5)] assms(6) by simp_all
  have v1: "\<exists>s2. VerifyAdminLogin cmp ?s1 now ''admin'' ''admin'' = Inr (True, s2)"
    using assms(2) acc cmp1 by (simp add: VerifyAdminLogin_def)
  have ch: "ChangeAdminPassword gen cmp ?s1 ''admin'' ''admin'' pw =
      (if length pw < 6 then Inl ErrShortPassword else Inr ?s3)"
    using assms acc cmp1 by (simp add: ChangeAdminPassword_def set_password_def)
  have v3: "\<exists>s4. VerifyAdminLogin cmp ?s3 now' ''admin'' pw = Inr (False, s4)"
    "VerifyAdminLogin cmp ?s3 now' ''admin'' ''admin'' = Inl ErrBadCredentials"
    using assms(2) acc3 cmp1 by (simp_all add: VerifyAdminLogin_def)
  show ?thesis
    by (intro exI [of _ ?s1] conjI e v1) (simp add: ch v3)
qed

theorem default_admin_lifecycle_witness:
  "\<exists>s1 s3. ensureDefaultAdmin Some empty_store 0 = Inr s1 \<and>
     ChangeAdminPassword Some (\<lambda>h pw. h = pw) s1 ''admin'' ''admin'' ''secret1'' = Inr s3 \<and>
     VerifyAdminLogin (\<lambda>h pw. h = pw) s3 5 ''admin'' ''admin'' = Inl ErrBadCredentials"
  using default_admin_lifecycle [of Some "\<lambda>h pw. h = pw" empty_store "''admin''" "''secret1''" "''secret1''" 0 5]
  by (auto simp: empty_store_def)

text \<open>
  Federation settings survive a save: what the panel writes is what the next start reads, and
  clearing them makes every field empty; other settings, such as the assigned area code, are not
  touched by either.
\<close>

theorem federation_settings_roundtrip:
  assumes "db_up s"
  shows "(\<exists>s1. SaveFederationSettings s fs = Inr s1 \<and> GetFederationSettings s1 = Inr fs \<and>
           GetSetting s1 ''area_code'' = GetSetting s ''area_code'') \<and>
         (\<exists>s2. ClearFederationSettings s = Inr s2 \<and>
           GetFederationSettings s2 = Inr \<lparr>RegistryAddress = [], RegistryInsecure = False,
             RequestedAreaCode = [], FederationPublicAddr = []\<rparr> \<and>
           GetSetting s2 ''area_code'' = GetSetting s ''area_code'')"
  using assms
  by (simp add: SaveFederationSettings_def GetFederationSettings_def ClearFederationSettings_def
      SetSetting_def GetSetting_def FormatBool_def keyRegistryAddress_def keyRegistryInsecure_def
      keyRegistryAreaCode_def keyFedPublic_def)

theorem federation_settings_roundtrip_witness:
  "\<exists>s1. SaveFederationSettings empty_store \<lparr>RegistryAddress = ''reg:1'', RegistryInsecure = True,
       RequestedAreaCode = ''440'', FederationPublicAddr = ''me:2''\<rparr> = Inr s1 \<and>
     GetFederationSettings s1 = Inr \<lparr>RegistryAddress = ''reg:1'', RegistryInsecure = True,
       RequestedAreaCode = ''440'', FederationPublicAddr = ''me:2''\<rparr>"
  using federation_settings_roundtrip [of empty_store "\<lparr>RegistryAddress = ''reg:1'', RegistryInsecure = True,
       RequestedAreaCode = ''440'', FederationPublicAddr = ''me:2''\<rparr>"] by (auto simp: empty_store_def)

end
