(* ===== verification/Crypt.thy ===== *)
theory Crypt
  imports Go_Crypto
begin

text \<open>
  Encryption at rest (\<open>ocnserver/internal/crypt/crypt.go\<close>, \<open>voicemail/secret.go\<close>) and of identity
  files (\<open>ksim/crypto.go\<close>).

  The AEAD is AES-GCM of Go's \<open>crypto/cipher\<close>; it enters as a pair \<open>gcm\<close> of sealing and opening
  functions (key, nonce, data) and the proofs use of it only what \<open>gcm_ok\<close> says: opening
  inverts sealing and the tag adds sixteen bytes. \<open>pbkdf2.Key\<close> of \<open>golang.org/x/crypto\<close> is the
  argument \<open>kdf\<close>. \<open>crypto/rand\<close> is an argument of type \<open>randomness\<close>: \<open>None\<close> when the source
  fails, else the bytes it delivers.
\<close>

type_synonym randomness = "(nat \<Rightarrow> byte) option"

definition rand_bytes :: "randomness \<Rightarrow> nat \<Rightarrow> bytes option" where
  "rand_bytes r n = map_option (\<lambda>f. map f [0..<n]) r"

record gcm =
  g_seal :: "bytes \<Rightarrow> bytes \<Rightarrow> bytes \<Rightarrow> bytes"
  g_open :: "bytes \<Rightarrow> bytes \<Rightarrow> bytes \<Rightarrow> bytes option"

definition gcm_ok :: "gcm \<Rightarrow> bool" where
  "gcm_ok g \<longleftrightarrow>
     (\<forall>k n d. length k = 32 \<longrightarrow> length n = 12 \<longrightarrow>
        g_open g k n (g_seal g k n d) = Some d \<and> length (g_seal g k n d) = length d + 16)"

definition aes_key_ok :: "bytes \<Rightarrow> bool" where
  "aes_key_ok k \<longleftrightarrow> length k \<in> {16, 24, 32}"

section \<open>crypt.go\<close>

definition MasterSecretKey :: string where
  "MasterSecretKey = ''voicemail_master_secret''"

definition DeriveKey :: "bytes \<Rightarrow> string \<Rightarrow> bytes" where
  "DeriveKey master scope = hmac_sha256 master (str_bytes scope)"

definition Encrypt :: "gcm \<Rightarrow> randomness \<Rightarrow> bytes \<Rightarrow> bytes \<Rightarrow> string + bytes" where
  "Encrypt g rnd key data =
     (if \<not> aes_key_ok key then Inl ''crypto/aes: invalid key size''
      else case rand_bytes rnd 12 of
             None \<Rightarrow> Inl ''rand''
           | Some nonce \<Rightarrow> Inr (nonce @ g_seal g key nonce data))"

definition Decrypt :: "gcm \<Rightarrow> bytes \<Rightarrow> bytes \<Rightarrow> string + bytes" where
  "Decrypt g key blob =
     (if \<not> aes_key_ok key then Inl ''crypto/aes: invalid key size''
      else if length blob < 12 + 16 then Inl ''encrypted blob too short''
      else case g_open g key (take 12 blob) (drop 12 blob) of
             None \<Rightarrow> Inl ''decrypt: cipher: message authentication failed''
           | Some d \<Rightarrow> Inr d)"

definition DeriveMailboxKey :: "bytes \<Rightarrow> string \<Rightarrow> bytes" where
  "DeriveMailboxKey master number = DeriveKey master number"

definition BoxEncrypt :: "gcm \<Rightarrow> randomness \<Rightarrow> bytes \<Rightarrow> bytes \<Rightarrow> string + bytes" where
  "BoxEncrypt g rnd key data = Encrypt g rnd key data"

definition BoxDecrypt :: "gcm \<Rightarrow> bytes \<Rightarrow> bytes \<Rightarrow> string + bytes" where
  "BoxDecrypt g key blob = Decrypt g key blob"

section \<open>ksim/crypto.go\<close>

definition saltLen :: nat where "saltLen = 16"
definition keyLen :: nat where "keyLen = 32"
definition nonceLen :: nat where "nonceLen = 12"
definition iterCount :: nat where "iterCount = 100000"

type_synonym pbkdf = "bytes \<Rightarrow> bytes \<Rightarrow> nat \<Rightarrow> nat \<Rightarrow> bytes"

definition deriveKey :: "pbkdf \<Rightarrow> string \<Rightarrow> bytes \<Rightarrow> bytes" where
  "deriveKey kdf passphrase salt = kdf (str_bytes passphrase) salt iterCount keyLen"

definition EncryptKey :: "gcm \<Rightarrow> pbkdf \<Rightarrow> randomness \<Rightarrow> randomness \<Rightarrow> bytes \<Rightarrow> string \<Rightarrow> string + bytes" where
  "EncryptKey g kdf rnd1 rnd2 data passphrase =
     (case rand_bytes rnd1 saltLen of
        None \<Rightarrow> Inl ''rand''
      | Some salt \<Rightarrow>
          let key = deriveKey kdf passphrase salt in
          if \<not> aes_key_ok key then Inl ''crypto/aes: invalid key size''
          else case rand_bytes rnd2 nonceLen of
                 None \<Rightarrow> Inl ''rand''
               | Some nonce \<Rightarrow> Inr (salt @ nonce @ g_seal g key nonce data))"

definition DecryptKey :: "gcm \<Rightarrow> pbkdf \<Rightarrow> bytes \<Rightarrow> string \<Rightarrow> string + bytes" where
  "DecryptKey g kdf encrypted passphrase =
     (if length encrypted < saltLen + nonceLen + 16 then Inl ''decryption failed''
      else
        let salt = take saltLen encrypted;
            nonce = take nonceLen (drop saltLen encrypted);
            ciphertext = drop (saltLen + nonceLen) encrypted;
            key = deriveKey kdf passphrase salt
        in if \<not> aes_key_ok key then Inl ''crypto/aes: invalid key size''
           else case g_open g key nonce ciphertext of
                  None \<Rightarrow> Inl ''decryption failed''
                | Some d \<Rightarrow> Inr d)"

section \<open>Lemmas\<close>

lemma length_rand_bytes: "rand_bytes r n = Some bs \<Longrightarrow> length bs = n"
  by (auto simp: rand_bytes_def)

lemma length_DeriveKey [simp]: "length (DeriveKey m i) = 32"
  by (simp add: DeriveKey_def)

lemma DeriveKey_aes [simp]: "aes_key_ok (DeriveKey m i)"
  by (simp add: aes_key_ok_def)

lemma Decrypt_Encrypt:
  assumes "gcm_ok g" and "length key = 32" and "Encrypt g rnd key data = Inr blob"
  shows "Decrypt g key blob = Inr data"
proof -
  obtain nonce where n: "rand_bytes rnd 12 = Some nonce" and b: "blob = nonce @ g_seal g key nonce data"
    using assms(3) by (auto simp: Encrypt_def split: if_splits option.splits)
  have "length nonce = 12" using length_rand_bytes [OF n] .
  with b assms(1,2) show ?thesis by (simp add: Decrypt_def gcm_ok_def aes_key_ok_def)
qed

lemma DecryptKey_EncryptKey:
  assumes "gcm_ok g" and "\<And>p s. length (kdf p s iterCount keyLen) = 32"
    and "EncryptKey g kdf r1 r2 data pass = Inr blob"
  shows "DecryptKey g kdf blob pass = Inr data"
proof -
  obtain salt nonce where s: "rand_bytes r1 saltLen = Some salt" and n: "rand_bytes r2 nonceLen = Some nonce"
    and b: "blob = salt @ nonce @ g_seal g (deriveKey kdf pass salt) nonce data"
    using assms(3) by (auto simp: EncryptKey_def Let_def split: if_splits option.splits)
  have "length salt = 16" "length nonce = 12"
    using length_rand_bytes [OF s] length_rand_bytes [OF n] by (simp_all add: saltLen_def nonceLen_def)
  moreover have "length (deriveKey kdf pass salt) = 32" using assms(2) by (simp add: deriveKey_def)
  ultimately show ?thesis
    using b assms(1) by (simp add: DecryptKey_def gcm_ok_def aes_key_ok_def saltLen_def nonceLen_def)
qed

text \<open>A pair of functions that satisfies \<open>gcm_ok\<close>, for concrete instances.\<close>

definition plain_gcm :: gcm where
  "plain_gcm = \<lparr>g_seal = (\<lambda>k n d. d @ replicate 16 0), g_open = (\<lambda>k n c. Some (take (length c - 16) c))\<rparr>"

lemma plain_gcm_ok: "gcm_ok plain_gcm"
  by (simp add: gcm_ok_def plain_gcm_def)

end
