(* ===== verification/Ogg.thy ===== *)
theory Ogg
  imports OCN_Prelude
begin

text \<open>
  The voicemail audio containers of \<open>ocnserver/internal/voicemail/ogg.go\<close>: the length-prefixed
  storage format of Opus frames (\<open>SerializeFrames\<close>, \<open>DeserializeFrames\<close>) and the Ogg/Opus
  writer (\<open>BuildOgg\<close>, \<open>writePage\<close>, \<open>crc32\<close>).

  A loop over an offset into a byte slice is a recursion over the bytes that are left. The
  table-driven checksum is proved equal to the bit-by-bit division by the Ogg polynomial. The
  interface \<open>frame_codec\<close> states what a client of the storage format relies on; the voicemail
  format is one provider, the speech cache of the services is another.
\<close>

section \<open>Storage format of a recording\<close>

definition frameSampleRate :: nat where "frameSampleRate = 48000"
definition frameChannels :: nat where "frameChannels = 1"
definition frameSize :: nat where "frameSize = 960"
definition frameMS :: nat where "frameMS = 20"

fun SerializeFrames :: "bytes list \<Rightarrow> bytes" where
  "SerializeFrames [] = []"
| "SerializeFrames (f # fs) = le_bytes 4 (length f) @ f @ SerializeFrames fs"

function DeserializeFrames :: "bytes \<Rightarrow> bytes list" where
  "DeserializeFrames data =
     (if 4 \<le> length data then
        (let n = le_nat (take 4 data); rest = drop 4 data
         in if length rest < n then [] else take n rest # DeserializeFrames (drop n rest))
      else [])"
  by pat_completeness auto
termination
  by (relation "measure length") auto

declare DeserializeFrames.simps [simp del]

section \<open>The Ogg writer\<close>

definition crc_shift :: "32 word \<Rightarrow> 32 word" where
  "crc_shift c = (if c AND 0x80000000 \<noteq> 0 then push_bit 1 c XOR 0x04c11db7 else push_bit 1 c)"

definition crc_entry :: "nat \<Rightarrow> 32 word" where
  "crc_entry i = (crc_shift ^^ 8) (push_bit 24 (word_of_nat i))"

definition crcTable :: "32 word list" where
  "crcTable = map crc_entry [0..<256]"

fun crc32_from :: "32 word \<Rightarrow> bytes \<Rightarrow> 32 word" where
  "crc32_from c [] = c"
| "crc32_from c (b # bs) =
     crc32_from (push_bit 8 c XOR (crcTable ! unat ((ucast (drop_bit 24 c) :: byte) XOR b))) bs"

definition crc32 :: "bytes \<Rightarrow> 32 word" where
  "crc32 data = crc32_from 0 data"

record oggWriter =
  ow_buf :: bytes
  ow_serial :: "32 word"
  ow_seq :: "32 word"

fun lacing :: "nat \<Rightarrow> bytes" where
  "lacing rem =
     (if 0 < rem then (if 255 \<le> rem then 255 # lacing (rem - 255) else [word_of_nat rem])
      else [])"

declare lacing.simps [simp del]

definition segment_table :: "bytes \<Rightarrow> bytes" where
  "segment_table packet = lacing (length packet) @ (if length packet mod 255 = 0 then [0] else [])"

definition page_header :: "byte \<Rightarrow> nat \<Rightarrow> 32 word \<Rightarrow> 32 word \<Rightarrow> bytes" where
  "page_header flags granule serial seq =
     str_bytes ''OggS'' @ [0, flags] @ le_bytes 8 granule @ le_bytes 4 (unat serial) @
     le_bytes 4 (unat seq)"

definition writePage ::
  "oggWriter \<Rightarrow> bytes \<Rightarrow> byte \<Rightarrow> nat \<Rightarrow> bool \<Rightarrow> string + oggWriter" where
  "writePage w packet flags granule isHeader =
     (if packet = [] then Inr w
      else let segs = segment_table packet in
        if 255 < length segs then
          Inl (''ogg: packet too large for one page ('' @ dec (length segs) @ '' segments)'')
        else
          let page0 = page_header flags granule (ow_serial w) (ow_seq w) @ [0, 0, 0, 0] @
                      [word_of_nat (length segs)] @ segs @ packet;
              crc = crc32 page0;
              page = take 22 page0 @ le_bytes 4 (unat crc) @ drop 26 page0
          in Inr (w\<lparr>ow_buf := ow_buf w @ page, ow_seq := ow_seq w + 1\<rparr>))"

definition idHeader :: bytes where
  "idHeader = str_bytes ''OpusHead'' @ [1, word_of_nat frameChannels] @ le_bytes 2 0 @
     le_bytes 4 frameSampleRate @ le_bytes 2 0 @ [0]"

definition commentHeader :: bytes where
  "commentHeader = str_bytes ''OpusTags'' @ le_bytes 4 (length ''OCN'') @ str_bytes ''OCN'' @
     [0, 0, 0, 0]"

fun write_frames :: "oggWriter \<Rightarrow> nat \<Rightarrow> nat \<Rightarrow> bytes list \<Rightarrow> string + oggWriter" where
  "write_frames w n i [] = Inr w"
| "write_frames w n i (f # fs) =
     (case writePage w f (if i = n - 1 then 4 else 0) ((i + 1) * frameSize) False of
        Inl e \<Rightarrow> Inl e
      | Inr w' \<Rightarrow> write_frames w' n (i + 1) fs)"

definition BuildOgg :: "bytes list \<Rightarrow> string + bytes" where
  "BuildOgg frames =
     (case writePage \<lparr>ow_buf = [], ow_serial = 0x4f434e31, ow_seq = 0\<rparr> idHeader 2 0 True of
        Inl e \<Rightarrow> Inl e
      | Inr w1 \<Rightarrow>
          (case writePage w1 commentHeader 0 0 False of
             Inl e \<Rightarrow> Inl e
           | Inr w2 \<Rightarrow>
               (case write_frames w2 (length frames) 0 frames of
                  Inl e \<Rightarrow> Inl e
                | Inr w3 \<Rightarrow> Inr (ow_buf w3))))"

section \<open>The checksum without a table\<close>

fun crc_bitwise :: "32 word \<Rightarrow> bytes \<Rightarrow> 32 word" where
  "crc_bitwise c [] = c"
| "crc_bitwise c (b # bs) = crc_bitwise ((crc_shift ^^ 8) (c XOR push_bit 24 (ucast b))) bs"

section \<open>The interface of a frame store\<close>

locale frame_codec =
  fixes ser :: "bytes list \<Rightarrow> bytes"
    and deser :: "bytes \<Rightarrow> bytes list"
  assumes deser_ser: "list_all (\<lambda>f. length f < 2 ^ 32) fs \<Longrightarrow> deser (ser fs) = fs"
    and deser_cut: "list_all (\<lambda>f. length f < 2 ^ 32) fs \<Longrightarrow> prefix (deser (take k (ser fs))) fs"
begin

lemma ser_inject:
  assumes "list_all (\<lambda>f. length f < 2 ^ 32) fs" and "list_all (\<lambda>f. length f < 2 ^ 32) gs"
    and "ser fs = ser gs"
  shows "fs = gs"
  using assms deser_ser by metis

lemma cut_frames_genuine:
  assumes "list_all (\<lambda>f. length f < 2 ^ 32) fs" and "f \<in> set (deser (take k (ser fs)))"
  shows "f \<in> set fs"
  using set_mono_prefix [OF deser_cut [OF assms(1)]] assms(2) by blast

end

section \<open>Lemmas on the storage format\<close>

lemma Deserialize_Cons:
  assumes "length f < 2 ^ 32"
  shows "DeserializeFrames (le_bytes 4 (length f) @ f @ rest) = f # DeserializeFrames rest"
proof -
  have "le_nat (le_bytes 4 (length f)) = length f"
    using assms by (intro le_nat_le_bytes_exact) simp
  then show ?thesis by (subst DeserializeFrames.simps) simp
qed

lemma Deserialize_Serialize:
  "list_all (\<lambda>f. length f < 2 ^ 32) fs \<Longrightarrow> DeserializeFrames (SerializeFrames fs) = fs"
proof (induction fs)
  case Nil
  show ?case by (simp add: DeserializeFrames.simps)
next
  case (Cons f fs)
  then show ?case by (simp add: Deserialize_Cons)
qed

lemma Deserialize_short: "length d < 4 \<Longrightarrow> DeserializeFrames d = []"
  by (simp add: DeserializeFrames.simps)

lemma Deserialize_cut_frame:
  assumes "length f < 2 ^ 32" and "k < 4 + length f"
  shows "DeserializeFrames (take k (le_bytes 4 (length f) @ f @ rest)) = []"
proof (cases "k < 4")
  case True
  then show ?thesis by (simp add: Deserialize_short)
next
  case False
  have "le_nat (le_bytes 4 (length f)) = length f"
    using assms(1) by (intro le_nat_le_bytes_exact) simp
  with False assms(2) show ?thesis
    by (subst DeserializeFrames.simps) (simp add: min_def Let_def)
qed

lemma Deserialize_cut:
  "list_all (\<lambda>f. length f < 2 ^ 32) fs \<Longrightarrow>
   prefix (DeserializeFrames (take k (SerializeFrames fs))) fs"
proof (induction fs arbitrary: k)
  case Nil
  show ?case by (simp add: DeserializeFrames.simps)
next
  case (Cons f fs)
  show ?case
  proof (cases "k < 4 + length f")
    case True
    with Cons.prems show ?thesis by (simp add: Deserialize_cut_frame del: take_append)
  next
    case False
    have cut: "take k (SerializeFrames (f # fs))
        = le_bytes 4 (length f) @ f @ take (k - (4 + length f)) (SerializeFrames fs)"
      using False by simp
    have "DeserializeFrames (take k (SerializeFrames (f # fs)))
        = f # DeserializeFrames (take (k - (4 + length f)) (SerializeFrames fs))"
      unfolding cut using Cons.prems by (intro Deserialize_Cons) simp
    with Cons show ?thesis by simp
  qed
qed

interpretation vm_frames: frame_codec SerializeFrames DeserializeFrames
  by unfold_locales (simp_all add: Deserialize_Serialize Deserialize_cut)

section \<open>Lemmas on the checksum\<close>

lemma and_high_bit: "(c AND 0x80000000 \<noteq> 0) = bit (c :: 32 word) 31"
proof -
  have "(0x80000000 :: 32 word) = push_bit 31 1" by simp
  then show ?thesis
    by (metis and.commute and_nonnegative_int_iff bit_iff_and_push_bit_not_eq_0)
qed

lemma crc_shift_xor: "crc_shift (a XOR b) = crc_shift a XOR crc_shift b"
  by (simp add: crc_shift_def and_high_bit bit_xor_iff push_bit_xor xor.assoc xor.left_commute xor.commute)

lemma crc_shift_0 [simp]: "crc_shift 0 = 0"
  by (simp add: crc_shift_def)

lemma crc_shift_pow_xor: "(crc_shift ^^ n) (a XOR b) = (crc_shift ^^ n) a XOR (crc_shift ^^ n) b"
  by (induction n) (simp_all add: crc_shift_xor)

lemma crc_shift_pow_low:
  "n \<le> 8 \<Longrightarrow> (crc_shift ^^ n) (take_bit 24 x) = push_bit n (take_bit 24 x)"
proof (induction n)
  case (Suc n)
  then have "\<not> 31 - n < 24" by linarith
  then have "\<not> bit (push_bit n (take_bit 24 x)) 31"
    by (simp add: bit_push_bit_iff bit_take_bit_iff)
  with Suc show ?case by (simp add: crc_shift_def and_high_bit)
qed simp

lemma split_high_byte: "(x :: 32 word) = push_bit 24 (drop_bit 24 x) XOR take_bit 24 x"
  by (rule bit_word_eqI) (auto simp: bit_xor_iff bit_push_bit_iff bit_drop_bit_eq bit_take_bit_iff)

lemma push_bit_8_low: "push_bit 8 (x :: 32 word) = push_bit 8 (take_bit 24 x)"
  by (rule bit_word_eqI) (auto simp: bit_push_bit_iff bit_take_bit_iff)

lemma crc_shift_8: "(crc_shift ^^ 8) x = push_bit 8 x XOR crc_entry (unat (drop_bit 24 x))"
proof -
  have "(crc_shift ^^ 8) x = (crc_shift ^^ 8) (push_bit 24 (drop_bit 24 x) XOR take_bit 24 x)"
    using split_high_byte [of x] by simp
  also have "\<dots> = crc_entry (unat (drop_bit 24 x)) XOR push_bit 8 (take_bit 24 x)"
  proof -
    have "word_of_nat (unat (drop_bit 24 x)) = drop_bit 24 x" by simp
    then show ?thesis
      by (simp only: crc_shift_pow_xor crc_shift_pow_low crc_entry_def order_refl)
  qed
  finally show ?thesis by (simp add: push_bit_8_low [of x] xor.commute)
qed

lemma crc_step_byte:
  "(crc_shift ^^ 8) (c XOR push_bit 24 (ucast b)) =
   push_bit 8 c XOR (crcTable ! unat ((ucast (drop_bit 24 c) :: byte) XOR b))"
proof -
  let ?x = "c XOR push_bit 24 (ucast b) :: 32 word"
  let ?i = "(ucast (drop_bit 24 c) :: byte) XOR b"
  have top: "drop_bit 24 ?x = ucast ?i"
    by (rule bit_word_eqI)
      (auto simp: bit_xor_iff bit_push_bit_iff bit_drop_bit_eq bit_ucast_iff dest: bit_imp_le_length)
  have lt: "unat ?i < 256" by (rule order_less_le_trans [OF unsigned_less]) simp
  then have "unat ?i < 2 ^ 32" by simp
  then have "unat (ucast ?i :: 32 word) = unat ?i"
    by (simp only: unsigned_ucast_eq) (simp add: take_bit_nat_eq_self)
  then have "crc_entry (unat (drop_bit 24 ?x)) = crc_entry (unat ?i)"
    by (simp only: top)
  moreover have "crcTable ! unat ?i = crc_entry (unat ?i)"
    using lt by (simp add: crcTable_def)
  moreover have "push_bit 8 ?x = push_bit 8 c"
    by (rule bit_word_eqI) (auto simp: bit_xor_iff bit_push_bit_iff)
  ultimately show ?thesis by (simp only: crc_shift_8)
qed

lemma crc32_from_bitwise: "crc32_from c bs = crc_bitwise c bs"
  by (induction bs arbitrary: c) (simp_all add: crc_step_byte)

section \<open>Lemmas on pages\<close>

lemma lacing_0 [simp]: "lacing 0 = []"
  by (simp add: lacing.simps)

lemma lacing_small: "0 < r \<Longrightarrow> r < 255 \<Longrightarrow> lacing r = [word_of_nat r]"
  by (simp add: lacing.simps)

lemma lacing_step: "255 \<le> r \<Longrightarrow> lacing r = 255 # lacing (r - 255)"
  by (simp add: lacing.simps [of r])

lemma length_lacing: "length (lacing r) = (r + 254) div 255"
proof (induction r rule: lacing.induct)
  case (1 r)
  consider "r = 0" | "0 < r" "r < 255" | "255 \<le> r" by linarith
  then show ?case
  proof cases
    case 3
    have "(r + 254) div 255 = Suc ((r - 255 + 254) div 255)" using 3 by simp
    with 3 "1.IH" show ?thesis by (simp add: lacing_step)
  qed (simp_all add: lacing_small)
qed

lemma unat_byte: "n < 256 \<Longrightarrow> unat (word_of_nat n :: byte) = n"
  by (simp add: unat_of_nat)

lemma sum_lacing: "sum_list (map unat (lacing r)) = r"
proof (induction r rule: lacing.induct)
  case (1 r)
  consider "r = 0" | "0 < r" "r < 255" | "255 \<le> r" by linarith
  then show ?case
  proof cases
    case 3
    with "1.IH" show ?thesis by (simp add: lacing_step)
  qed (simp_all add: lacing_small unat_byte)
qed

lemma length_segment_table: "length (segment_table p) = length p div 255 + 1"
proof (cases "length p mod 255 = 0")
  case True
  then obtain q where "length p = 255 * q" by auto
  then show ?thesis by (simp add: segment_table_def length_lacing)
next
  case False
  define q r where "q = length p div 255" and "r = length p mod 255"
  have "length p = 255 * q + r" "0 < r" "r < 255"
    using False by (simp_all add: q_def r_def)
  then have "length p + 254 = (r - 1) + 255 * Suc q" by simp
  then have "(length p + 254) div 255 = Suc q"
    using \<open>r < 255\<close> by (simp only: div_mult_self2)
  then have "(length p + 254) div 255 = length p div 255 + 1" by (simp add: q_def)
  with False show ?thesis by (simp add: segment_table_def length_lacing)
qed

lemma segment_table_fits: "length (segment_table p) \<le> 255 \<longleftrightarrow> length p < 65025"
  by (simp add: length_segment_table) linarith

lemma sum_segment_table: "sum_list (map unat (segment_table p)) = length p"
  by (simp add: segment_table_def sum_lacing)

lemma length_page_header [simp]: "length (page_header f g a b) = 22"
  by (simp add: page_header_def)

text \<open>The page that \<open>writePage\<close> appends, in its final form.\<close>

definition page_of :: "oggWriter \<Rightarrow> bytes \<Rightarrow> byte \<Rightarrow> nat \<Rightarrow> bytes" where
  "page_of w packet flags granule =
     (let h = page_header flags granule (ow_serial w) (ow_seq w);
          tl = word_of_nat (length (segment_table packet)) # segment_table packet @ packet
      in h @ le_bytes 4 (unat (crc32 (h @ [0, 0, 0, 0] @ tl))) @ tl)"

lemma writePage_ok:
  "packet \<noteq> [] \<Longrightarrow> length packet < 65025 \<Longrightarrow>
   writePage w packet flags granule isH =
     Inr (w\<lparr>ow_buf := ow_buf w @ page_of w packet flags granule, ow_seq := ow_seq w + 1\<rparr>)"
  using segment_table_fits [of packet]
  by (simp add: writePage_def page_of_def Let_def not_less [symmetric])

lemma writePage_big:
  "65025 \<le> length packet \<Longrightarrow> \<exists>e. writePage w packet flags granule isH = Inl e"
  using segment_table_fits [of packet] by (auto simp: writePage_def Let_def)

lemma writePage_empty [simp]: "writePage w [] flags granule isH = Inr w"
  by (simp add: writePage_def)

lemma write_frames_fails:
  "\<exists>f\<in>set fs. 65025 \<le> length f \<Longrightarrow> \<exists>e. write_frames w n i fs = Inl e"
proof (induction fs arbitrary: w i)
  case (Cons f fs)
  show ?case
  proof (cases "65025 \<le> length f")
    case True
    then show ?thesis using writePage_big by (metis sum.simps(5) write_frames.simps(2))
  next
    case False
    with Cons.prems have "\<exists>f\<in>set fs. 65025 \<le> length f" by auto
    then show ?thesis using Cons.IH by (auto split: sum.split)
  qed
qed simp

lemma length_headers [simp]: "length idHeader = 19" "length commentHeader = 19"
  by (simp_all add: idHeader_def commentHeader_def)

lemma headers_not_Nil [simp]: "idHeader \<noteq> []" "commentHeader \<noteq> []"
  by (simp_all add: idHeader_def commentHeader_def str_bytes_def)

section \<open>Properties\<close>

text \<open>
  The storage format of a recording is a faithful round trip, and a truncated blob never
  yields a frame that was not recorded: reading back the first \<open>k\<close> bytes gives an initial part
  of the recorded frames, and reading all of them gives the recording.
\<close>

theorem frames_roundtrip:
  assumes "list_all (\<lambda>f. length f < 2 ^ 32) frames"
  shows "DeserializeFrames (SerializeFrames frames) = frames \<and>
         prefix (DeserializeFrames (take k (SerializeFrames frames))) frames"
  using vm_frames.deser_ser [OF assms] vm_frames.deser_cut [OF assms] by blast

theorem frames_roundtrip_witness:
  "DeserializeFrames (SerializeFrames [[1, 2, 3], [], [255]]) = [[1, 2, 3], [], [255]] \<and>
   prefix (DeserializeFrames (take 9 (SerializeFrames [[1, 2, 3], [], [255]]))) [[1, 2, 3], [], [255]]"
  using frames_roundtrip [of "[[1, 2, 3], [], [255]]" 9] by simp

text \<open>
  C38. The table-driven checksum equals the bit-by-bit polynomial division it abbreviates
  (polynomial 0x04c11db7, most significant bit first, zero start value, no final complement);
  the comment in the source calls this CRC reflected, which it is not.
\<close>

theorem crc32_is_polynomial_division: "crc32 data = crc_bitwise 0 data"
  by (simp add: crc32_def crc32_from_bitwise)

text \<open>
  What \<open>writePage\<close> appends is a well-formed Ogg page: it is refused exactly when the packet
  does not fit the 255 segments of one page (65025 bytes or more), and otherwise the page's
  segment table sums to the packet length, ends in a segment shorter than 255, and its stored
  checksum is the checksum of the page with the checksum field zeroed.
\<close>

lemma last_segment: "p \<noteq> [] \<Longrightarrow> unat (last (segment_table p)) < 255"
proof (cases "length p mod 255 = 0")
  case False
  have "0 < r mod 255 \<Longrightarrow> lacing r \<noteq> [] \<and> unat (last (lacing r)) < 255" for r
  proof (induction r rule: lacing.induct)
    case (1 r)
    consider "r = 0" | "0 < r" "r < 255" | "255 \<le> r" by linarith
    then show ?case
    proof cases
      case 3
      then have "(r - 255) mod 255 = r mod 255" by (simp add: le_mod_geq)
      with 3 1 show ?thesis by (simp add: lacing_step)
    qed (use "1.prems" in \<open>simp_all add: lacing_small unat_byte\<close>)
  qed
  with False show ?thesis by (simp add: segment_table_def)
qed (simp add: segment_table_def)

theorem writePage_wellformed:
  assumes "packet \<noteq> []"
  shows "(65025 \<le> length packet \<longrightarrow> (\<exists>e. writePage w packet flags granule isH = Inl e)) \<and>
         (length packet < 65025 \<longrightarrow>
            (\<exists>page. writePage w packet flags granule isH =
                      Inr (w\<lparr>ow_buf := ow_buf w @ page, ow_seq := ow_seq w + 1\<rparr>) \<and>
                    le_nat (take 4 (drop 22 page)) =
                      unat (crc32 (take 22 page @ [0, 0, 0, 0] @ drop 26 page)) \<and>
                    unat (page ! 26) = length (segment_table packet) \<and>
                    sum_list (map unat (segment_table packet)) = length packet \<and>
                    unat (last (segment_table packet)) < 255 \<and>
                    drop 27 page = segment_table packet @ packet))"
proof (intro conjI impI)
  assume small: "length packet < 65025"
  let ?page = "page_of w packet flags granule"
  have n: "length (segment_table packet) < 256"
    using segment_table_fits [of packet] small by linarith
  have crc: "unat c < 256 ^ 4" for c :: "32 word"
    by (rule order_less_le_trans [OF unsigned_less]) simp
  have "le_nat (take 4 (drop 22 ?page)) = unat (crc32 (take 22 ?page @ [0, 0, 0, 0] @ drop 26 ?page))"
    using crc by (simp add: page_of_def Let_def le_nat_le_bytes_exact)
  moreover have "unat (?page ! 26) = length (segment_table packet)"
    using n by (simp add: page_of_def Let_def nth_append unat_byte)
  moreover have "drop 27 ?page = segment_table packet @ packet"
    by (simp add: page_of_def Let_def)
  ultimately show "\<exists>page. writePage w packet flags granule isH =
                      Inr (w\<lparr>ow_buf := ow_buf w @ page, ow_seq := ow_seq w + 1\<rparr>) \<and>
                    le_nat (take 4 (drop 22 page)) =
                      unat (crc32 (take 22 page @ [0, 0, 0, 0] @ drop 26 page)) \<and>
                    unat (page ! 26) = length (segment_table packet) \<and>
                    sum_list (map unat (segment_table packet)) = length packet \<and>
                    unat (last (segment_table packet)) < 255 \<and>
                    drop 27 page = segment_table packet @ packet"
    using writePage_ok [OF assms small] sum_segment_table last_segment [OF assms] by blast
qed (rule writePage_big)

theorem writePage_wellformed_witness:
  "\<exists>page. writePage \<lparr>ow_buf = [], ow_serial = 7, ow_seq = 0\<rparr> [1, 2, 3] 4 960 False =
            Inr \<lparr>ow_buf = page, ow_serial = 7, ow_seq = 1\<rparr> \<and>
          drop 27 page = [3, 1, 2, 3]"
  using writePage_wellformed [of "[1, 2, 3]" "\<lparr>ow_buf = [], ow_serial = 7, ow_seq = 0\<rparr>" 4 960 False]
  by (auto simp: segment_table_def lacing_small)

end
