(* ===== verification/Tts.thy ===== *)
theory Tts
  imports Ogg
begin

text \<open>
  The speech synthesiser of the hosted services, \<open>ocnserver/internal/services/tts.go\<close>: the Ogg
  reader \<open>parseOggOpus\<close>, the frame cache and \<open>GenerateOpusFrames\<close>.

  The external programs \<open>espeak\<close> and \<open>ffmpeg\<close> are one parameter \<open>synth\<close> (the Ogg file they
  produce for a text, or an error). Announcement texts are ASCII, so that the runes \<open>hashText\<close>
  iterates over are the characters of the string. The cache directory is a map from file name to content, and
  the parameter \<open>write_ok\<close> says whether writing a file succeeds. The reader walks the bytes
  that are left, with the offset kept for the error text.
\<close>

section \<open>Reading an Ogg/Opus file\<close>

definition keep_packet :: "bytes \<Rightarrow> bytes list" where
  "keep_packet packet =
     (if 8 \<le> length packet \<and> take 8 packet = str_bytes ''OpusHead'' then []
      else if 8 \<le> length packet \<and> take 8 packet = str_bytes ''OpusTag'' then []
      else if packet \<noteq> [] then [packet] else [])"

fun page_packets :: "nat list \<Rightarrow> bytes \<Rightarrow> nat \<Rightarrow> bytes list" where
  "page_packets [] body packetLen = []"
| "page_packets (segLen # segs) body packetLen =
     (let len = packetLen + segLen in
      if segLen < 255 then
        (if len \<le> length body then keep_packet (take len body) else []) @
        page_packets segs (drop len body) 0
      else page_packets segs body len)"

function parse_pages :: "bytes \<Rightarrow> nat \<Rightarrow> bytes list \<Rightarrow> string + bytes list" where
  "parse_pages rest offset frames =
     (if rest = [] then Inr frames
      else if length rest < 27 then Inr frames
      else if take 4 rest \<noteq> str_bytes ''OggS'' then
        Inl (''invalid Ogg page at offset '' @ dec offset)
      else
        let numSegments = unat (rest ! 26) in
        if length rest < 27 + numSegments then Inr frames
        else
          let segTable = map unat (take numSegments (drop 27 rest));
              pageDataSize = sum_list segTable
          in if length rest < 27 + numSegments + pageDataSize then Inr frames
             else parse_pages (drop (27 + numSegments + pageDataSize) rest)
                    (offset + 27 + numSegments + pageDataSize)
                    (frames @ page_packets segTable
                       (take pageDataSize (drop (27 + numSegments) rest)) 0))"
  by pat_completeness auto
termination
  by (relation "measure (\<lambda>(rest, _, _). length rest)") auto

declare parse_pages.simps [simp del]

definition parseOggOpus :: "bytes \<Rightarrow> string + bytes list" where
  "parseOggOpus data = parse_pages data 0 []"

section \<open>The frame cache\<close>

fun serializeFrames :: "bytes list \<Rightarrow> bytes" where
  "serializeFrames [] = []"
| "serializeFrames (f # fs) = le_bytes 4 (length f) @ f @ serializeFrames fs"

function deserializeFrames :: "bytes \<Rightarrow> bytes list" where
  "deserializeFrames data =
     (if 4 \<le> length data then
        (let fLen = le_nat (take 4 data); rest = drop 4 data
         in if length rest < fLen then []
            else take fLen rest # deserializeFrames (drop fLen rest))
      else [])"
  by pat_completeness auto
termination
  by (relation "measure length") auto

declare deserializeFrames.simps [simp del]

fun hashText_from :: "32 word \<Rightarrow> string \<Rightarrow> 32 word" where
  "hashText_from h [] = h"
| "hashText_from h (c # cs) = hashText_from (h * 31 + word_of_nat (of_char c)) cs"

definition hashText :: "string \<Rightarrow> 32 word" where
  "hashText text = hashText_from 0 text"

type_synonym tts_cache = "32 word \<rightharpoonup> bytes"

definition GenerateOpusFrames ::
  "(string \<Rightarrow> string + bytes) \<Rightarrow> (32 word \<Rightarrow> bool) \<Rightarrow> tts_cache \<Rightarrow> string \<Rightarrow>
   (string + bytes list) \<times> tts_cache" where
  "GenerateOpusFrames synth write_ok cache text =
     (let cacheFile = hashText text;
          generate =
            (case synth text of
               Inl e \<Rightarrow> (Inl e, cache)
             | Inr oggData \<Rightarrow>
                 (case parseOggOpus oggData of
                    Inl e \<Rightarrow> (Inl (''ogg parse failed: '' @ e), cache)
                  | Inr frames \<Rightarrow>
                      (Inr frames,
                       if write_ok cacheFile then cache(cacheFile \<mapsto> serializeFrames frames)
                       else cache)))
      in case cache cacheFile of
           Some cached \<Rightarrow>
             (let frames = deserializeFrames cached
              in if frames \<noteq> [] then (Inr frames, cache) else generate)
         | None \<Rightarrow> generate)"

section \<open>Lemmas\<close>

lemma serializeFrames_eq: "serializeFrames fs = SerializeFrames fs"
  by (induction fs) simp_all

lemma deserializeFrames_eq: "deserializeFrames d = DeserializeFrames d"
proof (induction d rule: deserializeFrames.induct)
  case (1 d)
  then show ?case
    by (subst deserializeFrames.simps, subst DeserializeFrames.simps) (simp add: Let_def)
qed

interpretation tts_frames: frame_codec serializeFrames deserializeFrames
  by unfold_locales
    (simp_all add: serializeFrames_eq deserializeFrames_eq vm_frames.deser_ser vm_frames.deser_cut)

lemma page_packets_lacing:
  assumes "length body = len + r" and "0 < r mod 255"
  shows "page_packets (map unat (lacing r)) body len = keep_packet body"
  using assms
proof (induction r arbitrary: len rule: lacing.induct)
  case (1 r)
  consider "r = 0" | "0 < r" "r < 255" | "255 \<le> r" by linarith
  then show ?case
  proof cases
    case 3
    then have "(r - 255) mod 255 = r mod 255" by (simp add: le_mod_geq)
    with 3 "1.prems" have "page_packets (map unat (lacing (r - 255))) body (len + 255) = keep_packet body"
      by (intro "1.IH") simp_all
    with 3 show ?thesis by (simp add: lacing_step)
  qed (use "1.prems" in \<open>simp_all add: lacing_small unat_byte\<close>)
qed

lemma page_packets_exact:
  "length body = len + 255 * q \<Longrightarrow>
   page_packets (map unat (lacing (255 * q) @ [0])) body len = keep_packet body"
proof (induction q arbitrary: len)
  case (Suc q)
  have "lacing (255 * Suc q) = 255 # lacing (255 * q)"
    by (subst lacing_step) simp_all
  with Suc show ?case by simp
qed simp

lemma page_packets_segment_table:
  "packet \<noteq> [] \<Longrightarrow> page_packets (map unat (segment_table packet)) packet 0 = keep_packet packet"
proof (cases "length packet mod 255 = 0")
  case True
  then obtain q where "length packet = 255 * q" by auto
  with True show ?thesis
    using page_packets_exact [of packet 0 q] by (simp add: segment_table_def)
next
  case False
  then show ?thesis
    using page_packets_lacing [of packet 0 "length packet"] by (simp add: segment_table_def)
qed

lemma parse_pages_step:
  assumes "27 + n + k \<le> length d" and "take 4 d = str_bytes ''OggS''" and "unat (d ! 26) = n"
    and "map unat (take n (drop 27 d)) = st" and "sum_list st = k"
  shows "parse_pages d off fr =
           parse_pages (drop (27 + n + k) d) (off + 27 + n + k)
             (fr @ page_packets st (take k (drop (27 + n) d)) 0)"
  using assms by (subst parse_pages.simps) (auto simp: Let_def)

text \<open>Reading one page that \<open>writePage\<close> produced.\<close>

lemma parse_page_of:
  assumes "packet \<noteq> []" and "length packet < 65025"
  shows "\<exists>off'. parse_pages (page_of w packet flags granule @ rest) off frames =
           parse_pages rest off' (frames @ keep_packet packet)"
proof -
  let ?page = "page_of w packet flags granule"
  let ?st = "segment_table packet"
  have n: "length ?st < 256"
    using segment_table_fits [of packet] assms(2) by linarith
  have len: "length ?page = 27 + length ?st + length packet"
    by (simp add: page_of_def Let_def)
  have magic: "take 4 (?page @ rest) = str_bytes ''OggS''"
    by (simp add: page_of_def Let_def page_header_def)
  have segs: "unat ((?page @ rest) ! 26) = length ?st"
    using n by (simp add: page_of_def Let_def nth_append unat_byte)
  have d27: "drop 27 (?page @ rest) = ?st @ packet @ rest"
    by (simp add: page_of_def Let_def)
  then have st: "take (length ?st) (drop 27 (?page @ rest)) = ?st" by simp
  have "drop (27 + length ?st) (?page @ rest) = drop (length ?st) (drop 27 (?page @ rest))"
    by (simp only: drop_drop add.commute)
  also have "\<dots> = packet @ rest" by (simp only: d27) simp
  finally have body: "take (length packet) (drop (27 + length ?st) (?page @ rest)) = packet"
    by simp
  have after: "drop (27 + length ?st + length packet) (?page @ rest) = rest"
    using len by simp
  show ?thesis
    using parse_pages_step [of "length ?st" "length packet" "?page @ rest" "map unat ?st" off frames]
      len magic segs st body after sum_segment_table [of packet]
      page_packets_segment_table [OF assms(1)]
    by fastforce
qed

lemma write_frames_parses:
  assumes "list_all (\<lambda>f. length f < 65025) fs"
  shows "\<exists>w' pages. write_frames w n i fs = Inr w' \<and> ow_buf w' = ow_buf w @ pages \<and>
           (\<forall>rest off fr. \<exists>off'. parse_pages (pages @ rest) off fr =
              parse_pages rest off' (fr @ concat (map keep_packet fs)))"
  using assms
proof (induction fs arbitrary: w i)
  case Nil
  then show ?case by (intro exI [of _ w] exI [of _ "[]"]) auto
next
  case (Cons f fs)
  let ?fl = "if i = n - 1 then 4 else 0 :: byte" and ?g = "(i + 1) * frameSize"
  show ?case
  proof (cases "f = []")
    case True
    then show ?thesis using Cons by (simp add: keep_packet_def)
  next
    case False
    let ?p = "page_of w f ?fl ?g"
    let ?w = "w\<lparr>ow_buf := ow_buf w @ ?p, ow_seq := ow_seq w + 1\<rparr>"
    obtain w' pages where IH: "write_frames ?w n (i + 1) fs = Inr w'" "ow_buf w' = ow_buf ?w @ pages"
      "\<forall>rest off fr. \<exists>off'. parse_pages (pages @ rest) off fr =
              parse_pages rest off' (fr @ concat (map keep_packet fs))"
      using Cons.IH [of ?w "i + 1"] Cons.prems by auto
    have c: "\<exists>off'. parse_pages ((?p @ pages) @ rest) off fr =
              parse_pages rest off' (fr @ concat (map keep_packet (f # fs)))" for rest off fr
    proof -
      have "length f < 65025" using Cons.prems by simp
      from parse_page_of [OF False this, of w ?fl ?g "pages @ rest" off fr]
      obtain o1 where "parse_pages (?p @ pages @ rest) off fr =
          parse_pages (pages @ rest) o1 (fr @ keep_packet f)" by blast
      moreover obtain o2 where "parse_pages (pages @ rest) o1 (fr @ keep_packet f) =
          parse_pages rest o2 ((fr @ keep_packet f) @ concat (map keep_packet fs))"
        using IH(3) by blast
      ultimately show ?thesis by auto
    qed
    have a: "write_frames w n i (f # fs) = Inr w'"
      using writePage_ok [OF False, of w ?fl ?g False] Cons.prems IH(1) by simp
    have b: "ow_buf w' = ow_buf w @ (?p @ pages)" using IH(2) by simp
    show ?thesis
      by (rule exI [of _ w'], rule exI [of _ "?p @ pages"]) (intro conjI allI a b c)
  qed
qed

lemma keep_idHeader [simp]: "keep_packet idHeader = []"
  by (simp add: keep_packet_def idHeader_def)

lemma keep_commentHeader [simp]: "keep_packet commentHeader = [commentHeader]"
  by (simp add: keep_packet_def commentHeader_def str_bytes_def)

lemma keep_packet_data:
  "packet \<noteq> [] \<Longrightarrow> \<not> has_prefix packet (str_bytes ''OpusHead'') \<Longrightarrow> keep_packet packet = [packet]"
proof -
  have "take 8 packet \<noteq> str_bytes ''OpusTag''" if "8 \<le> length packet"
    using that by (auto dest: arg_cong [where f = length])
  then show "packet \<noteq> [] \<Longrightarrow> \<not> has_prefix packet (str_bytes ''OpusHead'') \<Longrightarrow> keep_packet packet = [packet]"
    by (auto simp: keep_packet_def has_prefix_def numeral_eq_Suc)
qed

lemma keep_packets_filter:
  "list_all (\<lambda>f. \<not> has_prefix f (str_bytes ''OpusHead'')) fs \<Longrightarrow>
   concat (map keep_packet fs) = filter (\<lambda>f. f \<noteq> []) fs"
proof (induction fs)
  case (Cons f fs)
  then show ?case by (cases "f = []") (simp_all add: keep_packet_data, simp add: keep_packet_def)
qed simp

text \<open>
  What the services read back from the exchange's own Ogg writer: every non-empty audio frame,
  in order, but also the comment header. The reader means to skip the \<open>OpusTags\<close> packet, but
  compares eight bytes of it with the seven-byte literal \<open>OpusTag\<close>, so the packet is kept as the
  first audio frame. \<open>BuildOgg\<close> itself succeeds whenever every frame fits a page.
\<close>

theorem parse_BuildOgg:
  assumes "list_all (\<lambda>f. length f < 65025) frames"
    and "list_all (\<lambda>f. \<not> has_prefix f (str_bytes ''OpusHead'')) frames"
  shows "\<exists>ogg. BuildOgg frames = Inr ogg \<and>
           parseOggOpus ogg = Inr (commentHeader # filter (\<lambda>f. f \<noteq> []) frames)"
proof -
  let ?w0 = "\<lparr>ow_buf = [], ow_serial = 0x4f434e31, ow_seq = 0\<rparr> :: oggWriter"
  let ?p1 = "page_of ?w0 idHeader 2 0"
  let ?w1 = "?w0\<lparr>ow_buf := ?p1, ow_seq := 1\<rparr>"
  let ?p2 = "page_of ?w1 commentHeader 0 0"
  let ?w2 = "?w1\<lparr>ow_buf := ?p1 @ ?p2, ow_seq := 2\<rparr>"
  obtain w3 pages where w3: "write_frames ?w2 (length frames) 0 frames = Inr w3"
      "ow_buf w3 = (?p1 @ ?p2) @ pages"
      "\<forall>rest off fr. \<exists>off'. parse_pages (pages @ rest) off fr =
         parse_pages rest off' (fr @ concat (map keep_packet frames))"
    using write_frames_parses [OF assms(1), of ?w2 "length frames" 0] by auto
  have b: "BuildOgg frames = Inr (ow_buf w3)"
    using w3(1) by (simp add: BuildOgg_def writePage_ok)
  have end_page: "parse_pages [] off fr = Inr fr" for off fr
    by (simp add: parse_pages.simps)
  obtain o1 where "parse_pages (?p1 @ ?p2 @ pages) 0 [] = parse_pages (?p2 @ pages) o1 []"
    using parse_page_of [of idHeader ?w0 2 0 "?p2 @ pages" 0 "[]"] by auto
  moreover obtain o2 where "parse_pages (?p2 @ pages) o1 [] = parse_pages pages o2 [commentHeader]"
    using parse_page_of [of commentHeader ?w1 0 0 pages o1 "[]"] by auto
  moreover have "parse_pages pages o2 [commentHeader] =
      Inr (commentHeader # filter (\<lambda>f. f \<noteq> []) frames)"
    using w3(3) [rule_format, of "[]" o2 "[commentHeader]"] end_page
    by (auto simp: keep_packets_filter [OF assms(2)])
  ultimately have "parseOggOpus (ow_buf w3) = Inr (commentHeader # filter (\<lambda>f. f \<noteq> []) frames)"
    by (simp add: parseOggOpus_def w3(2))
  with b show ?thesis by blast
qed

theorem parse_BuildOgg_witness:
  "\<exists>ogg. BuildOgg [[252, 1], [], [252, 2]] = Inr ogg \<and>
         parseOggOpus ogg = Inr [commentHeader, [252, 1], [252, 2]]"
  using parse_BuildOgg [of "[[252, 1], [], [252, 2]]"]
  by (simp add: has_prefix_def str_bytes_def)

lemma page_packets_bound:
  "p \<in> set (page_packets st body l) \<Longrightarrow> length p \<le> length body"
proof (induction st body l rule: page_packets.induct)
  case (2 segLen segs body packetLen)
  then show ?case
    by (fastforce simp: Let_def keep_packet_def split: if_splits)
qed simp

lemma sum_bytes_bound: "sum_list (map unat (bs :: bytes)) \<le> 255 * length bs"
proof (induction bs)
  case (Cons b bs)
  have "unat b < 256" by (rule order_less_le_trans [OF unsigned_less]) simp
  with Cons show ?case by simp
qed simp

lemma parse_pages_bound:
  "parse_pages d off fr = Inr fs \<Longrightarrow> list_all (\<lambda>f. length f < 2 ^ 32) fr \<Longrightarrow>
   list_all (\<lambda>f. length f < 2 ^ 32) fs"
proof (induction d off fr rule: parse_pages.induct)
  case (1 d off fr)
  define n where "n = unat (d ! 26)"
  define st where "st = map unat (take n (drop 27 d))"
  define k where "k = sum_list st"
  have "n < 256" unfolding n_def by (rule order_less_le_trans [OF unsigned_less]) simp
  moreover have "k \<le> 255 * length (take n (drop 27 d))"
    unfolding k_def st_def by (rule sum_bytes_bound)
  ultimately have k: "k \<le> 65025" by simp
  show ?case
  proof (cases "d = [] \<or> length d < 27 \<or> take 4 d \<noteq> str_bytes ''OggS'' \<or>
                length d < 27 + n \<or> length d < 27 + n + k")
    case True
    then have "parse_pages d off fr = Inr fs \<Longrightarrow> fs = fr"
      by (subst (asm) parse_pages.simps) (auto simp: Let_def n_def st_def k_def split: if_splits)
    with "1.prems" show ?thesis by simp
  next
    case False
    let ?new = "page_packets st (take k (drop (27 + n) d)) 0"
    have step: "parse_pages d off fr = parse_pages (drop (27 + n + k) d) (off + 27 + n + k) (fr @ ?new)"
      using False by (intro parse_pages_step) (auto simp: n_def st_def k_def)
    have "list_all (\<lambda>f. length f < 2 ^ 32) ?new"
      using k by (auto simp: list_all_iff dest!: page_packets_bound)
    with False "1.prems" show ?thesis
      by (intro "1.IH") (auto simp: n_def st_def k_def step [unfolded n_def st_def k_def])
  qed
qed

text \<open>
  The speech cache: once a text has been synthesised and its frames written, every later call
  for a text with the same 32-bit hash returns those frames without running the synthesiser. For
  the same text this is what the cache is for; for a different text with an equal hash the caller
  hears the wrong announcement, since the cache file is named by the hash alone.
\<close>

theorem tts_cache_hit:
  assumes "GenerateOpusFrames synth write_ok cache text = (Inr frames, cache')"
    and "frames \<noteq> []" and "write_ok (hashText text)" and "hashText text' = hashText text"
  shows "GenerateOpusFrames synth' write_ok' cache' text' = (Inr frames, cache')"
proof (cases "\<exists>b. cache (hashText text) = Some b \<and> deserializeFrames b \<noteq> []")
  case True
  with assms show ?thesis by (auto simp: GenerateOpusFrames_def Let_def)
next
  case False
  with assms obtain ogg where p: "parseOggOpus ogg = Inr frames"
      and c: "cache' = cache(hashText text \<mapsto> serializeFrames frames)"
    by (auto simp: GenerateOpusFrames_def Let_def split: option.splits sum.splits if_splits)
  from p have "list_all (\<lambda>f. length f < 2 ^ 32) frames"
    unfolding parseOggOpus_def by (rule parse_pages_bound) simp
  then show ?thesis
    using assms(2,4) c by (simp add: GenerateOpusFrames_def Let_def tts_frames.deser_ser)
qed

lemma parse_one_page:
  assumes "p \<noteq> []" and "length p < 65025" and "\<not> has_prefix p (str_bytes ''OpusHead'')"
  shows "parseOggOpus (page_of w p flags granule) = Inr [p]"
  using parse_page_of [OF assms(1,2), of w flags granule "[]" 0 "[]"]
  by (auto simp: parseOggOpus_def keep_packet_data assms parse_pages.simps [of "[]"])

theorem tts_cache_hit_witness:
  "\<exists>ogg cache'. GenerateOpusFrames (\<lambda>_. Inr ogg) (\<lambda>_. True) Map.empty ''Aa'' = (Inr [[252, 9]], cache') \<and>
     GenerateOpusFrames (\<lambda>_. Inl ''espeak failed'') (\<lambda>_. True) cache' ''BB'' = (Inr [[252, 9]], cache')"
proof -
  let ?ogg = "page_of \<lparr>ow_buf = [], ow_serial = 1, ow_seq = 0\<rparr> [252, 9] 0 960"
  obtain cache' where c: "GenerateOpusFrames (\<lambda>_. Inr ?ogg) (\<lambda>_. True) Map.empty ''Aa'' = (Inr [[252, 9]], cache')"
    by (simp add: GenerateOpusFrames_def Let_def parse_one_page has_prefix_def str_bytes_def)
  have "hashText ''BB'' = hashText ''Aa''" by (simp add: hashText_def)
  with c show ?thesis using tts_cache_hit [OF c, of "''BB''"] by auto
qed

end
