(* ===== verification/Go_Json.thy ===== *)
theory Go_Json
  imports Go_Crypto
begin

text \<open>
  JSON text as Go's \<open>encoding/json\<close> writes and reads it: the compact form of \<open>json.Marshal\<close> with its
  escapes, and U+FFFD for bytes that are not UTF-8; and the reader behind \<open>json.Unmarshal\<close>, a lexer
  and a push-down machine over the tokens that refuses more than 10000 open brackets. The reader
  gives back the value that was written (\<open>parse_print\<close>).
\<close>

section \<open>UTF-8\<close>

abbreviation ord :: "char \<Rightarrow> nat" where "ord c \<equiv> of_char c"

definition cont_byte :: "char \<Rightarrow> bool" where
  "cont_byte c \<longleftrightarrow> 0x80 \<le> ord c \<and> ord c \<le> 0xBF"

text \<open>The bytes of the character a string begins with; 0 when they are not UTF-8.\<close>

fun rune_len :: "string \<Rightarrow> nat" where
  "rune_len [] = 0"
| "rune_len (c # s) =
     (if ord c < 0x80 then 1
      else if 0xC2 \<le> ord c \<and> ord c \<le> 0xDF then (case s of d # _ \<Rightarrow> if cont_byte d then 2 else 0 | _ \<Rightarrow> 0)
      else if 0xE0 \<le> ord c \<and> ord c \<le> 0xEF then
        (case s of
           d # e # _ \<Rightarrow> if cont_byte d \<and> cont_byte e \<and> (ord c = 0xE0 \<longrightarrow> 0xA0 \<le> ord d) \<and> (ord c = 0xED \<longrightarrow> ord d \<le> 0x9F) then 3 else 0
         | _ \<Rightarrow> 0)
      else if 0xF0 \<le> ord c \<and> ord c \<le> 0xF4 then
        (case s of
           d # e # f # _ \<Rightarrow>
             if cont_byte d \<and> cont_byte e \<and> cont_byte f \<and> (ord c = 0xF0 \<longrightarrow> 0x90 \<le> ord d) \<and> (ord c = 0xF4 \<longrightarrow> ord d \<le> 0x8F) then 4 else 0
         | _ \<Rightarrow> 0)
      else 0)"

declare rune_len.simps(2) [simp del]

definition rune_error :: string where "rune_error = [CHR 0xEF, CHR 0xBF, CHR 0xBD]"

text \<open>\<open>utf8.AppendRune\<close> of a code point that is not a surrogate.\<close>

definition enc_rune :: "nat \<Rightarrow> string" where
  "enc_rune r =
     (if r < 0x80 then [char_of r]
      else if r < 0x800 then [char_of (0xC0 + r div 64), char_of (0x80 + r mod 64)]
      else if r < 0x10000 then [char_of (0xE0 + r div 4096), char_of (0x80 + r div 64 mod 64), char_of (0x80 + r mod 64)]
      else [char_of (0xF0 + r div 262144), char_of (0x80 + r div 4096 mod 64), char_of (0x80 + r div 64 mod 64), char_of (0x80 + r mod 64)])"

lemma rune_len_le: "rune_len s \<le> length s"
  by (cases s) (auto simp: rune_len.simps split: list.split)

text \<open>The text with every byte that is not UTF-8 replaced by U+FFFD.\<close>

function to_valid :: "string \<Rightarrow> string" where
  "to_valid s =
     (if s = [] then []
      else if rune_len s = 0 then rune_error @ to_valid (tl s)
      else take (rune_len s) s @ to_valid (drop (rune_len s) s))"
  by pat_completeness auto
termination
  by (relation "measure length") auto

declare to_valid.simps [simp del]

abbreviation utf8 :: "string \<Rightarrow> bool" where "utf8 s \<equiv> to_valid s = s"

section \<open>Strings as JSON text\<close>

definition hex_digit :: "nat \<Rightarrow> char" where
  "hex_digit n = (if n < 10 then char_of (48 + n) else char_of (87 + n))"

definition hex_val :: "char \<Rightarrow> nat option" where
  "hex_val c =
     (if is_digit c then Some (ord c - 48)
      else if 97 \<le> ord c \<and> ord c \<le> 102 then Some (ord c - 87)
      else if 65 \<le> ord c \<and> ord c \<le> 70 then Some (ord c - 55)
      else None)"

text \<open>The escapes of the encoder, which also protects \<open><\<close>, \<open>>\<close>, \<open>&\<close> and the line separators.\<close>

definition esc_ascii :: "char \<Rightarrow> string" where
  "esc_ascii c =
     (if c = CHR 0x22 \<or> c = CHR 0x5C then [CHR 0x5C, c]
      else if c = CHR 0x08 then [CHR 0x5C, CHR ''b'']
      else if c = CHR 0x0C then [CHR 0x5C, CHR ''f'']
      else if c = CHR 0x0A then [CHR 0x5C, CHR ''n'']
      else if c = CHR 0x0D then [CHR 0x5C, CHR ''r'']
      else if c = CHR 0x09 then [CHR 0x5C, CHR ''t'']
      else if ord c < 32 \<or> c = CHR ''<'' \<or> c = CHR ''>'' \<or> c = CHR ''&'' then
        [CHR 0x5C, CHR ''u'', CHR ''0'', CHR ''0'', hex_digit (ord c div 16), hex_digit (ord c mod 16)]
      else [c])"

definition esc_rune :: "string \<Rightarrow> string" where
  "esc_rune r =
     (case r of
        [c] \<Rightarrow> esc_ascii c
      | _ \<Rightarrow> if r = [CHR 0xE2, CHR 0x80, CHR 0xA8] then CHR 0x5C # ''u2028''
             else if r = [CHR 0xE2, CHR 0x80, CHR 0xA9] then CHR 0x5C # ''u2029''
             else r)"

function quote_body :: "string \<Rightarrow> string" where
  "quote_body s =
     (if s = [] then []
      else if rune_len s = 0 then CHR 0x5C # ''ufffd'' @ quote_body (tl s)
      else esc_rune (take (rune_len s) s) @ quote_body (drop (rune_len s) s))"
  by pat_completeness auto
termination
  by (relation "measure length") auto

declare quote_body.simps [simp del]

definition quote_str :: "string \<Rightarrow> string" where
  "quote_str s = CHR 0x22 # quote_body s @ [CHR 0x22]"

definition simple_esc :: "char \<Rightarrow> char option" where
  "simple_esc e =
     (if e \<in> {CHR 0x22, CHR 0x5C, CHR ''/''} then Some e
      else map_of [(CHR ''b'', CHR 0x08), (CHR ''f'', CHR 0x0C), (CHR ''n'', CHR 0x0A), (CHR ''r'', CHR 0x0D), (CHR ''t'', CHR 0x09)] e)"

definition hex4 :: "string \<Rightarrow> nat option" where
  "hex4 s =
     (case s of
        a # b # c # d # _ \<Rightarrow>
          (case (hex_val a, hex_val b, hex_val c, hex_val d) of
             (Some p, Some q, Some r, Some t) \<Rightarrow> Some (4096 * p + 256 * q + 16 * r + t)
           | _ \<Rightarrow> None)
      | _ \<Rightarrow> None)"

text \<open>
  The character of the escape \<open>\u\<close> whose digits give \<open>r\<close>, and how much of the text after the digits
  it takes: a high surrogate takes the low surrogate that follows it, any other surrogate is U+FFFD.
\<close>

definition unicode_esc :: "nat \<Rightarrow> string \<Rightarrow> string \<times> nat" where
  "unicode_esc r s =
     (if 0xD800 \<le> r \<and> r < 0xE000 then
        (case (if take 2 s = [CHR 0x5C, CHR ''u''] then hex4 (drop 2 s) else None) of
           Some r2 \<Rightarrow> if r < 0xDC00 \<and> 0xDC00 \<le> r2 \<and> r2 < 0xE000
                       then (enc_rune (0x10000 + (r - 0xD800) * 1024 + (r2 - 0xDC00)), 6) else (rune_error, 0)
         | None \<Rightarrow> (rune_error, 0))
      else (enc_rune r, 0))"

abbreviation put_text :: "string \<Rightarrow> (string \<times> string) option \<Rightarrow> (string \<times> string) option" where
  "put_text t \<equiv> map_option (apfst ((@) t))"

text \<open>The text of a string after its opening quote: its content, and what follows the closing quote.\<close>

function unquote :: "string \<Rightarrow> (string \<times> string) option" where
  "unquote [] = None"
| "unquote (c # s) =
     (if c = CHR 0x22 then Some ([], s)
      else if c = CHR 0x5C then
        (case s of
           [] \<Rightarrow> None
         | e # s1 \<Rightarrow>
             if e = CHR ''u'' then
               (case hex4 s1 of
                  None \<Rightarrow> None
                | Some r \<Rightarrow> (case unicode_esc r (drop 4 s1) of (t, k) \<Rightarrow> put_text t (unquote (drop k (drop 4 s1)))))
             else (case simple_esc e of None \<Rightarrow> None | Some d \<Rightarrow> put_text [d] (unquote s1)))
      else if ord c < 32 then None
      else if rune_len (c # s) = 0 then put_text rune_error (unquote s)
      else put_text (take (rune_len (c # s)) (c # s)) (unquote (drop (rune_len (c # s) - 1) s)))"
  by pat_completeness auto
termination
  by (relation "measure length") auto

declare unquote.simps(2) [simp del]

lemma rune_len_append: "0 < rune_len s \<Longrightarrow> rune_len (take (rune_len s) s @ t) = rune_len s"
  by (cases s) (auto simp: rune_len.simps split: list.splits if_splits)

lemma rune_len_1: "rune_len s = 1 \<Longrightarrow> \<exists>c r. s = c # r \<and> ord c < 128"
  by (cases s) (auto simp: rune_len.simps split: list.splits if_splits)

lemma rune_len_multi: "1 < rune_len s \<Longrightarrow> \<exists>c d r. s = c # d # r \<and> 128 \<le> ord c"
  by (cases s; cases "tl s") (auto simp: rune_len.simps split: list.splits if_splits)

lemma hex_val_digit: "n < 16 \<Longrightarrow> hex_val (hex_digit n) = Some n"
  by (auto simp: hex_val_def hex_digit_def is_digit_def)

lemma unquote_ascii:
  assumes "ord c < 128"
  shows "unquote (esc_ascii c @ t) = put_text [c] (unquote t)"
proof -
  have h: "hex_val (CHR ''0'') = Some 0" by (simp add: hex_val_def is_digit_def)
  have e: "ord c div 16 < 16" "ord c mod 16 < 16" "16 * (ord c div 16) + ord c mod 16 = ord c" using assms by auto
  have u: "unquote (CHR 0x5C # CHR ''u'' # CHR ''0'' # CHR ''0'' # hex_digit (ord c div 16) # hex_digit (ord c mod 16) # t) = put_text [c] (unquote t)"
    using assms e by (simp add: unquote.simps(2) hex4_def h hex_val_digit unicode_esc_def enc_rune_def)
  have s: "rune_len (c # t) = 1" using assms by (simp add: rune_len.simps)
  show ?thesis
    unfolding esc_ascii_def using u s
    by (auto simp: unquote.simps(2) simple_esc_def)
qed

lemma unquote_raw:
  assumes "128 \<le> ord c" "rune_len (c # r @ t) = Suc (length r)"
  shows "unquote (c # r @ t) = put_text (c # r) (unquote t)"
proof -
  have "ord c \<noteq> 0x22" "ord c \<noteq> 0x5C" using assms(1) by auto
  then have "c \<noteq> CHR 0x22" "c \<noteq> CHR 0x5C" by auto
  then show ?thesis using assms by (simp add: unquote.simps(2))
qed

lemma unquote_rune:
  assumes "1 < rune_len s"
  shows "unquote (take (rune_len s) s @ t) = put_text (take (rune_len s) s) (unquote t)"
proof -
  obtain c d r where s: "s = c # d # r" and c: "128 \<le> ord c" using rune_len_multi [OF assms] by blast
  define u where "u = take (rune_len s - 1) (d # r)"
  have u: "take (rune_len s) s = c # u" "Suc (length u) = rune_len s"
    using assms rune_len_le [of s] by (auto simp: u_def s take_Cons' min_def)
  then show ?thesis using unquote_raw [of c u t] c assms rune_len_append [of s t] by simp
qed

lemma char_of_sep: "char_of (226 :: nat) = CHR 0xE2" "char_of (128 :: nat) = CHR 0x80" "char_of (168 :: nat) = CHR 0xA8"
    "char_of (169 :: nat) = CHR 0xA9" "char_of (239 :: nat) = CHR 0xEF" "char_of (191 :: nat) = CHR 0xBF" "char_of (189 :: nat) = CHR 0xBD"
  by (simp_all add: char_of_def bit_Suc_0_iff)

lemma unquote_esc:
  assumes "0 < rune_len s"
  shows "unquote (esc_rune (take (rune_len s) s) @ t) = put_text (take (rune_len s) s) (unquote t)"
proof (cases "rune_len s = 1")
  case True
  then show ?thesis using rune_len_1 [OF True] by (auto simp: esc_rune_def unquote_ascii)
next
  case False
  then have m: "1 < rune_len s" using assms by simp
  then have l: "length (take (rune_len s) s) = rune_len s" using rune_len_le [of s] by simp
  have sep: "unquote (CHR 0x5C # ''u2028'' @ t) = put_text [CHR 0xE2, CHR 0x80, CHR 0xA8] (unquote t)"
    "unquote (CHR 0x5C # ''u2029'' @ t) = put_text [CHR 0xE2, CHR 0x80, CHR 0xA9] (unquote t)"
    by (simp_all add: unquote.simps(2) hex4_def hex_val_def is_digit_def unicode_esc_def enc_rune_def char_of_sep)
  show ?thesis
    using sep unquote_rune [OF m] l m
    by (cases "take (rune_len s) s"; cases "tl (take (rune_len s) s)") (auto simp: esc_rune_def)
qed

lemma unquote_quote: "unquote (quote_body s @ CHR 0x22 # t) = Some (to_valid s, t)"
proof (induction s rule: quote_body.induct)
  case (1 s)
  have bad: "unquote (CHR 0x5C # ''ufffd'' @ r) = put_text rune_error (unquote r)" for r
    by (simp add: unquote.simps(2) hex4_def hex_val_def is_digit_def unicode_esc_def enc_rune_def rune_error_def char_of_sep)
  consider "s = []" | "s \<noteq> []" "rune_len s = 0" | "s \<noteq> []" "0 < rune_len s" by auto
  then show ?case
  proof cases
    case 1
    then show ?thesis by (simp add: quote_body.simps to_valid.simps unquote.simps(2))
  next
    case 2
    then show ?thesis using "1.IH"(1) bad by (simp add: quote_body.simps [of s] to_valid.simps [of s])
  next
    case 3
    then show ?thesis using "1.IH"(2) by (simp add: quote_body.simps [of s] to_valid.simps [of s] unquote_esc)
  qed
qed

lemma unquote_shorter: "unquote s = Some (t, r) \<Longrightarrow> length r < length s"
proof (induction s arbitrary: t rule: unquote.induct)
  case (2 c s)
  have "\<exists>t' s'. unquote s' = Some (t', r) \<and> length s' \<le> length s \<and> length r < length s' \<or> r = s"
    using "2.prems" "2.IH"
    by (auto simp: unquote.simps(2) split: if_splits list.splits option.splits prod.splits) (fastforce)+
  then show ?case by auto
qed simp

lemma dec_leading: "10 \<le> n \<Longrightarrow> hd (dec n) \<noteq> CHR ''0''"
proof (induction n rule: dec_rev.induct)
  case (1 n)
  let ?m = "n div 10"
  have s: "dec n = dec ?m @ [char_of (48 + n mod 10)]"
    using "1.prems" by (simp add: dec_def dec_rev.simps [of n])
  show ?case
  proof (cases "10 \<le> ?m")
    case True
    then show ?thesis using "1.IH" "1.prems" s by simp
  next
    case False
    then have "dec ?m = [char_of (48 + ?m)]" "0 < ?m" using "1.prems" by (auto simp: dec_def dec_rev.simps [of ?m])
    moreover have "ord (char_of (48 + ?m)) \<noteq> ord (CHR ''0'')"
      using False \<open>0 < ?m\<close> by simp
    then have "char_of (48 + ?m) \<noteq> CHR ''0''" by metis
    ultimately show ?thesis using s by simp
  qed
qed

section \<open>Values and their text\<close>

datatype jvalue = VNull | VBool bool | VNum string | VStr string | VArr "jvalue list" | VObj "(string \<times> jvalue) list"

fun sep_join :: "'a \<Rightarrow> 'a list list \<Rightarrow> 'a list" where
  "sep_join sep [] = []"
| "sep_join sep [x] = x"
| "sep_join sep (x # y # xs) = x @ sep # sep_join sep (y # xs)"

primrec json_print :: "jvalue \<Rightarrow> string" where
  "json_print VNull = ''null''"
| "json_print (VBool b) = (if b then ''true'' else ''false'')"
| "json_print (VNum s) = s"
| "json_print (VStr s) = quote_str s"
| "json_print (VArr xs) = CHR ''['' # sep_join (CHR '','') (map json_print xs) @ '']''"
| "json_print (VObj kvs) = CHR ''{'' #
     sep_join (CHR '','') (map (\<lambda>(k, t). quote_str k @ CHR '':'' # t) (map (map_prod id json_print) kvs)) @ ''}''"

text \<open>The form of \<open>json.MarshalIndent\<close> with two spaces for each level.\<close>

definition new_line :: "nat \<Rightarrow> string" where
  "new_line n = CHR 0x0A # replicate (2 * n) (CHR '' '')"

primrec json_indent :: "jvalue \<Rightarrow> nat \<Rightarrow> string" where
  "json_indent VNull n = ''null''"
| "json_indent (VBool b) n = (if b then ''true'' else ''false'')"
| "json_indent (VNum s) n = s"
| "json_indent (VStr s) n = quote_str s"
| "json_indent (VArr xs) n =
     (if xs = [] then ''[]''
      else CHR ''['' # sep_join (CHR '','') (map (\<lambda>f. new_line (Suc n) @ f (Suc n)) (map json_indent xs)) @ new_line n @ '']'')"
| "json_indent (VObj kvs) n =
     (if kvs = [] then ''{}''
      else CHR ''{'' # sep_join (CHR '','')
        (map (\<lambda>(k, f). new_line (Suc n) @ quote_str k @ '': '' @ f (Suc n)) (map (map_prod id json_indent) kvs)) @ new_line n @ ''}'')"

section \<open>The lexer\<close>

datatype token = TPunct char | TScalar jvalue

definition starts :: "char \<Rightarrow> string \<Rightarrow> bool" where
  "starts c s \<longleftrightarrow> s \<noteq> [] \<and> hd s = c"

definition lex_digits :: "string \<Rightarrow> (string \<times> string) option" where
  "lex_digits s = (if takeWhile is_digit s = [] then None else Some (takeWhile is_digit s, dropWhile is_digit s))"

definition lex_frac :: "string \<Rightarrow> (string \<times> string) option" where
  "lex_frac s = (if starts (CHR ''.'') s then put_text ''.'' (lex_digits (tl s)) else Some ([], s))"

definition lex_exp :: "string \<Rightarrow> (string \<times> string) option" where
  "lex_exp s =
     (if starts (CHR ''e'') s \<or> starts (CHR ''E'') s then
        (if starts (CHR ''+'') (tl s) \<or> starts (CHR ''-'') (tl s)
         then put_text [hd s, hd (tl s)] (lex_digits (tl (tl s)))
         else put_text [hd s] (lex_digits (tl s)))
      else Some ([], s))"

definition lex_int :: "string \<Rightarrow> (string \<times> string) option" where
  "lex_int s = (if starts (CHR ''0'') s then Some (''0'', tl s) else lex_digits s)"

definition lex_uint :: "string \<Rightarrow> (string \<times> string) option" where
  "lex_uint s =
     (case lex_int s of
        None \<Rightarrow> None
      | Some (i, s1) \<Rightarrow>
          (case lex_frac s1 of
             None \<Rightarrow> None
           | Some (f, s2) \<Rightarrow> put_text (i @ f) (lex_exp s2)))"

text \<open>The literal of a number and the text after it.\<close>

definition lex_num :: "string \<Rightarrow> (string \<times> string) option" where
  "lex_num s = (if starts (CHR ''-'') s then put_text ''-'' (lex_uint (tl s)) else lex_uint s)"

lemma lex_digits_split: "lex_digits s = Some (l, r) \<Longrightarrow> s = l @ r \<and> l \<noteq> []"
  by (auto simp: lex_digits_def split: if_splits)

lemma lex_num_split: "lex_num s = Some (l, r) \<Longrightarrow> s = l @ r \<and> l \<noteq> []"
proof -
  have f: "lex_frac s = Some (l, r) \<Longrightarrow> s = l @ r" for s l r
    by (cases s) (auto simp: lex_frac_def starts_def dest!: lex_digits_split split: if_splits)
  have e: "lex_exp s = Some (l, r) \<Longrightarrow> s = l @ r" for s l r
    by (cases s; cases "tl s") (auto simp: lex_exp_def starts_def dest!: lex_digits_split split: if_splits)
  have i: "lex_int s = Some (l, r) \<Longrightarrow> s = l @ r \<and> l \<noteq> []" for s l r
    by (cases s) (auto simp: lex_int_def starts_def dest!: lex_digits_split split: if_splits)
  have u: "lex_uint s = Some (l, r) \<Longrightarrow> s = l @ r \<and> l \<noteq> []" for s l r
    by (auto simp: lex_uint_def dest!: i f e split: option.splits)
  show "lex_num s = Some (l, r) \<Longrightarrow> s = l @ r \<and> l \<noteq> []"
    by (cases s) (auto simp: lex_num_def starts_def dest!: u split: if_splits)
qed

definition json_space :: "char \<Rightarrow> bool" where
  "json_space c \<longleftrightarrow> ord c \<in> {9, 10, 13, 32}"

abbreviation push_tok :: "token \<Rightarrow> token list option \<Rightarrow> token list option" where
  "push_tok k \<equiv> map_option ((#) k)"

function json_lex :: "string \<Rightarrow> token list option" where
  "json_lex [] = Some []"
| "json_lex (c # s) =
     (if json_space c then json_lex s
      else if c \<in> set ''[]{},:'' then push_tok (TPunct c) (json_lex s)
      else if c = CHR 0x22 then
        (case unquote s of None \<Rightarrow> None | Some (t, r) \<Rightarrow> push_tok (TScalar (VStr t)) (json_lex r))
      else if has_prefix (c # s) ''null'' then push_tok (TScalar VNull) (json_lex (drop 3 s))
      else if has_prefix (c # s) ''true'' then push_tok (TScalar (VBool True)) (json_lex (drop 3 s))
      else if has_prefix (c # s) ''false'' then push_tok (TScalar (VBool False)) (json_lex (drop 4 s))
      else (case lex_num (c # s) of None \<Rightarrow> None | Some (l, r) \<Rightarrow> push_tok (TScalar (VNum l)) (json_lex r)))"
  by pat_completeness auto
termination
proof (relation "measure length")
  fix c s t r and p :: "string \<times> string"
  show "unquote s = Some p \<Longrightarrow> (t, r) = p \<Longrightarrow> (r, c # s) \<in> measure length"
    using unquote_shorter by fastforce
next
  fix c s l r and p :: "string \<times> string"
  assume "lex_num (c # s) = Some p" "(l, r) = p"
  then have "c # s = l @ r" "l \<noteq> []" using lex_num_split by blast+
  then have "length r < length (c # s)" by simp
  then show "(r, c # s) \<in> measure length" by simp
qed auto

declare json_lex.simps(2) [simp del]

section \<open>The parser\<close>

text \<open>
  What is expected next, and the brackets that are open: the elements of an array so far, or the
  members of an object so far with the name of the one being read.
\<close>

datatype expect = WantValue | WantFirst | WantKey "(string \<times> jvalue) list" | WantFirstKey
  | WantColon "(string \<times> jvalue) list" string | Got jvalue

datatype frame = InArr "jvalue list" | InObj "(string \<times> jvalue) list" string

definition maxNestingDepth :: nat where "maxNestingDepth = 10000"

definition begin_value :: "token \<Rightarrow> frame list \<Rightarrow> (expect \<times> frame list) option" where
  "begin_value k stk =
     (case k of
        TScalar v \<Rightarrow> Some (Got v, stk)
      | TPunct c \<Rightarrow>
          if maxNestingDepth \<le> length stk then None
          else if c = CHR ''['' then Some (WantFirst, InArr [] # stk)
          else if c = CHR ''{'' then Some (WantFirstKey, stk)
          else None)"

definition begin_key :: "token \<Rightarrow> (string \<times> jvalue) list \<Rightarrow> frame list \<Rightarrow> (expect \<times> frame list) option" where
  "begin_key k kvs stk = (case k of TScalar (VStr s) \<Rightarrow> Some (WantColon kvs s, stk) | _ \<Rightarrow> None)"

fun end_value :: "token \<Rightarrow> jvalue \<Rightarrow> frame list \<Rightarrow> (expect \<times> frame list) option" where
  "end_value k v [] = None"
| "end_value k v (InArr xs # stk) =
     (if k = TPunct (CHR '','') then Some (WantValue, InArr (xs @ [v]) # stk)
      else if k = TPunct (CHR '']'') then Some (Got (VArr (xs @ [v])), stk)
      else None)"
| "end_value k v (InObj kvs m # stk) =
     (if k = TPunct (CHR '','') then Some (WantKey (kvs @ [(m, v)]), stk)
      else if k = TPunct (CHR ''}'') then Some (Got (VObj (kvs @ [(m, v)])), stk)
      else None)"

fun json_step :: "token \<Rightarrow> expect \<times> frame list \<Rightarrow> (expect \<times> frame list) option" where
  "json_step k (WantValue, stk) = begin_value k stk"
| "json_step k (WantFirst, stk) = (if k = TPunct (CHR '']'') then Some (Got (VArr []), tl stk) else begin_value k stk)"
| "json_step k (WantKey kvs, stk) = begin_key k kvs stk"
| "json_step k (WantFirstKey, stk) = (if k = TPunct (CHR ''}'') then Some (Got (VObj []), stk) else begin_key k [] stk)"
| "json_step k (WantColon kvs m, stk) = (if k = TPunct (CHR '':'') then Some (WantValue, InObj kvs m # stk) else None)"
| "json_step k (Got v, stk) = end_value k v stk"

fun json_run :: "token list \<Rightarrow> expect \<times> frame list \<Rightarrow> (expect \<times> frame list) option" where
  "json_run [] p = Some p"
| "json_run (k # ks) p = (case json_step k p of None \<Rightarrow> None | Some p' \<Rightarrow> json_run ks p')"

definition json_parse :: "string \<Rightarrow> jvalue option" where
  "json_parse s =
     (case json_lex s of
        None \<Rightarrow> None
      | Some ks \<Rightarrow> (case json_run ks (WantValue, []) of Some (Got v, []) \<Rightarrow> Some v | _ \<Rightarrow> None))"

section \<open>Reading back what was written\<close>

primrec valid_json :: "jvalue \<Rightarrow> jvalue" where
  "valid_json VNull = VNull"
| "valid_json (VBool b) = VBool b"
| "valid_json (VNum s) = VNum s"
| "valid_json (VStr s) = VStr (to_valid s)"
| "valid_json (VArr xs) = VArr (map valid_json xs)"
| "valid_json (VObj kvs) = VObj (map (map_prod to_valid valid_json) kvs)"

primrec json_depth :: "jvalue \<Rightarrow> nat" where
  "json_depth VNull = 0"
| "json_depth (VBool b) = 0"
| "json_depth (VNum s) = 0"
| "json_depth (VStr s) = 0"
| "json_depth (VArr xs) = Suc (fold max (map json_depth xs) 0)"
| "json_depth (VObj kvs) = Suc (fold max (map snd (map (map_prod id json_depth) kvs)) 0)"

text \<open>Every number is the literal of an integer.\<close>

primrec int_json :: "jvalue \<Rightarrow> bool" where
  "int_json VNull = True"
| "int_json (VBool b) = True"
| "int_json (VNum s) = (\<exists>n. s = fmt_d n)"
| "int_json (VStr s) = True"
| "int_json (VArr xs) = list_all id (map int_json xs)"
| "int_json (VObj kvs) = list_all snd (map (map_prod id int_json) kvs)"

primrec toks :: "jvalue \<Rightarrow> token list" where
  "toks VNull = [TScalar VNull]"
| "toks (VBool b) = [TScalar (VBool b)]"
| "toks (VNum s) = [TScalar (VNum s)]"
| "toks (VStr s) = [TScalar (VStr (to_valid s))]"
| "toks (VArr xs) = TPunct (CHR ''['') # sep_join (TPunct (CHR '','')) (map toks xs) @ [TPunct (CHR '']'')]"
| "toks (VObj kvs) = TPunct (CHR ''{'') #
     sep_join (TPunct (CHR '','')) (map (\<lambda>(k, t). TScalar (VStr (to_valid k)) # TPunct (CHR '':'') # t) (map (map_prod id toks) kvs)) @
     [TPunct (CHR ''}'')]"

text \<open>The text after a value: nothing, or a character that ends a number.\<close>

definition ends_num :: "string \<Rightarrow> bool" where
  "ends_num r \<longleftrightarrow> r = [] \<or> hd r \<in> set '',]}'' \<or> json_space (hd r)"

lemma lex_punct [simp]:
  "json_lex (CHR ''['' # s) = push_tok (TPunct (CHR ''['')) (json_lex s)" "json_lex (CHR '']'' # s) = push_tok (TPunct (CHR '']'')) (json_lex s)"
  "json_lex (CHR ''{'' # s) = push_tok (TPunct (CHR ''{'')) (json_lex s)" "json_lex (CHR ''}'' # s) = push_tok (TPunct (CHR ''}'')) (json_lex s)"
  "json_lex (CHR '','' # s) = push_tok (TPunct (CHR '','')) (json_lex s)" "json_lex (CHR '':'' # s) = push_tok (TPunct (CHR '':'')) (json_lex s)"
  by (simp_all add: json_lex.simps(2) json_space_def)

lemma lex_quote [simp]: "json_lex (quote_str s @ r) = push_tok (TScalar (VStr (to_valid s))) (json_lex r)"
  by (simp add: quote_str_def json_lex.simps(2) json_space_def unquote_quote)

lemma lex_literal:
  "json_lex (''null'' @ r) = push_tok (TScalar VNull) (json_lex r)"
  "json_lex (''true'' @ r) = push_tok (TScalar (VBool True)) (json_lex r)" "json_lex (''false'' @ r) = push_tok (TScalar (VBool False)) (json_lex r)"
  by (simp_all add: json_lex.simps(2) json_space_def has_prefix_def)

lemma lex_uint_dec:
  assumes "ends_num r"
  shows "lex_uint (dec n @ r) = Some (dec n, r)"
proof -
  have r: "takeWhile is_digit r = []" "dropWhile is_digit r = r" "lex_frac r = Some ([], r)" "lex_exp r = Some ([], r)"
    using assms by (cases r; auto simp: ends_num_def is_digit_def json_space_def lex_frac_def lex_exp_def starts_def)+
  have d: "\<And>c. c \<in> set (dec n) \<Longrightarrow> is_digit c" using dec_digits by (simp add: list_all_iff)
  have "lex_int (dec n @ r) = Some (dec n, r)"
  proof (cases "starts (CHR ''0'') (dec n @ r)")
    case True
    then have "dec n = ''0''"
    proof (cases "n < 10")
      case False
      then have "10 \<le> n" by simp
      then have "hd (dec n) \<noteq> CHR ''0''" by (rule dec_leading)
      then show ?thesis using True by (simp add: starts_def)
    qed (auto simp: dec_def dec_rev.simps starts_def)
    then show ?thesis by (simp add: lex_int_def starts_def)
  next
    case False
    then show ?thesis using d r by (simp add: lex_int_def lex_digits_def takeWhile_append2 dropWhile_append2)
  qed
  then show ?thesis using r by (simp add: lex_uint_def)
qed

lemma lex_fmt_d: "ends_num r \<Longrightarrow> json_lex (fmt_d n @ r) = push_tok (TScalar (VNum (fmt_d n))) (json_lex r)"
proof -
  assume r: "ends_num r"
  obtain c s where f: "fmt_d n = c # s" "c = CHR ''-'' \<or> is_digit c"
  proof (cases "n < 0")
    case False
    then show ?thesis using that dec_digits [of "nat n"] by (cases "dec (nat n)") (auto simp: fmt_d_def)
  qed (auto simp: fmt_d_def)
  have "lex_num (fmt_d n @ r) = Some (fmt_d n, r)"
  proof (cases "n < 0")
    case True
    then show ?thesis using lex_uint_dec [OF r] by (simp add: lex_num_def fmt_d_def starts_def)
  next
    case False
    then have "\<not> starts (CHR ''-'') (fmt_d n @ r)"
      using dec_no_minus [of "nat n"] by (cases "dec (nat n)") (auto simp: fmt_d_def starts_def)
    then show ?thesis using lex_uint_dec [OF r] False by (simp add: lex_num_def fmt_d_def)
  qed
  moreover have "\<not> json_space c" "c \<notin> set ''[]{},:''" "c \<noteq> CHR 0x22" "c \<notin> {CHR ''n'', CHR ''t'', CHR ''f''}"
    using f(2) by (auto simp: json_space_def is_digit_def)
  ultimately show ?thesis by (simp add: f(1) json_lex.simps(2) has_prefix_def)
qed

lemma ends_num_intro [simp]:
  "ends_num (CHR '','' # r)" "ends_num (CHR '']'' # r)" "ends_num (CHR ''}'' # r)" "ends_num (CHR 0x0A # r)" "ends_num []"
  by (auto simp: ends_num_def json_space_def)

lemma lex_join:
  assumes "\<And>x r. x \<in> set xs \<Longrightarrow> ends_num r \<Longrightarrow> json_lex (f x @ r) = map_option ((@) (g x)) (json_lex r)" and "ends_num r"
  shows "json_lex (sep_join (CHR '','') (map f xs) @ r) = map_option ((@) (sep_join (TPunct (CHR '','')) (map g xs))) (json_lex r)"
  using assms
proof (induction xs)
  case (Cons x xs)
  show ?case
  proof (cases xs)
    case Nil
    then show ?thesis using Cons.prems by simp
  next
    case (Cons y ys)
    then show ?thesis using Cons.IH Cons.prems by (simp add: option.map_comp comp_def)
  qed
qed (cases "json_lex r"; simp)

lemma lex_print: "int_json v \<Longrightarrow> ends_num r \<Longrightarrow> json_lex (json_print v @ r) = map_option ((@) (toks v)) (json_lex r)"
proof (induction v arbitrary: r)
  case (VNum s)
  then show ?case by (auto simp: lex_fmt_d intro!: option.map_cong)
next
  case (VArr xs)
  then have "json_lex (json_print x @ r) = map_option ((@) (toks x)) (json_lex r)" if "x \<in> set xs" "ends_num r" for x r
    using that by (simp add: list_all_iff)
  from lex_join [of xs json_print toks, OF this] show ?case by (simp add: option.map_comp comp_def)
next
  case (VObj kvs)
  let ?f = "(\<lambda>(k, t). quote_str k @ CHR '':'' # t) \<circ> map_prod id json_print"
  let ?g = "(\<lambda>(k, t). TScalar (VStr (to_valid k)) # TPunct (CHR '':'') # t) \<circ> map_prod id toks"
  have "json_lex (?f kv @ r) = map_option ((@) (?g kv)) (json_lex r)" if "kv \<in> set kvs" "ends_num r" for kv r
  proof -
    obtain k v where kv: "kv = (k, v)" by (cases kv)
    then have "int_json v" using that(1) VObj.prems(1) by (fastforce simp: list_all_iff)
    then show ?thesis using that VObj.IH [of kv v r] kv by (cases "json_lex r") simp_all
  qed
  from lex_join [of kvs ?f ?g, OF this] show ?case by (simp add: option.map_comp comp_def)
qed (auto simp: lex_literal [simplified] option.map_comp comp_def intro!: option.map_cong)

lemma lex_space: "json_lex (CHR '' '' # r) = json_lex r"
  by (simp add: json_lex.simps(2) json_space_def)

lemma lex_new_line [simp]: "json_lex (new_line n @ r) = json_lex r"
proof -
  have "json_lex (replicate k (CHR '' '') @ r) = json_lex r" for k by (induction k) (simp_all add: lex_space)
  then show ?thesis by (simp add: new_line_def json_lex.simps(2) json_space_def)
qed

lemma ends_new_line [simp]: "ends_num (new_line n @ r)"
  by (simp add: ends_num_def new_line_def json_space_def)

lemma lex_indent: "int_json v \<Longrightarrow> ends_num r \<Longrightarrow> json_lex (json_indent v n @ r) = map_option ((@) (toks v)) (json_lex r)"
proof (induction v arbitrary: n r)
  case (VNum s)
  then show ?case by (auto simp: lex_fmt_d intro!: option.map_cong)
next
  case (VArr xs)
  let ?f = "(\<lambda>f. new_line (Suc n) @ f (Suc n)) \<circ> json_indent"
  have "json_lex (?f x @ r) = map_option ((@) (toks x)) (json_lex r)" if "x \<in> set xs" "ends_num r" for x r
    using that VArr by (simp add: list_all_iff)
  from lex_join [of xs ?f toks, OF this] show ?case by (simp add: option.map_comp comp_def)
next
  case (VObj kvs)
  let ?f = "(\<lambda>(k, f). new_line (Suc n) @ quote_str k @ '': '' @ f (Suc n)) \<circ> map_prod id json_indent"
  let ?g = "(\<lambda>(k, t). TScalar (VStr (to_valid k)) # TPunct (CHR '':'') # t) \<circ> map_prod id toks"
  have "json_lex (?f kv @ r) = map_option ((@) (?g kv)) (json_lex r)" if "kv \<in> set kvs" "ends_num r" for kv r
  proof -
    obtain k v where kv: "kv = (k, v)" by (cases kv)
    then have "int_json v" using that(1) VObj.prems(1) by (fastforce simp: list_all_iff)
    then show ?thesis using that VObj.IH [of kv v r "Suc n"] kv by (cases "json_lex r") (simp_all add: lex_space)
  qed
  from lex_join [of kvs ?f ?g, OF this] show ?case by (simp add: option.map_comp comp_def)
qed (auto simp: lex_literal [simplified] option.map_comp comp_def intro!: option.map_cong)

lemma run_append: "json_run (ks @ ks') p = (case json_run ks p of None \<Rightarrow> None | Some p' \<Rightarrow> json_run ks' p')"
  by (induction ks arbitrary: p) (auto split: option.split)

lemma run_begin: "json_run ks (WantValue, stk) = Some p \<Longrightarrow> ks \<noteq> [] \<Longrightarrow> hd ks \<noteq> TPunct (CHR '']'') \<Longrightarrow> json_run ks (WantFirst, stk) = Some p"
  by (cases ks) auto

lemma run_begin_key: "json_run ks (WantKey [], stk) = Some p \<Longrightarrow> ks \<noteq> [] \<Longrightarrow> hd ks \<noteq> TPunct (CHR ''}'') \<Longrightarrow> json_run ks (WantFirstKey, stk) = Some p"
  by (cases ks) auto

lemma fold_max_le: "fold max xs a \<le> (n :: nat) \<longleftrightarrow> a \<le> n \<and> (\<forall>x\<in>set xs. x \<le> n)"
  by (induction xs arbitrary: a) auto

lemma depth_elem: "x \<in> set xs \<Longrightarrow> json_depth x < json_depth (VArr xs)"
  using fold_max_le [of "map json_depth xs" 0 "fold max (map json_depth xs) 0"] by (simp add: less_Suc_eq_le)

lemma depth_member: "kv \<in> set kvs \<Longrightarrow> json_depth (snd kv) < json_depth (VObj kvs)"
  using fold_max_le [of "map snd (map (map_prod id json_depth) kvs)" 0 "fold max (map snd (map (map_prod id json_depth) kvs)) 0"]
  by (simp add: less_Suc_eq_le)

lemma sep_join_Cons: "sep_join s (x # xs) = x @ (if xs = [] then [] else s # sep_join s xs)"
  by (cases xs) auto

text \<open>The rest of an array or object whose elements the machine reads one by one.\<close>

lemma run_array:
  assumes "\<And>x ys. x \<in> set xs \<Longrightarrow> json_run (f x) (WantValue, InArr ys # stk) = Some (Got (g x), InArr ys # stk)" and "xs \<noteq> []"
  shows "json_run (sep_join (TPunct (CHR '','')) (map f xs) @ [TPunct (CHR '']'')]) (WantValue, InArr ys # stk) =
    Some (Got (VArr (ys @ map g xs)), stk)"
  using assms
proof (induction xs arbitrary: ys)
  case (Cons x xs)
  then show ?case by (cases "xs = []") (auto simp: sep_join_Cons run_append)
qed simp

lemma run_object:
  assumes "\<And>kv ys. kv \<in> set kvs \<Longrightarrow> json_run (f (snd kv)) (WantValue, InObj ys (to_valid (fst kv)) # stk) = Some (Got (g (snd kv)), InObj ys (to_valid (fst kv)) # stk)"
    and "kvs \<noteq> []"
  shows "json_run (sep_join (TPunct (CHR '','')) (map (\<lambda>kv. TScalar (VStr (to_valid (fst kv))) # TPunct (CHR '':'') # f (snd kv)) kvs) @ [TPunct (CHR ''}'')])
      (WantKey ys, stk) = Some (Got (VObj (ys @ map (map_prod to_valid g) kvs)), stk)"
  using assms
proof (induction kvs arbitrary: ys)
  case (Cons kv kvs)
  then show ?case by (cases kv; cases "kvs = []") (auto simp: sep_join_Cons run_append begin_key_def)
qed simp

lemma toks_begin: "toks v \<noteq> [] \<and> hd (toks v) \<noteq> TPunct (CHR '']'') \<and> hd (toks v) \<noteq> TPunct (CHR ''}'')"
  by (cases v) auto

lemma run_toks: "length stk + json_depth v \<le> maxNestingDepth \<Longrightarrow> json_run (toks v) (WantValue, stk) = Some (Got (valid_json v), stk)"
proof (induction v arbitrary: stk)
  case (VArr xs)
  show ?case
  proof (cases "xs = []")
    case False
    have "json_run (toks x) (WantValue, InArr ys # stk) = Some (Got (valid_json x), InArr ys # stk)" if "x \<in> set xs" for x ys
      using VArr.IH [OF that, of "InArr ys # stk"] VArr.prems depth_elem [OF that] by (simp del: json_depth.simps)
    from run_array [of xs toks stk valid_json "[]", OF this False] have
      "json_run (sep_join (TPunct (CHR '','')) (map toks xs) @ [TPunct (CHR '']'')]) (WantFirst, [InArr []] @ stk) = Some (Got (VArr (map valid_json xs)), stk)"
      using False toks_begin [of "hd xs"] by (intro run_begin) (auto simp: neq_Nil_conv sep_join_Cons)
    then show ?thesis using VArr.prems by (simp add: begin_value_def)
  qed (use VArr.prems in \<open>simp add: begin_value_def\<close>)
next
  case (VObj kvs)
  show ?case
  proof (cases "kvs = []")
    case False
    let ?ks = "sep_join (TPunct (CHR '','')) (map (\<lambda>kv. TScalar (VStr (to_valid (fst kv))) # TPunct (CHR '':'') # toks (snd kv)) kvs) @ [TPunct (CHR ''}'')]"
    have "json_run (toks (snd kv)) (WantValue, InObj ys k # stk) = Some (Got (valid_json (snd kv)), InObj ys k # stk)" if "kv \<in> set kvs" for kv ys k
      using VObj.IH [OF that, of "snd kv" "InObj ys k # stk"] VObj.prems depth_member [OF that]
      by (simp add: snds.simps del: json_depth.simps)
    from run_object [of kvs toks stk valid_json "[]", OF this False] have
      "json_run ?ks (WantFirstKey, stk) = Some (Got (VObj (map (map_prod to_valid valid_json) kvs)), stk)"
      using False by (intro run_begin_key) (auto simp: neq_Nil_conv sep_join_Cons)
    then show ?thesis using VObj.prems by (simp add: begin_value_def comp_def case_prod_beta)
  qed (use VObj.prems in \<open>simp add: begin_value_def\<close>)
qed (simp_all add: begin_value_def)

text \<open>Reading the text of a value, with or without the newline \<open>json.Encoder\<close> adds, gives the value.\<close>

lemma parse_print:
  assumes "int_json v" "json_depth v \<le> maxNestingDepth"
  shows "json_parse (json_print v) = Some (valid_json v)" "json_parse (json_print v @ [CHR 0x0A]) = Some (valid_json v)"
proof -
  have "json_lex [CHR 0x0A] = Some []" by (simp add: json_lex.simps(2) json_space_def)
  then show "json_parse (json_print v) = Some (valid_json v)" "json_parse (json_print v @ [CHR 0x0A]) = Some (valid_json v)"
    using lex_print [OF assms(1), of "[]"] lex_print [OF assms(1), of "[CHR 0x0A]"] run_toks [of "[]" v] assms(2)
    by (simp_all add: json_parse_def)
qed

lemma parse_indent:
  assumes "int_json v" "json_depth v \<le> maxNestingDepth"
  shows "json_parse (json_indent v n) = Some (valid_json v)"
  using lex_indent [OF assms(1), of "[]" n] run_toks [of "[]" v] assms(2) by (simp add: json_parse_def)

section \<open>Whatever is read is valid UTF-8\<close>

lemma utf8_append: "0 < rune_len x \<Longrightarrow> rune_len x = length x \<Longrightarrow> utf8 t \<Longrightarrow> utf8 (x @ t)"
  using rune_len_append [of x t] by (simp add: to_valid.simps [of "x @ t"])

lemma rune_len_enc: "r < 0x110000 \<Longrightarrow> \<not> (0xD800 \<le> r \<and> r < 0xE000) \<Longrightarrow> rune_len (enc_rune r) = length (enc_rune r)"
proof -
  assume r: "r < 0x110000" "\<not> (0xD800 \<le> r \<and> r < 0xE000)"
  have m: "n mod 64 < 64" for n :: nat by simp
  consider "r < 0x80" | "0x80 \<le> r" "r < 0x800" | "0x800 \<le> r" "r < 0x10000" | "0x10000 \<le> r" using r by linarith
  then show ?thesis
  proof cases
    case 3
    have d: "r div 64 mod 64 < 64" "r div 4096 < 16" "r div 4096 * 64 + r div 64 mod 64 = r div 64"
      using 3 by (auto simp: div_mult2_eq [of r 64 64, simplified])
    have e: "r div 4096 = 0 \<Longrightarrow> 0x20 \<le> r div 64 mod 64" "r div 4096 = 13 \<Longrightarrow> r div 64 mod 64 < 0x20"
      using 3 r(2) d by (auto)
    show ?thesis using 3 d e m [of r] by (auto simp: enc_rune_def rune_len.simps cont_byte_def)
  next
    case 4
    have d: "r div 64 mod 64 < 64" "r div 4096 mod 64 < 64" "r div 262144 < 5" "r div 262144 * 64 + r div 4096 mod 64 = r div 4096"
      using r(1) 4 by (auto simp: div_mult2_eq [of r 4096 64, simplified])
    have e: "r div 262144 = 0 \<Longrightarrow> 0x10 \<le> r div 4096 mod 64" "r div 262144 = 4 \<Longrightarrow> r div 4096 mod 64 < 0x10"
      using 4 r(1) d by (auto)
    show ?thesis using 4 d e m [of r] by (auto simp: enc_rune_def rune_len.simps cont_byte_def)
  qed (use m [of r] in \<open>auto simp: enc_rune_def rune_len.simps cont_byte_def\<close>)
qed

lemma utf8_pieces:
  assumes "utf8 t"
  shows "ord c < 128 \<Longrightarrow> utf8 (c # t)" "utf8 (rune_error @ t)" "0 < rune_len s \<Longrightarrow> utf8 (take (rune_len s) s @ t)"
    "r < 0x110000 \<Longrightarrow> \<not> (0xD800 \<le> r \<and> r < 0xE000) \<Longrightarrow> utf8 (enc_rune r @ t)"
proof -
  show "utf8 (c # t)" if "ord c < 128"
    using utf8_append [of "[c]" t] that assms by (simp add: rune_len.simps)
  show "utf8 (rune_error @ t)"
    by (rule utf8_append) (simp_all add: rune_error_def rune_len.simps cont_byte_def assms)
  show "utf8 (take (rune_len s) s @ t)" if "0 < rune_len s"
    using utf8_append [OF _ _ assms, of "take (rune_len s) s"] rune_len_append [OF that, of "[]"] rune_len_le [of s] that by simp
  show "utf8 (enc_rune r @ t)" if "r < 0x110000" "\<not> (0xD800 \<le> r \<and> r < 0xE000)"
    using utf8_append [OF _ rune_len_enc [OF that] assms] rune_len_enc [OF that] by (simp add: enc_rune_def)
qed

lemma hex4_bound: "hex4 s = Some r \<Longrightarrow> r < 0x10000"
proof -
  have v: "hex_val c = Some n \<Longrightarrow> n < 16" for c n by (auto simp: hex_val_def is_digit_def split: if_splits)
  show "hex4 s = Some r \<Longrightarrow> r < 0x10000" by (auto simp: hex4_def dest!: v split: list.splits option.splits)
qed

lemma unicode_esc_utf8: "unicode_esc r s = (x, k) \<Longrightarrow> r < 0x10000 \<Longrightarrow> utf8 t \<Longrightarrow> utf8 (x @ t)"
proof -
  assume e: "unicode_esc r s = (x, k)" and r: "r < 0x10000" and t: "utf8 t"
  consider "x = rune_error" | "x = enc_rune r" "\<not> (0xD800 \<le> r \<and> r < 0xE000)"
    | r2 where "x = enc_rune (0x10000 + (r - 0xD800) * 1024 + (r2 - 0xDC00))" "r < 0xDC00" "0xDC00 \<le> r2" "r2 < 0xE000" "0xD800 \<le> r"
    using e by (auto simp: unicode_esc_def split: if_splits option.splits)
  then show ?thesis
  proof cases
    case 3
    then have "0x10000 + (r - 0xD800) * 1024 + (r2 - 0xDC00) < 0x110000" by linarith
    then show ?thesis unfolding 3(1) by (rule utf8_pieces(4) [OF t]) simp
  qed (use r in \<open>simp_all add: utf8_pieces [OF t]\<close>)
qed

lemma unquote_utf8: "unquote s = Some (t, r) \<Longrightarrow> utf8 t"
proof (induction s arbitrary: t rule: unquote.induct)
  case (2 c s)
  let ?n = "rune_len (c # s)"
  consider "t = []"
    | e s1 q x k u where "c = CHR 0x5C" "s = e # s1" "e = CHR ''u''" "hex4 s1 = Some q" "unicode_esc q (drop 4 s1) = (x, k)"
        "unquote (drop k (drop 4 s1)) = Some (u, r)" "t = x @ u"
    | e s1 d u where "c = CHR 0x5C" "s = e # s1" "e \<noteq> CHR ''u''" "simple_esc e = Some d" "unquote s1 = Some (u, r)" "t = d # u"
    | u where "c \<noteq> CHR 0x22" "c \<noteq> CHR 0x5C" "\<not> ord c < 32" "?n = 0" "unquote s = Some (u, r)" "t = rune_error @ u"
    | u where "c \<noteq> CHR 0x22" "c \<noteq> CHR 0x5C" "\<not> ord c < 32" "?n \<noteq> 0" "unquote (drop (?n - 1) s) = Some (u, r)" "t = take ?n (c # s) @ u"
    using "2.prems" by (auto simp: unquote.simps(2) split: if_splits list.splits option.splits prod.splits)
  then show ?case
  proof cases
    case 1
    then show ?thesis by (simp add: to_valid.simps)
  next
    case 2
    then have "utf8 u" using "2.IH"(1) [OF _ 2(1,2,3,4) 2(5) [symmetric]] 2(1,6) by simp
    then show ?thesis using unicode_esc_utf8 [OF 2(5) hex4_bound [OF 2(4)]] 2(7) by simp
  next
    case 3
    have "ord d < 128" using 3(4) by (auto simp: simple_esc_def split: if_splits)
    moreover have "utf8 u" using "2.IH"(2) [OF _ 3(1,2,3,4)] 3(1,5) by simp
    ultimately show ?thesis using 3(6) utf8_pieces(1) by simp
  next
    case 4
    then have "utf8 u" using "2.IH"(3) by simp
    then show ?thesis using 4(6) utf8_pieces(2) by simp
  next
    case 5
    then have "utf8 u" using "2.IH"(4) by simp
    then show ?thesis unfolding 5(6) using 5(4) by (intro utf8_pieces(3)) simp_all
  qed
qed simp

abbreviation valid_tok :: "token \<Rightarrow> bool" where
  "valid_tok k \<equiv> (case k of TPunct _ \<Rightarrow> True | TScalar v \<Rightarrow> valid_json v = v)"

lemma lex_valid: "json_lex s = Some ks \<Longrightarrow> list_all valid_tok ks"
proof (induction s arbitrary: ks rule: json_lex.induct)
  case (2 c s)
  then show ?case
    by (auto simp: json_lex.simps(2) dest: unquote_utf8 split: if_splits option.splits)
qed simp

fun valid_state :: "expect \<times> frame list \<Rightarrow> bool" where
  "valid_state (e, stk) \<longleftrightarrow>
     (case e of
        WantKey kvs \<Rightarrow> valid_json (VObj kvs) = VObj kvs
      | WantColon kvs k \<Rightarrow> valid_json (VObj kvs) = VObj kvs \<and> utf8 k
      | Got v \<Rightarrow> valid_json v = v
      | _ \<Rightarrow> True) \<and>
     list_all (\<lambda>f. case f of InArr xs \<Rightarrow> valid_json (VArr xs) = VArr xs | InObj kvs k \<Rightarrow> valid_json (VObj kvs) = VObj kvs \<and> utf8 k) stk"

lemma step_valid: "json_step k p = Some p' \<Longrightarrow> valid_tok k \<Longrightarrow> valid_state p \<Longrightarrow> valid_state p'"
proof (induction k p rule: json_step.induct)
  case (6 k v stk)
  then show ?case by (cases "(k, v, stk)" rule: end_value.cases) (auto split: if_splits)
next
  case (2 k stk)
  then show ?case by (cases stk) (auto simp: begin_value_def split: if_splits token.splits)
qed (auto simp: begin_value_def begin_key_def split: if_splits token.splits jvalue.splits)

lemma run_valid: "json_run ks p = Some p' \<Longrightarrow> list_all valid_tok ks \<Longrightarrow> valid_state p \<Longrightarrow> valid_state p'"
  by (induction ks arbitrary: p) (auto dest: step_valid split: option.splits)

lemma parse_valid: "json_parse s = Some v \<Longrightarrow> valid_json v = v"
  using run_valid [of _ "(WantValue, [])" "(Got v, [])"]
  by (auto simp: json_parse_def dest!: lex_valid split: option.splits prod.splits expect.splits list.splits)

end
