(* ===== verification/Json_Codec.thy ===== *)
theory Json_Codec
  imports Go_Json
begin

text \<open>
  How \<open>encoding/json\<close> moves values into Go data and back, as far as the program's structs need it.

  A decoder takes a value and the present content of the variable. \<open>null\<close> leaves a string, number,
  boolean or struct alone and makes a pointer or slice nil; members of an object are matched to
  fields by name, first exactly and then without regard to case; unknown members are skipped, repeated
  ones decoded one over the other; a value of the wrong type, a number out of range or bad base64 is
  an error of the whole call. The locale \<open>json_codec\<close> is the contract between the encoder and
  the decoder of a Go type; its clients are the messages of devices and the sealed direct messages.
\<close>

section \<open>Decoding into Go data\<close>

definition d_string :: "jvalue \<Rightarrow> string \<Rightarrow> string option" where
  "d_string j old = (case j of VNull \<Rightarrow> Some old | VStr s \<Rightarrow> Some s | _ \<Rightarrow> None)"

definition d_bool :: "jvalue \<Rightarrow> bool \<Rightarrow> bool option" where
  "d_bool j old = (case j of VNull \<Rightarrow> Some old | VBool b \<Rightarrow> Some b | _ \<Rightarrow> None)"

text \<open>\<open>strconv.ParseInt\<close> of the literal: a fraction or an exponent is refused, also when the value is whole.\<close>

definition num_int :: "string \<Rightarrow> int option" where
  "num_int s =
     (let d = (if starts (CHR ''-'') s then tl s else s) in
      if d \<noteq> [] \<and> list_all is_digit d
      then Some (if starts (CHR ''-'') s then - int (undec d 0) else int (undec d 0))
      else None)"

definition d_int :: "nat \<Rightarrow> jvalue \<Rightarrow> int \<Rightarrow> int option" where
  "d_int w j old =
     (case j of
        VNull \<Rightarrow> Some old
      | VNum s \<Rightarrow>
          (case num_int s of
             None \<Rightarrow> None
           | Some n \<Rightarrow> if - (2 ^ (w - 1)) \<le> n \<and> n < 2 ^ (w - 1) then Some n else None)
      | _ \<Rightarrow> None)"

definition d_int32 :: "jvalue \<Rightarrow> 32 word \<Rightarrow> 32 word option" where
  "d_int32 j old = map_option word_of_int (d_int 32 j (sint old))"

definition d_byte :: "jvalue \<Rightarrow> byte \<Rightarrow> byte option" where
  "d_byte j old =
     (case j of
        VNull \<Rightarrow> Some old
      | VNum s \<Rightarrow> if s \<noteq> [] \<and> list_all is_digit s \<and> undec s 0 < 256 then Some (word_of_nat (undec s 0)) else None
      | _ \<Rightarrow> None)"

text \<open>The elements of an array are decoded over the elements that are there, and over zeros after them.\<close>

fun d_elems :: "(jvalue \<Rightarrow> 'a \<Rightarrow> 'a option) \<Rightarrow> 'a \<Rightarrow> jvalue list \<Rightarrow> 'a list \<Rightarrow> 'a list option" where
  "d_elems d z [] old = Some []"
| "d_elems d z (j # js) old =
     (case d j (case old of [] \<Rightarrow> z | v # _ \<Rightarrow> v) of
        None \<Rightarrow> None
      | Some v \<Rightarrow> map_option ((#) v) (d_elems d z js (tl old)))"

text \<open>A \<open>[]byte\<close> is read from base64 or from an array of small numbers.\<close>

definition d_bytes :: "jvalue \<Rightarrow> bytes \<Rightarrow> bytes option" where
  "d_bytes j old =
     (case j of
        VNull \<Rightarrow> Some []
      | VStr s \<Rightarrow> StdDecode s
      | VArr js \<Rightarrow> d_elems d_byte 0 js old
      | _ \<Rightarrow> None)"

definition d_ptr :: "'a \<Rightarrow> (jvalue \<Rightarrow> 'a \<Rightarrow> 'a option) \<Rightarrow> jvalue \<Rightarrow> 'a option \<Rightarrow> 'a option option" where
  "d_ptr z d j old =
     (if j = VNull then Some None
      else map_option Some (d j (case old of None \<Rightarrow> z | Some v \<Rightarrow> v)))"

text \<open>
  Names that differ in case only are the same: ASCII letters, and the Kelvin sign and the long s,
  which fold to \<open>k\<close> and \<open>s\<close>. Field names are ASCII, so other characters need no folding.
\<close>

fun fold_name :: "string \<Rightarrow> string" where
  "fold_name (c # s) =
     (if c = CHR 0xE2 \<and> take 2 s = [CHR 0x84, CHR 0xAA] then CHR ''k'' # fold_name (drop 2 s)
      else if c = CHR 0xC5 \<and> take 1 s = [CHR 0xBF] then CHR ''s'' # fold_name (drop 1 s)
      else if 65 \<le> ord c \<and> ord c \<le> 90 then char_of (ord c + 32) # fold_name s
      else c # fold_name s)"
| "fold_name [] = []"

type_synonym 'r field = "string \<times> (jvalue \<Rightarrow> 'r \<Rightarrow> 'r option)"

definition find_field :: "'r field list \<Rightarrow> string \<Rightarrow> (jvalue \<Rightarrow> 'r \<Rightarrow> 'r option) option" where
  "find_field fs k =
     (case map_of fs k of
        Some f \<Rightarrow> Some f
      | None \<Rightarrow> map_of (map (map_prod fold_name id) fs) (fold_name k))"

fun d_members :: "'r field list \<Rightarrow> (string \<times> jvalue) list \<Rightarrow> 'r \<Rightarrow> 'r option" where
  "d_members fs [] r = Some r"
| "d_members fs ((k, j) # kvs) r =
     (case find_field fs k of
        None \<Rightarrow> d_members fs kvs r
      | Some f \<Rightarrow> (case f j r of None \<Rightarrow> None | Some r' \<Rightarrow> d_members fs kvs r'))"

definition d_struct :: "'r field list \<Rightarrow> jvalue \<Rightarrow> 'r \<Rightarrow> 'r option" where
  "d_struct fs j r = (case j of VNull \<Rightarrow> Some r | VObj kvs \<Rightarrow> d_members fs kvs r | _ \<Rightarrow> None)"

text \<open>A field: its name, how it is read and set, and the decoder of its type.\<close>

definition fld :: "string \<Rightarrow> ('r \<Rightarrow> 'a) \<Rightarrow> ('a \<Rightarrow> 'r \<Rightarrow> 'r) \<Rightarrow> (jvalue \<Rightarrow> 'a \<Rightarrow> 'a option) \<Rightarrow> 'r field" where
  "fld k get upd d = (k, \<lambda>j r. map_option (\<lambda>v. upd v r) (d j (get r)))"

text \<open>A map keeps its entries and gets the members of the object, each decoded into a new element.\<close>

fun d_entries :: "(jvalue \<Rightarrow> 'a \<Rightarrow> 'a option) \<Rightarrow> 'a \<Rightarrow> (string \<times> jvalue) list \<Rightarrow> (string, 'a) gomap \<Rightarrow> (string, 'a) gomap option" where
  "d_entries d z [] m = Some m"
| "d_entries d z ((k, j) # kvs) m = (case d j z of None \<Rightarrow> None | Some v \<Rightarrow> d_entries d z kvs (aput k v m))"

definition d_map :: "(jvalue \<Rightarrow> 'a \<Rightarrow> 'a option) \<Rightarrow> 'a \<Rightarrow> jvalue \<Rightarrow> (string, 'a) gomap \<Rightarrow> (string, 'a) gomap option" where
  "d_map d z j m = (case j of VNull \<Rightarrow> Some [] | VObj kvs \<Rightarrow> d_entries d z kvs m | _ \<Rightarrow> None)"

section \<open>Encoding Go data\<close>

abbreviation e_int :: "int \<Rightarrow> jvalue" where "e_int n \<equiv> VNum (fmt_d n)"
abbreviation e_bytes :: "bytes \<Rightarrow> jvalue" where "e_bytes b \<equiv> VStr (StdEncode b)"

definition e_ptr :: "('a \<Rightarrow> jvalue) \<Rightarrow> 'a option \<Rightarrow> jvalue" where
  "e_ptr e p = (case p of None \<Rightarrow> VNull | Some v \<Rightarrow> e v)"

text \<open>Members tagged \<open>omitempty\<close> are left out when they hold the zero value.\<close>

definition omit_str :: "string \<Rightarrow> string \<Rightarrow> (string \<times> jvalue) list" where
  "omit_str k s = (if s = [] then [] else [(k, VStr s)])"

definition omit_ptr :: "string \<Rightarrow> ('a \<Rightarrow> jvalue) \<Rightarrow> 'a option \<Rightarrow> (string \<times> jvalue) list" where
  "omit_ptr k e p = (case p of None \<Rightarrow> [] | Some v \<Rightarrow> [(k, e v)])"

definition omit_int :: "string \<Rightarrow> int \<Rightarrow> (string \<times> jvalue) list" where
  "omit_int k n = (if n = 0 then [] else [(k, e_int n)])"

definition omit_bool :: "string \<Rightarrow> bool \<Rightarrow> (string \<times> jvalue) list" where
  "omit_bool k b = (if b then [(k, VBool True)] else [])"

section \<open>Whole calls\<close>

definition Unmarshal :: "(jvalue \<Rightarrow> 'a \<Rightarrow> 'a option) \<Rightarrow> 'a \<Rightarrow> string \<Rightarrow> 'a option" where
  "Unmarshal decode z text = (case json_parse text of None \<Rightarrow> None | Some j \<Rightarrow> decode j z)"

definition Marshal :: "('a \<Rightarrow> jvalue) \<Rightarrow> 'a \<Rightarrow> string" where
  "Marshal encode v = json_print (encode v)"

text \<open>A value whose text reads back as itself.\<close>

definition json_ok :: "jvalue \<Rightarrow> bool" where
  "json_ok j \<longleftrightarrow> int_json j \<and> valid_json j = j \<and> json_depth j \<le> maxNestingDepth"

lemma parse_ok: "json_ok j \<Longrightarrow> json_parse (json_print j) = Some j" "json_ok j \<Longrightarrow> json_parse (json_print j @ [CHR 0x0A]) = Some j"
  using parse_print [of j] by (simp_all add: json_ok_def)

lemma parse_indent_ok: "json_ok j \<Longrightarrow> json_parse (json_indent j n) = Some j"
  using parse_indent [of j] by (simp add: json_ok_def)

locale json_codec =
  fixes encode :: "'a \<Rightarrow> jvalue" and decode :: "jvalue \<Rightarrow> 'a \<Rightarrow> 'a option" and zero :: 'a and ok :: "'a \<Rightarrow> bool"
  assumes enc_ok: "ok v \<Longrightarrow> json_ok (encode v)"
    and dec_enc: "ok v \<Longrightarrow> decode (encode v) zero = Some v"
begin

lemma roundtrip: "ok v \<Longrightarrow> Unmarshal decode zero (Marshal encode v) = Some v"
  by (simp add: Unmarshal_def Marshal_def parse_ok enc_ok dec_enc)

lemma roundtrip_line: "ok v \<Longrightarrow> Unmarshal decode zero (Marshal encode v @ [CHR 0x0A]) = Some v"
  by (simp add: Unmarshal_def Marshal_def parse_ok enc_ok dec_enc)

lemma Marshal_inject: "ok v \<Longrightarrow> ok w \<Longrightarrow> Marshal encode v = Marshal encode w \<longleftrightarrow> v = w"
  by (metis option.inject roundtrip)

end

section \<open>Field by field\<close>

named_theorems json_simps \<open>decoding the members an encoder wrote\<close>

lemma num_int_fmt_d [simp]: "num_int (fmt_d n) = Some n"
proof (cases "n < 0")
  case True
  then show ?thesis using dec_digits [of "nat (- n)"] by (simp add: num_int_def fmt_d_def starts_def)
next
  case False
  then have "\<not> starts (CHR ''-'') (fmt_d n)"
    using dec_no_minus [of "nat n"] by (cases "dec (nat n)") (auto simp: fmt_d_def starts_def)
  then show ?thesis using False dec_digits [of "nat n"] by (simp add: num_int_def fmt_d_def)
qed

lemma d_basic [json_simps]:
  "d_string (VStr s) old = Some s" "d_bool (VBool b) t = Some b" "d_bytes (e_bytes u) us = Some u"
  "- (2 ^ (w - 1)) \<le> n \<Longrightarrow> n < 2 ^ (w - 1) \<Longrightarrow> d_int w (e_int n) m = Some n"
  by (simp_all add: d_string_def d_bool_def d_bytes_def d_int_def b64_roundtrip)

lemma d_int32_enc [json_simps]: "d_int32 (e_int (sint w)) old = Some w"
proof -
  have "- (2 ^ 31) \<le> sint w" "sint w < 2 ^ 31"
    using sint_greater_eq [of w] sint_less [of w] by simp_all
  then show ?thesis by (simp add: d_int32_def d_int_def)
qed

lemma d_ptr_enc [json_simps]:
  "(\<And>v. p = Some v \<Longrightarrow> enc v \<noteq> VNull \<and> d (enc v) z = Some v) \<Longrightarrow> d_ptr z d (e_ptr enc p) None = Some p"
  by (cases p) (auto simp: d_ptr_def e_ptr_def)

lemma d_members_append: "d_members fs (a @ b) r = (case d_members fs a r of None \<Rightarrow> None | Some r' \<Rightarrow> d_members fs b r')"
  by (induction fs a r rule: d_members.induct) (auto split: option.splits)

lemma d_members_unknown: "list_all (\<lambda>(k, j). find_field fs k = None) kvs \<Longrightarrow> d_members fs kvs r = Some r"
  by (induction fs kvs r rule: d_members.induct) auto

lemma d_members_omit_str [json_simps]:
  "find_field fs k = Some f \<Longrightarrow> f (VStr s) r = Some r' \<Longrightarrow> (s = [] \<Longrightarrow> r' = r) \<Longrightarrow>
   d_members fs (omit_str k s @ kvs) r = d_members fs kvs r'"
  by (simp add: omit_str_def)

lemma d_members_omit_ptr [json_simps]:
  "find_field fs k = Some f \<Longrightarrow> f (e_ptr enc p) r = Some r' \<Longrightarrow> (p = None \<Longrightarrow> r' = r) \<Longrightarrow>
   d_members fs (omit_ptr k enc p @ kvs) r = d_members fs kvs r'"
  by (cases p) (simp_all add: omit_ptr_def e_ptr_def)

text \<open>Where the field has another value before, a member that is left out leaves that value.\<close>

definition or_old :: "bool \<Rightarrow> 'a \<Rightarrow> 'a \<Rightarrow> 'a" where
  "or_old z old v = (if z then old else v)"

lemma or_old_zero [simp]: "or_old (s = []) [] s = s" "or_old (n = 0) 0 n = (n :: int)" "or_old (\<not> b) False b = b"
  by (auto simp: or_old_def)

lemma d_members_omit_field:
  "find_field fs k = Some (\<lambda>j r. map_option (\<lambda>v. upd v r) (d_string j (get r))) \<Longrightarrow> upd (get r) r = r \<Longrightarrow>
   d_members fs (omit_str k s @ kvs) r = d_members fs kvs (upd (or_old (s = []) (get r) s) r)"
  "find_field fs k = Some (\<lambda>j r. map_option (\<lambda>v. upd' v r) (d_int w j (get' r))) \<Longrightarrow> upd' (get' r) r = r \<Longrightarrow>
   - (2 ^ (w - 1)) \<le> n \<Longrightarrow> n < 2 ^ (w - 1) \<Longrightarrow>
   d_members fs (omit_int k n @ kvs) r = d_members fs kvs (upd' (or_old (n = 0) (get' r) n) r)"
  "find_field fs k = Some (\<lambda>j r. map_option (\<lambda>v. upd'' v r) (d_bool j (get'' r))) \<Longrightarrow> upd'' (get'' r) r = r \<Longrightarrow>
   d_members fs (omit_bool k b @ kvs) r = d_members fs kvs (upd'' (or_old (\<not> b) (get'' r) b) r)"
  by (auto simp: omit_str_def omit_int_def omit_bool_def d_basic or_old_def)

lemma d_entries_new:
  "(\<And>v. v \<in> snd ` set xs \<Longrightarrow> d (enc v) z = Some v) \<Longrightarrow> distinct (map fst (m @ xs)) \<Longrightarrow>
   d_entries d z (map (map_prod id enc) xs) m = Some (m @ xs)"
proof (induction xs arbitrary: m)
  case (Cons x xs)
  obtain k v where x: "x = (k, v)" by (cases x)
  have "k \<notin> set (akeys m)" using Cons.prems(2) x by auto
  then have "aput k v m = m @ [(k, v)]" by (induction m) auto
  then show ?case using Cons.IH [of "m @ [(k, v)]"] Cons.prems x by force
qed simp

lemmas d_members_omit_last [json_simps] =
  d_members_omit_str [of _ _ _ _ _ _ "[]", simplified] d_members_omit_ptr [of _ _ _ _ _ _ _ "[]", simplified]

lemmas struct_simps [json_simps] = d_struct_def find_field_def fld_def

text \<open>ASCII text is valid, and so is base64.\<close>

lemma to_valid_ascii: "(\<And>c. c \<in> set s \<Longrightarrow> ord c < 128) \<Longrightarrow> utf8 s"
proof (induction s)
  case (Cons c s)
  then have "rune_len (c # s) = 1" by (simp add: rune_len.simps)
  then show ?case using Cons by (simp add: to_valid.simps [of "c # s"])
qed (simp add: to_valid.simps)

lemma b64_char_ascii: "ord (b64_char url n) < 128"
  by (auto simp: b64_char_def)

lemma StdEncode_utf8 [simp]: "utf8 (StdEncode b)"
proof (rule to_valid_ascii)
  show "c \<in> set (StdEncode b) \<Longrightarrow> ord c < 128" for c
    by (induction False True b rule: b64_encode.induct) (auto simp: Let_def b64_char_ascii)
qed

lemma utf8_Nil [simp]: "utf8 []"
  by (simp add: to_valid.simps)

text \<open>A value of at most \<open>n\<close> levels that reads back as itself, part by part.\<close>

definition value_ok :: "nat \<Rightarrow> jvalue \<Rightarrow> bool" where
  "value_ok n j \<longleftrightarrow> int_json j \<and> valid_json j = j \<and> json_depth j \<le> n"

lemma value_ok_json: "value_ok n j \<Longrightarrow> n \<le> maxNestingDepth \<Longrightarrow> json_ok j"
  by (simp add: value_ok_def json_ok_def)

lemma value_ok_simps [simp]:
  "value_ok n VNull" "value_ok n (VBool b)" "value_ok n (e_int m)" "value_ok n (VStr s) \<longleftrightarrow> utf8 s"
  by (auto simp: value_ok_def)

lemma value_ok_arr: "value_ok (Suc n) (VArr xs) \<longleftrightarrow> (\<forall>x\<in>set xs. value_ok n x)"
  by (auto simp: value_ok_def list_all_iff fold_max_le map_idI)
    (metis map_eq_conv list.map_ident)

lemma value_ok_obj: "value_ok (Suc n) (VObj kvs) \<longleftrightarrow> (\<forall>(k, j)\<in>set kvs. utf8 k \<and> value_ok n j)"
proof -
  have "map (map_prod to_valid valid_json) kvs = kvs \<longleftrightarrow> (\<forall>(k, j)\<in>set kvs. utf8 k \<and> valid_json j = j)"
    by (induction kvs) auto
  then show ?thesis by (fastforce simp: value_ok_def list_all_iff fold_max_le case_prod_beta)
qed

lemma value_ok_ptr [simp]: "value_ok n (e_ptr e p) \<longleftrightarrow> (\<forall>v. p = Some v \<longrightarrow> value_ok n (e v))"
  by (cases p) (auto simp: e_ptr_def)

definition members_ok :: "nat \<Rightarrow> (string \<times> jvalue) list \<Rightarrow> bool" where
  "members_ok n kvs \<longleftrightarrow> (\<forall>(k, j)\<in>set kvs. utf8 k \<and> value_ok n j)"

named_theorems ok_simps \<open>which values read back as themselves\<close>

lemma utf8_literal [ok_simps]: "list_all (\<lambda>c. ord c < 128) k \<Longrightarrow> utf8 k"
  by (rule to_valid_ascii) (simp add: list_all_iff)

lemma value_ok_struct [ok_simps]: "value_ok (Suc n) (VObj kvs) \<longleftrightarrow> members_ok n kvs"
  by (simp add: value_ok_obj members_ok_def)

lemma members_ok_parts [ok_simps]:
  "members_ok n []" "members_ok n ((k, j) # kvs) \<longleftrightarrow> utf8 k \<and> value_ok n j \<and> members_ok n kvs"
  "members_ok n (kvs @ kvs') \<longleftrightarrow> members_ok n kvs \<and> members_ok n kvs'"
  "utf8 k \<Longrightarrow> members_ok n (omit_str k s) \<longleftrightarrow> utf8 s"
  "utf8 k \<Longrightarrow> members_ok n (omit_ptr k e p) \<longleftrightarrow> (\<forall>v. p = Some v \<longrightarrow> value_ok n (e v))"
  by (auto simp: members_ok_def omit_str_def omit_ptr_def split: option.splits)

lemma members_ok_omit [ok_simps]: "utf8 k \<Longrightarrow> members_ok n (omit_int k m)" "utf8 k \<Longrightarrow> members_ok n (omit_bool k b)"
  by (auto simp: members_ok_def omit_int_def omit_bool_def)

lemma value_ok_zero [simp]: "value_ok 0 j \<Longrightarrow> value_ok n j"
  by (simp add: value_ok_def)

lemmas value_ok_arr [ok_simps]

section \<open>What decoding keeps\<close>

text \<open>A decoder keeps a property if it holds of whatever is read from a valid value over content that has it.\<close>

definition keeps :: "(jvalue \<Rightarrow> 'a \<Rightarrow> 'a option) \<Rightarrow> ('a \<Rightarrow> bool) \<Rightarrow> bool" where
  "keeps d P \<longleftrightarrow> (\<forall>j old v. valid_json j = j \<longrightarrow> P old \<longrightarrow> d j old = Some v \<longrightarrow> P v)"

named_theorems keeps_rules \<open>decoders that keep a property\<close>

lemma keeps_True: "keeps d (\<lambda>_. True)"
  by (simp add: keeps_def)

lemmas keeps_free [keeps_rules] = keeps_True [of d_bytes] keeps_True [of d_int32]

lemma keeps_string [keeps_rules]: "keeps d_string utf8"
  by (auto simp: keeps_def d_string_def split: jvalue.splits)

lemma keeps_ptr [keeps_rules]: "keeps d P \<Longrightarrow> P z \<Longrightarrow> keeps (d_ptr z d) (pred_option P)"
  unfolding keeps_def d_ptr_def by (auto split: if_splits option.splits)

definition keeps_fields :: "'r field list \<Rightarrow> ('r \<Rightarrow> bool) \<Rightarrow> bool" where
  "keeps_fields fs P \<longleftrightarrow> (\<forall>(k, f)\<in>set fs. keeps f P)"

lemma keeps_fields_intro [keeps_rules]:
  "keeps_fields [] P"
  "keeps d Q \<Longrightarrow> (\<And>r. P r \<Longrightarrow> Q (get r)) \<Longrightarrow> (\<And>r v. P r \<Longrightarrow> Q v \<Longrightarrow> P (upd v r)) \<Longrightarrow> keeps_fields fs P \<Longrightarrow>
   keeps_fields (fld k get upd d # fs) P"
proof -
  assume d: "keeps d Q" and P: "\<And>r. P r \<Longrightarrow> Q (get r)" "\<And>r v. P r \<Longrightarrow> Q v \<Longrightarrow> P (upd v r)" and fs: "keeps_fields fs P"
  have "keeps (\<lambda>j r. map_option (\<lambda>v. upd v r) (d j (get r))) P"
    unfolding keeps_def using d [unfolded keeps_def] P by (auto, blast)
  with fs show "keeps_fields (fld k get upd d # fs) P" by (simp add: keeps_fields_def fld_def)
qed (simp add: keeps_fields_def)

lemma keeps_struct [keeps_rules]: "keeps_fields fs P \<Longrightarrow> keeps (d_struct fs) P"
proof -
  assume fs: "keeps_fields fs P"
  have f: "find_field fs k = Some f \<Longrightarrow> keeps f P" for k f
    using fs by (fastforce simp: find_field_def keeps_fields_def dest!: map_of_SomeD split: option.splits)
  have "d_members fs kvs r = Some v \<Longrightarrow> valid_json (VObj kvs) = VObj kvs \<Longrightarrow> P r \<Longrightarrow> P v" for kvs r v
  proof (induction kvs arbitrary: r)
    case (Cons kj kvs)
    obtain k j where kj: "kj = (k, j)" by (cases kj)
    have v: "valid_json j = j" "valid_json (VObj kvs) = VObj kvs" using Cons.prems(2) kj by auto
    show ?case
    proof (cases "find_field fs k")
      case None
      then show ?thesis using Cons kj v by simp
    next
      case (Some g)
      then obtain r' where r': "g j r = Some r'" "d_members fs kvs r' = Some v" using Cons.prems(1) kj by (auto split: option.splits)
      then have "P r'" using f [OF Some] v(1) Cons.prems(3) by (auto simp: keeps_def)
      then show ?thesis using Cons.IH r'(2) v(2) by blast
    qed
  qed simp
  then show ?thesis by (auto simp: keeps_def d_struct_def split: jvalue.splits)
qed

lemma Unmarshal_keeps: "keeps decode P \<Longrightarrow> P z \<Longrightarrow> Unmarshal decode z s = Some v \<Longrightarrow> P v"
  using parse_valid [of s] unfolding keeps_def Unmarshal_def by (auto split: option.splits)

end
