(* ===== verification/Managers.thy ===== *)
theory Managers
  imports Store_Mail Store_Admin Crypt Tts Json_Codec
begin

text \<open>
  The managers that seal messages at rest: voicemail (\<open>ocnserver/internal/voicemail/manager.go\<close>)
  and direct messages (\<open>ocnserver/internal/dm/dm.go\<close>).

  Both keep the server's master secret in memory and in the settings table, and encrypt every
  message under a key derived from it for the recipient. A manager operation takes the manager
  and the store and returns both beside its result, since the first use of a key may load or
  create the secret. What is sealed of a direct message is its JSON text.

  The interface \<open>master_secret\<close> says what the two managers have in common: whichever comes first,
  they end up with the secret that the settings table holds.
\<close>

datatype app_error = EStore store_error | EMsg string

definition lift_store :: "store_error + 'a \<Rightarrow> app_error + 'a" where
  "lift_store r = (case r of Inl e \<Rightarrow> Inl (EStore e) | Inr x \<Rightarrow> Inr x)"

section \<open>The voicemail manager\<close>

record vm_manager =
  vm_tts :: bool
  vm_maxDur :: gotime
  vm_master :: "bytes option"
  vm_loaded :: bool
  vm_enabled :: bool

definition vm_NewManager :: "bool \<Rightarrow> gotime \<Rightarrow> bool \<Rightarrow> vm_manager" where
  "vm_NewManager tts maxDur enabled =
     \<lparr>vm_tts = tts, vm_maxDur = maxDur, vm_master = None, vm_loaded = False, vm_enabled = enabled\<rparr>"

definition Enabled :: "vm_manager option \<Rightarrow> bool" where
  "Enabled m = (case m of None \<Rightarrow> False | Some m \<Rightarrow> vm_enabled m \<and> vm_tts m)"

definition MaxDuration :: "vm_manager option \<Rightarrow> gotime" where
  "MaxDuration m =
     (case m of None \<Rightarrow> secs 120 | Some m \<Rightarrow> if vm_maxDur m \<le> 0 then secs 120 else vm_maxDur m)"

definition vm_EnsureMasterSecret ::
  "randomness \<Rightarrow> vm_manager \<Rightarrow> store \<Rightarrow> (app_error + unit) \<times> vm_manager \<times> store" where
  "vm_EnsureMasterSecret rnd m s =
     (case GetSetting s MasterSecretKey of
        Inl e \<Rightarrow> (Inl (EStore e), m, s)
      | Inr enc \<Rightarrow>
          if enc \<noteq> [] then
            (case StdDecode enc of
               None \<Rightarrow> (Inl (EMsg ''voicemail master secret corrupt''), m, s)
             | Some key \<Rightarrow> (Inr (), m\<lparr>vm_master := Some key, vm_loaded := True\<rparr>, s))
          else
            (case rand_bytes rnd 32 of
               None \<Rightarrow> (Inl (EMsg ''rand''), m, s)
             | Some key \<Rightarrow>
                 (case SetSetting s MasterSecretKey (StdEncode key) of
                    Inl e \<Rightarrow> (Inl (EStore e), m, s)
                  | Inr s' \<Rightarrow> (Inr (), m\<lparr>vm_master := Some key, vm_loaded := True\<rparr>, s'))))"

definition vm_key ::
  "randomness \<Rightarrow> vm_manager \<Rightarrow> store \<Rightarrow> string \<Rightarrow> (app_error + bytes) \<times> vm_manager \<times> store" where
  "vm_key rnd m s recipientNumber =
     (case vm_master m of
        Some master \<Rightarrow> (Inr (DeriveMailboxKey master recipientNumber), m, s)
      | None \<Rightarrow>
          (case vm_EnsureMasterSecret rnd m s of
             (Inl e, m', s') \<Rightarrow> (Inl e, m', s')
           | (Inr _, m', s') \<Rightarrow>
               (Inr (DeriveMailboxKey (case vm_master m' of None \<Rightarrow> [] | Some k \<Rightarrow> k) recipientNumber), m', s')))"

text \<open>\<open>int32(len(frames) * frameMS / 1000)\<close>, with the truncation of the conversion.\<close>

definition vm_duration :: "bytes list \<Rightarrow> int" where
  "vm_duration frames = sint (word_of_nat (length frames * frameMS div 1000) :: 32 word)"

definition StoreMessage ::
  "gcm \<Rightarrow> randomness \<Rightarrow> randomness \<Rightarrow> string \<Rightarrow> vm_manager \<Rightarrow> store \<Rightarrow> gotime \<Rightarrow> string \<Rightarrow> string \<Rightarrow> string \<Rightarrow> bytes list \<Rightarrow>
   (app_error + string) \<times> vm_manager \<times> store" where
  "StoreMessage g rnd1 rnd2 uid m s now recipientNumber callerNumber callerName frames =
     (if frames = [] then (Inl (EMsg ''no audio recorded''), m, s)
      else
        (case vm_key rnd1 m s recipientNumber of
           (Inl e, m, s) \<Rightarrow> (Inl e, m, s)
         | (Inr key, m, s) \<Rightarrow>
             (case BoxEncrypt g rnd2 key (SerializeFrames frames) of
                Inl e \<Rightarrow> (Inl (EMsg e), m, s)
              | Inr blob \<Rightarrow>
                  (case StoreVoicemail uid s now recipientNumber callerNumber callerName blob ''opus'' (vm_duration frames) of
                     Inl e \<Rightarrow> (Inl (EStore e), m, s)
                   | Inr (vid, s) \<Rightarrow> (Inr vid, m, s)))))"

definition RenderOgg ::
  "gcm \<Rightarrow> randomness \<Rightarrow> vm_manager \<Rightarrow> store \<Rightarrow> string \<Rightarrow> Voicemail \<Rightarrow> (app_error + bytes) \<times> vm_manager \<times> store" where
  "RenderOgg g rnd m s recipientNumber msg =
     (case vm_key rnd m s recipientNumber of
        (Inl e, m, s) \<Rightarrow> (Inl e, m, s)
      | (Inr key, m, s) \<Rightarrow>
          (case BoxDecrypt g key (EncryptedAudio msg) of
             Inl e \<Rightarrow> (Inl (EMsg e), m, s)
           | Inr plain \<Rightarrow>
               let frames = DeserializeFrames plain in
               if frames = [] then (Inl (EMsg (''message '' @ VmID msg @ '' has no audio'')), m, s)
               else (case BuildOgg frames of Inl e \<Rightarrow> (Inl (EMsg e), m, s) | Inr ogg \<Rightarrow> (Inr ogg, m, s))))"

definition greeting_text :: string where
  "greeting_text = ''The person you called is not available. Please leave a message after the tone. When you are finished, hang up.''"

definition Greeting ::
  "(string \<Rightarrow> (string + bytes list) \<times> 'c) \<Rightarrow> 'c \<Rightarrow> vm_manager \<Rightarrow> (string + bytes list) \<times> 'c" where
  "Greeting generate cache m =
     (if \<not> vm_tts m then (Inl ''tts not configured'', cache) else generate greeting_text)"

section \<open>The direct message manager\<close>

definition MaxImageBytes :: nat where "MaxImageBytes = 4 * 2 ^ 20"
definition queueTTL :: gotime where "queueTTL = secs (7 * 24 * 3600)"

record Image =
  im_Name :: string
  im_Mime :: string
  im_B64 :: string

record Envelope =
  MessageID :: string
  ClientID :: string
  From :: string
  FromName :: string
  To :: string
  Kind :: string
  Text :: string
  Img :: "Image option"
  EnvCreatedAt :: int

text \<open>The envelope as the JSON text that is sealed.\<close>

definition enc_Image :: "Image \<Rightarrow> jvalue" where
  "enc_Image i = VObj [(''name'', VStr (im_Name i)), (''mime'', VStr (im_Mime i)), (''b64'', VStr (im_B64 i))]"

definition dec_Image :: "jvalue \<Rightarrow> Image \<Rightarrow> Image option" where
  "dec_Image = d_struct [fld ''name'' im_Name (\<lambda>v i. i\<lparr>im_Name := v\<rparr>) d_string,
     fld ''mime'' im_Mime (\<lambda>v i. i\<lparr>im_Mime := v\<rparr>) d_string, fld ''b64'' im_B64 (\<lambda>v i. i\<lparr>im_B64 := v\<rparr>) d_string]"

definition zero_Image :: Image where "zero_Image = \<lparr>im_Name = [], im_Mime = [], im_B64 = []\<rparr>"

definition enc_Envelope :: "Envelope \<Rightarrow> jvalue" where
  "enc_Envelope e = VObj ([(''message_id'', VStr (MessageID e))] @ omit_str ''client_id'' (ClientID e) @
     [(''from'', VStr (From e))] @ omit_str ''from_name'' (FromName e) @ [(''to'', VStr (To e)), (''kind'', VStr (Kind e))] @
     omit_str ''text'' (Text e) @ omit_ptr ''image'' enc_Image (Img e) @ [(''created_at'', e_int (EnvCreatedAt e))])"

definition dec_Envelope :: "jvalue \<Rightarrow> Envelope \<Rightarrow> Envelope option" where
  "dec_Envelope = d_struct [fld ''message_id'' MessageID (\<lambda>v e. e\<lparr>MessageID := v\<rparr>) d_string,
     fld ''client_id'' ClientID (\<lambda>v e. e\<lparr>ClientID := v\<rparr>) d_string, fld ''from'' From (\<lambda>v e. e\<lparr>From := v\<rparr>) d_string,
     fld ''from_name'' FromName (\<lambda>v e. e\<lparr>FromName := v\<rparr>) d_string, fld ''to'' To (\<lambda>v e. e\<lparr>To := v\<rparr>) d_string,
     fld ''kind'' Kind (\<lambda>v e. e\<lparr>Kind := v\<rparr>) d_string, fld ''text'' Text (\<lambda>v e. e\<lparr>Text := v\<rparr>) d_string,
     fld ''image'' Img (\<lambda>v e. e\<lparr>Img := v\<rparr>) (d_ptr zero_Image dec_Image),
     fld ''created_at'' EnvCreatedAt (\<lambda>v e. e\<lparr>EnvCreatedAt := v\<rparr>) (d_int 64)]"

definition zero_Envelope :: Envelope where
  "zero_Envelope = \<lparr>MessageID = [], ClientID = [], From = [], FromName = [], To = [], Kind = [], Text = [], Img = None, EnvCreatedAt = 0\<rparr>"

record dm_manager =
  dm_master :: "bytes option"
  dm_loaded :: bool

definition dm_NewManager :: dm_manager where
  "dm_NewManager = \<lparr>dm_master = None, dm_loaded = False\<rparr>"

definition dm_EnsureMasterSecret ::
  "randomness \<Rightarrow> dm_manager \<Rightarrow> store \<Rightarrow> (app_error + unit) \<times> dm_manager \<times> store" where
  "dm_EnsureMasterSecret rnd m s =
     (case GetSetting s MasterSecretKey of
        Inl e \<Rightarrow> (Inl (EStore e), m, s)
      | Inr enc \<Rightarrow>
          if enc \<noteq> [] then
            (case StdDecode enc of
               None \<Rightarrow> (Inl (EMsg ''master secret corrupt''), m, s)
             | Some key \<Rightarrow> (Inr (), m\<lparr>dm_master := Some key, dm_loaded := True\<rparr>, s))
          else
            (case rand_bytes rnd 32 of
               None \<Rightarrow> (Inl (EMsg ''rand''), m, s)
             | Some key \<Rightarrow>
                 (case SetSetting s MasterSecretKey (StdEncode key) of
                    Inl e \<Rightarrow> (Inl (EStore e), m, s)
                  | Inr s' \<Rightarrow> (Inr (), m\<lparr>dm_master := Some key, dm_loaded := True\<rparr>, s'))))"

definition dm_key ::
  "randomness \<Rightarrow> dm_manager \<Rightarrow> store \<Rightarrow> string \<Rightarrow> (app_error + bytes) \<times> dm_manager \<times> store" where
  "dm_key rnd m s recipient =
     (case dm_master m of
        Some master \<Rightarrow> (Inr (DeriveKey master recipient), m, s)
      | None \<Rightarrow>
          (case dm_EnsureMasterSecret rnd m s of
             (Inl e, m', s') \<Rightarrow> (Inl e, m', s')
           | (Inr _, m', s') \<Rightarrow>
               (Inr (DeriveKey (case dm_master m' of None \<Rightarrow> [] | Some k \<Rightarrow> k) recipient), m', s')))"

definition sealJSON :: "gcm \<Rightarrow> randomness \<Rightarrow> bytes \<Rightarrow> Envelope \<Rightarrow> string + bytes" where
  "sealJSON g rnd key env =
     Encrypt g rnd key (str_bytes (Marshal enc_Envelope env))"

definition EnqueueRemote ::
  "gcm \<Rightarrow> randomness \<Rightarrow> randomness \<Rightarrow> dm_manager \<Rightarrow> store \<Rightarrow> gotime \<Rightarrow> string \<Rightarrow> string \<Rightarrow> Envelope \<Rightarrow>
   (app_error + unit) \<times> dm_manager \<times> store" where
  "EnqueueRemote g rnd1 rnd2 m s now messageID recipient env =
     (case dm_key rnd1 m s recipient of
        (Inl e, m, s) \<Rightarrow> (Inl e, m, s)
      | (Inr key, m, s) \<Rightarrow>
          (case sealJSON g rnd2 key env of
             Inl e \<Rightarrow> (Inl (EMsg e), m, s)
           | Inr blob \<Rightarrow>
               (case StoreDMPreassigned s now messageID recipient blob of
                  Inl e \<Rightarrow> (Inl (EStore e), m, s)
                | Inr s \<Rightarrow> (Inr (), m, s))))"

definition Enqueue ::
  "gcm \<Rightarrow> randomness \<Rightarrow> randomness \<Rightarrow> dm_manager \<Rightarrow> store \<Rightarrow> gotime \<Rightarrow> string \<Rightarrow> Envelope \<Rightarrow>
   (app_error + string) \<times> dm_manager \<times> store" where
  "Enqueue g rnd1 rnd2 m s now recipient env =
     (case dm_key rnd1 m s recipient of
        (Inl e, m, s) \<Rightarrow> (Inl e, m, s)
      | (Inr key, m, s) \<Rightarrow>
          (case sealJSON g rnd2 key env of
             Inl e \<Rightarrow> (Inl (EMsg e), m, s)
           | Inr blob \<Rightarrow>
               (case StoreDMPreassigned s now (MessageID env) recipient blob of
                  Inl e \<Rightarrow> (Inl (EStore e), m, s)
                | Inr s \<Rightarrow> (Inr (MessageID env), m, s))))"

definition open_row :: "gcm \<Rightarrow> bytes \<Rightarrow> DMMessage \<Rightarrow> app_error + Envelope" where
  "open_row g key r =
     (case Decrypt g key (DmEnvelope r) of
        Inl e \<Rightarrow> Inl (EMsg e)
      | Inr plain \<Rightarrow> (case Unmarshal dec_Envelope zero_Envelope (bytes_str plain) of None \<Rightarrow> Inl (EMsg ''json'') | Some env \<Rightarrow> Inr env))"

definition open_rows :: "gcm \<Rightarrow> bytes \<Rightarrow> DMMessage list \<Rightarrow> Envelope list" where
  "open_rows g key rs =
     concat (map (\<lambda>r. case open_row g key r of Inl _ \<Rightarrow> [] | Inr env \<Rightarrow> [env]) rs)"

definition Pending ::
  "gcm \<Rightarrow> randomness \<Rightarrow> dm_manager \<Rightarrow> store \<Rightarrow> string \<Rightarrow> (app_error + Envelope list) \<times> dm_manager \<times> store" where
  "Pending g rnd m s recipient =
     (case ListPendingDM s recipient of
        Inl e \<Rightarrow> (Inl (EStore e), m, s)
      | Inr rows \<Rightarrow>
          (case dm_key rnd m s recipient of
             (Inl e, m, s) \<Rightarrow> (Inl e, m, s)
           | (Inr key, m, s) \<Rightarrow> (Inr (open_rows g key rows), m, s)))"

definition dm_Get ::
  "gcm \<Rightarrow> randomness \<Rightarrow> dm_manager \<Rightarrow> store \<Rightarrow> string \<Rightarrow> string \<Rightarrow>
   (app_error + Envelope option) \<times> dm_manager \<times> store" where
  "dm_Get g rnd m s messageID recipient =
     (case GetDM s messageID recipient of
        Inl e \<Rightarrow> (Inl (EStore e), m, s)
      | Inr None \<Rightarrow> (Inr None, m, s)
      | Inr (Some row) \<Rightarrow>
          (case dm_key rnd m s recipient of
             (Inl e, m, s) \<Rightarrow> (Inl e, m, s)
           | (Inr key, m, s) \<Rightarrow>
               (case open_row g key row of
                  Inl e \<Rightarrow> (Inl e, m, s)
                | Inr env \<Rightarrow> (Inr (Some env), m, s))))"

definition dm_Remove :: "store \<Rightarrow> string \<Rightarrow> string \<Rightarrow> app_error + store" where
  "dm_Remove s messageID recipient = lift_store (DeleteDM s messageID recipient)"

text \<open>One tick of the pruning loop; an error is logged and the store left alone.\<close>

definition prune_tick :: "store \<Rightarrow> gotime \<Rightarrow> store" where
  "prune_tick s now = (case PruneDM s (now - queueTTL) of Inl _ \<Rightarrow> s | Inr (_, s') \<Rightarrow> s')"

section \<open>The sealed text\<close>

text \<open>What JSON can carry: text in UTF-8 and 64-bit times. Text that was decoded from JSON is of this kind (\<open>Wire\<close>).\<close>

definition ok_Image :: "Image \<Rightarrow> bool" where
  "ok_Image i \<longleftrightarrow> utf8 (im_Name i) \<and> utf8 (im_Mime i) \<and> utf8 (im_B64 i)"

definition ok_Envelope :: "Envelope \<Rightarrow> bool" where
  "ok_Envelope e \<longleftrightarrow> (\<forall>s\<in>set [MessageID e, ClientID e, From e, FromName e, To e, Kind e, Text e]. utf8 s) \<and>
     pred_option ok_Image (Img e) \<and> - (2 ^ 63) \<le> EnvCreatedAt e \<and> EnvCreatedAt e < 2 ^ 63"

lemma Image_codec [json_simps]: "dec_Image (enc_Image i) z = Some i" "enc_Image i \<noteq> VNull"
  by (simp_all add: dec_Image_def enc_Image_def json_simps)

lemma Image_ok [ok_simps]: "value_ok (Suc n) (enc_Image i) \<longleftrightarrow> ok_Image i"
  by (simp add: enc_Image_def ok_Image_def ok_simps)

interpretation envelope_json: json_codec enc_Envelope dec_Envelope zero_Envelope ok_Envelope
proof
  fix e
  assume e: "ok_Envelope e"
  then have "value_ok (Suc (Suc 0)) (enc_Envelope e)"
    by (simp add: ok_Envelope_def enc_Envelope_def ok_simps option.pred_set)
  then show "json_ok (enc_Envelope e)" by (rule value_ok_json) (simp add: maxNestingDepth_def)
  show "dec_Envelope (enc_Envelope e) zero_Envelope = Some e"
    using e by (simp add: dec_Envelope_def enc_Envelope_def zero_Envelope_def ok_Envelope_def json_simps)
qed

lemma keeps_Image [keeps_rules]: "keeps dec_Image ok_Image"
  unfolding dec_Image_def by (rule keeps_rules | simp add: ok_Image_def)+

section \<open>The shared secret\<close>

locale master_secret =
  fixes ensure :: "randomness \<Rightarrow> 'm \<Rightarrow> store \<Rightarrow> (app_error + unit) \<times> 'm \<times> store"
    and master :: "'m \<Rightarrow> bytes option"
  assumes ensure_ok: "ensure r m s = (Inr (), m', s') \<Longrightarrow>
      \<exists>k e. master m' = Some k \<and> GetSetting s' MasterSecretKey = Inr e \<and> e \<noteq> [] \<and> StdDecode e = Some k"
    and ensure_keeps: "ensure r m s = (x, m', s') \<Longrightarrow> GetSetting s MasterSecretKey = Inr e \<Longrightarrow> e \<noteq> [] \<Longrightarrow> s' = s"
    and ensure_fail: "ensure r m s = (Inl err, m', s') \<Longrightarrow> m' = m \<and> s' = s"
    and ensure_frame: "ensure r m s = (x, m', s') \<Longrightarrow> \<exists>st. s' = s\<lparr>settings := st\<rparr>"
begin

text \<open>The master secret of a manager that has one is the one on disk.\<close>

definition agrees :: "'m \<Rightarrow> store \<Rightarrow> bool" where
  "agrees m s \<longleftrightarrow> (case master m of None \<Rightarrow> True
     | Some k \<Rightarrow> \<exists>e. map_of (settings s) MasterSecretKey = Some e \<and> e \<noteq> [] \<and> StdDecode e = Some k)"

lemma GetSetting_some: "GetSetting s k = Inr e \<Longrightarrow> e \<noteq> [] \<Longrightarrow> map_of (settings s) k = Some e"
  by (auto simp: GetSetting_def split: if_splits option.splits)

lemma ensure_agrees: "ensure r m s = (Inr (), m', s') \<Longrightarrow> agrees m' s'"
  using ensure_ok GetSetting_some by (fastforce simp: agrees_def)

lemma agrees_other: "agrees m s \<Longrightarrow> settings s' = settings s \<Longrightarrow> agrees m s'"
  by (auto simp: agrees_def split: option.splits)

end

lemma Settings_lookup: "SetSetting s k v = Inr s' \<Longrightarrow> GetSetting s' k = Inr v"
  by (auto simp: SetSetting_def GetSetting_def split: if_splits)

lemma StdEncode_ne: "length k = 32 \<Longrightarrow> StdEncode k \<noteq> []"
  by (cases "(False, True, k)" rule: b64_encode.cases) (auto simp: Let_def)

lemma SetSetting_frame: "SetSetting s k v = Inr s' \<Longrightarrow> s' = s\<lparr>settings := aput k v (settings s)\<rparr>"
  by (auto simp: SetSetting_def split: if_splits)

lemma settings_id: "\<exists>st. s = s\<lparr>settings := st\<rparr>"
  by (rule exI [of _ "settings s"]) simp

interpretation vm_secret: master_secret vm_EnsureMasterSecret vm_master
proof
  fix r m s m' s'
  assume "vm_EnsureMasterSecret r m s = (Inr (), m', s')"
  then show "\<exists>k e. vm_master m' = Some k \<and> GetSetting s' MasterSecretKey = Inr e \<and> e \<noteq> [] \<and> StdDecode e = Some k"
    by (auto simp: vm_EnsureMasterSecret_def Settings_lookup StdEncode_ne length_rand_bytes b64_roundtrip
        split: sum.splits if_splits option.splits)
next
  fix r m s x m' s'
  assume "vm_EnsureMasterSecret r m s = (x, m', s')"
  then show "\<exists>st. s' = s\<lparr>settings := st\<rparr>"
    using settings_id [of s]
    by (auto simp: vm_EnsureMasterSecret_def dest!: SetSetting_frame split: sum.splits if_splits option.splits)
qed (fastforce simp: vm_EnsureMasterSecret_def split: sum.splits if_splits option.splits)+

interpretation dm_secret: master_secret dm_EnsureMasterSecret dm_master
proof
  fix r m s m' s'
  assume "dm_EnsureMasterSecret r m s = (Inr (), m', s')"
  then show "\<exists>k e. dm_master m' = Some k \<and> GetSetting s' MasterSecretKey = Inr e \<and> e \<noteq> [] \<and> StdDecode e = Some k"
    by (auto simp: dm_EnsureMasterSecret_def Settings_lookup StdEncode_ne length_rand_bytes b64_roundtrip
        split: sum.splits if_splits option.splits)
next
  fix r m s x m' s'
  assume "dm_EnsureMasterSecret r m s = (x, m', s')"
  then show "\<exists>st. s' = s\<lparr>settings := st\<rparr>"
    using settings_id [of s]
    by (auto simp: dm_EnsureMasterSecret_def dest!: SetSetting_frame split: sum.splits if_splits option.splits)
qed (fastforce simp: dm_EnsureMasterSecret_def split: sum.splits if_splits option.splits)+

section \<open>Keys are stable\<close>

lemma GetSetting_of: "db_up s \<Longrightarrow> map_of (settings s) k = Some e \<Longrightarrow> GetSetting s k = Inr e"
  by (simp add: GetSetting_def)

lemma vm_EnsureMasterSecret_load:
  "db_up s \<Longrightarrow> map_of (settings s) MasterSecretKey = Some e \<Longrightarrow> e \<noteq> [] \<Longrightarrow> StdDecode e = Some k \<Longrightarrow>
   vm_EnsureMasterSecret r m s = (Inr (), m\<lparr>vm_master := Some k, vm_loaded := True\<rparr>, s)"
  by (simp add: vm_EnsureMasterSecret_def GetSetting_of)

lemma dm_EnsureMasterSecret_load:
  "db_up s \<Longrightarrow> map_of (settings s) MasterSecretKey = Some e \<Longrightarrow> e \<noteq> [] \<Longrightarrow> StdDecode e = Some k \<Longrightarrow>
   dm_EnsureMasterSecret r m s = (Inr (), m\<lparr>dm_master := Some k, dm_loaded := True\<rparr>, s)"
  by (simp add: dm_EnsureMasterSecret_def GetSetting_of)

text \<open>
  \<open>secret s k\<close>: the settings table holds the secret \<open>k\<close>. Every key that a manager derives comes
  from it, whether the manager has it in memory or loads it.
\<close>

definition secret :: "store \<Rightarrow> bytes \<Rightarrow> bool" where
  "secret s k \<longleftrightarrow> (\<exists>e. map_of (settings s) MasterSecretKey = Some e \<and> e \<noteq> [] \<and> StdDecode e = Some k)"

lemma vm_key_result:
  assumes "vm_key r m s n = (Inr key, m', s')" and "vm_secret.agrees m s"
  shows "\<exists>k. secret s' k \<and> key = DeriveKey k n \<and> vm_master m' = Some k \<and> (\<exists>st. s' = s\<lparr>settings := st\<rparr>)"
proof (cases "vm_master m")
  case (Some k)
  with assms settings_id [of s] show ?thesis
    by (auto simp: vm_key_def vm_secret.agrees_def secret_def DeriveMailboxKey_def)
next
  case None
  then obtain m1 s1 where e: "vm_EnsureMasterSecret r m s = (Inr (), m1, s1)" and "m' = m1" "s' = s1"
    and key: "key = DeriveKey (case vm_master m1 of None \<Rightarrow> [] | Some k \<Rightarrow> k) n"
    using assms(1) by (auto simp: vm_key_def DeriveMailboxKey_def split: prod.splits sum.splits)
  with vm_secret.ensure_ok [OF e] vm_secret.ensure_agrees [OF e] vm_secret.ensure_frame [OF e] show ?thesis
    by (auto simp: secret_def vm_secret.agrees_def)
qed

lemma dm_key_result:
  assumes "dm_key r m s n = (Inr key, m', s')" and "dm_secret.agrees m s"
  shows "\<exists>k. secret s' k \<and> key = DeriveKey k n \<and> dm_master m' = Some k \<and> (\<exists>st. s' = s\<lparr>settings := st\<rparr>)"
proof (cases "dm_master m")
  case (Some k)
  with assms settings_id [of s] show ?thesis
    by (auto simp: dm_key_def dm_secret.agrees_def secret_def)
next
  case None
  then obtain m1 s1 where e: "dm_EnsureMasterSecret r m s = (Inr (), m1, s1)" and "m' = m1" "s' = s1"
    and key: "key = DeriveKey (case dm_master m1 of None \<Rightarrow> [] | Some k \<Rightarrow> k) n"
    using assms(1) by (auto simp: dm_key_def split: prod.splits sum.splits)
  with dm_secret.ensure_ok [OF e] dm_secret.ensure_agrees [OF e] dm_secret.ensure_frame [OF e] show ?thesis
    by (auto simp: secret_def dm_secret.agrees_def)
qed

lemma secret_unique: "secret s k \<Longrightarrow> secret s k' \<Longrightarrow> k = k'"
  by (auto simp: secret_def)

lemma vm_key_secret:
  assumes "secret s k" and "vm_secret.agrees m s" and "db_up s"
  shows "\<exists>m'. vm_key r m s n = (Inr (DeriveKey k n), m', s)"
proof (cases "vm_master m")
  case (Some k')
  with assms secret_unique [of s k k'] have "k' = k" by (auto simp: vm_secret.agrees_def secret_def)
  with Some show ?thesis by (simp add: vm_key_def DeriveMailboxKey_def)
next
  case None
  with assms vm_EnsureMasterSecret_load [of s _ k r m] show ?thesis
    by (auto simp: vm_key_def DeriveMailboxKey_def secret_def)
qed

lemma dm_key_secret:
  assumes "secret s k" and "dm_secret.agrees m s" and "db_up s"
  shows "\<exists>m'. dm_key r m s n = (Inr (DeriveKey k n), m', s)"
proof (cases "dm_master m")
  case (Some k')
  with assms secret_unique [of s k k'] have "k' = k" by (auto simp: dm_secret.agrees_def secret_def)
  with Some show ?thesis by (simp add: dm_key_def)
next
  case None
  with assms dm_EnsureMasterSecret_load [of s _ k r m] show ?thesis
    by (auto simp: dm_key_def secret_def)
qed

lemma vm_ensure_like_dm:
  assumes "dm_EnsureMasterSecret r d s = (Inr (), d', s1)"
  shows "\<exists>v1. vm_EnsureMasterSecret r v s = (Inr (), v1, s1)"
proof (cases "GetSetting s MasterSecretKey")
  case (Inl e)
  with assms show ?thesis by (simp add: dm_EnsureMasterSecret_def)
next
  case (Inr e)
  show ?thesis
  proof (cases "e = []")
    case True
    with Inr assms show ?thesis
      by (cases "rand_bytes r 32") (auto simp: dm_EnsureMasterSecret_def vm_EnsureMasterSecret_def split: sum.splits)
  next
    case False
    with Inr assms show ?thesis
      by (cases "StdDecode e") (auto simp: dm_EnsureMasterSecret_def vm_EnsureMasterSecret_def)
  qed
qed

abbreviation sealed_text :: "Envelope \<Rightarrow> bytes" where
  "sealed_text env \<equiv> str_bytes (Marshal enc_Envelope env)"

lemma Enqueue_okE:
  assumes st: "Enqueue g r1 r2 m s now r env = (Inr i, m', s')"
  obtains key m1 s1 blob where "dm_key r1 m s r = (Inr key, m1, s1)" "Encrypt g r2 key (sealed_text env) = Inr blob"
    "StoreDMPreassigned s1 now (MessageID env) r blob = Inr s'" "m' = m1" "i = MessageID env"
proof -
  obtain x m1 s1 where k: "dm_key r1 m s r = (x, m1, s1)" by (cases "dm_key r1 m s r")
  with st obtain key where x: "x = Inr key" by (cases x) (simp_all add: Enqueue_def)
  obtain blob where b: "Encrypt g r2 key (sealed_text env) = Inr blob"
    using st k x by (cases "Encrypt g r2 key (sealed_text env)") (simp_all add: Enqueue_def sealJSON_def)
  obtain s2 where s2: "StoreDMPreassigned s1 now (MessageID env) r blob = Inr s2"
    using st k x b by (cases "StoreDMPreassigned s1 now (MessageID env) r blob") (simp_all add: Enqueue_def sealJSON_def)
  have "s2 = s'" "m' = m1" "i = MessageID env"
    using st k x b s2 by (simp_all add: Enqueue_def sealJSON_def)
  then show ?thesis using that [OF k [unfolded x] b] s2 by blast
qed

lemma enqueue_delivers:
  assumes gcm: "gcm_ok g" and json: "ok_Envelope env"
    and "dm_secret.agrees m s"
    and st: "Enqueue g r1 r2 m s now r env = (Inr i, m', s')"
    and m2: "m2 = m' \<or> dm_master m2 = None"
  shows "i = MessageID env \<and> fst (dm_Get g r3 m2 s' i r) = Inr (Some env) \<and>
         (\<exists>es. fst (Pending g r3 m2 s' r) = Inr es \<and> env \<in> set es)"
proof -
  obtain key m1 s1 blob where k1: "dm_key r1 m s r = (Inr key, m1, s1)" and enc: "Encrypt g r2 key (sealed_text env) = Inr blob"
    and sv: "StoreDMPreassigned s1 now (MessageID env) r blob = Inr s'" and m': "m' = m1" and i: "i = MessageID env"
    by (rule Enqueue_okE [OF st])
  obtain k where k: "secret s1 k" "key = DeriveKey k r" "dm_master m1 = Some k"
    using dm_key_result [OF k1 assms(3)] by blast
  let ?d = "\<lparr>DmID = MessageID env, DmRecipient = r, DmEnvelope = blob, DmCreatedAt = unix_secs now\<rparr>"
  have s': "put_dm s1 ?d = Inr s'" "settings s' = settings s1" "db_up s'"
    using sv by (auto simp: StoreDMPreassigned_def put_dm_def split: if_splits)
  have sec: "secret s' k" using k(1) s'(2) by (simp add: secret_def)
  have "dm_secret.agrees m2 s'"
    using m2 m' k(3) sec by (auto simp: dm_secret.agrees_def secret_def)
  then obtain m3 where k2: "dm_key r3 m2 s' r = (Inr key, m3, s')"
    using dm_key_secret [OF sec _ s'(3)] k(2) by blast
  have "Decrypt g key blob = Inr (sealed_text env)" using Decrypt_Encrypt [OF gcm _ enc] k(2) by simp
  then have op: "open_row g key ?d = Inr env" using envelope_json.roundtrip [OF json] by (simp add: open_row_def)
  have "GetDM s' i r = Inr (Some ?d)"
    using dm_box.get_after_put [OF s'(1)] s'(3) i by (auto simp: GetDM_def)
  moreover obtain ms where "ListPendingDM s' r = Inr ms" using s'(3) by (simp add: ListPendingDM_def)
  moreover have "?d \<in> set ms"
    using dm_box.list_scoped [OF calculation(2)] dm_box.put_ok [OF s'(1)] by simp
  moreover have "env \<in> set (open_rows g key ms)"
    using calculation(3) op by (force simp: open_rows_def)
  ultimately show ?thesis using i k2 op by (simp add: dm_Get_def Pending_def)
qed

lemma StoreMessage_succeeds:
  assumes "frames \<noteq> []" "secret s k" "vm_secret.agrees m s" "db_up s" "r2 = Some ent" "uid \<notin> VmID ` set (voicemail s)"
  shows "\<exists>m' s'. StoreMessage g r1 r2 uid m s now r cn cname frames = (Inr uid, m', s')"
proof -
  obtain m' where "vm_key r1 m s r = (Inr (DeriveKey k r), m', s)" using vm_key_secret [OF assms(2-4)] by blast
  with assms show ?thesis by (simp add: StoreMessage_def BoxEncrypt_def Encrypt_def rand_bytes_def StoreVoicemail_def)
qed

lemma stored_plays:
  assumes gcm: "gcm_ok g" and "vm_secret.agrees m s"
    and len: "list_all (\<lambda>f. length f < 2 ^ 32) frames"
    and st: "StoreMessage g r1 r2 uid m s now r cn cname frames = (Inr vid, m', s')"
    and m2: "m2 = m' \<or> vm_master m2 = None"
  shows "\<exists>v. GetVoicemail s' vid r = Inr (Some v) \<and> CallerNumber v = cn \<and> CallerName v = cname \<and> \<not> Listened v \<and> DurationSeconds v = vm_duration frames \<and>
           fst (RenderOgg g r3 m2 s' r v) =
             (case BuildOgg frames of Inl e \<Rightarrow> Inl (EMsg e) | Inr ogg \<Rightarrow> Inr ogg)"
proof -
  obtain key m1 s1 blob where ne: "frames \<noteq> []" and k1: "vm_key r1 m s r = (Inr key, m1, s1)"
    and enc: "Encrypt g r2 key (SerializeFrames frames) = Inr blob"
    and sv: "StoreVoicemail uid s1 now r cn cname blob ''opus'' (vm_duration frames) = Inr (vid, s')" and m': "m' = m1"
    using st by (auto simp: StoreMessage_def BoxEncrypt_def split: if_splits prod.splits sum.splits)
  obtain k where k: "secret s1 k" "key = DeriveKey k r" "vm_master m1 = Some k"
    using vm_key_result [OF k1 assms(2)] by blast
  let ?v = "\<lparr>VmID = uid, CallerNumber = cn, CallerName = cname, RecipientNumber = r, EncryptedAudio = blob,
      Format = ''opus'', DurationSeconds = vm_duration frames, Listened = False, VmCreatedAt = unix_secs now\<rparr>"
  have s': "put_voicemail s1 ?v = Inr s'" "vid = uid" "settings s' = settings s1" "db_up s'"
    using sv by (auto simp: StoreVoicemail_def put_voicemail_def split: if_splits)
  have get: "GetVoicemail s' vid r = Inr (Some ?v)"
    using vm_box.get_after_put [OF s'(1)] s'(2,4) by (auto simp: GetVoicemail_def)
  have sec: "secret s' k" using k(1) s'(3) by (simp add: secret_def)
  have "vm_secret.agrees m2 s'"
    using m2 m' k(3) sec by (auto simp: vm_secret.agrees_def secret_def)
  then obtain m3 where "vm_key r3 m2 s' r = (Inr key, m3, s')"
    using vm_key_secret [OF sec _ s'(4)] k(2) by blast
  moreover have "Decrypt g key blob = Inr (SerializeFrames frames)"
    using Decrypt_Encrypt [OF gcm _ enc] k(2) by simp
  ultimately have "fst (RenderOgg g r3 m2 s' r ?v) = (case BuildOgg frames of Inl e \<Rightarrow> Inl (EMsg e) | Inr ogg \<Rightarrow> Inr ogg)"
    using vm_frames.deser_ser [OF len] ne by (simp add: RenderOgg_def BoxDecrypt_def split: sum.splits)
  with get show ?thesis by (intro exI [of _ ?v]) simp
qed

section \<open>Properties\<close>

text \<open>
  C24. A recorded message can be played back: after \<open>StoreMessage\<close> has succeeded, the recipient finds
  the message under the returned identifier, with the caller's number and name, and rendering it
  gives the Ogg container of exactly the recorded frames. This holds for the manager that stored
  it and for one started afresh on the same database, since the secret is on disk.
\<close>

theorem voicemail_playback:
  assumes gcm: "gcm_ok g" and "vm_secret.agrees m s"
    and len: "list_all (\<lambda>f. length f < 2 ^ 32) frames"
    and st: "StoreMessage g r1 r2 uid m s now r cn cname frames = (Inr vid, m', s')"
    and m2: "m2 = m' \<or> vm_master m2 = None"
  shows "\<exists>v. GetVoicemail s' vid r = Inr (Some v) \<and> CallerNumber v = cn \<and> CallerName v = cname \<and> \<not> Listened v \<and>
           fst (RenderOgg g r3 m2 s' r v) =
             (case BuildOgg frames of Inl e \<Rightarrow> Inl (EMsg e) | Inr ogg \<Rightarrow> Inr ogg)"
  using stored_plays [OF assms] by blast

theorem voicemail_playback_witness:
  "\<exists>vid m' s' v. StoreMessage plain_gcm (Some (\<lambda>_. 5)) (Some (\<lambda>_. 6)) ''v1'' (vm_NewManager True 0 True)
       empty_store 0 ''5551234'' ''4409522575'' ''Ann'' [[252, 1]] = (Inr vid, m', s') \<and>
     GetVoicemail s' vid ''5551234'' = Inr (Some v) \<and>
     fst (RenderOgg plain_gcm None (vm_NewManager True 0 True) s' ''5551234'' v) =
       (case BuildOgg [[252, 1]] of Inl e \<Rightarrow> Inl (EMsg e) | Inr ogg \<Rightarrow> Inr ogg)"
proof -
  let ?m = "vm_NewManager True 0 True"
  obtain vid m' s' where st: "StoreMessage plain_gcm (Some (\<lambda>_. 5)) (Some (\<lambda>_. 6)) ''v1'' ?m
       empty_store 0 ''5551234'' ''4409522575'' ''Ann'' [[252, 1]] = (Inr vid, m', s')"
    by (simp add: StoreMessage_def vm_key_def vm_NewManager_def vm_EnsureMasterSecret_def GetSetting_def SetSetting_def
        empty_store_def rand_bytes_def BoxEncrypt_def Encrypt_def DeriveMailboxKey_def StoreVoicemail_def)
  have "vm_secret.agrees ?m empty_store" by (simp add: vm_secret.agrees_def vm_NewManager_def)
  from voicemail_playback [OF plain_gcm_ok this _ st, of ?m None] st show ?thesis
    by (auto simp: vm_NewManager_def)
qed

text \<open>
  A queued message reaches the device unchanged: after \<open>Enqueue\<close>, both \<open>Get\<close> and \<open>Pending\<close> of
  the recipient return the envelope that was sent, also after a restart of the server.
\<close>

theorem dm_delivery:
  assumes gcm: "gcm_ok g" and json: "ok_Envelope env"
    and "dm_secret.agrees m s"
    and st: "Enqueue g r1 r2 m s now r env = (Inr i, m', s')"
    and m2: "m2 = m' \<or> dm_master m2 = None"
  shows "i = MessageID env \<and> fst (dm_Get g r3 m2 s' i r) = Inr (Some env) \<and>
         (\<exists>es. fst (Pending g r3 m2 s' r) = Inr es \<and> env \<in> set es)"
  by (rule enqueue_delivers [OF assms])

definition sample_env :: Envelope where
  "sample_env = \<lparr>MessageID = ''m1'', ClientID = [], From = ''4409522575'', FromName = ''Ann'',
     To = ''4405551234'', Kind = ''text'', Text = ''hi'', Img = None, EnvCreatedAt = 0\<rparr>"

lemma sample_env_ok: "ok_Envelope sample_env"
  by (simp add: ok_Envelope_def sample_env_def ok_simps)

theorem dm_delivery_witness:
  "\<exists>i m' s'. Enqueue plain_gcm (Some (\<lambda>_. 5)) (Some (\<lambda>_. 6)) dm_NewManager empty_store 0 ''5551234''
       sample_env = (Inr i, m', s') \<and>
     fst (dm_Get plain_gcm None dm_NewManager s' i ''5551234'') = Inr (Some sample_env)"
proof -
  obtain i m' s' where st: "Enqueue plain_gcm (Some (\<lambda>_. 5)) (Some (\<lambda>_. 6)) dm_NewManager
      empty_store 0 ''5551234'' sample_env = (Inr i, m', s')"
    by (simp add: Enqueue_def dm_key_def dm_NewManager_def dm_EnsureMasterSecret_def GetSetting_def SetSetting_def
        empty_store_def rand_bytes_def sealJSON_def Encrypt_def StoreDMPreassigned_def)
  have "dm_secret.agrees dm_NewManager empty_store" by (simp add: dm_secret.agrees_def dm_NewManager_def)
  from dm_delivery [OF plain_gcm_ok sample_env_ok this st, of dm_NewManager None] st show ?thesis
    by (auto simp: dm_NewManager_def)
qed

text \<open>
  The two managers share one secret: after either has loaded or created it, the other loads the
  same bytes, in whichever order they start, so neither ever replaces the key of the other's
  messages.
\<close>

theorem managers_share_secret:
  assumes "dm_EnsureMasterSecret r1 d s = (Inr (), d', s1)"
    and "vm_EnsureMasterSecret r2 v s1 = (x, v', s2)"
  shows "x = Inr () \<and> s2 = s1 \<and> vm_master v' = dm_master d' \<and> dm_master d' \<noteq> None \<and>
         (\<exists>v1 d1 s3. vm_EnsureMasterSecret r1 v s = (Inr (), v1, s3) \<and> s3 = s1 \<and>
            dm_EnsureMasterSecret r2 d s3 = (Inr (), d1, s3) \<and> dm_master d1 = dm_master d')"
proof -
  obtain k e where k: "dm_master d' = Some k" "GetSetting s1 MasterSecretKey = Inr e" "e \<noteq> []" "StdDecode e = Some k"
    using dm_secret.ensure_ok [OF assms(1)] by blast
  then have "vm_EnsureMasterSecret r2 v s1 = (Inr (), v\<lparr>vm_master := Some k, vm_loaded := True\<rparr>, s1)"
    "dm_EnsureMasterSecret r2 d s1 = (Inr (), d\<lparr>dm_master := Some k, dm_loaded := True\<rparr>, s1)"
    by (simp_all add: vm_EnsureMasterSecret_def dm_EnsureMasterSecret_def)
  moreover have "\<exists>v1. vm_EnsureMasterSecret r1 v s = (Inr (), v1, s1)"
    by (rule vm_ensure_like_dm [OF assms(1)])
  ultimately show ?thesis using assms(2) k by auto
qed

theorem managers_share_secret_witness:
  "\<exists>d' s1 v' s2. dm_EnsureMasterSecret (Some (\<lambda>_. 5)) dm_NewManager empty_store = (Inr (), d', s1) \<and>
     vm_EnsureMasterSecret None (vm_NewManager True 0 True) s1 = (Inr (), v', s2) \<and> vm_master v' = dm_master d'"
proof -
  obtain d' s1 where e: "dm_EnsureMasterSecret (Some (\<lambda>_. 5)) dm_NewManager empty_store = (Inr (), d', s1)"
    by (simp add: dm_EnsureMasterSecret_def dm_NewManager_def GetSetting_def SetSetting_def empty_store_def rand_bytes_def)
  obtain x v' s2 where v: "vm_EnsureMasterSecret None (vm_NewManager True 0 True) s1 = (x, v', s2)"
    using prod_cases3 by blast
  from managers_share_secret [OF e v] e v show ?thesis by auto
qed

end
