(* ===== verification/Services.thy ===== *)
theory Services
  imports Tts Numbers
begin

text \<open>
  The hosted services of \<open>ocnserver/internal/services\<close>: the service registry
  (\<open>registry.go\<close>, \<open>service.go\<close>), the echo, number-announcement and announcement services
  (\<open>echo.go\<close>) and the conference mixer (\<open>conference.go\<close>).

  The WebRTC library is a parameter of type \<open>pion\<close>: for each library call the services make, the
  error it returns or its result. A peer connection is known by its call identifier; the model
  keeps for every live call the ICE candidates handed to its peer connection, and the list of
  calls whose connection has been closed. The Opus codec is a parameter too. The goroutines that
  pump RTP are modelled by the packets they write and by one function per tick of the mixer.

  The interface \<open>call_service\<close> is the contract of \<open>services.Service\<close> that the signaling server
  relies on: which calls are live after \<open>HandleCall\<close> and \<open>EndCall\<close>.
\<close>

section \<open>Types shared by the services\<close>

type_synonym callID = string
type_synonym sample = "16 word"
type_synonym pcm = "16 word list"

record ice_init =
  ii_candidate :: string
  ii_sdpMid :: "string option"
  ii_mline :: "16 word option"

datatype sdp_type = SDPTypeOffer | SDPTypeAnswer

record session_desc =
  sd_type :: sdp_type
  sd_sdp :: string

record pion =
  p_newPeer :: "string option"
  p_newTrack :: "string option"
  p_addTrack :: "string option"
  p_setRemote :: "session_desc \<Rightarrow> string option"
  p_createAnswer :: "session_desc \<Rightarrow> string + string"
  p_setLocal :: "string \<Rightarrow> string option"
  p_addICE :: "callID \<Rightarrow> ice_init \<Rightarrow> string option"

record rtp_packet =
  rp_payloadType :: nat
  rp_seq :: "16 word"
  rp_ts :: "32 word"
  rp_ssrc :: "32 word"
  rp_marker :: bool
  rp_payload :: bytes

section \<open>The service registry\<close>

type_synonym 's svc_registry = "(string, 's) gomap"

definition Register :: "('s \<Rightarrow> string) \<Rightarrow> 's \<Rightarrow> 's svc_registry \<Rightarrow> 's svc_registry" where
  "Register Code s r = aput (Code s) s r"

definition Get :: "'s svc_registry \<Rightarrow> string \<Rightarrow> string + 's" where
  "Get r code =
     (case map_of r code of
        None \<Rightarrow> Inl (''service '' @ code @ '' not found'')
      | Some s \<Rightarrow> Inr s)"

definition IsServiceCode :: "string \<Rightarrow> bool" where
  "IsServiceCode code \<longleftrightarrow> 3 \<le> length code \<and> hd code = CHR ''*''"

section \<open>Echo, number announcement and announcement lines\<close>

record echo_service =
  e_code :: string
  e_name :: string
  e_phrase :: string
  e_echo :: bool
  e_whoami :: bool
  e_calls :: "(callID, ice_init list) gomap"
  e_caller :: "(callID, string) gomap"
  e_closed :: "callID list"

definition NewEchoService :: echo_service where
  "NewEchoService = \<lparr>e_code = ''*01'', e_name = ''Echo Test'',
     e_phrase = ''Welcome to OpenCarrier Network's Echo Service'', e_echo = True, e_whoami = False,
     e_calls = [], e_caller = [], e_closed = []\<rparr>"

definition NewNumberAnnounceService :: echo_service where
  "NewNumberAnnounceService = \<lparr>e_code = ''*02'', e_name = ''My Number'',
     e_phrase = ''Welcome to OpenCarrier Network'', e_echo = False, e_whoami = True,
     e_calls = [], e_caller = [], e_closed = []\<rparr>"

definition NewAnnouncementService :: "string \<Rightarrow> string \<Rightarrow> echo_service" where
  "NewAnnouncementService name phrase = \<lparr>e_code = [], e_name = name, e_phrase = phrase,
     e_echo = False, e_whoami = False, e_calls = [], e_caller = [], e_closed = []\<rparr>"

definition SetCaller :: "echo_service \<Rightarrow> callID \<Rightarrow> string \<Rightarrow> echo_service" where
  "SetCaller e cid fullNumber = e\<lparr>e_caller := aput cid fullNumber (e_caller e)\<rparr>"

fun spoken_chars :: "string \<Rightarrow> string" where
  "spoken_chars [] = []"
| "spoken_chars (r # rs) =
     (if r = CHR ''-'' then '', '' else [r, CHR '' '']) @ spoken_chars rs"

definition spokenNumber :: "string \<Rightarrow> string" where
  "spokenNumber full = rev (dropWhile (\<lambda>c. c = CHR '' '') (rev (spoken_chars full)))"

definition welcome_phrase :: "echo_service \<Rightarrow> callID \<Rightarrow> string" where
  "welcome_phrase e cid =
     (if e_whoami e then
        (case map_of (e_caller e) cid of
           Some num \<Rightarrow>
             if num \<noteq> [] then ''Your OpenCarrier Network number is '' @ spokenNumber num
             else e_phrase e
         | None \<Rightarrow> e_phrase e)
      else e_phrase e)"

definition echo_packet :: "rtp_packet \<Rightarrow> rtp_packet" where
  "echo_packet pkt = pkt\<lparr>rp_ssrc := 54321\<rparr>"

definition echo_drop :: "echo_service \<Rightarrow> callID \<Rightarrow> echo_service" where
  "echo_drop e cid = e\<lparr>e_calls := adel cid (e_calls e), e_closed := cid # e_closed e\<rparr>"

definition echo_HandleCall ::
  "pion \<Rightarrow> echo_service \<Rightarrow> callID \<Rightarrow> session_desc \<Rightarrow> (string + string) \<times> echo_service" where
  "echo_HandleCall px e cid offer =
     (case p_newPeer px of
        Some err \<Rightarrow> (Inl (''failed to create PeerConnection: '' @ err), e)
      | None \<Rightarrow>
     (case p_newTrack px of
        Some err \<Rightarrow> (Inl (''failed to create track: '' @ err), e\<lparr>e_closed := cid # e_closed e\<rparr>)
      | None \<Rightarrow>
     (case p_addTrack px of
        Some err \<Rightarrow> (Inl (''failed to add track: '' @ err), e\<lparr>e_closed := cid # e_closed e\<rparr>)
      | None \<Rightarrow>
     (let e = e\<lparr>e_calls := aput cid [] (e_calls e)\<rparr> in
      case p_setRemote px offer of
        Some err \<Rightarrow> (Inl (''failed to set remote description: '' @ err), echo_drop e cid)
      | None \<Rightarrow>
     (case p_createAnswer px offer of
        Inl err \<Rightarrow> (Inl (''failed to create answer: '' @ err), echo_drop e cid)
      | Inr answer \<Rightarrow>
     (case p_setLocal px answer of
        Some err \<Rightarrow> (Inl (''failed to set local description: '' @ err), echo_drop e cid)
      | None \<Rightarrow> (Inr answer, e)))))))"

text \<open>Handing a candidate to every live call, stopping at the first error.\<close>

fun add_ice_all ::
  "pion \<Rightarrow> ice_init \<Rightarrow> (callID \<times> ice_init list) list \<Rightarrow>
   (callID \<times> ice_init list) list \<times> string option" where
  "add_ice_all px cand [] = ([], None)"
| "add_ice_all px cand ((cid, cs) # calls) =
     (case p_addICE px cid cand of
        Some err \<Rightarrow> ((cid, cs) # calls, Some err)
      | None \<Rightarrow>
          (case add_ice_all px cand calls of
             (calls', r) \<Rightarrow> ((cid, cs @ [cand]) # calls', r)))"

definition echo_HandleICE :: "pion \<Rightarrow> echo_service \<Rightarrow> ice_init \<Rightarrow> echo_service \<times> string option" where
  "echo_HandleICE px e cand =
     (case add_ice_all px cand (e_calls e) of (calls, r) \<Rightarrow> (e\<lparr>e_calls := calls\<rparr>, r))"

definition echo_EndCall :: "echo_service \<Rightarrow> callID \<Rightarrow> echo_service" where
  "echo_EndCall e cid =
     (case map_of (e_calls e) cid of
        None \<Rightarrow> e
      | Some _ \<Rightarrow>
          e\<lparr>e_calls := adel cid (e_calls e), e_caller := adel cid (e_caller e),
            e_closed := cid # e_closed e\<rparr>)"

section \<open>The conference room\<close>

record confPart =
  cp_active :: bool
  cp_frame :: "pcm option"
  cp_ice :: "ice_init list"

record conference =
  c_name :: string
  c_phrase :: string
  c_parts :: "(callID, confPart) gomap"
  c_seq :: "16 word"
  c_ts :: "32 word"
  c_started :: bool
  c_closed :: "callID list"

definition NewConferenceService :: "string option \<Rightarrow> string \<Rightarrow> string \<Rightarrow> string + conference" where
  "NewConferenceService enc_err name phrase =
     (case enc_err of
        Some e \<Rightarrow> Inl (''opus encoder: '' @ e)
      | None \<Rightarrow> Inr \<lparr>c_name = name, c_phrase = phrase, c_parts = [], c_seq = 0, c_ts = 0,
                     c_started = False, c_closed = []\<rparr>)"

definition conf_remove :: "conference \<Rightarrow> callID \<Rightarrow> conference" where
  "conf_remove c cid =
     (case map_of (c_parts c) cid of
        None \<Rightarrow> c
      | Some _ \<Rightarrow> c\<lparr>c_parts := adel cid (c_parts c), c_closed := cid # c_closed c\<rparr>)"

definition conf_HandleCall ::
  "pion \<Rightarrow> conference \<Rightarrow> callID \<Rightarrow> session_desc \<Rightarrow> (string + string) \<times> conference" where
  "conf_HandleCall px c cid offer =
     (case p_newPeer px of
        Some err \<Rightarrow> (Inl (''new peer connection: '' @ err), c)
      | None \<Rightarrow>
     (case p_newTrack px of
        Some err \<Rightarrow> (Inl (''new track: '' @ err), c\<lparr>c_closed := cid # c_closed c\<rparr>)
      | None \<Rightarrow>
     (case p_addTrack px of
        Some err \<Rightarrow> (Inl (''add track: '' @ err), c\<lparr>c_closed := cid # c_closed c\<rparr>)
      | None \<Rightarrow>
     (let c = c\<lparr>c_parts := aput cid \<lparr>cp_active = False, cp_frame = None, cp_ice = []\<rparr> (c_parts c),
                c_started := True\<rparr> in
      case p_setRemote px offer of
        Some err \<Rightarrow> (Inl (''set remote description: '' @ err), conf_remove c cid)
      | None \<Rightarrow>
     (case p_createAnswer px offer of
        Inl err \<Rightarrow> (Inl (''create answer: '' @ err), conf_remove c cid)
      | Inr answer \<Rightarrow>
     (case p_setLocal px answer of
        Some err \<Rightarrow> (Inl (''set local description: '' @ err), conf_remove c cid)
      | None \<Rightarrow> (Inr answer, c)))))))"

definition conf_EndCall :: "conference \<Rightarrow> callID \<Rightarrow> conference" where
  "conf_EndCall c cid = conf_remove c cid"

definition conf_update :: "conference \<Rightarrow> callID \<Rightarrow> (confPart \<Rightarrow> confPart) \<Rightarrow> conference" where
  "conf_update c cid f =
     (case map_of (c_parts c) cid of
        None \<Rightarrow> c
      | Some p \<Rightarrow> c\<lparr>c_parts := aput cid (f p) (c_parts c)\<rparr>)"

definition welcome_done :: "conference \<Rightarrow> callID \<Rightarrow> conference" where
  "welcome_done c cid = conf_update c cid (\<lambda>p. p\<lparr>cp_active := True\<rparr>)"

definition mixFrameSize :: nat where "mixFrameSize = 960"

definition receiveAudio :: "(bytes \<Rightarrow> pcm option) \<Rightarrow> conference \<Rightarrow> callID \<Rightarrow> rtp_packet \<Rightarrow> conference" where
  "receiveAudio decode c cid pkt =
     (if rp_payloadType pkt \<noteq> 111 then c
      else case decode (rp_payload pkt) of
             None \<Rightarrow> c
           | Some samples \<Rightarrow>
               if length samples \<noteq> mixFrameSize then c
               else conf_update c cid (\<lambda>p. p\<lparr>cp_frame := Some samples\<rparr>))"

definition sat_add :: "sample \<Rightarrow> sample \<Rightarrow> sample" where
  "sat_add a b =
     (let s = sint a + sint b in
      word_of_int (if s > 32767 then 32767 else if s < -32768 then -32768 else s))"

text \<open>The mix of all frames but the receiver's own, folded in the order of the snapshot.\<close>

fun mix_others :: "nat \<Rightarrow> nat \<Rightarrow> pcm option list \<Rightarrow> pcm \<Rightarrow> bool \<Rightarrow> pcm \<times> bool" where
  "mix_others i j [] mixed hasOther = (mixed, hasOther)"
| "mix_others i j (src # mix) mixed hasOther =
     (case src of
        None \<Rightarrow> mix_others i (j + 1) mix mixed hasOther
      | Some samples \<Rightarrow>
          if j = i then mix_others i (j + 1) mix mixed hasOther
          else mix_others i (j + 1) mix (map2 sat_add mixed samples) True)"

definition mixed_for :: "pcm option list \<Rightarrow> nat \<Rightarrow> pcm option" where
  "mixed_for mix i =
     (case mix_others i 0 mix (replicate mixFrameSize 0) False of
        (mixed, hasOther) \<Rightarrow> if hasOther then Some mixed else None)"

definition mixer_tick ::
  "(pcm \<Rightarrow> bytes option) \<Rightarrow> conference \<Rightarrow> (callID \<times> rtp_packet) list \<times> conference" where
  "mixer_tick enc c =
     (let active = filter (\<lambda>(_, p). cp_active p) (c_parts c) in
      if active = [] then ([], c)
      else
        let mix = map (\<lambda>(_, p). cp_frame p) active;
            out = concat (map (\<lambda>i.
                    case mixed_for mix i of
                      None \<Rightarrow> []
                    | Some mixed \<Rightarrow>
                        (case enc mixed of
                           None \<Rightarrow> []
                         | Some payload \<Rightarrow>
                             [(fst (active ! i),
                               \<lparr>rp_payloadType = 111, rp_seq = c_seq c, rp_ts = c_ts c,
                                rp_ssrc = 777001, rp_marker = True, rp_payload = payload\<rparr>)]))
                  [0..<length active])
        in (out, c\<lparr>c_seq := c_seq c + 1, c_ts := c_ts c + word_of_nat mixFrameSize\<rparr>))"

definition conf_HandleCallICE :: "pion \<Rightarrow> conference \<Rightarrow> callID \<Rightarrow> ice_init \<Rightarrow> conference \<times> string option" where
  "conf_HandleCallICE px c cid cand =
     (case map_of (c_parts c) cid of
        None \<Rightarrow> (c, None)
      | Some p \<Rightarrow>
          (case p_addICE px cid cand of
             Some err \<Rightarrow> (c, Some err)
           | None \<Rightarrow> (conf_update c cid (\<lambda>p. p\<lparr>cp_ice := cp_ice p @ [cand]\<rparr>), None)))"

definition conf_HandleICE :: "pion \<Rightarrow> conference \<Rightarrow> ice_init \<Rightarrow> conference \<times> string option" where
  "conf_HandleICE px c cand =
     (case add_ice_all px cand (map (\<lambda>(cid, p). (cid, cp_ice p)) (c_parts c)) of
        (calls, r) \<Rightarrow>
          (c\<lparr>c_parts := map2 (\<lambda>(cid, p) (_, ice). (cid, p\<lparr>cp_ice := ice\<rparr>)) (c_parts c) calls\<rparr>, r))"

section \<open>The interface the signaling server uses\<close>

locale call_service =
  fixes live :: "'s \<Rightarrow> callID \<Rightarrow> bool"
    and handle :: "'s \<Rightarrow> callID \<Rightarrow> session_desc \<Rightarrow> (string + string) \<times> 's"
    and hangup :: "'s \<Rightarrow> callID \<Rightarrow> 's"
  assumes handle_ok: "handle s c offer = (Inr a, s') \<Longrightarrow> live s' d \<longleftrightarrow> d = c \<or> live s d"
    and handle_err: "handle s c offer = (Inl e, s') \<Longrightarrow> live s' d \<Longrightarrow> live s d"
    and handle_other: "handle s c offer = (r, s') \<Longrightarrow> d \<noteq> c \<Longrightarrow> live s' d \<longleftrightarrow> live s d"
    and hangup_live: "live (hangup s c) d \<longleftrightarrow> d \<noteq> c \<and> live s d"
begin

lemma answered_call_live: "handle s c offer = (Inr a, s') \<Longrightarrow> live s' c"
  by (simp add: handle_ok)

lemma hangup_ends_call:
  assumes "handle s c offer = (r, s')"
  shows "live (hangup s' c) d \<longleftrightarrow> d \<noteq> c \<and> live s d"
  using handle_other [OF assms] by (auto simp: hangup_live)

lemma hangup_twice: "live (hangup (hangup s c) c) d = live (hangup s c) d"
  by (auto simp: hangup_live)

end

section \<open>Lemmas\<close>

lemmas echo_call_defs = echo_HandleCall_def echo_drop_def Let_def
lemmas conf_call_defs = conf_HandleCall_def conf_remove_def Let_def

interpretation echo_svc: call_service "\<lambda>e c. map_of (e_calls e) c \<noteq> None" "echo_HandleCall px" echo_EndCall
  for px
proof unfold_locales
  fix e :: echo_service and c offer a e' d
  assume "echo_HandleCall px e c offer = (Inr a, e')"
  then show "(map_of (e_calls e') d \<noteq> None) = (d = c \<or> map_of (e_calls e) d \<noteq> None)"
    by (auto simp: echo_call_defs split: option.splits sum.splits)
next
  fix e :: echo_service and c offer err e' d
  assume "echo_HandleCall px e c offer = (Inl err, e')" and "map_of (e_calls e') d \<noteq> None"
  then show "map_of (e_calls e) d \<noteq> None"
    by (auto simp: echo_call_defs split: option.splits sum.splits if_splits)
next
  fix e :: echo_service and c offer r e' d
  assume "echo_HandleCall px e c offer = (r, e')" and "d \<noteq> c"
  then show "(map_of (e_calls e') d \<noteq> None) = (map_of (e_calls e) d \<noteq> None)"
    by (auto simp: echo_call_defs split: option.splits sum.splits)
next
  fix e :: echo_service and c d
  show "(map_of (e_calls (echo_EndCall e c)) d \<noteq> None) = (d \<noteq> c \<and> map_of (e_calls e) d \<noteq> None)"
    by (auto simp: echo_EndCall_def split: option.splits)
qed

interpretation conf_svc: call_service "\<lambda>s c. map_of (c_parts s) c \<noteq> None" "conf_HandleCall px" conf_EndCall
  for px
proof unfold_locales
  fix s :: conference and c offer a s' d
  assume "conf_HandleCall px s c offer = (Inr a, s')"
  then show "(map_of (c_parts s') d \<noteq> None) = (d = c \<or> map_of (c_parts s) d \<noteq> None)"
    by (auto simp: conf_call_defs split: option.splits sum.splits)
next
  fix s :: conference and c offer err s' d
  assume "conf_HandleCall px s c offer = (Inl err, s')" and "map_of (c_parts s') d \<noteq> None"
  then show "map_of (c_parts s) d \<noteq> None"
    by (auto simp: conf_call_defs split: option.splits sum.splits if_splits)
next
  fix s :: conference and c offer r s' d
  assume "conf_HandleCall px s c offer = (r, s')" and "d \<noteq> c"
  then show "(map_of (c_parts s') d \<noteq> None) = (map_of (c_parts s) d \<noteq> None)"
    by (auto simp: conf_call_defs split: option.splits sum.splits)
next
  fix s :: conference and c d
  show "(map_of (c_parts (conf_EndCall s c)) d \<noteq> None) = (d \<noteq> c \<and> map_of (c_parts s) d \<noteq> None)"
    by (auto simp: conf_EndCall_def conf_remove_def split: option.splits)
qed

text \<open>
  A number announcement speaks exactly the digits of the number, in order: dropping the
  blanks and commas of \<open>spokenNumber\<close> gives the number without its dashes. Groups are separated
  by a blank, a comma and a blank; the comment in the source shows no blank before the comma.
\<close>

lemma filter_dropWhile_blank:
  "filter (\<lambda>c. c \<noteq> CHR '' '' \<and> P c) (dropWhile (\<lambda>c. c = CHR '' '') s) =
   filter (\<lambda>c. c \<noteq> CHR '' '' \<and> P c) s"
  by (induction s) auto

lemma spoken_chars_filter:
  "CHR '' '' \<notin> set s \<Longrightarrow> CHR '','' \<notin> set s \<Longrightarrow>
   filter (\<lambda>c. c \<noteq> CHR '' '' \<and> c \<noteq> CHR '','') (spoken_chars s) = strip_dashes s"
  by (induction s) (auto simp: strip_dashes_def)

theorem spokenNumber_digits:
  assumes "CHR '' '' \<notin> set full" and "CHR '','' \<notin> set full"
  shows "filter (\<lambda>c. c \<noteq> CHR '' '' \<and> c \<noteq> CHR '','') (spokenNumber full) = strip_dashes full \<and>
         spokenNumber ''440-952-2575'' = ''4 4 0 , 9 5 2 , 2 5 7 5''"
proof
  show "filter (\<lambda>c. c \<noteq> CHR '' '' \<and> c \<noteq> CHR '','') (spokenNumber full) = strip_dashes full"
    by (simp add: spokenNumber_def rev_filter [symmetric] filter_dropWhile_blank
        spoken_chars_filter [OF assms])
  show "spokenNumber ''440-952-2575'' = ''4 4 0 , 9 5 2 , 2 5 7 5''"
    by (simp add: spokenNumber_def)
qed

theorem spokenNumber_digits_witness:
  "filter (\<lambda>c. c \<noteq> CHR '' '' \<and> c \<noteq> CHR '','') (spokenNumber ''952-2575'') = ''9522575''"
  using spokenNumber_digits [of "''952-2575''"] by (simp add: strip_dashes_def)

text \<open>
  The echo service keeps the number of a caller whose call could not be set up: after
  \<open>SetCaller\<close>, a failing \<open>HandleCall\<close> and an \<open>EndCall\<close>, the entry of the call is still in the
  \<open>caller\<close> map (it is only removed together with a live call), while the calls themselves are
  as they were before.
\<close>

theorem echo_caller_leak:
  assumes "echo_HandleCall px (SetCaller e cid num) cid offer = (Inl err, e')"
    and "map_of (e_calls e) cid = None"
  shows "map_of (e_caller (echo_EndCall e' cid)) cid = Some num \<and>
         map_of (e_calls (echo_EndCall e' cid)) = map_of (e_calls e)"
proof -
  have "map_of (e_calls e') cid = None"
    using echo_svc.handle_err [OF assms(1), of cid] assms(2)
    by (cases "map_of (e_calls e') cid") (auto simp: SetCaller_def)
  moreover have "e_caller e' = e_caller (SetCaller e cid num)"
    using assms(1) by (auto simp: echo_call_defs split: option.splits sum.splits)
  moreover have "map_of (e_calls e') = map_of (e_calls e)"
    using assms by (auto simp: echo_call_defs SetCaller_def fun_eq_iff split: option.splits sum.splits)
  ultimately show ?thesis by (simp add: echo_EndCall_def SetCaller_def)
qed

theorem echo_caller_leak_witness:
  "let px = \<lparr>p_newPeer = None, p_newTrack = None, p_addTrack = None, p_setRemote = \<lambda>_. Some ''bad sdp'',
             p_createAnswer = \<lambda>_. Inr ''answer'', p_setLocal = \<lambda>_. None, p_addICE = \<lambda>_ _. None\<rparr>;
       e' = snd (echo_HandleCall px (SetCaller NewNumberAnnounceService ''c1'' ''440-952-2575'') ''c1''
                  \<lparr>sd_type = SDPTypeOffer, sd_sdp = ''x''\<rparr>)
   in map_of (e_caller (echo_EndCall e' ''c1'')) ''c1'' = Some ''440-952-2575''"
proof -
  let ?px = "\<lparr>p_newPeer = None, p_newTrack = None, p_addTrack = None, p_setRemote = \<lambda>_. Some ''bad sdp'',
             p_createAnswer = \<lambda>_. Inr ''answer'', p_setLocal = \<lambda>_. None, p_addICE = \<lambda>_ _. None\<rparr> :: pion"
  let ?e = "NewNumberAnnounceService" and ?o = "\<lparr>sd_type = SDPTypeOffer, sd_sdp = ''x''\<rparr>"
  have "echo_HandleCall ?px (SetCaller ?e ''c1'' ''440-952-2575'') ''c1'' ?o =
      (Inl ''failed to set remote description: bad sdp'',
       snd (echo_HandleCall ?px (SetCaller ?e ''c1'' ''440-952-2575'') ''c1'' ?o))"
    by (simp add: echo_call_defs)
  from echo_caller_leak [OF this] show ?thesis
    by (simp add: NewNumberAnnounceService_def)
qed

end
