(* ===== verification/Recorder.thy ===== *)
theory Recorder
  imports Managers Services
begin

text \<open>
  The voicemail recorder, \<open>ocnserver/internal/voicemail/recorder.go\<close>: the service that answers a
  call for an absent subscriber, plays the greeting, records and stores the message.

  As in the other services the WebRTC library is the parameter \<open>pion\<close>. The Opus decoder keeps
  state from frame to frame; it enters as a function of the number of frames decoded before and
  of the frame. A recording session takes the packets that arrive before the call is hung up or
  the track ends.
\<close>

section \<open>The service\<close>

record ICEServer =
  URLs :: "string list"
  ise_Username :: string
  ise_Credential :: string

record leave_service =
  l_recipient :: User
  l_callerNum :: string
  l_callerName :: string
  l_ice :: "ICEServer list"
  l_calls :: "(callID, ice_init list) gomap"
  l_closed :: "callID list"

definition NewLeaveService :: "User \<Rightarrow> string \<Rightarrow> string \<Rightarrow> leave_service" where
  "NewLeaveService recipient callerNumber callerName =
     \<lparr>l_recipient = recipient, l_callerNum = callerNumber, l_callerName = callerName, l_ice = [],
      l_calls = [], l_closed = []\<rparr>"

definition SetICEServers :: "leave_service \<Rightarrow> ICEServer list \<Rightarrow> leave_service" where
  "SetICEServers l servers = l\<lparr>l_ice := servers\<rparr>"

definition leave_remove :: "leave_service \<Rightarrow> callID \<Rightarrow> leave_service" where
  "leave_remove l cid = l\<lparr>l_calls := adel cid (l_calls l)\<rparr>"

definition leave_drop :: "leave_service \<Rightarrow> callID \<Rightarrow> leave_service" where
  "leave_drop l cid = (leave_remove l cid)\<lparr>l_closed := cid # l_closed l\<rparr>"

definition leave_HandleCall ::
  "pion \<Rightarrow> leave_service \<Rightarrow> callID \<Rightarrow> session_desc \<Rightarrow> (string + string) \<times> leave_service" where
  "leave_HandleCall px l cid offer =
     (case p_newPeer px of
        Some err \<Rightarrow> (Inl (''voicemail: create peer: '' @ err), l)
      | None \<Rightarrow>
     (case p_newTrack px of
        Some err \<Rightarrow> (Inl (''voicemail: create track: '' @ err), l\<lparr>l_closed := cid # l_closed l\<rparr>)
      | None \<Rightarrow>
     (case p_addTrack px of
        Some err \<Rightarrow> (Inl (''voicemail: add track: '' @ err), l\<lparr>l_closed := cid # l_closed l\<rparr>)
      | None \<Rightarrow>
     (let l = l\<lparr>l_calls := aput cid [] (l_calls l)\<rparr> in
      case p_setRemote px offer of
        Some err \<Rightarrow> (Inl (''voicemail: set remote: '' @ err), leave_drop l cid)
      | None \<Rightarrow>
     (case p_createAnswer px offer of
        Inl err \<Rightarrow> (Inl (''voicemail: create answer: '' @ err), leave_drop l cid)
      | Inr answer \<Rightarrow>
     (case p_setLocal px answer of
        Some err \<Rightarrow> (Inl (''voicemail: set local: '' @ err), leave_drop l cid)
      | None \<Rightarrow> (Inr answer, l)))))))"

definition leave_HandleICE :: "pion \<Rightarrow> leave_service \<Rightarrow> ice_init \<Rightarrow> leave_service" where
  "leave_HandleICE px l cand =
     l\<lparr>l_calls := map (\<lambda>(cid, cs). (cid, case p_addICE px cid cand of None \<Rightarrow> cs @ [cand] | Some _ \<Rightarrow> cs)) (l_calls l)\<rparr>"

definition leave_EndCall :: "leave_service \<Rightarrow> callID \<Rightarrow> leave_service" where
  "leave_EndCall l cid =
     (case map_of (l_calls l) cid of
        None \<Rightarrow> l\<lparr>l_calls := adel cid (l_calls l)\<rparr>
      | Some _ \<Rightarrow> l\<lparr>l_calls := adel cid (l_calls l), l_closed := cid # l_closed l\<rparr>)"

section \<open>Silence\<close>

definition isSilent :: "pcm \<Rightarrow> bool" where
  "isSilent samples \<longleftrightarrow> fold (\<lambda>s peak. max peak \<bar>sint s\<bar>) samples 0 < 120"

text \<open>
  The trimming loop from index \<open>i - 1\<close> downwards; \<open>n\<close> is the number of frames decoded so far.
\<close>

fun trim_loop :: "(nat \<Rightarrow> bytes \<Rightarrow> pcm option) \<Rightarrow> bytes list \<Rightarrow> nat \<Rightarrow> nat \<Rightarrow> nat \<Rightarrow> nat" where
  "trim_loop decode frames n keep 0 = keep"
| "trim_loop decode frames n keep (Suc i) =
     (if keep - i > 3 * 1000 div frameMS then keep
      else case decode n (frames ! i) of
             None \<Rightarrow> keep
           | Some samples \<Rightarrow>
               if \<not> isSilent samples then keep else trim_loop decode frames (n + 1) i i)"

definition trimSilence :: "(nat \<Rightarrow> bytes \<Rightarrow> pcm option) \<Rightarrow> bytes list \<Rightarrow> bytes list" where
  "trimSilence decode frames =
     (if frames = [] then frames
      else
        let keep = trim_loop decode frames 0 (length frames) (length frames) in
        if keep = 0 then [] else take keep frames)"

section \<open>Recording\<close>

definition maxFrames :: "vm_manager \<Rightarrow> nat" where
  "maxFrames m =
     (let n = MaxDuration (Some m) div (int frameMS * 1000000) in
      if n \<le> 0 then 120 * 1000 div frameMS else nat n)"

fun record_loop :: "nat \<Rightarrow> rtp_packet list \<Rightarrow> bytes list \<Rightarrow> bytes list \<times> bool" where
  "record_loop mx [] frames = (frames, False)"
| "record_loop mx (pkt # pkts) frames =
     (if length frames < mx then
        (if rp_payloadType pkt \<noteq> 111 \<or> rp_payload pkt = [] then record_loop mx pkts frames
         else
           (let frames = frames @ [rp_payload pkt] in
            if length frames \<ge> mx then (frames, True) else record_loop mx pkts frames))
      else (frames, False))"

text \<open>
  \<open>played\<close> says whether the greeting could be written to the track; \<open>decoder\<close> is the Opus decoder if it
  could be created. The result is the recorded frames, the new state, and whether the recorder
  ended the call itself, in which case the server is told through \<open>OnSelfEnd\<close>.
\<close>

definition runRecordSession ::
  "gcm \<Rightarrow> randomness \<Rightarrow> randomness \<Rightarrow> string \<Rightarrow> (nat \<Rightarrow> bytes \<Rightarrow> pcm option) option \<Rightarrow> vm_manager \<Rightarrow> store \<Rightarrow> gotime \<Rightarrow>
   leave_service \<Rightarrow> callID \<Rightarrow> bool \<Rightarrow> rtp_packet list \<Rightarrow>
   (string option \<times> bool) \<times> leave_service \<times> vm_manager \<times> store" where
  "runRecordSession g r1 r2 uid decoder m s now l cid played pkts =
     (if \<not> played then ((None, False), l, m, s)
      else
        let (frames, selfEnd) = record_loop (maxFrames m) pkts [];
            frames = (case decoder of
                        Some decode \<Rightarrow> if frames \<noteq> [] then trimSilence decode frames else frames
                      | None \<Rightarrow> frames);
            (stored, m, s) =
              (if frames \<noteq> [] then
                 (case StoreMessage g r1 r2 uid m s now (Number (l_recipient l)) (l_callerNum l) (l_callerName l) frames of
                    (Inl _, m, s) \<Rightarrow> (None, m, s)
                  | (Inr vid, m, s) \<Rightarrow> (Some vid, m, s))
               else (None, m, s));
            l = (if selfEnd then leave_EndCall l cid else l)
        in ((stored, selfEnd), l, m, s))"

section \<open>Lemmas\<close>

interpretation leave_svc: call_service "\<lambda>l c. map_of (l_calls l) c \<noteq> None" "leave_HandleCall px" leave_EndCall for px
  by unfold_locales
    (auto simp: leave_HandleCall_def leave_drop_def leave_remove_def leave_EndCall_def Let_def
      split: option.splits sum.splits if_splits)

definition audio :: "rtp_packet list \<Rightarrow> bytes list" where
  "audio pkts = map rp_payload (filter (\<lambda>p. rp_payloadType p = 111 \<and> rp_payload p \<noteq> []) pkts)"

lemma record_loop_take:
  "length frames < mx \<Longrightarrow>
   record_loop mx pkts frames = (take mx (frames @ audio pkts), mx \<le> length (frames @ audio pkts))"
proof (induction mx pkts frames rule: record_loop.induct)
  case (2 mx pkt pkts frames)
  show ?case
  proof (cases "rp_payloadType pkt \<noteq> 111 \<or> rp_payload pkt = []")
    case True
    with 2 show ?thesis by (auto simp: audio_def)
  next
    case False
    then have a: "audio (pkt # pkts) = rp_payload pkt # audio pkts" by (simp add: audio_def)
    show ?thesis
    proof (cases "mx \<le> Suc (length frames)")
      case True
      with "2.prems" have "mx = Suc (length frames)" by simp
      with a False show ?thesis by (simp add: Let_def)
    next
      case False
      with "2.IH"(2) [OF "2.prems"] \<open>\<not> (rp_payloadType pkt \<noteq> 111 \<or> rp_payload pkt = [])\<close> "2.prems" a show ?thesis
        by (simp add: Let_def)
    qed
  qed
qed (simp add: audio_def)

lemma maxFrames_pos: "0 < maxFrames m"
  by (simp add: maxFrames_def frameMS_def Let_def)

text \<open>What the trimming loop computes: the decoder runs over the frames from the end.\<close>

fun silent_tail :: "(nat \<Rightarrow> bytes \<Rightarrow> pcm option) \<Rightarrow> nat \<Rightarrow> bytes list \<Rightarrow> bytes list" where
  "silent_tail decode n [] = []"
| "silent_tail decode n (f # fs) =
     (case decode n f of
        None \<Rightarrow> f # fs
      | Some samples \<Rightarrow> if isSilent samples then silent_tail decode (n + 1) fs else f # fs)"

lemma trim_loop_tail:
  "i \<le> length frames \<Longrightarrow>
   take (trim_loop decode frames n i i) frames = rev (silent_tail decode n (rev (take i frames))) \<and>
   trim_loop decode frames n i i \<le> i"
proof (induction i arbitrary: n)
  case (Suc i)
  have r: "rev (take (Suc i) frames) = frames ! i # rev (take i frames)"
    using Suc.prems by (simp add: take_Suc_conv_app_nth)
  have cap: "\<not> 3 * 1000 div frameMS < Suc i - i" by (simp add: frameMS_def)
  have keep: "rev (rev (take (Suc i) frames)) = take (Suc i) frames" by simp
  show ?case
    using Suc.IH [of "n + 1"] Suc.prems cap
    by (auto simp: r rev_take [symmetric] take_Suc_conv_app_nth split: option.splits simp del: take_Suc)
qed simp

lemma trimSilence_tail: "trimSilence decode frames = rev (silent_tail decode 0 (rev frames))"
  using trim_loop_tail [of "length frames" frames decode 0] by (auto simp: trimSilence_def Let_def)

lemma silent_tail_suffix: "suffix (silent_tail decode n fs) fs"
  by (induction fs arbitrary: n) (auto simp: suffix_ConsI split: option.splits)

lemma trimSilence_prefix: "prefix (trimSilence decode frames) frames"
  using silent_tail_suffix [of decode 0 "rev frames"] by (simp add: trimSilence_tail suffix_to_prefix)

text \<open>The audio a session keeps: at most the maximum, without the silence at the end.\<close>

definition kept :: "(nat \<Rightarrow> bytes \<Rightarrow> pcm option) option \<Rightarrow> vm_manager \<Rightarrow> rtp_packet list \<Rightarrow> bytes list" where
  "kept decoder m pkts =
     (let frames = take (maxFrames m) (audio pkts)
      in case decoder of None \<Rightarrow> frames | Some decode \<Rightarrow> rev (silent_tail decode 0 (rev frames)))"

lemma kept_prefix: "prefix (kept decoder m pkts) (take (maxFrames m) (audio pkts))"
  using trimSilence_prefix by (auto simp: kept_def Let_def trimSilence_tail split: option.split)

lemma runRecordSession_eq:
  "runRecordSession g r1 r2 uid decoder m s now l cid True pkts =
     (let selfEnd = (maxFrames m \<le> length (audio pkts));
          (stored, m', s') = (if kept decoder m pkts = [] then (None, m, s)
            else case StoreMessage g r1 r2 uid m s now (Number (l_recipient l)) (l_callerNum l) (l_callerName l) (kept decoder m pkts) of
                   (Inl _, m', s') \<Rightarrow> (None, m', s') | (Inr vid, m', s') \<Rightarrow> (Some vid, m', s'))
      in ((stored, selfEnd), if selfEnd then leave_EndCall l cid else l, m', s'))"
proof -
  define f where "f = take (maxFrames m) (audio pkts)"
  have rl: "record_loop (maxFrames m) pkts [] = (f, maxFrames m \<le> length (audio pkts))"
    using record_loop_take [of "[]" "maxFrames m" pkts] maxFrames_pos by (simp add: f_def)
  have kp: "kept decoder m pkts = (case decoder of None \<Rightarrow> f | Some decode \<Rightarrow> if f \<noteq> [] then trimSilence decode f else f)"
    by (simp add: kept_def f_def [symmetric] trimSilence_tail split: option.split)
  show ?thesis unfolding kp by (simp add: runRecordSession_def rl Let_def split: prod.split sum.split)
qed

section \<open>Properties\<close>

text \<open>
  C27. A recording session keeps what the caller said: a prefix of the audio packets received, never
  longer than the configured maximum, without the silence at the end. The recorder hangs up by itself
  exactly when the maximum is reached, and then its call is closed. If anything is left, the
  store answers and the secret of the mailboxes is there, the message is stored; the recipient then finds
  it with the number and name of the caller and its length, and plays exactly the audio kept.
\<close>

theorem recording_session:
  assumes run: "runRecordSession g r1 r2 uid decoder m s now l cid True pkts = ((stored, selfEnd), l', m', s')"
    and store: "secret s k" "vm_secret.agrees m s" "db_up s" "r2 = Some ent" "uid \<notin> VmID ` set (voicemail s)"
    and lib: "gcm_ok g" "\<forall>p \<in> set pkts. length (rp_payload p) < 2 ^ 32"
  shows "selfEnd = (maxFrames m \<le> length (audio pkts)) \<and>
    (selfEnd \<longrightarrow> map_of (l_calls l') cid = None) \<and> (\<not> selfEnd \<longrightarrow> l' = l) \<and>
    prefix (kept decoder m pkts) (audio pkts) \<and> length (kept decoder m pkts) \<le> maxFrames m \<and>
    stored = (if kept decoder m pkts = [] then None else Some uid) \<and>
    (\<forall>vid. stored = Some vid \<longrightarrow>
       (\<exists>v. GetVoicemail s' vid (Number (l_recipient l)) = Inr (Some v) \<and>
          CallerNumber v = l_callerNum l \<and> CallerName v = l_callerName l \<and> DurationSeconds v = vm_duration (kept decoder m pkts) \<and>
          fst (RenderOgg g r3 m' s' (Number (l_recipient l)) v) =
            (case BuildOgg (kept decoder m pkts) of Inl e \<Rightarrow> Inl (EMsg e) | Inr ogg \<Rightarrow> Inr ogg)))"
proof -
  let ?k = "kept decoder m pkts" and ?r = "Number (l_recipient l)"
  have pre: "prefix ?k (take (maxFrames m) (audio pkts))" by (rule kept_prefix)
  then have pk: "prefix ?k (audio pkts)" "length ?k \<le> maxFrames m"
    using prefix_order.trans [OF pre take_is_prefix] prefix_length_le [OF pre] by auto
  have len: "list_all (\<lambda>f. length f < 2 ^ 32) ?k"
    using set_mono_prefix [OF pk(1)] lib(2) by (auto simp: list_all_iff audio_def)
  have se: "selfEnd = (maxFrames m \<le> length (audio pkts))" "l' = (if selfEnd then leave_EndCall l cid else l)"
    using run by (auto simp: runRecordSession_eq Let_def case_prod_beta)
  have "stored = (if ?k = [] then None else Some uid) \<and> (stored = Some vid \<longrightarrow>
       (\<exists>v. GetVoicemail s' vid ?r = Inr (Some v) \<and> CallerNumber v = l_callerNum l \<and> CallerName v = l_callerName l \<and>
          DurationSeconds v = vm_duration ?k \<and>
          fst (RenderOgg g r3 m' s' ?r v) = (case BuildOgg ?k of Inl e \<Rightarrow> Inl (EMsg e) | Inr ogg \<Rightarrow> Inr ogg)))" for vid
  proof (cases "?k = []")
    case True
    with run show ?thesis by (simp add: runRecordSession_eq Let_def)
  next
    case False
    obtain m1 s1 where st: "StoreMessage g r1 r2 uid m s now ?r (l_callerNum l) (l_callerName l) ?k = (Inr uid, m1, s1)"
      using StoreMessage_succeeds [OF False store] by blast
    with run False have "stored = Some uid" "m' = m1" "s' = s1" by (auto simp: runRecordSession_eq Let_def)
    with False stored_plays [OF lib(1) store(2) len st, of m1 r3] show ?thesis by auto
  qed
  then show ?thesis using pk se leave_svc.hangup_live [of l cid cid] by auto
qed

definition recorder_store :: store where
  "recorder_store = empty_store\<lparr>settings := [(MasterSecretKey, StdEncode (replicate 32 7))]\<rparr>"

theorem recording_session_witness:
  "\<exists>stored selfEnd l' m' s' v. runRecordSession plain_gcm None (Some (\<lambda>_. 6)) ''v1'' None (vm_NewManager True (secs 60) True) recorder_store 0
       (NewLeaveService (hd (users sample_line)) ''4409522575'' ''Ann'') ''c1'' True
       [\<lparr>rp_payloadType = 111, rp_seq = 0, rp_ts = 0, rp_ssrc = 1, rp_marker = False, rp_payload = [252, 1]\<rparr>] = ((stored, selfEnd), l', m', s') \<and>
     stored = Some ''v1'' \<and> \<not> selfEnd \<and>
     GetVoicemail s' ''v1'' (Number (hd (users sample_line))) = Inr (Some v) \<and> CallerName v = ''Ann''"
proof -
  let ?m = "vm_NewManager True (secs 60) True" and ?l = "NewLeaveService (hd (users sample_line)) ''4409522575'' ''Ann''"
  let ?p = "\<lparr>rp_payloadType = 111, rp_seq = 0, rp_ts = 0, rp_ssrc = 1, rp_marker = False, rp_payload = [252, 1]\<rparr>"
  have mx: "maxFrames ?m = 3000"
    by (simp add: maxFrames_def vm_NewManager_def MaxDuration_def secs_def frameMS_def)
  have a: "audio [?p] = [[252, 1]]" by (simp add: audio_def)
  have kp: "kept None ?m [?p] = [[252, 1]]" by (simp add: kept_def mx a)
  obtain stored selfEnd l' m' s' where r: "runRecordSession plain_gcm None (Some (\<lambda>_. 6)) ''v1'' None ?m recorder_store 0
       ?l ''c1'' True [?p] = ((stored, selfEnd), l', m', s')"
    using prod.exhaust by metis
  have h: "secret recorder_store (replicate 32 7)" "vm_secret.agrees ?m recorder_store" "db_up recorder_store"
      "''v1'' \<notin> VmID ` set (voicemail recorder_store)"
    using b64_roundtrip [of False True "replicate 32 7"] b64_roundtrip [of False True "[]"]
    by (auto simp: secret_def recorder_store_def vm_secret.agrees_def vm_NewManager_def empty_store_def)
  from recording_session [OF r h(1-3) refl h(4) plain_gcm_ok, where ?r3.0 = None] mx a kp r show ?thesis
    by (auto simp: NewLeaveService_def)
qed

text \<open>
  Trailing silence is removed completely: what remains is the recording without its longest
  tail of decodable silent frames. The limit of three seconds that the routine means to put on
  the removed tail compares the index with the frame just kept, and is never reached.
\<close>

theorem trimSilence_unbounded:
  assumes "\<And>n. decode n f = Some samples" and "isSilent samples"
  shows "trimSilence decode frames = rev (silent_tail decode 0 (rev frames)) \<and>
         trimSilence decode (frames @ replicate k f) = rev (silent_tail decode k (rev frames))"
proof -
  have "silent_tail decode n (replicate k f @ fs) = silent_tail decode (n + k) fs" for n fs
    by (induction k arbitrary: n) (simp_all add: assms)
  then show ?thesis by (simp add: trimSilence_tail)
qed

text \<open>Twenty seconds of silence after one loud frame are all removed.\<close>

theorem trimSilence_unbounded_witness:
  "isSilent [0, 119] \<and>
   trimSilence (\<lambda>_ f. Some (if f = [9] then [500] else [0, 119])) ([[9]] @ replicate 1000 [8]) = [[9]]"
proof -
  have q: "isSilent [0, 119]" "\<not> isSilent [500]" by (simp_all add: isSilent_def)
  show ?thesis
    using q trimSilence_unbounded [of "\<lambda>_ f. Some (if f = [9] then [500] else [0, 119])" "[8]" "[0, 119]" "[[9]]" 1000]
    by simp
qed

end
