(* ===== verification/Media.thy ===== *)
theory Media
  imports Recorder
begin

text \<open>
  What is heard: the wrapper of the Opus library (\<open>ocnserver/internal/services/copus.go\<close>), the loops
  that write RTP to a caller (\<open>services/echo.go\<close>, \<open>conference.go\<close>, \<open>voicemail/recorder.go\<close>), and the mix
  of a conference.

  \<open>libopus\<close> is a parameter: whether a coder can be created, and for the n-th call of a coder the
  number it returns and the contents of the output buffer. A coder is the number of calls it has
  served, \<open>None\<close> once it is closed; passing a closed one to the library is a \<open>CFault\<close>. In the loops
  \<open>hung i\<close> says whether the call has ended before round \<open>i\<close>, and \<open>accepts pkt\<close> whether the track accepts a packet.
\<close>

section \<open>The Opus wrapper\<close>

record libopus =
  lo_enc_create :: bool
  lo_dec_create :: bool
  lo_encode :: "nat \<Rightarrow> pcm \<Rightarrow> nat \<Rightarrow> int \<times> bytes"
  lo_decode :: "nat \<Rightarrow> bytes \<Rightarrow> nat \<Rightarrow> int \<times> pcm"

type_synonym coder = "nat option"

datatype codec_error = CodecErr string | CFault

definition NewOpusEncoder :: "libopus \<Rightarrow> string + coder" where
  "NewOpusEncoder lib = (if \<not> lo_enc_create lib then Inl ''opus encoder create failed'' else Inr (Some 0))"

text \<open>The bytes the caller finds in \<open>out[:n]\<close>.\<close>

definition Encode :: "libopus \<Rightarrow> coder \<Rightarrow> pcm \<Rightarrow> nat \<Rightarrow> (codec_error + bytes) \<times> coder" where
  "Encode lib e samples cap =
     (if cap = 0 then (Inl (CodecErr ''empty output buffer''), e)
      else case e of
        None \<Rightarrow> (Inl CFault, e)
      | Some k \<Rightarrow>
          let (n, out) = lo_encode lib k samples cap in
          if n < 0 then (Inl (CodecErr (''opus encode error '' @ fmt_d n)), Some (Suc k))
          else (Inr (take (nat n) out), Some (Suc k)))"

definition NewOpusDecoder :: "libopus \<Rightarrow> string + coder" where
  "NewOpusDecoder lib = (if \<not> lo_dec_create lib then Inl ''opus decoder create failed'' else Inr (Some 0))"

definition Decode :: "libopus \<Rightarrow> coder \<Rightarrow> bytes \<Rightarrow> nat \<Rightarrow> (codec_error + pcm) \<times> coder" where
  "Decode lib d data cap =
     (if data = [] then (Inl (CodecErr ''empty opus packet''), d)
      else case d of
        None \<Rightarrow> (Inl CFault, d)
      | Some k \<Rightarrow>
          let (n, samples) = lo_decode lib k data cap in
          if n < 0 then (Inl (CodecErr (''opus decode error '' @ fmt_d n)), Some (Suc k))
          else (Inr (take (nat n) samples), Some (Suc k)))"

definition enc_Close :: "coder \<Rightarrow> coder" where "enc_Close e = None"
definition dec_Close :: "coder \<Rightarrow> coder" where "dec_Close d = None"

text \<open>The coders of the mixer and of the recorder, as those components use them.\<close>

definition room_encode :: "libopus \<Rightarrow> nat \<Rightarrow> pcm \<Rightarrow> bytes option" where
  "room_encode lib k samples = (case fst (Encode lib (Some k) samples 1500) of Inl _ \<Rightarrow> None | Inr b \<Rightarrow> Some b)"

definition frame_decode :: "libopus \<Rightarrow> nat \<Rightarrow> bytes \<Rightarrow> pcm option" where
  "frame_decode lib k data = (case fst (Decode lib (Some k) data mixFrameSize) of Inl _ \<Rightarrow> None | Inr s \<Rightarrow> Some s)"

section \<open>Writing to a caller\<close>

datatype pump_end = Played | Hung_up | Write_failed

fun pump :: "bool \<Rightarrow> 32 word \<Rightarrow> (nat \<Rightarrow> bool) \<Rightarrow> (rtp_packet \<Rightarrow> bool) \<Rightarrow> nat \<Rightarrow> 16 word \<Rightarrow> 32 word \<Rightarrow> bytes list \<Rightarrow>
  rtp_packet list \<times> pump_end" where
  "pump marker ssrc hung accepts i sq ts [] = ([], Played)"
| "pump marker ssrc hung accepts i sq ts (f # fs) =
     (if hung i then ([], Hung_up)
      else
        let pkt = \<lparr>rp_payloadType = 111, rp_seq = sq, rp_ts = ts, rp_ssrc = ssrc, rp_marker = marker, rp_payload = f\<rparr>
        in if \<not> accepts pkt then ([], Write_failed)
           else (case pump marker ssrc hung accepts (Suc i) (sq + 1) (ts + 960) fs of (out, r) \<Rightarrow> (pkt # out, r)))"

text \<open>The recorder's player returns an error only for a failed write.\<close>

definition playFrames :: "bool \<Rightarrow> (nat \<Rightarrow> bool) \<Rightarrow> (rtp_packet \<Rightarrow> bool) \<Rightarrow> bytes list \<Rightarrow> rtp_packet list \<times> bool" where
  "playFrames track hung accepts frames =
     (if \<not> track \<or> frames = [] then ([], True)
      else case pump False 0x564f4943 hung accepts 0 0 0 frames of (out, r) \<Rightarrow> (out, r \<noteq> Write_failed))"

fun echo_loop :: "(nat \<Rightarrow> bool) \<Rightarrow> (rtp_packet \<Rightarrow> bool) \<Rightarrow> nat \<Rightarrow> rtp_packet list \<Rightarrow> rtp_packet list" where
  "echo_loop hung accepts i [] = []"
| "echo_loop hung accepts i (pkt # pkts) =
     (if hung i \<or> \<not> accepts (echo_packet pkt) then []
      else echo_packet pkt # echo_loop hung accepts (Suc i) pkts)"

text \<open>The goroutine of an echo or announcement call: the packets it writes. \<open>speak\<close> is the synthesiser.\<close>

definition echo_session :: "(string \<Rightarrow> string + bytes list) \<Rightarrow> (nat \<Rightarrow> bool) \<Rightarrow> (rtp_packet \<Rightarrow> bool) \<Rightarrow> echo_service \<Rightarrow>
  callID \<Rightarrow> rtp_packet list \<Rightarrow> rtp_packet list" where
  "echo_session speak hung accepts e cid pkts =
     (let (out, r) = (case speak (welcome_phrase e cid) of
                        Inl err \<Rightarrow> ([], Played)
                      | Inr frames \<Rightarrow> pump True 12345 hung accepts 0 0 0 frames)
      in if r \<noteq> Played \<or> \<not> e_echo e then out
         else out @ echo_loop hung accepts (length out) pkts)"

text \<open>A newcomer takes part in the mix once the welcome has been played, or could not be synthesised.\<close>

definition conf_welcome :: "(string \<Rightarrow> string + bytes list) \<Rightarrow> (nat \<Rightarrow> bool) \<Rightarrow> (rtp_packet \<Rightarrow> bool) \<Rightarrow> conference \<Rightarrow>
  callID \<Rightarrow> rtp_packet list \<times> conference" where
  "conf_welcome speak hung accepts c cid =
     (case speak (c_phrase c) of
        Inl err \<Rightarrow> ([], welcome_done c cid)
      | Inr frames \<Rightarrow>
          (case pump True 999001 hung accepts 0 0 0 frames of
             (out, r) \<Rightarrow> (out, if r = Played then welcome_done c cid else c)))"

section \<open>Lemmas on the loops\<close>

lemma pump_spec:
  assumes "pump marker ssrc hung accepts i sq ts fs = (out, r)"
  shows "map rp_payload out = take (length out) fs \<and> length out \<le> length fs \<and> (r = Played \<longleftrightarrow> length out = length fs) \<and>
    (\<forall>k < length out. rp_seq (out ! k) = sq + word_of_nat k \<and> rp_ts (out ! k) = ts + word_of_nat (960 * k))"
  using assms
proof (induction fs arbitrary: i sq ts out)
  case (Cons f fs)
  show ?case
  proof (cases out)
    case Nil
    with Cons.prems show ?thesis by (auto simp: Let_def split: if_splits prod.splits)
  next
    case (Cons pkt out')
    with Cons.prems have p: "pump marker ssrc hung accepts (Suc i) (sq + 1) (ts + 960) fs = (out', r)"
      "pkt = \<lparr>rp_payloadType = 111, rp_seq = sq, rp_ts = ts, rp_ssrc = ssrc, rp_marker = marker, rp_payload = f\<rparr>"
      by (auto simp: Let_def split: if_splits prod.splits)
    have "rp_seq (out ! k) = sq + word_of_nat k \<and> rp_ts (out ! k) = ts + word_of_nat (960 * k)" if "k < length out" for k
      using Cons.IH [OF p(1)] that Cons p(2) by (cases k) (auto simp: algebra_simps)
    then show ?thesis using Cons.IH [OF p(1)] Cons p(2) by auto
  qed
qed auto

lemma pump_free: "(\<And>i. \<not> hung i) \<Longrightarrow> (\<And>p. accepts p) \<Longrightarrow> snd (pump marker ssrc hung accepts i sq ts fs) = Played"
  by (induction fs arbitrary: i sq ts) (auto simp: Let_def split: prod.split, metis snd_conv)

lemma echo_loop_prefix: "prefix (map rp_payload (echo_loop hung accepts i pkts)) (map rp_payload pkts)"
  by (induction pkts arbitrary: i) (auto simp: echo_packet_def)

lemma echo_loop_free: "(\<And>i. \<not> hung i) \<Longrightarrow> (\<And>p. accepts p) \<Longrightarrow> echo_loop hung accepts i pkts = map echo_packet pkts"
  by (induction pkts arbitrary: i) auto

section \<open>Lemmas on the mix\<close>

definition mixdown :: "pcm list \<Rightarrow> pcm" where
  "mixdown ss = fold (\<lambda>s m. map2 sat_add m s) ss (replicate mixFrameSize 0)"

definition others_at :: "nat \<Rightarrow> nat \<Rightarrow> pcm option list \<Rightarrow> pcm list" where
  "others_at i j mix = concat (map (\<lambda>(k, f). if k = i then [] else case f of None \<Rightarrow> [] | Some s \<Rightarrow> [s]) (enumerate j mix))"

lemma mix_others_eq:
  "mix_others i j mix m h = (fold (\<lambda>s m. map2 sat_add m s) (others_at i j mix) m, h \<or> others_at i j mix \<noteq> [])"
proof (induction mix arbitrary: j m h)
  case (Cons f mix)
  then show ?case by (cases f) (auto simp: others_at_def)
qed (simp add: others_at_def)

lemma mixed_for_eq: "mixed_for mix i = (if others_at i 0 mix = [] then None else Some (mixdown (others_at i 0 mix)))"
  by (simp add: mixed_for_def mix_others_eq mixdown_def)

text \<open>The frames that the participant \<open>cid\<close> is to hear.\<close>

definition heard :: "conference \<Rightarrow> callID \<Rightarrow> pcm list" where
  "heard c cid = concat (map (\<lambda>(d, p). if d = cid then [] else case cp_frame p of None \<Rightarrow> [] | Some s \<Rightarrow> [s])
     (filter (\<lambda>(d, p). cp_active p) (c_parts c)))"

lemma others_at_heard:
  assumes "act = filter (\<lambda>(d, p). cp_active p) (c_parts c)" "distinct (akeys (c_parts c))" "i < length act"
  shows "others_at i 0 (map (\<lambda>(_, p). cp_frame p) act) = heard c (fst (act ! i))"
proof -
  have "distinct (map fst act)" using assms(1,2) by (simp add: distinct_map_filter)
  then have "k < length act \<Longrightarrow> fst (act ! k) = fst (act ! i) \<longleftrightarrow> k = i" for k
    using assms(3) nth_eq_iff_index_eq [of "map fst act" k i] by simp
  then show ?thesis
    unfolding others_at_def heard_def assms(1) [symmetric]
    by (intro arg_cong [where f = concat] nth_equalityI) (auto simp: nth_enumerate_eq case_prod_beta)
qed

lemma concat_one:
  assumes "k < n" and "\<And>i. i < n \<Longrightarrow> i \<noteq> k \<Longrightarrow> F i = []"
  shows "concat (map F [0..<n]) = F k"
proof -
  have "[0..<n] = [0..<k] @ k # [Suc k..<n]"
    using upt_add_eq_append [of 0 k "n - k"] upt_conv_Cons [of k n] assms(1) by simp
  moreover have "concat (map F [0..<k]) = []" "concat (map F [Suc k..<n]) = []"
    using assms by (simp_all add: concat_eq_Nil_conv)
  ultimately show ?thesis by (simp only: map_append list.map concat_append concat.simps append_Nil append_Nil2)
qed

lemma sint_sat_add: "sint (sat_add a b) = max (-32768) (min 32767 (sint a + sint b))"
proof -
  have "sint (word_of_int s :: 16 word) = s" if "-32768 \<le> s" "s \<le> 32767" for s
    using that by (simp add: sint_sbintrunc' signed_take_bit_int_eq_self)
  then show ?thesis by (auto simp: sat_add_def Let_def)
qed

lemma length_mix: "\<forall>s \<in> set ss. length s = length m \<Longrightarrow> length (fold (\<lambda>s m. map2 sat_add m s) ss m) = length m"
  by (induction ss arbitrary: m) auto

lemma fold_mix_sum:
  assumes "\<forall>s \<in> set ss. length s = length m" and "k < length m"
    and "\<bar>sint (m ! k)\<bar> + (\<Sum>s \<leftarrow> ss. \<bar>sint (s ! k)\<bar>) \<le> 32767"
  shows "sint (fold (\<lambda>s m. map2 sat_add m s) ss m ! k) = sint (m ! k) + (\<Sum>s \<leftarrow> ss. sint (s ! k))"
  using assms
proof (induction ss arbitrary: m)
  case (Cons s ss)
  have nn: "0 \<le> (\<Sum>s \<leftarrow> ss. \<bar>sint (s ! k)\<bar>)" by (induction ss) auto
  let ?m = "map2 sat_add m s"
  have "sint (?m ! k) = sint (m ! k) + sint (s ! k)"
    using Cons.prems nn by (auto simp: sint_sat_add)
  moreover have "\<bar>sint (?m ! k)\<bar> + (\<Sum>s \<leftarrow> ss. \<bar>sint (s ! k)\<bar>) \<le> 32767"
    using calculation Cons.prems(3) by auto
  ultimately show ?case using Cons.IH [of ?m] Cons.prems by simp
qed simp

section \<open>Properties\<close>

text \<open>
  The echo line and the announcement lines: the caller hears the welcome and then, on the echo line,
  the own voice, packet by packet in the order sent; a call that ends early, or a track that refuses
  a packet, cuts this off and adds nothing. The packets of the welcome are numbered from 0 without a
  gap and their time stamps advance by one frame, in 16 and 32 bits.
\<close>

theorem echo_session_heard:
  assumes "speak (welcome_phrase e cid) = Inr frames" and "out = echo_session speak hung accepts e cid pkts"
    and "whole = frames @ (if e_echo e then map rp_payload pkts else [])"
  shows "prefix (map rp_payload out) whole \<and>
    ((\<forall>i. \<not> hung i) \<and> (\<forall>p. accepts p) \<longrightarrow> map rp_payload out = whole) \<and>
    (\<forall>k < length out. k < length frames \<longrightarrow>
       unat (rp_seq (out ! k)) = k mod 2 ^ 16 \<and> unat (rp_ts (out ! k)) = 960 * k mod 2 ^ 32)"
proof -
  obtain o1 r where p: "pump True 12345 hung accepts 0 0 0 frames = (o1, r)" by fastforce
  note ps = pump_spec [OF p]
  have out: "out = (if r \<noteq> Played \<or> \<not> e_echo e then o1 else o1 @ echo_loop hung accepts (length o1) pkts)"
    by (simp add: assms(1,2) echo_session_def p)
  have "prefix (map rp_payload out) whole"
  proof (cases "r \<noteq> Played \<or> \<not> e_echo e")
    case True
    have "prefix (take (length o1) frames) whole"
      using take_is_prefix prefixI [OF assms(3)] by (rule prefix_order.trans)
    with True ps show ?thesis by (simp add: out)
  next
    case False
    with ps echo_loop_prefix [of hung accepts "length o1" pkts] show ?thesis by (simp add: out assms(3))
  qed
  moreover have "map rp_payload out = whole" if f: "\<forall>i. \<not> hung i" "\<forall>p. accepts p"
  proof -
    have "r = Played" using pump_free [of hung accepts True 12345 0 0 0 frames] f p by auto
    then show ?thesis
      using ps f by (auto simp: out assms(3) echo_loop_free echo_packet_def)
  qed
  moreover have "unat (rp_seq (out ! k)) = k mod 2 ^ 16 \<and> unat (rp_ts (out ! k)) = 960 * k mod 2 ^ 32"
    if "k < length out" "k < length frames" for k
  proof -
    have "k < length o1" using that ps by (auto simp: out split: if_splits)
    then have "rp_seq (out ! k) = word_of_nat k" "rp_ts (out ! k) = word_of_nat (960 * k)"
      using ps by (auto simp: out nth_append)
    then show ?thesis by (simp only: unat_of_nat take_bit_eq_mod) simp
  qed
  ultimately show ?thesis by blast
qed

theorem echo_session_heard_witness:
  "map rp_payload (echo_session (\<lambda>_. Inr [[1], [2]]) (\<lambda>_. False) (\<lambda>_. True) NewEchoService ''c1''
     [\<lparr>rp_payloadType = 111, rp_seq = 7, rp_ts = 0, rp_ssrc = 5, rp_marker = False, rp_payload = [9]\<rparr>]) = [[1], [2], [9]]"
  using echo_session_heard [of "\<lambda>_. Inr [[1], [2]]" NewEchoService "''c1''" "[[1], [2]]" _ "\<lambda>_. False" "\<lambda>_. True", OF _ refl refl]
  by (simp add: NewEchoService_def)

lemma mixer_tick_to:
  assumes "mixer_tick enc c = (out, c')" and "distinct (akeys (c_parts c))" and "map_of (c_parts c) cid = Some p" and "cp_active p"
  shows "map snd (filter (\<lambda>(d, _). d = cid) out) =
      (if heard c cid = [] then []
       else case enc (mixdown (heard c cid)) of
              None \<Rightarrow> []
            | Some b \<Rightarrow> [\<lparr>rp_payloadType = 111, rp_seq = c_seq c, rp_ts = c_ts c, rp_ssrc = 777001, rp_marker = True, rp_payload = b\<rparr>])"
    and "heard c' = heard c \<and> c_seq c' = c_seq c + 1 \<and> c_ts c' = c_ts c + 960"
proof -
  define act where "act = filter (\<lambda>(_, p). cp_active p) (c_parts c)"
  have "(cid, p) \<in> set act" using assms(3,4) map_of_SomeD by (fastforce simp: act_def)
  then obtain i where i: "i < length act" "act ! i = (cid, p)" by (metis in_set_conv_nth)
  then have ne: "act \<noteq> []" by auto
  let ?mix = "map (\<lambda>(_, p). cp_frame p) act"
  define send where "send = (\<lambda>i. case mixed_for ?mix i of None \<Rightarrow> [] | Some mixed \<Rightarrow>
      (case enc mixed of None \<Rightarrow> [] | Some b \<Rightarrow> [(fst (act ! i), \<lparr>rp_payloadType = 111, rp_seq = c_seq c, rp_ts = c_ts c,
        rp_ssrc = 777001, rp_marker = True, rp_payload = b\<rparr>)]))"
  have tick: "out = concat (map send [0..<length act])" "c' = c\<lparr>c_seq := c_seq c + 1, c_ts := c_ts c + word_of_nat mixFrameSize\<rparr>"
    using assms(1) ne by (auto simp: mixer_tick_def act_def [symmetric] send_def Let_def)
  have "distinct (map fst act)" using assms(2) by (simp add: act_def distinct_map_filter)
  then have "filter (\<lambda>(d, _). d = cid) (send j) = []" if "j < length act" "j \<noteq> i" for j
    using that i nth_eq_iff_index_eq [of "map fst act" j i] by (auto simp: send_def split: option.splits)
  then have "filter (\<lambda>(d, _). d = cid) out = filter (\<lambda>(d, _). d = cid) (send i)"
    unfolding tick(1) filter_concat map_map comp_def
    using concat_one [OF i(1), of "\<lambda>j. filter (\<lambda>(d, _). d = cid) (send j)"] by simp
  moreover have "mixed_for ?mix i = (if heard c cid = [] then None else Some (mixdown (heard c cid)))"
    using others_at_heard [OF act_def assms(2) i(1)] i(2) by (simp add: mixed_for_eq)
  ultimately show "map snd (filter (\<lambda>(d, _). d = cid) out) =
      (if heard c cid = [] then []
       else case enc (mixdown (heard c cid)) of
              None \<Rightarrow> []
            | Some b \<Rightarrow> [\<lparr>rp_payloadType = 111, rp_seq = c_seq c, rp_ts = c_ts c, rp_ssrc = 777001, rp_marker = True, rp_payload = b\<rparr>])"
    using i(2) by (simp add: send_def split: option.split)
  show "heard c' = heard c \<and> c_seq c' = c_seq c + 1 \<and> c_ts c' = c_ts c + 960"
    by (simp add: tick(2) heard_def fun_eq_iff mixFrameSize_def)
qed

text \<open>
  C40. A tick of the conference mixer sends an active participant at most one packet: the encoding of the
  saturated sum of the latest frames of the other active participants, never of the own one, and nothing
  when nobody else has spoken yet. As long as the voices together stay within 16 bits the mix is
  their exact sum, sample by sample. The frames are kept: a participant who falls silent
  is heard with the last frame in every later tick.
\<close>

theorem conference_tick:
  assumes "mixer_tick enc c = (out, c')" and "distinct (akeys (c_parts c))" and "map_of (c_parts c) cid = Some p" and "cp_active p"
  shows "map snd (filter (\<lambda>(d, _). d = cid) out) =
      (if heard c cid = [] then []
       else case enc (mixdown (heard c cid)) of
              None \<Rightarrow> []
            | Some b \<Rightarrow> [\<lparr>rp_payloadType = 111, rp_seq = c_seq c, rp_ts = c_ts c, rp_ssrc = 777001, rp_marker = True, rp_payload = b\<rparr>]) \<and>
    (\<forall>k < mixFrameSize. (\<forall>s \<in> set (heard c cid). length s = mixFrameSize) \<and> (\<Sum>s \<leftarrow> heard c cid. \<bar>sint (s ! k)\<bar>) \<le> 32767 \<longrightarrow>
      sint (mixdown (heard c cid) ! k) = (\<Sum>s \<leftarrow> heard c cid. sint (s ! k))) \<and>
    heard c' = heard c \<and> c_seq c' = c_seq c + 1 \<and> c_ts c' = c_ts c + 960"
  using mixer_tick_to [OF assms] fold_mix_sum [of "heard c cid" "replicate mixFrameSize 0"]
  by (simp add: mixdown_def)

definition two_in_room :: conference where
  "two_in_room = \<lparr>c_name = ''room'', c_phrase = ''hi'', c_parts = [(''a'', \<lparr>cp_active = True, cp_frame = Some (replicate 960 5), cp_ice = []\<rparr>),
     (''b'', \<lparr>cp_active = True, cp_frame = None, cp_ice = []\<rparr>)], c_seq = 65535, c_ts = 0, c_started = True, c_closed = []\<rparr>"

theorem conference_tick_witness:
  "heard two_in_room ''b'' = [replicate 960 5] \<and>
   (\<exists>out c'. mixer_tick (\<lambda>s. Some [word_of_nat (length s)]) two_in_room = (out, c') \<and>
      map (rp_payload \<circ> snd) (filter (\<lambda>(d, _). d = ''b'') out) = [[word_of_nat (length (mixdown [replicate 960 5]))]] \<and> c_seq c' = 0)"
proof -
  have h: "heard two_in_room ''b'' = [replicate 960 5]" by (simp add: heard_def two_in_room_def)
  obtain out c' where t: "mixer_tick (\<lambda>s. Some [word_of_nat (length s)]) two_in_room = (out, c')" by fastforce
  have d: "distinct (akeys (c_parts two_in_room))" and b: "map_of (c_parts two_in_room) ''b'' = Some \<lparr>cp_active = True, cp_frame = None, cp_ice = []\<rparr>"
    by (simp_all add: two_in_room_def)
  from conference_tick [OF t d b] h t show ?thesis by (simp add: two_in_room_def flip: map_map)
qed

end
