(* ===== verification/Identity.thy ===== *)
theory Identity
  imports Crypt
begin

text \<open>
  Identities and authentication: the key pair of a device and its file
  (\<open>ocnserver/internal/ksim/ksim.go\<close>) and the challenge manager of the server
  (\<open>ocnserver/internal/auth/auth.go\<close>).

  Ed25519 enters as a pair of functions (\<open>ed25519\<close>: \<open>Sign\<close> and \<open>Verify\<close>); what is used of it is
  that a signature made with a private key verifies under the public key of the pair.
  \<open>ed25519.Verify\<close> panics on a public key that is not 32 bytes long; the error value \<open>GoPanic\<close>
  stands for that panic. The JSON
  encoding of an identity file is a pair of arguments, a disk is a map from paths to contents.
\<close>

record ed25519 =
  ed_sign :: "bytes \<Rightarrow> bytes \<Rightarrow> bytes"
  ed_verify :: "bytes \<Rightarrow> bytes \<Rightarrow> bytes \<Rightarrow> bool"

datatype ksim_error =
    ErrInvalidKeySize | ErrInvalidSignature | ErrInvalidKSimFile | ErrChallengeExpired
  | ErrNoPendingChallenge | KsimErr string | GoPanic string

section \<open>ksim.go\<close>

definition PublicKeySize :: nat where "PublicKeySize = 32"
definition PrivateKeySize :: nat where "PrivateKeySize = 64"
definition ChallengeTTL :: gotime where "ChallengeTTL = secs (5 * 60)"

record KSim =
  PublicKey :: bytes
  PrivateKey :: bytes

record KSimFile =
  kf_Version :: int
  kf_PublicKey :: string
  kf_PrivateKey :: string
  kf_DisplayName :: string
  kf_Server :: string
  kf_Number :: string
  kf_RegisteredAt :: gotime

definition FromPrivateKey :: "bytes \<Rightarrow> ksim_error + KSim" where
  "FromPrivateKey priv =
     (if length priv \<noteq> PrivateKeySize then Inl ErrInvalidKeySize
      else Inr \<lparr>PublicKey = drop 32 priv, PrivateKey = priv\<rparr>)"

definition Sign :: "ed25519 \<Rightarrow> KSim \<Rightarrow> bytes \<Rightarrow> bytes" where
  "Sign ed k data = ed_sign ed (PrivateKey k) data"

definition Verify :: "ed25519 \<Rightarrow> bytes \<Rightarrow> bytes \<Rightarrow> bytes \<Rightarrow> ksim_error + bool" where
  "Verify ed pub data sig =
     (if length pub \<noteq> 32 then Inl (GoPanic ''ed25519: bad public key length'')
      else Inr (ed_verify ed pub data sig))"

definition buildChallengeData :: "bytes \<Rightarrow> int \<Rightarrow> bytes" where
  "buildChallengeData nonce timestamp = Sum256 (nonce @ be_bytes 8 (nat (timestamp mod 2 ^ 64)))"

definition SignChallenge :: "ed25519 \<Rightarrow> KSim \<Rightarrow> bytes \<Rightarrow> int \<Rightarrow> bytes" where
  "SignChallenge ed k nonce timestamp = Sign ed k (buildChallengeData nonce timestamp)"

definition VerifyChallenge ::
  "ed25519 \<Rightarrow> gotime \<Rightarrow> bytes \<Rightarrow> bytes \<Rightarrow> int \<Rightarrow> bytes \<Rightarrow> ksim_error + unit" where
  "VerifyChallenge ed now pub nonce timestamp sig =
     (if now - secs timestamp > ChallengeTTL then Inl ErrChallengeExpired
      else case Verify ed pub (buildChallengeData nonce timestamp) sig of
             Inl e \<Rightarrow> Inl e
           | Inr ok \<Rightarrow> if \<not> ok then Inl ErrInvalidSignature else Inr ())"

definition EncodePublicKey :: "KSim \<Rightarrow> string" where
  "EncodePublicKey k = StdEncode (PublicKey k)"

definition EncodePrivateKey :: "KSim \<Rightarrow> string" where
  "EncodePrivateKey k = StdEncode (PrivateKey k)"

definition decode_key :: "nat \<Rightarrow> string \<Rightarrow> ksim_error + bytes" where
  "decode_key want encoded =
     (case StdDecode encoded of
        None \<Rightarrow> Inl (KsimErr ''illegal base64 data'')
      | Some b \<Rightarrow> if length b \<noteq> want then Inl ErrInvalidKeySize else Inr b)"

definition DecodePublicKey :: "string \<Rightarrow> ksim_error + bytes" where
  "DecodePublicKey encoded = decode_key PublicKeySize encoded"

definition DecodePrivateKey :: "string \<Rightarrow> ksim_error + bytes" where
  "DecodePrivateKey encoded = decode_key PrivateKeySize encoded"

type_synonym disk = "string \<Rightarrow> bytes option"

definition SaveFile ::
  "gcm \<Rightarrow> pbkdf \<Rightarrow> (KSimFile \<Rightarrow> bytes option) \<Rightarrow> randomness \<Rightarrow> randomness \<Rightarrow> gotime \<Rightarrow> disk \<Rightarrow> KSim \<Rightarrow>
   string \<Rightarrow> string \<Rightarrow> string \<Rightarrow> string \<Rightarrow> string \<Rightarrow> ksim_error + disk" where
  "SaveFile g kdf marshal r1 r2 now d k path displayName server number passphrase =
     (case EncryptKey g kdf r1 r2 (PrivateKey k) passphrase of
        Inl e \<Rightarrow> Inl (KsimErr (''encrypting private key: '' @ e))
      | Inr enc \<Rightarrow>
          (case marshal \<lparr>kf_Version = 1, kf_PublicKey = EncodePublicKey k, kf_PrivateKey = StdEncode enc,
                  kf_DisplayName = displayName, kf_Server = server, kf_Number = number,
                  kf_RegisteredAt = now\<rparr> of
             None \<Rightarrow> Inl (KsimErr ''marshaling ksim file'')
           | Some data \<Rightarrow> Inr (d(path \<mapsto> data))))"

definition LoadFile ::
  "gcm \<Rightarrow> pbkdf \<Rightarrow> (bytes \<Rightarrow> KSimFile option) \<Rightarrow> disk \<Rightarrow> string \<Rightarrow> string \<Rightarrow> ksim_error + (KSim \<times> KSimFile)" where
  "LoadFile g kdf unmarshal d path passphrase =
     (case d path of
        None \<Rightarrow> Inl (KsimErr ''reading ksim file'')
      | Some data \<Rightarrow>
     (case unmarshal data of
        None \<Rightarrow> Inl ErrInvalidKSimFile
      | Some f \<Rightarrow>
      if kf_Version f \<noteq> 1 then Inl (KsimErr ''unsupported ksim file version'')
      else
     (case StdDecode (kf_PrivateKey f) of
        None \<Rightarrow> Inl (KsimErr ''decoding private key'')
      | Some enc \<Rightarrow>
     (case DecryptKey g kdf enc passphrase of
        Inl e \<Rightarrow> Inl (KsimErr (''decrypting private key: '' @ e))
      | Inr priv \<Rightarrow>
     (case FromPrivateKey priv of
        Inl e \<Rightarrow> Inl e
      | Inr k \<Rightarrow> Inr (k, f))))))"

section \<open>auth.go\<close>

definition challengeTTL :: gotime where "challengeTTL = secs (5 * 60)"

record PendingChallenge =
  Nonce :: bytes
  Timestamp :: int
  ChCreatedAt :: gotime

record AuthManager =
  challenges :: "(string, PendingChallenge) gomap"

definition NewAuthManager :: AuthManager where
  "NewAuthManager = \<lparr>challenges = []\<rparr>"

definition GenerateChallenge ::
  "randomness \<Rightarrow> gotime \<Rightarrow> AuthManager \<Rightarrow> bytes \<Rightarrow> ksim_error + (bytes \<times> int \<times> AuthManager)" where
  "GenerateChallenge rnd now a pub =
     (case rand_bytes rnd 32 of
        None \<Rightarrow> Inl (KsimErr ''rand'')
      | Some nonce \<Rightarrow>
          let ts = unix_secs now in
          Inr (nonce, ts, a\<lparr>challenges := aput (StdEncode pub)
             \<lparr>Nonce = nonce, Timestamp = ts, ChCreatedAt = now\<rparr> (challenges a)\<rparr>))"

definition VerifyResponse ::
  "ed25519 \<Rightarrow> gotime \<Rightarrow> AuthManager \<Rightarrow> bytes \<Rightarrow> bytes \<Rightarrow> (ksim_error + unit) \<times> AuthManager" where
  "VerifyResponse ed now a pub sig =
     (case map_of (challenges a) (StdEncode pub) of
        None \<Rightarrow> (Inl ErrNoPendingChallenge, a)
      | Some ch \<Rightarrow>
          (case VerifyChallenge ed now pub (Nonce ch) (Timestamp ch) sig of
             Inl (GoPanic e) \<Rightarrow> (Inl (GoPanic e), a)
           | err \<Rightarrow> (err, a\<lparr>challenges := adel (StdEncode pub) (challenges a)\<rparr>)))"

definition cleanup :: "gotime \<Rightarrow> AuthManager \<Rightarrow> AuthManager" where
  "cleanup now a =
     a\<lparr>challenges := filter (\<lambda>(_, ch). \<not> now - ChCreatedAt ch > challengeTTL) (challenges a)\<rparr>"

section \<open>Lemmas\<close>

lemma StdEncode_inject [simp]: "StdEncode a = StdEncode b \<longleftrightarrow> a = b"
  by (metis b64_roundtrip option.inject)

lemma StdDecode_StdEncode [simp]: "StdDecode (StdEncode a) = Some a"
  by (rule b64_roundtrip)

lemma unix_secs_bounds: "secs (unix_secs t) \<le> t \<and> t < secs (unix_secs t) + 1000000000"
  unfolding unix_secs_def secs_def
  using div_mult_mod_eq [of t 1000000000] pos_mod_bound [of 1000000000 t] pos_mod_sign [of 1000000000 t]
  by linarith

lemma map_of_filter_value:
  "distinct (akeys m) \<Longrightarrow> map_of (filter (\<lambda>(_, v). P v) m) k =
     (case map_of m k of None \<Rightarrow> None | Some v \<Rightarrow> if P v then Some v else None)"
  by (induction m) (auto simp: map_of_eq_None_iff image_iff split: option.splits)

text \<open>The history of the challenge table.\<close>

inductive auth_step :: "ed25519 \<Rightarrow> AuthManager \<Rightarrow> AuthManager \<Rightarrow> bool" for ed where
  auth_challenge: "GenerateChallenge rnd now a pub = Inr (n, ts, a') \<Longrightarrow> auth_step ed a a'"
| auth_verify: "VerifyResponse ed now a pub sig = (r, a') \<Longrightarrow> auth_step ed a a'"
| auth_cleanup: "auth_step ed a (cleanup now a)"

definition auth_wf :: "AuthManager \<Rightarrow> bool" where
  "auth_wf a \<longleftrightarrow> distinct (akeys (challenges a)) \<and>
     (\<forall>(k, ch) \<in> set (challenges a). length (Nonce ch) = 32 \<and> Timestamp ch = unix_secs (ChCreatedAt ch))"

lemma set_aput_subset: "set (aput k v m) \<subseteq> insert (k, v) (set m)"
  by (induction m) auto

lemma auth_step_wf: "auth_wf a \<Longrightarrow> auth_step ed a a' \<Longrightarrow> auth_wf a'"
proof (erule auth_step.cases)
  fix rnd now b pub n ts b'
  assume "auth_wf a" "a = b" "a' = b'" "GenerateChallenge rnd now b pub = Inr (n, ts, b')"
  then show ?thesis
    using set_aput_subset by (fastforce simp: auth_wf_def GenerateChallenge_def Let_def length_rand_bytes split: option.splits)
next
  fix now b pub sig r b'
  assume "auth_wf a" "a = b" "a' = b'" "VerifyResponse ed now b pub sig = (r, b')"
  then show ?thesis
    by (auto simp: auth_wf_def VerifyResponse_def set_adel split: option.splits sum.splits ksim_error.splits)
next
  fix b now
  assume "auth_wf a" "a = b" "a' = cleanup now b"
  then show ?thesis
    by (auto simp: auth_wf_def cleanup_def distinct_map_filter)
qed

interpretation auth_hist: invariant_system "\<lambda>a. a = NewAuthManager" "auth_step ed" auth_wf for ed
  by unfold_locales (simp add: auth_wf_def NewAuthManager_def, rule auth_step_wf)


lemma VerifyResponse_consumes:
  "VerifyResponse ed now a pub sig = (r, a') \<Longrightarrow> \<forall>m. r \<noteq> Inl (GoPanic m) \<Longrightarrow> map_of (challenges a') (StdEncode pub) = None"
  by (auto simp: VerifyResponse_def split: option.splits sum.splits ksim_error.splits) metis

lemma VerifyResponse_other:
  "VerifyResponse ed now a pub sig = (r, a') \<Longrightarrow> pub' \<noteq> pub \<Longrightarrow>
   map_of (challenges a') (StdEncode pub') = map_of (challenges a) (StdEncode pub')"
  by (auto simp: VerifyResponse_def split: option.splits sum.splits ksim_error.splits)

lemma VerifyChallenge_panic:
  "VerifyChallenge ed now pub n ts sig = Inl (GoPanic m) \<Longrightarrow> length pub \<noteq> 32"
  by (auto simp: VerifyChallenge_def Verify_def split: if_splits)

lemma VerifyResponse_panic: "VerifyResponse ed now a pub sig = (Inl (GoPanic m), a') \<Longrightarrow> length pub \<noteq> 32"
  using VerifyChallenge_panic by (auto simp: VerifyResponse_def split: option.splits sum.splits ksim_error.splits)

lemma fst_VerifyResponse_cong:
  "map_of (challenges a') (StdEncode pub) = map_of (challenges a) (StdEncode pub) \<Longrightarrow>
   fst (VerifyResponse ed now a' pub sig) = fst (VerifyResponse ed now a pub sig)"
  by (auto simp: VerifyResponse_def split: option.splits sum.splits ksim_error.splits)

section \<open>Properties\<close>

text \<open>
  C4. Authentication is sound: in every reachable state of the challenge table, a response is
  accepted only if a 32-byte challenge is outstanding for exactly that key, issued no more than
  five minutes (and the rounding of a second) ago, and the signature over that challenge and its
  time stamp verifies under the key, which is 32 bytes long; the challenge of such a key is consumed
  whatever the outcome, so a second response is refused, and no other key is affected.
\<close>

theorem auth_sound:
  assumes "(auth_step ed)\<^sup>*\<^sup>* NewAuthManager a" and "VerifyResponse ed now a pub sig = (r, a')"
  shows "(r = Inr () \<longrightarrow> (\<exists>ch. map_of (challenges a) (StdEncode pub) = Some ch \<and> length (Nonce ch) = 32 \<and>
            length pub = 32 \<and> now - ChCreatedAt ch \<le> challengeTTL \<and>
            ed_verify ed pub (buildChallengeData (Nonce ch) (Timestamp ch)) sig)) \<and>
         (length pub = 32 \<longrightarrow> fst (VerifyResponse ed now' a' pub sig') = Inl ErrNoPendingChallenge) \<and>
         (pub' \<noteq> pub \<longrightarrow> fst (VerifyResponse ed now' a' pub' sig') = fst (VerifyResponse ed now' a pub' sig'))"
proof -
  have wf: "auth_wf a" using auth_hist.reachable_inv [OF refl assms(1)] .
  have "\<exists>ch. map_of (challenges a) (StdEncode pub) = Some ch \<and> length (Nonce ch) = 32 \<and>
            length pub = 32 \<and> now - ChCreatedAt ch \<le> challengeTTL \<and>
            ed_verify ed pub (buildChallengeData (Nonce ch) (Timestamp ch)) sig" if ok: "r = Inr ()"
  proof -
    obtain ch where m: "map_of (challenges a) (StdEncode pub) = Some ch"
      and v: "VerifyChallenge ed now pub (Nonce ch) (Timestamp ch) sig = Inr ()"
      using assms(2) ok by (auto simp: VerifyResponse_def split: option.splits sum.splits ksim_error.splits)
    have "(StdEncode pub, ch) \<in> set (challenges a)" using m by (rule map_of_SomeD)
    then have "length (Nonce ch) = 32" "Timestamp ch = unix_secs (ChCreatedAt ch)"
      using wf by (auto simp: auth_wf_def)
    moreover have "secs (Timestamp ch) \<le> ChCreatedAt ch"
      using calculation(2) unix_secs_bounds [of "ChCreatedAt ch"] by simp
    ultimately show ?thesis
      using m v by (auto simp: VerifyChallenge_def Verify_def ChallengeTTL_def challengeTTL_def split: if_splits)
  qed
  moreover have "fst (VerifyResponse ed now' a' pub sig') = Inl ErrNoPendingChallenge" if "length pub = 32"
  proof -
    have "\<forall>m. r \<noteq> Inl (GoPanic m)" using VerifyResponse_panic [of ed now a pub sig] assms(2) that by blast
    from VerifyResponse_consumes [OF assms(2) this] show ?thesis by (simp add: VerifyResponse_def)
  qed
  moreover have "pub' \<noteq> pub \<Longrightarrow> fst (VerifyResponse ed now' a' pub' sig') = fst (VerifyResponse ed now' a pub' sig')"
    by (rule fst_VerifyResponse_cong [OF VerifyResponse_other [OF assms(2)]])
  ultimately show ?thesis by blast
qed

definition sample_ed :: ed25519 where
  "sample_ed = \<lparr>ed_sign = (\<lambda>priv m. drop 32 priv @ m), ed_verify = (\<lambda>pub m sig. sig = pub @ m)\<rparr>"

theorem auth_sound_witness:
  "\<exists>n ts a r a'. GenerateChallenge (Some (\<lambda>_. 7)) (secs 10) NewAuthManager (replicate 32 1) = Inr (n, ts, a) \<and>
     VerifyResponse sample_ed (secs 11) a (replicate 32 1) [] = (r, a') \<and>
     fst (VerifyResponse sample_ed (secs 12) a' (replicate 32 1) []) = Inl ErrNoPendingChallenge"
proof -
  obtain n ts a where g: "GenerateChallenge (Some (\<lambda>_. 7)) (secs 10) NewAuthManager (replicate 32 1) = Inr (n, ts, a)"
    by (auto simp: GenerateChallenge_def rand_bytes_def Let_def)
  obtain r a' where v: "VerifyResponse sample_ed (secs 11) a (replicate 32 1) [] = (r, a')" by fastforce
  have "(auth_step sample_ed)\<^sup>*\<^sup>* NewAuthManager a"
    using auth_challenge [OF g] by blast
  from auth_sound [OF this v, of "secs 12" "[]"] g v show ?thesis by simp
qed

text \<open>
  Authentication is complete: a device that signs the challenge it was sent with the private
  key of the pair, and answers within five minutes, is accepted.
\<close>

lemma challenge_answered:
  assumes ed: "\<And>m. ed_verify ed (PublicKey k) m (ed_sign ed (PrivateKey k) m)"
    and "GenerateChallenge rnd now a (PublicKey k) = Inr (nonce, ts, a')"
    and "now' \<le> secs ts + challengeTTL" and "length (PublicKey k) = 32"
  shows "fst (VerifyResponse ed now' a' (PublicKey k) (SignChallenge ed k nonce ts)) = Inr ()"
  using assms
  by (auto simp: GenerateChallenge_def VerifyResponse_def VerifyChallenge_def Verify_def SignChallenge_def
      Sign_def ChallengeTTL_def challengeTTL_def Let_def split: option.splits)

definition sample_ksim :: KSim where
  "sample_ksim = \<lparr>PublicKey = replicate 32 1, PrivateKey = replicate 64 1\<rparr>"

text \<open>
  An identity file round-trips: loading the file that \<open>SaveFile\<close> wrote, with the same
  passphrase, gives back the same key pair and the data saved with it.
\<close>

theorem ksim_file_roundtrip:
  assumes gcm: "gcm_ok g" and kdf: "\<And>p s. length (kdf p s iterCount keyLen) = 32"
    and json: "\<And>f b. marshal f = Some b \<Longrightarrow> unmarshal b = Some f"
    and "length (PrivateKey k) = 64" and "PublicKey k = drop 32 (PrivateKey k)"
    and "SaveFile g kdf marshal r1 r2 now d k path name server number pass = Inr d'"
  shows "\<exists>f. LoadFile g kdf unmarshal d' path pass = Inr (k, f) \<and> kf_DisplayName f = name \<and>
           kf_Server f = server \<and> kf_Number f = number \<and> kf_PublicKey f = EncodePublicKey k"
proof -
  obtain enc data where e: "EncryptKey g kdf r1 r2 (PrivateKey k) pass = Inr enc"
    and m: "marshal \<lparr>kf_Version = 1, kf_PublicKey = EncodePublicKey k, kf_PrivateKey = StdEncode enc,
        kf_DisplayName = name, kf_Server = server, kf_Number = number, kf_RegisteredAt = now\<rparr> = Some data"
    and d: "d' = d(path \<mapsto> data)"
    using assms(6) by (auto simp: SaveFile_def split: sum.splits option.splits)
  have "DecryptKey g kdf enc pass = Inr (PrivateKey k)"
    using DecryptKey_EncryptKey [OF gcm kdf e] .
  moreover have "FromPrivateKey (PrivateKey k) = Inr k"
    using assms(4,5) by (cases k) (simp add: FromPrivateKey_def PrivateKeySize_def)
  ultimately show ?thesis
    using json [OF m] d by (simp add: LoadFile_def)
qed

theorem ksim_file_roundtrip_witness:
  "\<exists>enc. gcm_ok plain_gcm \<and> (\<exists>d'. SaveFile plain_gcm (\<lambda>p s i n. replicate n 0) (\<lambda>f. if f = enc then Some [1] else None)
       (Some (\<lambda>_. 3)) (Some (\<lambda>_. 4)) 0 (\<lambda>_. None) sample_ksim ''k'' ''Ann'' ''s'' ''5551234'' ''pw'' = Inr d' \<and>
     (\<exists>f. LoadFile plain_gcm (\<lambda>p s i n. replicate n 0) (\<lambda>b. if b = [1] then Some enc else None) d' ''k'' ''pw'' = Inr (sample_ksim, f)))"
proof -
  let ?kdf = "\<lambda>p s i n. replicate n 0 :: bytes"
  obtain e where e: "EncryptKey plain_gcm ?kdf (Some (\<lambda>_. 3)) (Some (\<lambda>_. 4)) (PrivateKey sample_ksim) ''pw'' = Inr e"
    by (auto simp: EncryptKey_def rand_bytes_def deriveKey_def aes_key_ok_def keyLen_def Let_def)
  let ?f = "\<lparr>kf_Version = 1, kf_PublicKey = EncodePublicKey sample_ksim, kf_PrivateKey = StdEncode e,
        kf_DisplayName = ''Ann'', kf_Server = ''s'', kf_Number = ''5551234'', kf_RegisteredAt = 0\<rparr>"
  let ?m = "\<lambda>f. if f = ?f then Some [1] else None :: bytes option"
  let ?u = "\<lambda>b :: bytes. if b = [1] then Some ?f else None"
  obtain d' where s: "SaveFile plain_gcm ?kdf ?m (Some (\<lambda>_. 3)) (Some (\<lambda>_. 4)) 0 (\<lambda>_. None) sample_ksim ''k'' ''Ann'' ''s'' ''5551234'' ''pw'' = Inr d'"
    by (simp add: SaveFile_def e)
  have kd: "\<And>p s. length (?kdf p s iterCount keyLen) = 32" by (simp add: keyLen_def)
  have k: "length (PrivateKey sample_ksim) = 64" "PublicKey sample_ksim = drop 32 (PrivateKey sample_ksim)"
    by (simp_all add: sample_ksim_def)
  have j: "\<And>f b. ?m f = Some b \<Longrightarrow> ?u b = Some f" by (auto split: if_splits)
  have "\<exists>f. LoadFile plain_gcm ?kdf ?u d' ''k'' ''pw'' = Inr (sample_ksim, f)"
    using ksim_file_roundtrip [where unmarshal = ?u, OF plain_gcm_ok kd j k s] by blast
  with s plain_gcm_ok show ?thesis by (intro exI [of _ ?f]) auto
qed

end
