(* ===== verification/Sig_State.thy ===== *)
theory Sig_State
  imports Recorder Identity
begin

text \<open>
  The state of the signaling server (\<open>ocnserver/internal/signaling/server.go\<close>, \<open>bridge.go\<close>), the
  messages it exchanges with devices (\<open>messages.go\<close>) and with other exchanges, and the small
  operations every handler is built from.

  \<^item> A \<open>*Client\<close> is a reference (\<open>cref\<close>) into the heap \<open>heap\<close> of connections; comparing two
    pointers is comparing references. The buffered channel \<open>sendCh\<close> is the list of messages in
    it; a send to a full channel drops the message, as in \<open>sendMessage\<close>.
  \<^item> A \<open>services.Service\<close> is a reference (\<open>sref\<close>) into \<open>svcHeap\<close>.
  \<^item> A bridge stream is a number; \<open>wire\<close> logs the events sent on the streams, \<open>pushes\<close> the
    wake-up messages handed to the push sender, \<open>kicked\<close> the connections the server closed.
  \<^item> What is outside the repository is the argument \<open>ext\<close> of the handlers: the WebRTC library,
    the push sender, the registry, the inter-server transport, randomness and the cryptographic
    primitives. Fresh identifiers (\<open>generateCallID\<close>, \<open>uuid\<close>) are drawn from a stream of names
    by a counter.
  \<^item> Handlers run one at a time: every handler is one step. Where the code would block forever or
    crash, the result says so (\<open>outcome\<close>).
\<close>

section \<open>Messages\<close>

type_synonym cref = nat
type_synonym sref = nat
type_synonym stream = nat

record SDPSession =
  SDP :: string
  SdpType :: string

record ICECandidate =
  ic_Candidate :: string
  ic_SDPMid :: string
  ic_SDPMLineIndex :: "32 word"

record PhoneNumber =
  pn_AreaCode :: string
  pn_Number :: string

definition Full :: "PhoneNumber \<Rightarrow> string" where
  "Full p = FormatNumber (pn_AreaCode p) (pn_Number p)"

definition Local :: "PhoneNumber \<Rightarrow> string" where
  "Local p = FormatLocal (pn_Number p)"

record IceServer =
  iURLs :: "string list"
  iUsername :: string
  iCredential :: string

record VoicemailInfo =
  vi_ID :: string
  vi_CallerNumber :: string
  vi_CallerName :: string
  vi_DurationSeconds :: int
  vi_Listened :: bool
  vi_CreatedAt :: int

record DMEvent =
  de_Type :: string
  de_MessageID :: string
  de_ClientID :: string
  de_Status :: string
  de_From :: string
  de_FromName :: string
  de_Kind :: string
  de_Text :: string
  de_ImageName :: string
  de_ImageMime :: string
  de_CreatedAt :: int

record RegisterRequest =
  rr_KsimID :: "bytes option"
  rr_Signature :: "bytes option"
  rr_DisplayName :: "string option"
  rr_ActivationToken :: string

record CallRequest =
  cr_Destination :: string
  cr_Offer :: "SDPSession option"

record CallAnswerMsg =
  ca_CallID :: string
  ca_Answer :: "SDPSession option"

record ICETrickle =
  it_CallID :: string
  it_Candidate :: "ICECandidate option"

record DMSendReq =
  ds_To :: string
  ds_ClientID :: string
  ds_Kind :: string
  ds_Text :: string
  ds_Image :: "Image option"

text \<open>Every field of \<open>ClientMessage\<close> is a pointer; several may be set in one message.\<close>

record ClientMessage =
  m_ChallengeRequest :: "bytes option option"
  m_Register :: "RegisterRequest option"
  m_RegisterFCM :: "string option"
  m_Call :: "CallRequest option"
  m_CallAnswer :: "CallAnswerMsg option"
  m_CallHangup :: "string option"
  m_CallDecline :: "string option"
  m_ICECandidate :: "ICETrickle option"
  m_Ping :: bool
  m_VoicemailList :: bool
  m_VoicemailGet :: "string option"
  m_VoicemailDelete :: "string option"
  m_VoicemailMarkRead :: "string option"
  m_DMSend :: "DMSendReq option"
  m_DMAck :: "string option"
  m_DMAttachmentGet :: "string option"

text \<open>The server sets exactly one field of \<open>ServerMessage\<close>; the constructor names the field.\<close>

datatype ServerMessage =
    ChallengeResponseMsg bytes int
  | RegisterResponse PhoneNumber "IceServer list"
  | IncomingCall string PhoneNumber string "SDPSession option"
  | CallRinging string
  | CallConnected string "SDPSession option" "(string \<times> string) option"
  | CallEnded string string
  | IceMsg ICETrickle
  | ErrorMsg int string
  | Pong
  | VoicemailListResponse "VoicemailInfo list" nat
  | VoicemailGetResponse string string
  | VoicemailEvent string string nat
  | DMEventMsg DMEvent
  | DMAttachment string string string string

section \<open>Events between exchanges\<close>

record pbSDP =
  pb_Sdp :: string
  pb_Type :: string

record pbICE =
  pi_Candidate :: string
  pi_SdpMid :: string
  pi_SdpMlineIndex :: "32 word"

datatype ev_type = INCOMING | RINGING | ANSWER | ICE | HANGUP | BUSY

record CallEvent =
  ev_CallId :: string
  ev_Type :: ev_type
  ev_CallerNumber :: "PhoneNumber option"
  ev_CallerName :: "string option"
  ev_Destination :: string
  ev_Sdp :: "pbSDP option"
  ev_Candidate :: "pbICE option"
  ev_Reason :: string

definition blank_event :: "string \<Rightarrow> ev_type \<Rightarrow> CallEvent" where
  "blank_event cid ty = \<lparr>ev_CallId = cid, ev_Type = ty, ev_CallerNumber = None, ev_CallerName = None,
     ev_Destination = [], ev_Sdp = None, ev_Candidate = None, ev_Reason = []\<rparr>"

definition sdpToCommon :: "SDPSession option \<Rightarrow> pbSDP option" where
  "sdpToCommon s = map_option (\<lambda>s. \<lparr>pb_Sdp = SDP s, pb_Type = SdpType s\<rparr>) s"

definition commonToSdp :: "pbSDP option \<Rightarrow> SDPSession option" where
  "commonToSdp s = map_option (\<lambda>s. \<lparr>SDP = pb_Sdp s, SdpType = pb_Type s\<rparr>) s"

definition iceToCommon :: "ICECandidate option \<Rightarrow> pbICE option" where
  "iceToCommon c = map_option (\<lambda>c. \<lparr>pi_Candidate = ic_Candidate c, pi_SdpMid = ic_SDPMid c,
     pi_SdpMlineIndex = ic_SDPMLineIndex c\<rparr>) c"

definition commonToIce :: "pbICE \<Rightarrow> ICECandidate" where
  "commonToIce c = \<lparr>ic_Candidate = pi_Candidate c, ic_SDPMid = pi_SdpMid c, ic_SDPMLineIndex = pi_SdpMlineIndex c\<rparr>"

definition sdpToWebRTC :: "pbSDP option \<Rightarrow> session_desc" where
  "sdpToWebRTC s =
     (case s of
        None \<Rightarrow> \<lparr>sd_type = SDPTypeOffer, sd_sdp = []\<rparr>
      | Some s \<Rightarrow> \<lparr>sd_type = (if pb_Type s = ''answer'' then SDPTypeAnswer else SDPTypeOffer), sd_sdp = pb_Sdp s\<rparr>)"

definition commonToICEInit :: "pbICE \<Rightarrow> ice_init" where
  "commonToICEInit c = \<lparr>ii_candidate = pi_Candidate c, ii_sdpMid = Some (pi_SdpMid c),
     ii_mline = Some (ucast (pi_SdpMlineIndex c))\<rparr>"

definition iceInitToCommon :: "ice_init \<Rightarrow> pbICE" where
  "iceInitToCommon c = \<lparr>pi_Candidate = ii_candidate c,
     pi_SdpMid = (case ii_sdpMid c of None \<Rightarrow> [] | Some m \<Rightarrow> m),
     pi_SdpMlineIndex = (case ii_mline c of None \<Rightarrow> 0 | Some l \<Rightarrow> ucast l)\<rparr>"

definition orDefault :: "string \<Rightarrow> string \<Rightarrow> string" where
  "orDefault s d = (if s = [] then d else s)"

section \<open>Services\<close>

datatype svc_obj = Echo echo_service | Conf conference | Leave leave_service

definition svc_Code :: "svc_obj \<Rightarrow> string" where
  "svc_Code v = (case v of Echo e \<Rightarrow> e_code e | Conf c \<Rightarrow> [] | Leave l \<Rightarrow> ''voicemail'')"

definition svc_Name :: "svc_obj \<Rightarrow> string" where
  "svc_Name v = (case v of Echo e \<Rightarrow> e_name e | Conf c \<Rightarrow> c_name c | Leave l \<Rightarrow> ''Voicemail'')"

definition svc_SetCaller :: "svc_obj \<Rightarrow> callID \<Rightarrow> string \<Rightarrow> svc_obj" where
  "svc_SetCaller v cid num = (case v of Echo e \<Rightarrow> Echo (SetCaller e cid num) | _ \<Rightarrow> v)"

definition svc_HandleCall :: "pion \<Rightarrow> svc_obj \<Rightarrow> callID \<Rightarrow> session_desc \<Rightarrow> (string + string) \<times> svc_obj" where
  "svc_HandleCall px v cid offer =
     (case v of
        Echo e \<Rightarrow> (case echo_HandleCall px e cid offer of (r, e) \<Rightarrow> (r, Echo e))
      | Conf c \<Rightarrow> (case conf_HandleCall px c cid offer of (r, c) \<Rightarrow> (r, Conf c))
      | Leave l \<Rightarrow> (case leave_HandleCall px l cid offer of (r, l) \<Rightarrow> (r, Leave l)))"

definition svc_HandleICE :: "pion \<Rightarrow> svc_obj \<Rightarrow> ice_init \<Rightarrow> svc_obj" where
  "svc_HandleICE px v cand =
     (case v of
        Echo e \<Rightarrow> Echo (fst (echo_HandleICE px e cand))
      | Conf c \<Rightarrow> Conf (fst (conf_HandleICE px c cand))
      | Leave l \<Rightarrow> Leave (leave_HandleICE px l cand))"

definition svc_HandleCallICE :: "pion \<Rightarrow> svc_obj \<Rightarrow> callID \<Rightarrow> ice_init \<Rightarrow> svc_obj" where
  "svc_HandleCallICE px v cid cand =
     (case v of
        Conf c \<Rightarrow> Conf (fst (conf_HandleCallICE px c cid cand))
      | _ \<Rightarrow> svc_HandleICE px v cand)"

definition svc_EndCall :: "svc_obj \<Rightarrow> callID \<Rightarrow> svc_obj" where
  "svc_EndCall v cid =
     (case v of
        Echo e \<Rightarrow> Echo (echo_EndCall e cid)
      | Conf c \<Rightarrow> Conf (conf_EndCall c cid)
      | Leave l \<Rightarrow> Leave (leave_EndCall l cid))"

definition svc_live :: "svc_obj \<Rightarrow> callID \<Rightarrow> bool" where
  "svc_live v cid =
     (case v of
        Echo e \<Rightarrow> map_of (e_calls e) cid \<noteq> None
      | Conf c \<Rightarrow> map_of (c_parts c) cid \<noteq> None
      | Leave l \<Rightarrow> map_of (l_calls l) cid \<noteq> None)"

section \<open>Server state\<close>

record Client =
  c_user :: "User option"
  sendCh :: "ServerMessage list"
  c_callID :: string

record ringState =
  r_caller :: cref
  r_callee :: cref
  r_calleeUser :: "User option"
  r_offer :: "SDPSession option"
  r_answered :: bool

record pendingCall =
  p_callID :: string
  p_caller :: "cref option"
  p_remote :: bool
  p_offer :: "SDPSession option"
  p_createdAt :: gotime

record inLeg =
  il_ptr :: nat
  il_snd :: stream
  il_callee :: "cref option"
  il_calleeNum :: string
  il_callerArea :: string
  il_callerNum :: string
  il_callerName :: string
  il_offer :: "SDPSession option"
  il_service :: "sref option"
  il_answered :: bool
  il_timer :: bool
  il_candidates :: "ice_init list"

datatype self_end = EndClient cref | EndLeg nat stream

datatype push = CallPush string string string string | VoicemailPush string string string | MessagePush string string string

record Server =
  s_store :: store
  s_auth :: AuthManager
  areaCode :: string
  clients :: "(string, cref) gomap"
  s_services :: "(string, sref) gomap"
  svcCalls :: "(callID, cref \<times> sref) gomap"
  pendingCalls :: "(string, pendingCall) gomap"
  s_pusher :: bool
  iceServers :: "IceServer list"
  netSvcs :: "(string, sref) gomap"
  s_vm :: "vm_manager option"
  s_dmm :: "dm_manager option"
  ringStates :: "(callID, ringState) gomap"
  ringTimeout :: gotime
  pendingCallTimeout :: gotime
  s_reg :: bool
  insecureFed :: bool
  gConns :: "string list"
  outLegs :: "(callID, stream) gomap"
  inLegs :: "(callID, inLeg) gomap"
  heap :: "(cref, Client) gomap"
  svcHeap :: "(sref, svc_obj) gomap"
  selfEnds :: "(sref, self_end) gomap"
  counter :: nat
  kicked :: "cref list"
  wire :: "(stream \<times> CallEvent) list"
  pushes :: "push list"

record ext =
  x_now :: gotime
  x_name :: "nat \<Rightarrow> string"
  x_pion :: pion
  x_push :: "push \<Rightarrow> bool"
  x_route :: "string \<Rightarrow> string option"
  x_resolve :: "string \<Rightarrow> string option"
  x_dial :: "string \<Rightarrow> bool \<Rightarrow> bool"
  x_bridge :: "string \<Rightarrow> bool"
  x_send :: "stream \<Rightarrow> CallEvent \<Rightarrow> bool"
  x_deliver :: "string \<Rightarrow> Envelope \<Rightarrow> (bool \<times> string) option"
  x_ed :: ed25519
  x_gcm :: gcm
  x_rand :: "nat \<Rightarrow> randomness"
  x_dberr :: "store_error \<Rightarrow> string"
  x_pick :: "nat \<Rightarrow> nat \<Rightarrow> nat"

datatype 'a outcome = Done 'a | Deadlock | Crash

definition NewServer :: "store \<Rightarrow> AuthManager \<Rightarrow> string \<Rightarrow> (string, sref) gomap \<Rightarrow> (sref, svc_obj) gomap \<Rightarrow> bool \<Rightarrow> Server" where
  "NewServer st au area regs objs pusher = \<lparr>s_store = st, s_auth = au, areaCode = area, clients = [],
     s_services = regs, svcCalls = [], pendingCalls = [], s_pusher = pusher, iceServers = [], netSvcs = [],
     s_vm = None, s_dmm = None, ringStates = [], ringTimeout = secs 15, pendingCallTimeout = secs 15,
     s_reg = False, insecureFed = False, gConns = [], outLegs = [], inLegs = [], heap = [], svcHeap = objs,
     selfEnds = [], counter = Suc (Max (insert 0 (set (akeys objs)))), kicked = [], wire = [], pushes = []\<rparr>"

definition SetCallTimeouts :: "Server \<Rightarrow> gotime \<Rightarrow> gotime \<Rightarrow> Server" where
  "SetCallTimeouts srv ring pending =
     (let ring = (if ring \<le> 0 then secs 15 else ring);
          pending = (if pending \<le> 0 then secs 15 else pending)
      in srv\<lparr>ringTimeout := ring, pendingCallTimeout := pending\<rparr>)"

definition serviceICEServers :: "Server \<Rightarrow> ICEServer list" where
  "serviceICEServers srv =
     map (\<lambda>s. \<lparr>URLs = iURLs s, ise_Username = iUsername s, ise_Credential = iCredential s\<rparr>) (iceServers srv)"

definition SetVoicemail :: "Server \<Rightarrow> vm_manager option \<Rightarrow> Server" where
  "SetVoicemail srv m = srv\<lparr>s_vm := m\<rparr>"

definition SetDM :: "Server \<Rightarrow> dm_manager option \<Rightarrow> Server" where
  "SetDM srv m = srv\<lparr>s_dmm := m\<rparr>"

definition SetRegistry :: "Server \<Rightarrow> bool \<Rightarrow> Server" where
  "SetRegistry srv r = srv\<lparr>s_reg := r\<rparr>"

definition SetFedInsecure :: "Server \<Rightarrow> bool \<Rightarrow> Server" where
  "SetFedInsecure srv v = srv\<lparr>insecureFed := v\<rparr>"

definition SetAreaCode :: "Server \<Rightarrow> string \<Rightarrow> Server" where
  "SetAreaCode srv a = srv\<lparr>areaCode := a\<rparr>"

definition SetPusher :: "Server \<Rightarrow> bool \<Rightarrow> Server" where
  "SetPusher srv p = srv\<lparr>s_pusher := p\<rparr>"

definition srv_SetICEServers :: "Server \<Rightarrow> IceServer list \<Rightarrow> Server" where
  "srv_SetICEServers srv servers = srv\<lparr>iceServers := servers\<rparr>"

definition RegisterNetworkService :: "Server \<Rightarrow> string \<Rightarrow> svc_obj \<Rightarrow> Server" where
  "RegisterNetworkService srv fullNumber svc =
     srv\<lparr>netSvcs := aput fullNumber (counter srv) (netSvcs srv),
         svcHeap := aput (counter srv) svc (svcHeap srv), counter := Suc (counter srv)\<rparr>"

definition networkService :: "Server \<Rightarrow> string \<Rightarrow> sref option" where
  "networkService srv fullNumber = map_of (netSvcs srv) fullNumber"

definition OnlineNumbers :: "Server \<Rightarrow> string set" where
  "OnlineNumbers srv = set (akeys (clients srv))"

section \<open>Connections\<close>

definition client :: "Server \<Rightarrow> cref \<Rightarrow> Client" where
  "client srv c = (case map_of (heap srv) c of None \<Rightarrow> \<lparr>c_user = None, sendCh = [], c_callID = []\<rparr> | Some cl \<Rightarrow> cl)"

definition user_of :: "Server \<Rightarrow> cref \<Rightarrow> User option" where
  "user_of srv c = c_user (client srv c)"

definition call_of :: "Server \<Rightarrow> cref \<Rightarrow> string" where
  "call_of srv c = c_callID (client srv c)"

definition upd_client :: "Server \<Rightarrow> cref \<Rightarrow> (Client \<Rightarrow> Client) \<Rightarrow> Server" where
  "upd_client srv c f = srv\<lparr>heap := aput c (f (client srv c)) (heap srv)\<rparr>"

definition set_call :: "Server \<Rightarrow> cref \<Rightarrow> string \<Rightarrow> Server" where
  "set_call srv c cid = upd_client srv c (\<lambda>cl. cl\<lparr>c_callID := cid\<rparr>)"

definition sendCap :: nat where "sendCap = 64"

definition sendMessage :: "Server \<Rightarrow> cref \<Rightarrow> ServerMessage \<Rightarrow> Server" where
  "sendMessage srv c msg =
     upd_client srv c (\<lambda>cl. if length (sendCh cl) < sendCap then cl\<lparr>sendCh := sendCh cl @ [msg]\<rparr> else cl)"

definition sendError :: "Server \<Rightarrow> cref \<Rightarrow> int \<Rightarrow> string \<Rightarrow> Server" where
  "sendError srv c code message = sendMessage srv c (ErrorMsg code message)"

text \<open>A new WebSocket connection, and one iteration of its write pump.\<close>

definition HandleWebSocket :: "Server \<Rightarrow> cref \<times> Server" where
  "HandleWebSocket srv =
     (counter srv, srv\<lparr>heap := aput (counter srv) \<lparr>c_user = None, sendCh = [], c_callID = []\<rparr> (heap srv),
                      counter := Suc (counter srv)\<rparr>)"

definition writePump :: "Server \<Rightarrow> cref \<Rightarrow> Server" where
  "writePump srv c = upd_client srv c (\<lambda>cl. cl\<lparr>sendCh := tl (sendCh cl)\<rparr>)"

definition isOnline :: "Server \<Rightarrow> cref option \<Rightarrow> bool" where
  "isOnline srv c =
     (case c of
        None \<Rightarrow> False
      | Some c \<Rightarrow>
          (case user_of srv c of
             None \<Rightarrow> False
           | Some u \<Rightarrow> map_of (clients srv) (Number u) = Some c))"

definition generateCallID :: "ext \<Rightarrow> Server \<Rightarrow> string \<times> Server" where
  "generateCallID x srv = (x_name x (counter srv), srv\<lparr>counter := Suc (counter srv)\<rparr>)"

definition fresh_ref :: "Server \<Rightarrow> nat \<times> Server" where
  "fresh_ref srv = (counter srv, srv\<lparr>counter := Suc (counter srv)\<rparr>)"

definition snd_event :: "ext \<Rightarrow> Server \<Rightarrow> stream \<Rightarrow> CallEvent \<Rightarrow> bool \<times> Server" where
  "snd_event x srv st ev =
     (if x_send x st ev then (True, srv\<lparr>wire := wire srv @ [(st, ev)]\<rparr>) else (False, srv))"

definition send_push :: "ext \<Rightarrow> Server \<Rightarrow> push \<Rightarrow> bool \<times> Server" where
  "send_push x srv p = (if x_push x p then (True, srv\<lparr>pushes := pushes srv @ [p]\<rparr>) else (False, srv))"

definition svc_obj_of :: "Server \<Rightarrow> sref \<Rightarrow> svc_obj option" where
  "svc_obj_of srv v = map_of (svcHeap srv) v"

definition upd_svc :: "Server \<Rightarrow> sref \<Rightarrow> (svc_obj \<Rightarrow> svc_obj) \<Rightarrow> Server" where
  "upd_svc srv v f = (case svc_obj_of srv v of None \<Rightarrow> srv | Some o' \<Rightarrow> srv\<lparr>svcHeap := aput v (f o') (svcHeap srv)\<rparr>)"

definition end_svc :: "Server \<Rightarrow> sref \<Rightarrow> callID \<Rightarrow> Server" where
  "end_svc srv v cid = upd_svc srv v (\<lambda>o'. svc_EndCall o' cid)"

section \<open>Lemmas\<close>

named_theorems sig_simps \<open>how the small operations act on the fields of the server\<close>

lemma client_upd [sig_simps]: "client (upd_client srv c f) d = (if d = c then f (client srv c) else client srv d)"
  by (simp add: client_def upd_client_def)

lemma user_upd [sig_simps]: "user_of (upd_client srv c f) d = (if d = c then c_user (f (client srv c)) else user_of srv d)"
  by (simp add: user_of_def client_upd)

lemma call_upd [sig_simps]: "call_of (upd_client srv c f) d = (if d = c then c_callID (f (client srv c)) else call_of srv d)"
  by (simp add: call_of_def client_upd)

end
