(* ===== verification/Sig_Voice.thy ===== *)
theory Sig_Voice
  imports Sig_State
begin

text \<open>
  Ringing and voicemail routing of the signaling server (\<open>server.go\<close>, \<open>bridge.go\<close>): a call that an
  online subscriber does not take, or takes too long to take, is answered by the recorder, for a
  caller of this exchange (\<open>routeToVoicemail\<close>) and for a caller behind a bridge
  (\<open>routeInboundVoicemail\<close>).

  A ring timer runs exactly while its entry is in \<open>ringStates\<close> (or while \<open>il_timer\<close> of the leg is set);
  its firing is the step \<open>onRingTimeout\<close>.
\<close>

section \<open>Rings\<close>

definition startRing :: "Server \<Rightarrow> callID \<Rightarrow> cref \<Rightarrow> cref \<Rightarrow> SDPSession option \<Rightarrow> Server" where
  "startRing srv cid caller callee offer =
     srv\<lparr>ringStates := aput cid \<lparr>r_caller = caller, r_callee = callee, r_calleeUser = user_of srv callee,
          r_offer = offer, r_answered = False\<rparr> (ringStates srv)\<rparr>"

definition takeRing :: "Server \<Rightarrow> callID \<Rightarrow> ringState option \<times> Server" where
  "takeRing srv cid =
     (case map_of (ringStates srv) cid of
        None \<Rightarrow> (None, srv)
      | Some rs \<Rightarrow> (Some rs, srv\<lparr>ringStates := adel cid (ringStates srv)\<rparr>))"

definition clearCallID :: "Server \<Rightarrow> cref option \<Rightarrow> callID \<Rightarrow> Server" where
  "clearCallID srv c cid =
     (case c of
        None \<Rightarrow> srv
      | Some c \<Rightarrow> if call_of srv c = cid then set_call srv c [] else srv)"

definition endForClient :: "Server \<Rightarrow> cref option \<Rightarrow> callID \<Rightarrow> string \<Rightarrow> Server" where
  "endForClient srv c cid reason =
     (case c of
        None \<Rightarrow> srv
      | Some d \<Rightarrow> sendMessage (clearCallID srv (Some d) cid) d (CallEnded cid reason))"

section \<open>Service calls\<close>

definition endServiceCall :: "Server \<Rightarrow> cref option \<Rightarrow> callID \<Rightarrow> string \<Rightarrow> Server" where
  "endServiceCall srv caller cid reason =
     (let sc = map_of (svcCalls srv) cid;
          srv = (if sc \<noteq> None then srv\<lparr>svcCalls := adel cid (svcCalls srv)\<rparr> else srv);
          srv = (case caller of
                   None \<Rightarrow> srv
                 | Some d \<Rightarrow> sendMessage (clearCallID srv (Some d) cid) d (CallEnded cid reason))
      in case sc of None \<Rightarrow> srv | Some (_, v) \<Rightarrow> end_svc srv v cid)"

text \<open>The candidate callback of a service, for a local caller and for a caller behind a bridge.\<close>

definition makeSendICE :: "Server \<Rightarrow> cref \<Rightarrow> callID \<Rightarrow> ice_init \<Rightarrow> Server" where
  "makeSendICE srv c cid cand =
     sendMessage srv c (IceMsg \<lparr>it_CallID = cid, it_Candidate = Some
       \<lparr>ic_Candidate = ii_candidate cand,
        ic_SDPMid = (case ii_sdpMid cand of None \<Rightarrow> [] | Some m \<Rightarrow> m),
        ic_SDPMLineIndex = (case ii_mline cand of None \<Rightarrow> 0 | Some l \<Rightarrow> ucast l)\<rparr>\<rparr>)"

definition bridgeSendICE :: "ext \<Rightarrow> Server \<Rightarrow> stream \<Rightarrow> callID \<Rightarrow> ice_init \<Rightarrow> Server" where
  "bridgeSendICE x srv st cid cand = snd (snd_event x srv st ((blank_event cid ICE)\<lparr>ev_Candidate := Some (iceInitToCommon cand)\<rparr>))"

section \<open>Voicemail for a local caller\<close>

definition routeToVoicemail ::
  "ext \<Rightarrow> Server \<Rightarrow> cref \<Rightarrow> User option \<Rightarrow> SDPSession option \<Rightarrow> callID \<Rightarrow> bool \<times> Server" where
  "routeToVoicemail x srv caller recipient offer reuseCallID =
     (case (recipient, offer, user_of srv caller) of
        (Some r, Some sdp, Some cu) \<Rightarrow>
          if \<not> Enabled (s_vm srv) \<or> \<not> isOnline srv (Some caller) then (False, srv)
          else
            let (cid, srv) = (if reuseCallID = [] then generateCallID x srv else (reuseCallID, srv));
                lv = NewLeaveService r (canonicalNumber (AreaCode cu) (Number cu)) (DisplayName cu);
                lv = SetICEServers lv (serviceICEServers srv)
            in (case leave_HandleCall (x_pion x) lv cid \<lparr>sd_type = SDPTypeOffer, sd_sdp = SDP sdp\<rparr> of
                  (Inl _, _) \<Rightarrow> (False, srv)
                | (Inr answer, lv) \<Rightarrow>
                    let (v, srv) = fresh_ref srv;
                        srv = srv\<lparr>svcHeap := aput v (Leave lv) (svcHeap srv),
                                  selfEnds := aput v (EndClient caller) (selfEnds srv)\<rparr>;
                        srv = srv\<lparr>svcCalls := aput cid (caller, v) (svcCalls srv)\<rparr>;
                        srv = set_call srv caller cid
                    in (True, sendMessage srv caller
                         (CallConnected cid (Some \<lparr>SDP = answer, SdpType = ''answer''\<rparr>) (Some (''vm'', ''Voicemail'')))))
      | _ \<Rightarrow> (False, srv))"

definition onRingTimeout :: "ext \<Rightarrow> Server \<Rightarrow> callID \<Rightarrow> Server" where
  "onRingTimeout x srv cid =
     (case map_of (ringStates srv) cid of
        None \<Rightarrow> srv
      | Some rs \<Rightarrow>
          let srv = srv\<lparr>ringStates := adel cid (ringStates srv)\<rparr> in
          if r_answered rs then srv
          else
            let srv = clearCallID srv (Some (r_callee rs)) cid;
                srv = sendMessage srv (r_callee rs) (CallEnded cid ''no answer'')
            in if \<not> isOnline srv (Some (r_caller rs)) then srv
               else
                 (case routeToVoicemail x srv (r_caller rs) (r_calleeUser rs) (r_offer rs) cid of
                    (True, srv) \<Rightarrow> srv
                  | (False, srv) \<Rightarrow> endForClient srv (Some (r_caller rs)) cid ''no answer''))"

section \<open>Voicemail for a caller behind a bridge\<close>

definition put_leg :: "Server \<Rightarrow> callID \<Rightarrow> inLeg \<Rightarrow> Server" where
  "put_leg srv cid leg = srv\<lparr>inLegs := aput cid leg (inLegs srv)\<rparr>"

definition removeInLeg :: "Server \<Rightarrow> callID \<Rightarrow> Server" where
  "removeInLeg srv cid = srv\<lparr>inLegs := adel cid (inLegs srv)\<rparr>"

definition leg_hangup :: "ext \<Rightarrow> Server \<Rightarrow> stream \<Rightarrow> callID \<Rightarrow> string \<Rightarrow> Server" where
  "leg_hangup x srv st cid reason = snd (snd_event x srv st ((blank_event cid HANGUP)\<lparr>ev_Reason := reason\<rparr>))"

text \<open>\<open>leg\<close> is the entry of \<open>inLegs\<close> for the call; the fields the code sets through the pointer are set there.\<close>

definition routeInboundVoicemail :: "ext \<Rightarrow> Server \<Rightarrow> inLeg \<Rightarrow> callID \<Rightarrow> bool \<times> Server" where
  "routeInboundVoicemail x srv leg cid =
     (case il_offer leg of
        None \<Rightarrow> (False, srv)
      | Some sdp \<Rightarrow>
          if \<not> Enabled (s_vm srv) then (False, srv)
          else
            (case GetUserByNumber (s_store srv) (il_calleeNum leg) of
               Inr (Some r) \<Rightarrow>
                 let lv = NewLeaveService r (canonicalNumber (il_callerArea leg) (il_callerNum leg)) (il_callerName leg);
                     lv = SetICEServers lv (serviceICEServers srv);
                     (v, srv) = fresh_ref srv;
                     leg = leg\<lparr>il_service := Some v, il_callee := None, il_answered := True\<rparr>
                 in (case leave_HandleCall (x_pion x) lv cid \<lparr>sd_type = SDPTypeOffer, sd_sdp = SDP sdp\<rparr> of
                       (Inl _, _) \<Rightarrow> (False, put_leg srv cid (leg\<lparr>il_service := None, il_answered := False\<rparr>))
                     | (Inr answer, lv) \<Rightarrow>
                         let srv = put_leg srv cid leg;
                             srv = snd (snd_event x srv (il_snd leg) ((blank_event cid ANSWER)
                                     \<lparr>ev_Sdp := Some \<lparr>pb_Sdp = answer, pb_Type = ''answer''\<rparr>\<rparr>));
                             lv = fold (\<lambda>c lv. leave_HandleICE (x_pion x) lv c) (il_candidates leg) lv
                         in (True, srv\<lparr>svcHeap := aput v (Leave lv) (svcHeap srv),
                                       selfEnds := aput v (EndLeg (il_ptr leg) (il_snd leg)) (selfEnds srv)\<rparr>))
             | _ \<Rightarrow> (False, srv)))"

definition endInboundCalleeRing :: "Server \<Rightarrow> callID \<Rightarrow> Server" where
  "endInboundCalleeRing srv cid =
     (case map_of (inLegs srv) cid of
        None \<Rightarrow> srv
      | Some leg \<Rightarrow>
          let srv = put_leg srv cid (leg\<lparr>il_callee := None\<rparr>) in
          (case il_callee leg of
             None \<Rightarrow> srv
           | Some d \<Rightarrow> sendMessage (clearCallID srv (Some d) cid) d (CallEnded cid ''no answer'')))"

definition onInboundRingTimeout :: "ext \<Rightarrow> Server \<Rightarrow> callID \<Rightarrow> Server" where
  "onInboundRingTimeout x srv cid =
     (case map_of (inLegs srv) cid of
        None \<Rightarrow> srv
      | Some leg \<Rightarrow>
          if il_callee leg = None \<or> il_answered leg \<or> il_service leg \<noteq> None then srv
          else
            let srv = put_leg srv cid (leg\<lparr>il_timer := False\<rparr>);
                srv = endInboundCalleeRing srv cid;
                leg = leg\<lparr>il_timer := False, il_callee := None\<rparr>
            in (case routeInboundVoicemail x srv leg cid of
                  (True, srv) \<Rightarrow> srv
                | (False, srv) \<Rightarrow> removeInLeg (leg_hangup x srv (il_snd leg) cid ''no answer'') cid))"

definition declineInboundCallee :: "ext \<Rightarrow> Server \<Rightarrow> cref \<Rightarrow> callID \<Rightarrow> bool \<times> Server" where
  "declineInboundCallee x srv c cid =
     (case map_of (inLegs srv) cid of
        None \<Rightarrow> (False, srv)
      | Some leg \<Rightarrow>
          if il_callee leg \<noteq> Some c \<or> il_answered leg \<or> il_service leg \<noteq> None then (False, srv)
          else
            let leg = leg\<lparr>il_timer := False, il_callee := None\<rparr>;
                srv = clearCallID (put_leg srv cid leg) (Some c) cid
            in (case routeInboundVoicemail x srv leg cid of
                  (True, srv) \<Rightarrow> (True, srv)
                | (False, srv) \<Rightarrow> (True, removeInLeg (leg_hangup x srv (il_snd leg) cid ''declined'') cid)))"

section \<open>The end of a recording\<close>

definition NotifyVoicemailStored :: "ext \<Rightarrow> Server \<Rightarrow> string \<Rightarrow> string \<Rightarrow> string \<Rightarrow> Server" where
  "NotifyVoicemailStored x srv recipientNumber callerNumber callerName =
     (let unread = (case CountUnlistened (s_store srv) recipientNumber of Inl _ \<Rightarrow> 0 | Inr n \<Rightarrow> n) in
      case map_of (clients srv) recipientNumber of
        Some c \<Rightarrow> sendMessage srv c (VoicemailEvent callerNumber callerName unread)
      | None \<Rightarrow>
          (case GetUserByNumber (s_store srv) recipientNumber of
             Inr (Some u) \<Rightarrow>
               if FCMToken u = [] \<or> \<not> s_pusher srv then srv
               else snd (send_push x srv (VoicemailPush (FCMToken u) callerNumber callerName))
           | _ \<Rightarrow> srv))"

definition OnSelfEnd :: "ext \<Rightarrow> Server \<Rightarrow> self_end \<Rightarrow> callID \<Rightarrow> Server" where
  "OnSelfEnd x srv se cid =
     (case se of
        EndClient c \<Rightarrow> endServiceCall srv (Some c) cid ''voicemail complete''
      | EndLeg p st \<Rightarrow>
          let srv = leg_hangup x srv st cid ''voicemail complete'' in
          (case map_of (inLegs srv) cid of
             Some leg \<Rightarrow> if il_ptr leg = p then removeInLeg srv cid else srv
           | None \<Rightarrow> srv))"

text \<open>
  The recording session of the recorder \<open>v\<close>, from the first packet to the end, with the two hooks
  of the server: \<open>OnStored\<close> of the manager and \<open>OnSelfEnd\<close> of the recorder. The identifier of the
  message is drawn by \<open>uuid.NewString\<close>.
\<close>

definition record_session ::
  "ext \<Rightarrow> Server \<Rightarrow> sref \<Rightarrow> callID \<Rightarrow> (nat \<Rightarrow> bytes \<Rightarrow> pcm option) option \<Rightarrow> bool \<Rightarrow> rtp_packet list \<Rightarrow> Server" where
  "record_session x srv v cid decoder played pkts =
     (case (svc_obj_of srv v, s_vm srv) of
        (Some (Leave l), Some m) \<Rightarrow>
          let (uid, srv) = generateCallID x srv in
          (case runRecordSession (x_gcm x) (x_rand x 0) (x_rand x 1) uid decoder m (s_store srv) (x_now x) l cid played pkts of
             ((stored, selfEnd), l', m', s') \<Rightarrow>
               let srv = srv\<lparr>s_vm := Some m', s_store := s', svcHeap := aput v (Leave l') (svcHeap srv)\<rparr>;
                   srv = (case stored of
                            None \<Rightarrow> srv
                          | Some _ \<Rightarrow> NotifyVoicemailStored x srv (Number (l_recipient l)) (l_callerNum l) (l_callerName l))
               in (if selfEnd then
                     (case map_of (selfEnds srv) v of None \<Rightarrow> srv | Some se \<Rightarrow> OnSelfEnd x srv se cid)
                   else srv))
      | _ \<Rightarrow> srv)"

end
