(* ===== verification/Sig_Bridge.thy ===== *)
theory Sig_Bridge
  imports Sig_Voice
begin

text \<open>
  Calls between exchanges (\<open>bridge.go\<close> and the cross-exchange helpers of \<open>server.go\<close>): the outbound
  side, where this exchange hosts the caller, and the inbound side, where it hosts the callee.

  A bridge is a gRPC stream; the model names it by a number. The outbound reader and the inbound
  server are loops over the events of a stream: each event is one step, and the end of the
  stream is one step with the deferred clean-up.
\<close>

section \<open>Connections and pending calls\<close>

definition bridgeConn :: "ext \<Rightarrow> Server \<Rightarrow> string \<Rightarrow> bool \<Rightarrow> bool \<times> Server" where
  "bridgeConn x srv addr insecureConn =
     (if addr \<in> set (gConns srv) then (True, srv)
      else if x_dial x addr insecureConn then (True, srv\<lparr>gConns := addr # gConns srv\<rparr>)
      else (False, srv))"

fun remove_pending :: "callID \<Rightarrow> (string, pendingCall) gomap \<Rightarrow> (string, pendingCall) gomap" where
  "remove_pending cid [] = []"
| "remove_pending cid ((num, p) # ps) = (if p_callID p = cid then ps else (num, p) # remove_pending cid ps)"

definition removePendingByCallID :: "Server \<Rightarrow> callID \<Rightarrow> bool \<times> Server" where
  "removePendingByCallID srv cid =
     (if \<exists>(num, p) \<in> set (pendingCalls srv). p_callID p = cid
      then (True, srv\<lparr>pendingCalls := remove_pending cid (pendingCalls srv)\<rparr>)
      else (False, srv))"

definition closeLocalLeg :: "ext \<Rightarrow> Server \<Rightarrow> cref \<Rightarrow> callID \<Rightarrow> string \<Rightarrow> bool \<times> Server" where
  "closeLocalLeg x srv c cid reason =
     (case map_of (outLegs srv) cid of
        Some st \<Rightarrow> (True, leg_hangup x (srv\<lparr>outLegs := adel cid (outLegs srv)\<rparr>) st cid reason)
      | None \<Rightarrow>
          (case map_of (inLegs srv) cid of
             Some leg \<Rightarrow>
               if il_callee leg = Some c then (True, leg_hangup x (removeInLeg srv cid) (il_snd leg) cid reason)
               else (False, srv)
           | None \<Rightarrow> (False, srv)))"

section \<open>Outbound calls\<close>

definition caller_name :: "User \<Rightarrow> string" where
  "caller_name u = (if DisplayName u = [] then Number u else DisplayName u)"

text \<open>The two outbound calls differ in how the address is found and in the text of the error.\<close>

definition open_bridge :: "ext \<Rightarrow> Server \<Rightarrow> cref \<Rightarrow> User \<Rightarrow> string \<Rightarrow> string \<Rightarrow> string \<Rightarrow> SDPSession option \<Rightarrow> Server" where
  "open_bridge x srv c u addr dest err offer =
     (case bridgeConn x srv addr (insecureFed srv) of
        (False, srv) \<Rightarrow> sendError srv c 502 err
      | (True, srv) \<Rightarrow>
          if \<not> x_bridge x addr then sendError srv c 502 err
          else
            let (st, srv) = fresh_ref srv;
                (cid, srv) = generateCallID x srv;
                ev = (blank_event cid INCOMING)
                       \<lparr>ev_CallerNumber := Some \<lparr>pn_AreaCode = areaCode srv, pn_Number = Number u\<rparr>,
                        ev_CallerName := Some (caller_name u), ev_Destination := dest, ev_Sdp := sdpToCommon offer\<rparr>
            in (case snd_event x srv st ev of
                  (False, srv) \<Rightarrow> sendError srv c 502 err
                | (True, srv) \<Rightarrow>
                    let srv = set_call srv c cid
                    in srv\<lparr>outLegs := aput cid st (outLegs srv)\<rparr>))"

definition startCrossCall :: "ext \<Rightarrow> Server \<Rightarrow> cref \<Rightarrow> string \<Rightarrow> string \<Rightarrow> SDPSession option \<Rightarrow> Server" where
  "startCrossCall x srv c remoteArea localNum offer =
     (case user_of srv c of
        None \<Rightarrow> sendError srv c 401 ''not registered''
      | Some u \<Rightarrow>
          (case x_route x remoteArea of
             None \<Rightarrow> sendError srv c 404 ''number unreachable (no route)''
           | Some addr \<Rightarrow> open_bridge x srv c u addr localNum ''destination server unreachable'' offer))"

definition startServiceCall :: "ext \<Rightarrow> Server \<Rightarrow> cref \<Rightarrow> string \<Rightarrow> string \<Rightarrow> SDPSession option \<Rightarrow> Server" where
  "startServiceCall x srv c addr fullNumber offer =
     (case user_of srv c of
        None \<Rightarrow> sendError srv c 401 ''not registered''
      | Some u \<Rightarrow> open_bridge x srv c u addr fullNumber ''service host unreachable'' offer)"

text \<open>The deferred clean-up of the outbound reader, and one received event; \<open>None\<close> is an error of the stream.\<close>

definition out_cleanup :: "Server \<Rightarrow> callID \<Rightarrow> cref \<Rightarrow> Server" where
  "out_cleanup srv cid caller = clearCallID (srv\<lparr>outLegs := adel cid (outLegs srv)\<rparr>) (Some caller) cid"

datatype recv = Ev CallEvent | EOF | StreamErr

definition outboundReadLoop :: "Server \<Rightarrow> callID \<Rightarrow> cref \<Rightarrow> recv \<Rightarrow> Server" where
  "outboundReadLoop srv cid caller r =
     (case r of
        EOF \<Rightarrow> out_cleanup srv cid caller
      | StreamErr \<Rightarrow> out_cleanup (sendMessage srv caller (CallEnded cid ''disconnect'')) cid caller
      | Ev ev \<Rightarrow>
          (case ev_Type ev of
             RINGING \<Rightarrow> sendMessage srv caller (CallRinging cid)
           | ANSWER \<Rightarrow>
               if ev_Sdp ev \<noteq> None then sendMessage srv caller (CallConnected cid (commonToSdp (ev_Sdp ev)) None) else srv
           | ICE \<Rightarrow>
               (case ev_Candidate ev of
                  None \<Rightarrow> srv
                | Some cand \<Rightarrow> sendMessage srv caller (IceMsg \<lparr>it_CallID = cid, it_Candidate = Some (commonToIce cand)\<rparr>))
           | HANGUP \<Rightarrow> out_cleanup (sendMessage srv caller (CallEnded cid (orDefault (ev_Reason ev) ''hangup''))) cid caller
           | BUSY \<Rightarrow> out_cleanup (sendMessage srv caller (CallEnded cid (orDefault (ev_Reason ev) ''hangup''))) cid caller
           | INCOMING \<Rightarrow> srv))"

section \<open>Inbound calls\<close>

definition handleNetService :: "ext \<Rightarrow> Server \<Rightarrow> stream \<Rightarrow> CallEvent \<Rightarrow> callID \<Rightarrow> sref \<Rightarrow> bool \<times> Server" where
  "handleNetService x srv st ev cid v =
     (case svc_obj_of srv v of
        None \<Rightarrow> (False, srv)
      | Some svc \<Rightarrow>
          (case svc_HandleCall (x_pion x) svc cid (sdpToWebRTC (ev_Sdp ev)) of
             (Inl _, svc) \<Rightarrow>
               (False, snd (snd_event x (upd_svc srv v (\<lambda>_. svc)) st ((blank_event cid BUSY)\<lparr>ev_Reason := ''service error''\<rparr>)))
           | (Inr answer, svc) \<Rightarrow>
               snd_event x (upd_svc srv v (\<lambda>_. svc)) st
                 ((blank_event cid ANSWER)\<lparr>ev_Sdp := Some \<lparr>pb_Sdp = answer, pb_Type = ''answer''\<rparr>\<rparr>)))"

definition busy :: "ext \<Rightarrow> Server \<Rightarrow> stream \<Rightarrow> callID \<Rightarrow> Server" where
  "busy x srv st cid =
     removeInLeg (snd (snd_event x srv st ((blank_event cid BUSY)\<lparr>ev_Reason := ''callee unavailable''\<rparr>))) cid"

definition new_leg :: "stream \<Rightarrow> CallEvent \<Rightarrow> nat \<Rightarrow> inLeg" where
  "new_leg st ev p =
     \<lparr>il_ptr = p, il_snd = st, il_callee = None, il_calleeNum = ev_Destination ev,
      il_callerArea = (case ev_CallerNumber ev of None \<Rightarrow> [] | Some n \<Rightarrow> pn_AreaCode n),
      il_callerNum = (case ev_CallerNumber ev of None \<Rightarrow> [] | Some n \<Rightarrow> pn_Number n),
      il_callerName = (case ev_CallerName ev of None \<Rightarrow> [] | Some n \<Rightarrow> n),
      il_offer = commonToSdp (ev_Sdp ev), il_service = None, il_answered = False, il_timer = False, il_candidates = []\<rparr>"

text \<open>A connected callee rings; the timer of the leg runs.\<close>

definition inbound_online :: "ext \<Rightarrow> Server \<Rightarrow> stream \<Rightarrow> CallEvent \<Rightarrow> callID \<Rightarrow> inLeg \<Rightarrow> cref \<Rightarrow> Server" where
  "inbound_online x srv st ev cid leg c =
     (let srv = put_leg srv cid (leg\<lparr>il_callee := Some c, il_timer := True\<rparr>);
          srv = set_call srv c cid;
          srv = sendMessage srv c (IncomingCall cid \<lparr>pn_AreaCode = il_callerArea leg, pn_Number = il_callerNum leg\<rparr>
                  (il_callerName leg) (commonToSdp (ev_Sdp ev)))
      in snd (snd_event x srv st (blank_event cid RINGING)))"

text \<open>A callee who is not connected is woken by a push, or the caller reaches the voicemail.\<close>

definition inbound_offline :: "ext \<Rightarrow> Server \<Rightarrow> stream \<Rightarrow> CallEvent \<Rightarrow> callID \<Rightarrow> inLeg \<Rightarrow> callID \<times> Server" where
  "inbound_offline x srv st ev cid leg =
     (case GetUserByNumber (s_store srv) (ev_Destination ev) of
        Inr (Some callee) \<Rightarrow>
          if FCMToken callee = [] \<or> \<not> s_pusher srv then
            (case routeInboundVoicemail x srv leg cid of
               (True, srv) \<Rightarrow> (cid, srv)
             | (False, srv) \<Rightarrow> ([], busy x srv st cid))
          else
            let srv = srv\<lparr>pendingCalls := aput (ev_Destination ev) \<lparr>p_callID = cid, p_caller = None, p_remote = True,
                   p_offer = commonToSdp (ev_Sdp ev), p_createdAt = x_now x\<rparr> (pendingCalls srv)\<rparr>
            in (case send_push x srv (CallPush (FCMToken callee) cid (il_callerArea leg @ il_callerNum leg) (il_callerName leg)) of
                  (False, srv) \<Rightarrow> ([], busy x (srv\<lparr>pendingCalls := adel (ev_Destination ev) (pendingCalls srv)\<rparr>) st cid)
                | (True, srv) \<Rightarrow> (cid, snd (snd_event x srv st (blank_event cid RINGING))))
      | _ \<Rightarrow> ([], busy x srv st cid))"

text \<open>The result is the identifier the stream has to clean up, empty when the call was refused.\<close>

definition inboundIncoming :: "ext \<Rightarrow> Server \<Rightarrow> stream \<Rightarrow> CallEvent \<Rightarrow> callID \<times> Server" where
  "inboundIncoming x srv st ev =
     (let (cid, srv) = (if ev_CallId ev = [] then generateCallID x srv else (ev_CallId ev, srv));
          (p, srv) = fresh_ref srv;
          leg = new_leg st ev p
      in case networkService srv (ev_Destination ev) of
           Some v \<Rightarrow>
             (case handleNetService x (put_leg srv cid (leg\<lparr>il_service := Some v\<rparr>)) st ev cid v of
                (False, srv) \<Rightarrow> ([], removeInLeg srv cid)
              | (True, srv) \<Rightarrow> (cid, srv))
         | None \<Rightarrow>
             (case map_of (clients srv) (ev_Destination ev) of
                Some c \<Rightarrow> (cid, inbound_online x (put_leg srv cid leg) st ev cid leg c)
              | None \<Rightarrow> inbound_offline x (put_leg srv cid leg) st ev cid leg))"

definition inboundICE :: "ext \<Rightarrow> Server \<Rightarrow> CallEvent \<Rightarrow> Server" where
  "inboundICE x srv ev =
     (case (map_of (inLegs srv) (ev_CallId ev), ev_Candidate ev) of
        (Some leg, Some cand) \<Rightarrow>
          let srv = (if il_callee leg \<noteq> None
                     then put_leg srv (ev_CallId ev) (leg\<lparr>il_candidates := il_candidates leg @ [commonToICEInit cand]\<rparr>)
                     else srv)
          in (case il_service leg of
                Some v \<Rightarrow> upd_svc srv v (\<lambda>svc. svc_HandleCallICE (x_pion x) svc (ev_CallId ev) (commonToICEInit cand))
              | None \<Rightarrow>
                  (case il_callee leg of
                     None \<Rightarrow> srv
                   | Some c \<Rightarrow> sendMessage srv c (IceMsg \<lparr>it_CallID = ev_CallId ev, it_Candidate = Some (commonToIce cand)\<rparr>)))
      | _ \<Rightarrow> srv)"

definition inboundRemoteHangup :: "Server \<Rightarrow> callID \<Rightarrow> string \<Rightarrow> Server" where
  "inboundRemoteHangup srv cid reason =
     (case map_of (inLegs srv) cid of
        None \<Rightarrow> snd (removePendingByCallID srv cid)
      | Some leg \<Rightarrow>
          let srv = removeInLeg srv cid in
          (case il_service leg of
             Some v \<Rightarrow> end_svc srv v cid
           | None \<Rightarrow>
               (case il_callee leg of
                  Some c \<Rightarrow> sendMessage (clearCallID srv (Some c) cid) c (CallEnded cid (orDefault reason ''hangup''))
                | None \<Rightarrow> snd (removePendingByCallID srv cid))))"

text \<open>One event received on an inbound stream that has opened the calls \<open>opened\<close>.\<close>

definition serveInbound :: "ext \<Rightarrow> Server \<Rightarrow> stream \<Rightarrow> callID list \<Rightarrow> CallEvent \<Rightarrow> callID list \<times> Server" where
  "serveInbound x srv st opened ev =
     (case ev_Type ev of
        INCOMING \<Rightarrow> (case inboundIncoming x srv st ev of (cid, srv) \<Rightarrow> (if cid \<noteq> [] then opened @ [cid] else opened, srv))
      | ICE \<Rightarrow> (opened, inboundICE x srv ev)
      | HANGUP \<Rightarrow> (opened, inboundRemoteHangup srv (ev_CallId ev) (ev_Reason ev))
      | _ \<Rightarrow> (opened, srv))"

definition inbound_close_one :: "Server \<Rightarrow> callID \<Rightarrow> Server" where
  "inbound_close_one srv cid =
     (let srv =
        (case map_of (inLegs srv) cid of
           None \<Rightarrow> srv
         | Some leg \<Rightarrow>
             let srv = removeInLeg srv cid in
             (case il_service leg of
                Some v \<Rightarrow> end_svc srv v cid
              | None \<Rightarrow>
                  (case il_callee leg of
                     None \<Rightarrow> srv
                   | Some c \<Rightarrow> sendMessage (clearCallID srv (Some c) cid) c (CallEnded cid ''disconnect''))))
      in snd (removePendingByCallID srv cid))"

text \<open>The deferred clean-up at the end of the stream.\<close>

definition inbound_close :: "Server \<Rightarrow> callID list \<Rightarrow> Server" where
  "inbound_close srv opened = fold (\<lambda>cid srv. inbound_close_one srv cid) opened srv"

end
