(* ===== verification/Sig_Calls.thy ===== *)
theory Sig_Calls
  imports Sig_Bridge
begin

text \<open>
  The call handlers of \<open>server.go\<close>: dialing, answering, hanging up, declining, trickling candidates,
  calls waiting for a sleeping device, and the end of a connection.

  The result \<open>Deadlock\<close> is a goroutine blocked forever on a mutex it holds, \<open>Crash\<close> an unrecovered panic
  (a nil pointer dereference), which ends the process.
\<close>

section \<open>Dialing\<close>

definition handleServiceCall :: "ext \<Rightarrow> Server \<Rightarrow> cref \<Rightarrow> User \<Rightarrow> CallRequest \<Rightarrow> Server outcome" where
  "handleServiceCall x srv c u msg =
     (case Get (s_services srv) (cr_Destination msg) of
        Inl _ \<Rightarrow> Done (sendError srv c 404 ''service not found'')
      | Inr v \<Rightarrow>
          let (cid, srv) = generateCallID x srv;
              srv = upd_svc srv v (\<lambda>svc. svc_SetCaller svc cid (FormatNumber (AreaCode u) (Number u)))
          in (case (cr_Offer msg, svc_obj_of srv v) of
                (Some sdp, Some svc) \<Rightarrow>
                  (case svc_HandleCall (x_pion x) svc cid \<lparr>sd_type = SDPTypeOffer, sd_sdp = SDP sdp\<rparr> of
                     (Inl e, svc) \<Rightarrow> Done (sendError (upd_svc srv v (\<lambda>_. svc)) c 500 (''service error: '' @ e))
                   | (Inr answer, svc) \<Rightarrow>
                       let srv = upd_svc srv v (\<lambda>_. svc);
                           srv = srv\<lparr>svcCalls := aput cid (c, v) (svcCalls srv)\<rparr>;
                           srv = set_call srv c cid
                       in Done (sendMessage srv c (CallConnected cid (Some \<lparr>SDP = answer, SdpType = ''answer''\<rparr>)
                                  (Some (svc_Code svc, svc_Name svc)))))
              | _ \<Rightarrow> Crash))"

text \<open>A subscriber of this exchange who is not connected.\<close>

definition voicemail_or_404 :: "ext \<Rightarrow> Server \<Rightarrow> cref \<Rightarrow> User \<Rightarrow> SDPSession option \<Rightarrow> Server" where
  "voicemail_or_404 x srv c callee offer =
     (case routeToVoicemail x srv c (Some callee) offer [] of
        (True, srv) \<Rightarrow> srv
      | (False, srv) \<Rightarrow> sendError srv c 404 ''user not online'')"

definition call_offline :: "ext \<Rightarrow> Server \<Rightarrow> cref \<Rightarrow> User \<Rightarrow> string \<Rightarrow> SDPSession option \<Rightarrow> Server" where
  "call_offline x srv c u localNum offer =
     (case GetUserByNumber (s_store srv) localNum of
        Inl _ \<Rightarrow> sendError srv c 500 ''database error''
      | Inr None \<Rightarrow> sendError srv c 404 ''user not online''
      | Inr (Some callee) \<Rightarrow>
          if \<not> s_pusher srv \<or> FCMToken callee = [] then voicemail_or_404 x srv c callee offer
          else
            let (cid, srv) = generateCallID x srv;
                srv = srv\<lparr>pendingCalls := aput localNum \<lparr>p_callID = cid, p_caller = Some c, p_remote = False,
                       p_offer = offer, p_createdAt = x_now x\<rparr> (pendingCalls srv)\<rparr>;
                srv = set_call srv c cid
            in (case send_push x srv (CallPush (FCMToken callee) cid (Number u) (caller_name u)) of
                  (False, srv) \<Rightarrow>
                    let srv = snd (removePendingByCallID srv cid);
                        srv = clearCallID srv (Some c) cid
                    in voicemail_or_404 x srv c callee offer
                | (True, srv) \<Rightarrow> sendMessage srv c (CallRinging cid)))"

text \<open>
  A connected subscriber. The handler takes the caller's mutex and then, without releasing it, the
  callee's: when both are the same connection it waits for itself.
\<close>

definition call_online :: "ext \<Rightarrow> Server \<Rightarrow> cref \<Rightarrow> User \<Rightarrow> cref \<Rightarrow> SDPSession option \<Rightarrow> Server outcome" where
  "call_online x srv c u callee offer =
     (let (cid, srv) = generateCallID x srv;
          srv = sendMessage srv callee (IncomingCall cid \<lparr>pn_AreaCode = AreaCode u, pn_Number = Number u\<rparr> (DisplayName u) offer)
      in if callee = c then Deadlock
         else
           let srv = set_call srv c cid;
               srv = set_call srv callee cid;
               srv = sendMessage srv c (CallRinging cid)
           in Done (startRing srv cid c callee offer))"

definition handleCall :: "ext \<Rightarrow> Server \<Rightarrow> cref \<Rightarrow> CallRequest \<Rightarrow> Server outcome" where
  "handleCall x srv c msg =
     (case user_of srv c of
        None \<Rightarrow> Done (sendError srv c 401 ''not registered'')
      | Some u \<Rightarrow>
          if IsServiceCode (cr_Destination msg) then handleServiceCall x srv c u msg
          else
            (case ParseNumber (cr_Destination msg) (areaCode srv) of
               Inl e \<Rightarrow> Done (sendError srv c 400 (''invalid destination: '' @ e))
             | Inr (area, localNum) \<Rightarrow>
                 if areaCode srv \<noteq> [] \<and> area \<noteq> areaCode srv then
                   (if \<not> s_reg srv then Done (sendError srv c 501 ''cross-server calls require registry federation'')
                    else if area = ''800'' \<or> area = ''900'' then
                      (case x_resolve x (area @ localNum) of
                         None \<Rightarrow> Done (sendError srv c 404 ''service unavailable'')
                       | Some addr \<Rightarrow> Done (startServiceCall x srv c addr (area @ localNum) (cr_Offer msg)))
                    else Done (startCrossCall x srv c area localNum (cr_Offer msg)))
                 else
                   (case map_of (clients srv) localNum of
                      None \<Rightarrow> Done (call_offline x srv c u localNum (cr_Offer msg))
                    | Some callee \<Rightarrow> call_online x srv c u callee (cr_Offer msg))))"

section \<open>In a call\<close>

text \<open>The registered connections, other than \<open>c\<close>, that are in the call.\<close>

definition others_in_call :: "Server \<Rightarrow> callID \<Rightarrow> cref \<Rightarrow> cref list" where
  "others_in_call srv cid c = filter (\<lambda>d. call_of srv d = cid \<and> d \<noteq> c) (map snd (clients srv))"

definition handleCallAnswer :: "ext \<Rightarrow> Server \<Rightarrow> cref \<Rightarrow> CallAnswerMsg \<Rightarrow> Server" where
  "handleCallAnswer x srv c msg =
     (if user_of srv c = None then sendError srv c 401 ''not registered''
      else
        let cid = ca_CallID msg;
            srv = snd (takeRing srv cid)
        in (case map_of (inLegs srv) cid of
              Some leg \<Rightarrow>
                let srv = put_leg srv cid (leg\<lparr>il_timer := False, il_answered := True,
                       il_callee := (case il_callee leg of None \<Rightarrow> Some c | Some d \<Rightarrow> Some d)\<rparr>)
                in snd (snd_event x srv (il_snd leg) ((blank_event cid ANSWER)\<lparr>ev_Sdp := sdpToCommon (ca_Answer msg)\<rparr>))
            | None \<Rightarrow>
                (let ds = others_in_call srv cid c in
                 if ds = [] then sendError srv c 404 ''call not found''
                 else sendMessage srv (last ds) (CallConnected cid (ca_Answer msg) None))))"

definition end_others :: "Server \<Rightarrow> callID \<Rightarrow> cref \<Rightarrow> string \<Rightarrow> Server" where
  "end_others srv cid c reason =
     fold (\<lambda>d srv. if call_of srv d = cid \<and> d \<noteq> c then sendMessage (set_call srv d []) d (CallEnded cid reason) else srv)
       (map snd (clients srv)) srv"

definition voicemail_or_end :: "ext \<Rightarrow> Server \<Rightarrow> ringState \<Rightarrow> callID \<Rightarrow> string \<Rightarrow> Server" where
  "voicemail_or_end x srv rs cid reason =
     (case routeToVoicemail x srv (r_caller rs) (r_calleeUser rs) (r_offer rs) cid of
        (True, srv) \<Rightarrow> srv
      | (False, srv) \<Rightarrow> endForClient srv (Some (r_caller rs)) cid reason)"

definition handleCallHangup :: "ext \<Rightarrow> Server \<Rightarrow> cref \<Rightarrow> Server" where
  "handleCallHangup x srv c =
     (if user_of srv c = None then srv
      else
        let cid = call_of srv c;
            srv = set_call srv c []
        in if cid = [] then srv
           else
             (case takeRing srv cid of
                (Some rs, srv) \<Rightarrow>
                  if r_callee rs = c then voicemail_or_end x srv rs cid ''declined''
                  else sendMessage (clearCallID srv (Some (r_callee rs)) cid) (r_callee rs) (CallEnded cid ''hangup'')
              | (None, srv) \<Rightarrow>
             (case declineInboundCallee x srv c cid of
                (True, srv) \<Rightarrow> srv
              | (False, srv) \<Rightarrow>
             (case closeLocalLeg x srv c cid ''hangup'' of
                (True, srv) \<Rightarrow> srv
              | (False, srv) \<Rightarrow>
             (case removePendingByCallID srv cid of
                (True, srv) \<Rightarrow> srv
              | (False, srv) \<Rightarrow>
             (case map_of (svcCalls srv) cid of
                Some (_, v) \<Rightarrow> end_svc (srv\<lparr>svcCalls := adel cid (svcCalls srv)\<rparr>) v cid
              | None \<Rightarrow> end_others srv cid c ''hangup''))))))"

definition handleICECandidate :: "ext \<Rightarrow> Server \<Rightarrow> cref \<Rightarrow> ICETrickle \<Rightarrow> Server outcome" where
  "handleICECandidate x srv c msg =
     (if user_of srv c = None then Done srv
      else
        let cid = it_CallID msg in
        (case map_of (svcCalls srv) cid of
           Some (_, v) \<Rightarrow>
             (case it_Candidate msg of
                None \<Rightarrow> Crash
              | Some cand \<Rightarrow>
                  Done (upd_svc srv v (\<lambda>svc. svc_HandleICE (x_pion x) svc
                    \<lparr>ii_candidate = ic_Candidate cand, ii_sdpMid = Some (ic_SDPMid cand), ii_mline = Some (ucast (ic_SDPMLineIndex cand))\<rparr>)))
         | None \<Rightarrow>
        (let ev = (blank_event cid ICE)\<lparr>ev_Candidate := iceToCommon (it_Candidate msg)\<rparr> in
         case map_of (outLegs srv) cid of
           Some st \<Rightarrow> Done (snd (snd_event x srv st ev))
         | None \<Rightarrow>
        (case map_of (inLegs srv) cid of
           Some leg \<Rightarrow>
             if il_callee leg = Some c then Done (snd (snd_event x srv (il_snd leg) ev))
             else Done (fold (\<lambda>d srv. sendMessage srv d (IceMsg msg)) (others_in_call srv cid c) srv)
         | None \<Rightarrow> Done (fold (\<lambda>d srv. sendMessage srv d (IceMsg msg)) (others_in_call srv cid c) srv)))))"

definition handleCallDecline :: "ext \<Rightarrow> Server \<Rightarrow> cref \<Rightarrow> callID \<Rightarrow> Server" where
  "handleCallDecline x srv c msgCallID =
     (if user_of srv c = None then srv
      else
        let cid = (if msgCallID \<noteq> [] then msgCallID else call_of srv c) in
        if cid = [] then srv
        else
          (case takeRing srv cid of
             (None, srv) \<Rightarrow> handleCallHangup x srv c
           | (Some rs, srv) \<Rightarrow>
               if r_callee rs \<noteq> c then handleCallHangup x srv c
               else voicemail_or_end x (clearCallID srv (Some c) cid) rs cid ''declined''))"

section \<open>Calls waiting for a device\<close>

definition deliver_to :: "Server \<Rightarrow> cref \<Rightarrow> pendingCall \<Rightarrow> string \<Rightarrow> string \<Rightarrow> string \<Rightarrow> Server" where
  "deliver_to srv callee p area num name =
     sendMessage srv callee (IncomingCall (p_callID p) \<lparr>pn_AreaCode = area, pn_Number = num\<rparr> name (p_offer p))"

definition deliverPendingCall :: "Server \<Rightarrow> cref \<Rightarrow> Server" where
  "deliverPendingCall srv callee =
     (case user_of srv callee of
        None \<Rightarrow> srv
      | Some u \<Rightarrow>
          (case map_of (pendingCalls srv) (Number u) of
             None \<Rightarrow> srv
           | Some p \<Rightarrow>
               let srv = srv\<lparr>pendingCalls := adel (Number u) (pendingCalls srv)\<rparr>;
                   cid = p_callID p
               in if p_remote p then
                    (case map_of (inLegs srv) cid of
                       None \<Rightarrow> srv
                     | Some leg \<Rightarrow>
                         let srv = put_leg srv cid (leg\<lparr>il_callee := Some callee\<rparr>);
                             srv = deliver_to srv callee p (il_callerArea leg) (il_callerNum leg) (il_callerName leg)
                         in set_call srv callee cid)
                  else
                    (case p_caller p of
                       None \<Rightarrow> srv
                     | Some d \<Rightarrow>
                         (case user_of srv d of
                            None \<Rightarrow> srv
                          | Some cu \<Rightarrow>
                              if \<not> isOnline srv (Some d) then srv
                              else
                                let srv = deliver_to srv callee p (AreaCode cu) (Number cu) (DisplayName cu);
                                    srv = set_call srv d cid
                                in set_call srv callee cid))))"

definition expire_one :: "ext \<Rightarrow> Server \<Rightarrow> string \<Rightarrow> pendingCall \<Rightarrow> Server" where
  "expire_one x srv num p =
     (if p_remote p then
        (case map_of (inLegs srv) (p_callID p) of
           None \<Rightarrow> removeInLeg srv (p_callID p)
         | Some leg \<Rightarrow>
             (case routeInboundVoicemail x srv leg (p_callID p) of
                (True, srv) \<Rightarrow> srv
              | (False, srv) \<Rightarrow> removeInLeg (leg_hangup x srv (il_snd leg) (p_callID p) ''no answer'') (p_callID p)))
      else
        (case p_caller p of
           None \<Rightarrow> srv
         | Some d \<Rightarrow>
             if isOnline srv (Some d) then
               (case routeToVoicemail x srv d (case GetUserByNumber (s_store srv) num of Inl _ \<Rightarrow> None | Inr r \<Rightarrow> r)
                       (p_offer p) (p_callID p) of
                  (True, srv) \<Rightarrow> srv
                | (False, srv) \<Rightarrow> sendMessage (clearCallID srv (Some d) (p_callID p)) d (CallEnded (p_callID p) ''no answer''))
             else srv))"

text \<open>One tick of the expiry loop.\<close>

definition expirePendingCalls :: "ext \<Rightarrow> Server \<Rightarrow> Server" where
  "expirePendingCalls x srv =
     (let old = (\<lambda>(num, p). x_now x - p_createdAt p > pendingCallTimeout srv);
          expired = filter old (pendingCalls srv);
          srv = srv\<lparr>pendingCalls := filter (\<lambda>e. \<not> old e) (pendingCalls srv)\<rparr>
      in fold (\<lambda>(num, p) srv. expire_one x srv num p) expired srv)"

section \<open>The end of a connection\<close>

definition leave_ring :: "ext \<Rightarrow> Server \<Rightarrow> cref \<Rightarrow> callID \<Rightarrow> Server" where
  "leave_ring x srv c cid =
     (case takeRing srv cid of
        (None, srv) \<Rightarrow> srv
      | (Some rs, srv) \<Rightarrow>
          if r_callee rs = c then
            (if isOnline srv (Some (r_caller rs)) then voicemail_or_end x srv rs cid ''disconnect'' else srv)
          else if r_caller rs = c then
            sendMessage (clearCallID srv (Some (r_callee rs)) cid) (r_callee rs) (CallEnded cid ''disconnect'')
          else srv)"

definition leave_service_call :: "Server \<Rightarrow> cref \<Rightarrow> callID \<Rightarrow> Server" where
  "leave_service_call srv c cid =
     (case map_of (svcCalls srv) cid of
        Some (d, v) \<Rightarrow> if d = c then end_svc (srv\<lparr>svcCalls := adel cid (svcCalls srv)\<rparr>) v cid else srv
      | None \<Rightarrow> srv)"

definition unregisterClient :: "ext \<Rightarrow> Server \<Rightarrow> cref \<Rightarrow> Server" where
  "unregisterClient x srv c =
     (case user_of srv c of
        None \<Rightarrow> srv
      | Some u \<Rightarrow>
          let cid = call_of srv c;
              srv = set_call srv c [];
              srv = (if cid = [] then srv
                     else
                       let srv = snd (closeLocalLeg x srv c cid ''disconnect'');
                           srv = snd (removePendingByCallID srv cid);
                           srv = leave_ring x srv c cid;
                           srv = leave_service_call srv c cid
                       in end_others srv cid c ''disconnect'')
          in if map_of (clients srv) (Number u) = Some c
             then srv\<lparr>clients := adel (Number u) (clients srv)\<rparr> else srv)"

end
