(* ===== verification/Sig_Messages.thy ===== *)
theory Sig_Messages
  imports Sig_Calls
begin

text \<open>
  Registration, voicemail retrieval and direct messages (\<open>server.go\<close>, \<open>relaydm.go\<close>).
\<close>

section \<open>Direct messages to devices\<close>

definition new_event :: "Envelope \<Rightarrow> DMEvent" where
  "new_event env =
     \<lparr>de_Type = ''new'', de_MessageID = MessageID env, de_ClientID = [], de_Status = [], de_From = From env,
      de_FromName = FromName env, de_Kind = Kind env, de_Text = Text env,
      de_ImageName = (case Img env of None \<Rightarrow> [] | Some i \<Rightarrow> im_Name i),
      de_ImageMime = (case Img env of None \<Rightarrow> [] | Some i \<Rightarrow> im_Mime i), de_CreatedAt = EnvCreatedAt env\<rparr>"

definition status_event :: "string \<Rightarrow> string \<Rightarrow> DMEvent" where
  "status_event mid cid =
     \<lparr>de_Type = ''status'', de_MessageID = mid, de_ClientID = cid, de_Status = ''delivered'', de_From = [],
      de_FromName = [], de_Kind = [], de_Text = [], de_ImageName = [], de_ImageMime = [], de_CreatedAt = 0\<rparr>"

definition relayDMMessage :: "Server \<Rightarrow> string \<Rightarrow> Envelope \<Rightarrow> bool \<times> Server" where
  "relayDMMessage srv recipientLocal env =
     (case map_of (clients srv) recipientLocal of
        None \<Rightarrow> (False, srv)
      | Some c \<Rightarrow> (True, sendMessage srv c (DMEventMsg (new_event env))))"

definition flushPendingDM :: "ext \<Rightarrow> Server \<Rightarrow> cref \<Rightarrow> Server" where
  "flushPendingDM x srv c =
     (case (s_dmm srv, user_of srv c) of
        (Some m, Some u) \<Rightarrow>
          (case Pending (x_gcm x) (x_rand x 0) m (s_store srv) (Number u) of
             (Inl _, m, s) \<Rightarrow> srv\<lparr>s_dmm := Some m, s_store := s\<rparr>
           | (Inr envs, m, s) \<Rightarrow>
               fold (\<lambda>env srv. snd (relayDMMessage srv (Number u) env)) envs (srv\<lparr>s_dmm := Some m, s_store := s\<rparr>))
      | _ \<Rightarrow> srv)"

section \<open>Registration\<close>

definition ksim_msg :: "ksim_error \<Rightarrow> string" where
  "ksim_msg e =
     (case e of
        ErrInvalidKeySize \<Rightarrow> ''invalid key size''
      | ErrInvalidKSimFile \<Rightarrow> ''invalid ksim file''
      | ErrInvalidSignature \<Rightarrow> ''invalid signature''
      | ErrChallengeExpired \<Rightarrow> ''challenge expired''
      | ErrNoPendingChallenge \<Rightarrow> ''no pending challenge for this key''
      | KsimErr m \<Rightarrow> m
      | GoPanic m \<Rightarrow> m)"

definition handleChallengeRequest :: "ext \<Rightarrow> Server \<Rightarrow> cref \<Rightarrow> bytes option \<Rightarrow> Server" where
  "handleChallengeRequest x srv c ksimID =
     (case ksimID of
        None \<Rightarrow> sendError srv c 400 ''missing ksim_id''
      | Some pub \<Rightarrow>
          if pub = [] then sendError srv c 400 ''missing ksim_id''
          else
            (case GenerateChallenge (x_rand x 0) (x_now x) (s_auth srv) pub of
               Inl _ \<Rightarrow> sendError srv c 500 ''failed to generate challenge''
             | Inr (nonce, ts, au) \<Rightarrow> sendMessage (srv\<lparr>s_auth := au\<rparr>) c (ChallengeResponseMsg nonce ts)))"

definition provision_error :: "store_error \<Rightarrow> int \<times> string" where
  "provision_error e =
     (if e = ErrTokenRequired then (400, ''missing provisioning token in register'')
      else if e = ErrTokenNotFound then (403, ''invalid provisioning token - generate a fresh QR code from the admin panel'')
      else if e = ErrTokenExpired then (403, ''provisioning token has expired - generate a new one'')
      else if e = ErrTokenUsed then (403, ''provisioning token was already used on another phone'')
      else if e = ErrTokenRevoked then (403, ''provisioning token was revoked by the admin'')
      else if e = ErrNumberTaken then (409, ''that number was just taken - generate a new provisioning code'')
      else (500, ''failed to register user''))"

text \<open>The line of an authenticated key: looked up, or created with an activation token.\<close>

definition register_user :: "ext \<Rightarrow> Server \<Rightarrow> bytes \<Rightarrow> string \<Rightarrow> string \<Rightarrow> (int \<times> string) + (User \<times> store)" where
  "register_user x srv pub displayName token =
     (case GetUserByPublicKey (s_store srv) pub of
        Inl _ \<Rightarrow> Inl (500, ''database error'')
      | Inr None \<Rightarrow>
          (case ProvisionUser (x_pick x) (s_store srv) (x_now x) (HashToken token) pub (areaCode srv) displayName of
             Inl e \<Rightarrow> Inl (provision_error e)
           | Inr (num, s) \<Rightarrow>
               Inr (\<lparr>KSimPublicKey = pub, AreaCode = areaCode srv, Number = num, DisplayName = displayName, FCMToken = [],
                     RegisteredAt = unix_secs (x_now x), LastSeen = unix_secs (x_now x)\<rparr>, s))
      | Inr (Some u) \<Rightarrow>
          let (u, s) = (if displayName \<noteq> [] then
                          (u\<lparr>DisplayName := displayName\<rparr>,
                           (case UpdateDisplayName (s_store srv) pub displayName of Inl _ \<Rightarrow> s_store srv | Inr s \<Rightarrow> s))
                        else (u, s_store srv));
              s = (case UpdateLastSeen s (x_now x) pub of Inl _ \<Rightarrow> s | Inr s' \<Rightarrow> s')
          in Inr (u, s))"

text \<open>The connection takes over the number; a previous connection of the number is closed.\<close>

definition adopt :: "Server \<Rightarrow> cref \<Rightarrow> User \<Rightarrow> Server" where
  "adopt srv c u =
     (let srv = (case map_of (clients srv) (Number u) of
                   Some prev \<Rightarrow> if prev \<noteq> c then srv\<lparr>kicked := prev # kicked srv\<rparr> else srv
                 | None \<Rightarrow> srv);
          srv = srv\<lparr>clients := aput (Number u) c (clients srv)\<rparr>
      in upd_client srv c (\<lambda>cl. cl\<lparr>c_user := Some u\<rparr>))"

definition handleRegister :: "ext \<Rightarrow> Server \<Rightarrow> cref \<Rightarrow> RegisterRequest \<Rightarrow> Server outcome" where
  "handleRegister x srv c msg =
     (case (rr_KsimID msg, rr_Signature msg) of
        (Some pub, Some sig) \<Rightarrow>
          (case VerifyResponse (x_ed x) (x_now x) (s_auth srv) pub sig of
             (Inl (GoPanic _), _) \<Rightarrow> Crash
           | (Inl e, au) \<Rightarrow> Done (sendError (srv\<lparr>s_auth := au\<rparr>) c 401 (''authentication failed: '' @ ksim_msg e))
           | (Inr _, au) \<Rightarrow>
               let srv = srv\<lparr>s_auth := au\<rparr>;
                   displayName = (case rr_DisplayName msg of None \<Rightarrow> [] | Some n \<Rightarrow> n)
               in (case register_user x srv pub displayName (rr_ActivationToken msg) of
                     Inl (code, err) \<Rightarrow> Done (sendError srv c code err)
                   | Inr (u, s) \<Rightarrow>
                       let srv = adopt (srv\<lparr>s_store := s\<rparr>) c u;
                           srv = sendMessage srv c (RegisterResponse \<lparr>pn_AreaCode = AreaCode u, pn_Number = Number u\<rparr> (iceServers srv));
                           srv = deliverPendingCall srv c
                       in Done (flushPendingDM x srv c)))
      | _ \<Rightarrow> Done (sendError srv c 400 ''missing ksim_id or challenge_response''))"

definition handleRegisterFCM :: "Server \<Rightarrow> cref \<Rightarrow> string \<Rightarrow> Server" where
  "handleRegisterFCM srv c token =
     (case user_of srv c of
        None \<Rightarrow> srv
      | Some u \<Rightarrow>
          (case UpdateFCMToken (s_store srv) (KSimPublicKey u) token of
             Inl _ \<Rightarrow> srv
           | Inr s \<Rightarrow> srv\<lparr>s_store := s\<rparr>))"

section \<open>Voicemail retrieval\<close>

definition voicemail_info :: "VoicemailMeta \<Rightarrow> VoicemailInfo" where
  "voicemail_info m =
     \<lparr>vi_ID = vmm_ID m, vi_CallerNumber = vmm_CallerNumber m, vi_CallerName = vmm_CallerName m,
      vi_DurationSeconds = vmm_DurationSeconds m, vi_Listened = vmm_Listened m, vi_CreatedAt = vmm_CreatedAt m\<rparr>"

definition handleVoicemailList :: "Server \<Rightarrow> cref \<Rightarrow> Server" where
  "handleVoicemailList srv c =
     (case user_of srv c of
        None \<Rightarrow> srv
      | Some u \<Rightarrow>
          (case ListVoicemailMeta (s_store srv) (Number u) of
             Inl _ \<Rightarrow> sendError srv c 500 ''failed to list voicemail''
           | Inr meta \<Rightarrow>
               let unread = (case CountUnlistened (s_store srv) (Number u) of Inl _ \<Rightarrow> 0 | Inr n \<Rightarrow> n)
               in sendMessage srv c (VoicemailListResponse (map voicemail_info meta) unread)))"

definition handleVoicemailGet :: "ext \<Rightarrow> Server \<Rightarrow> cref \<Rightarrow> string \<Rightarrow> Server" where
  "handleVoicemailGet x srv c vid =
     (case user_of srv c of
        None \<Rightarrow> srv
      | Some u \<Rightarrow>
          (case s_vm srv of
             None \<Rightarrow> sendError srv c 503 ''voicemail unavailable''
           | Some m \<Rightarrow>
               if \<not> Enabled (Some m) then sendError srv c 503 ''voicemail unavailable''
               else
                 (case GetVoicemail (s_store srv) vid (Number u) of
                    Inr (Some msg) \<Rightarrow>
                      (case RenderOgg (x_gcm x) (x_rand x 0) m (s_store srv) (Number u) msg of
                         (Inl _, m, s) \<Rightarrow> sendError (srv\<lparr>s_vm := Some m, s_store := s\<rparr>) c 500 ''failed to load voicemail''
                       | (Inr ogg, m, s) \<Rightarrow>
                           sendMessage (srv\<lparr>s_vm := Some m, s_store := s\<rparr>) c (VoicemailGetResponse (VmID msg) (StdEncode ogg)))
                  | _ \<Rightarrow> sendError srv c 404 ''voicemail not found'')))"

definition handleVoicemailDelete :: "Server \<Rightarrow> cref \<Rightarrow> string \<Rightarrow> Server" where
  "handleVoicemailDelete srv c vid =
     (case user_of srv c of
        None \<Rightarrow> srv
      | Some u \<Rightarrow> (case DeleteVoicemail (s_store srv) vid (Number u) of Inl _ \<Rightarrow> srv | Inr s \<Rightarrow> srv\<lparr>s_store := s\<rparr>))"

definition handleVoicemailMarkRead :: "Server \<Rightarrow> cref \<Rightarrow> string \<Rightarrow> Server" where
  "handleVoicemailMarkRead srv c vid =
     (case user_of srv c of
        None \<Rightarrow> srv
      | Some u \<Rightarrow> (case MarkListened (s_store srv) vid (Number u) of Inl _ \<Rightarrow> srv | Inr s \<Rightarrow> srv\<lparr>s_store := s\<rparr>))"

section \<open>Direct messages from devices\<close>

text \<open>The checks on a message before it is sent; \<open>None\<close> is acceptance.\<close>

definition dm_send_error :: "DMSendReq \<Rightarrow> (int \<times> string) option" where
  "dm_send_error req =
     (if ds_To req = [] then Some (400, ''missing destination'')
      else if ds_Kind req \<noteq> ''text'' \<and> ds_Kind req \<noteq> ''image'' then Some (400, ''invalid message kind'')
      else if ds_Kind req = ''text'' \<and> is_blank (ds_Text req) then Some (400, ''empty message'')
      else if ds_Kind req = ''image'' \<and> (case ds_Image req of None \<Rightarrow> True | Some i \<Rightarrow> im_B64 i = [])
        then Some (400, ''missing image data'')
      else if ds_Kind req = ''image'' \<and> (case ds_Image req of None \<Rightarrow> False | Some i \<Rightarrow> length (im_B64 i) > MaxImageBytes * 4 div 3 + 8)
        then Some (413, ''image too large'')
      else None)"

definition dm_envelope :: "ext \<Rightarrow> User \<Rightarrow> DMSendReq \<Rightarrow> string \<Rightarrow> string \<Rightarrow> string \<Rightarrow> Envelope" where
  "dm_envelope x u req mid area num =
     \<lparr>MessageID = mid, ClientID = ds_ClientID req, From = Canonical (AreaCode u) (Number u), FromName = DisplayName u,
      To = Canonical area num, Kind = ds_Kind req, Text = ds_Text req, Img = ds_Image req,
      EnvCreatedAt = x_now x div 1000000\<rparr>"

definition sendRemoteDM :: "ext \<Rightarrow> Server \<Rightarrow> cref \<Rightarrow> Envelope \<Rightarrow> string \<Rightarrow> bool \<times> Server" where
  "sendRemoteDM x srv c env area =
     (if \<not> s_reg srv then (False, sendError srv c 501 ''cross-server messaging requires federation'')
      else
        (case x_route x area of
           None \<Rightarrow> (False, sendError srv c 404 ''number unreachable (no route)'')
         | Some addr \<Rightarrow>
             (case bridgeConn x srv addr (insecureFed srv) of
                (False, srv) \<Rightarrow> (False, sendError srv c 502 ''delivery failed'')
              | (True, srv) \<Rightarrow>
                  (case x_deliver x addr env of
                     None \<Rightarrow> (False, sendError srv c 502 ''delivery failed'')
                   | Some (accepted, err) \<Rightarrow>
                       if \<not> accepted then (False, sendError srv c 404 (''delivery failed: '' @ err))
                       else (True, srv)))))"

definition relay_or_push :: "ext \<Rightarrow> Server \<Rightarrow> string \<Rightarrow> User \<Rightarrow> Envelope \<Rightarrow> Server" where
  "relay_or_push x srv num callee env =
     (case relayDMMessage srv num env of
        (True, srv) \<Rightarrow> srv
      | (False, srv) \<Rightarrow>
          if FCMToken callee \<noteq> [] \<and> s_pusher srv
          then snd (send_push x srv (MessagePush (FCMToken callee) (From env) (FromName env))) else srv)"

definition handleDMSend :: "ext \<Rightarrow> Server \<Rightarrow> cref \<Rightarrow> DMSendReq \<Rightarrow> Server" where
  "handleDMSend x srv c req =
     (case user_of srv c of
        None \<Rightarrow> sendError srv c 401 ''not registered''
      | Some u \<Rightarrow>
     (case dm_send_error req of
        Some (code, err) \<Rightarrow> sendError srv c code err
      | None \<Rightarrow>
     (case ParseNumber (ds_To req) (areaCode srv) of
        Inl e \<Rightarrow> sendError srv c 400 (''invalid destination: '' @ e)
      | Inr (area, num) \<Rightarrow>
     (case s_dmm srv of
        None \<Rightarrow> sendError srv c 503 ''messaging unavailable''
      | Some m \<Rightarrow>
          let (mid, srv) = generateCallID x srv;
              env = dm_envelope x u req mid area num;
              done_msg = DMEventMsg (status_event mid (ds_ClientID req))
          in if areaCode srv \<noteq> [] \<and> area \<noteq> areaCode srv then
               (case sendRemoteDM x srv c env area of
                  (False, srv) \<Rightarrow> srv
                | (True, srv) \<Rightarrow> sendMessage srv c done_msg)
             else
               (case GetUserByNumber (s_store srv) num of
                  Inl _ \<Rightarrow> sendError srv c 500 ''database error''
                | Inr None \<Rightarrow> sendError srv c 404 ''user not found''
                | Inr (Some callee) \<Rightarrow>
                    (case Enqueue (x_gcm x) (x_rand x 0) (x_rand x 1) m (s_store srv) (x_now x) num env of
                       (Inl _, m, s) \<Rightarrow> sendError (srv\<lparr>s_dmm := Some m, s_store := s\<rparr>) c 500 ''failed to send''
                     | (Inr _, m, s) \<Rightarrow>
                         sendMessage (relay_or_push x (srv\<lparr>s_dmm := Some m, s_store := s\<rparr>) num callee env) c done_msg))))))"

definition handleDMAck :: "Server \<Rightarrow> cref \<Rightarrow> string \<Rightarrow> Server" where
  "handleDMAck srv c mid =
     (case user_of srv c of
        None \<Rightarrow> srv
      | Some u \<Rightarrow>
          if mid = [] \<or> s_dmm srv = None then srv
          else (case dm_Remove (s_store srv) mid (Number u) of Inl _ \<Rightarrow> srv | Inr s \<Rightarrow> srv\<lparr>s_store := s\<rparr>))"

definition handleDMAttachmentGet :: "ext \<Rightarrow> Server \<Rightarrow> cref \<Rightarrow> string \<Rightarrow> Server" where
  "handleDMAttachmentGet x srv c mid =
     (case user_of srv c of
        None \<Rightarrow> srv
      | Some u \<Rightarrow>
          (case s_dmm srv of
             None \<Rightarrow> sendError srv c 503 ''messaging unavailable''
           | Some m \<Rightarrow>
               (case dm_Get (x_gcm x) (x_rand x 0) m (s_store srv) mid (Number u) of
                  (Inr (Some env), m, s) \<Rightarrow>
                    let srv = srv\<lparr>s_dmm := Some m, s_store := s\<rparr> in
                    (case Img env of
                       None \<Rightarrow> sendError srv c 404 ''attachment not found''
                     | Some i \<Rightarrow> sendMessage srv c (DMAttachment mid (im_Name i) (im_Mime i) (im_B64 i)))
                | (_, m, s) \<Rightarrow> sendError (srv\<lparr>s_dmm := Some m, s_store := s\<rparr>) c 404 ''attachment not found'')))"

section \<open>Direct messages from other exchanges\<close>

record DMEnvelope =
  pe_MessageId :: string
  pe_ClientId :: string
  pe_From :: string
  pe_FromName :: string
  pe_To :: string
  pe_Kind :: string
  pe_Text :: string
  pe_Image :: "(string \<times> string \<times> string) option"
  pe_CreatedAt :: int

definition dmEnvelopeToProto :: "Envelope \<Rightarrow> DMEnvelope" where
  "dmEnvelopeToProto env =
     \<lparr>pe_MessageId = MessageID env, pe_ClientId = ClientID env, pe_From = From env, pe_FromName = FromName env,
      pe_To = To env, pe_Kind = Kind env, pe_Text = Text env,
      pe_Image = map_option (\<lambda>i. (im_Name i, im_Mime i, im_B64 i)) (Img env), pe_CreatedAt = EnvCreatedAt env\<rparr>"

definition dmEnvelopeFromProto :: "DMEnvelope option \<Rightarrow> Envelope option" where
  "dmEnvelopeFromProto p =
     map_option (\<lambda>p. \<lparr>MessageID = pe_MessageId p, ClientID = pe_ClientId p, From = pe_From p, FromName = pe_FromName p,
       To = pe_To p, Kind = pe_Kind p, Text = pe_Text p,
       Img = map_option (\<lambda>(n, m, b). \<lparr>im_Name = n, im_Mime = m, im_B64 = b\<rparr>) (pe_Image p), EnvCreatedAt = pe_CreatedAt p\<rparr>) p"

definition app_msg :: "ext \<Rightarrow> app_error \<Rightarrow> string" where
  "app_msg x e = (case e of EStore se \<Rightarrow> x_dberr x se | EMsg m \<Rightarrow> m)"

definition deliverInboundDM :: "ext \<Rightarrow> Server \<Rightarrow> Envelope option \<Rightarrow> string option \<times> Server" where
  "deliverInboundDM x srv env =
     (case env of
        None \<Rightarrow> (Some ''invalid dm envelope'', srv)
      | Some env \<Rightarrow>
     (if To env = [] then (Some ''invalid dm envelope'', srv)
      else
     (case s_dmm srv of
        None \<Rightarrow> (Some ''messaging unavailable'', srv)
      | Some m \<Rightarrow>
     (case ParseNumber (To env) (areaCode srv) of
        Inl e \<Rightarrow> (Some (''invalid recipient: '' @ e), srv)
      | Inr (area, num) \<Rightarrow>
          if areaCode srv \<noteq> [] \<and> area \<noteq> areaCode srv then (Some (''recipient '' @ To env @ '' not hosted here''), srv)
          else
            (case GetUserByNumber (s_store srv) num of
               Inl e \<Rightarrow> (Some (app_msg x (EStore e)), srv)
             | Inr None \<Rightarrow> (Some ''user not found'', srv)
             | Inr (Some callee) \<Rightarrow>
                 (case EnqueueRemote (x_gcm x) (x_rand x 0) (x_rand x 1) m (s_store srv) (x_now x) (MessageID env) num env of
                    (Inl e, m, s) \<Rightarrow> (Some (app_msg x e), srv\<lparr>s_dmm := Some m, s_store := s\<rparr>)
                  | (Inr _, m, s) \<Rightarrow> (None, relay_or_push x (srv\<lparr>s_dmm := Some m, s_store := s\<rparr>) num callee env)))))))"

definition DeliverDM :: "ext \<Rightarrow> Server \<Rightarrow> DMEnvelope option \<Rightarrow> (bool \<times> string) \<times> Server" where
  "DeliverDM x srv req =
     (case deliverInboundDM x srv (dmEnvelopeFromProto req) of
        (Some err, srv) \<Rightarrow> ((False, err), srv)
      | (None, srv) \<Rightarrow> ((True, []), srv))"

end
