(* ===== verification/Sig_Frame.thy ===== *)
theory Sig_Frame
  imports Sig_Messages
begin

text \<open>
  The dispatcher \<open>handleMessage\<close>, and what the handlers leave alone: \<open>ids\<close> is who the connections
  are and which connection owns which number. Only registration and the end of a connection
  change it.
\<close>

section \<open>The dispatcher\<close>

definition handleMessage :: "ext \<Rightarrow> Server \<Rightarrow> cref \<Rightarrow> ClientMessage \<Rightarrow> Server outcome" where
  "handleMessage x srv c msg =
     (case m_ChallengeRequest msg of Some r \<Rightarrow> Done (handleChallengeRequest x srv c r) | None \<Rightarrow>
     (case m_Register msg of Some r \<Rightarrow> handleRegister x srv c r | None \<Rightarrow>
     (case m_RegisterFCM msg of Some r \<Rightarrow> Done (handleRegisterFCM srv c r) | None \<Rightarrow>
     (case m_Call msg of Some r \<Rightarrow> handleCall x srv c r | None \<Rightarrow>
     (case m_CallAnswer msg of Some r \<Rightarrow> Done (handleCallAnswer x srv c r) | None \<Rightarrow>
     (case m_CallHangup msg of Some r \<Rightarrow> Done (handleCallHangup x srv c) | None \<Rightarrow>
     (case m_CallDecline msg of Some r \<Rightarrow> Done (handleCallDecline x srv c r) | None \<Rightarrow>
     (case m_ICECandidate msg of Some r \<Rightarrow> handleICECandidate x srv c r | None \<Rightarrow>
     (if m_Ping msg then Done (sendMessage srv c Pong)
      else if m_VoicemailList msg then Done (handleVoicemailList srv c) else
     (case m_VoicemailGet msg of Some r \<Rightarrow> Done (handleVoicemailGet x srv c r) | None \<Rightarrow>
     (case m_VoicemailDelete msg of Some r \<Rightarrow> Done (handleVoicemailDelete srv c r) | None \<Rightarrow>
     (case m_VoicemailMarkRead msg of Some r \<Rightarrow> Done (handleVoicemailMarkRead srv c r) | None \<Rightarrow>
     (case m_DMSend msg of Some r \<Rightarrow> Done (handleDMSend x srv c r) | None \<Rightarrow>
     (case m_DMAck msg of Some r \<Rightarrow> Done (handleDMAck srv c r) | None \<Rightarrow>
     (case m_DMAttachmentGet msg of Some r \<Rightarrow> Done (handleDMAttachmentGet x srv c r) | None \<Rightarrow>
        Done (sendError srv c 400 ''unknown message type''))))))))))))))))"

text \<open>One round of the read pump; \<open>None\<close> is a frame that is not valid JSON.\<close>

definition readPump :: "ext \<Rightarrow> Server \<Rightarrow> cref \<Rightarrow> ClientMessage option \<Rightarrow> Server outcome" where
  "readPump x srv c data =
     (case data of
        None \<Rightarrow> Done (sendError srv c 400 ''invalid message format'')
      | Some msg \<Rightarrow> handleMessage x srv c msg)"

section \<open>Fields\<close>

text \<open>The small operations change the connections, the log of events or the log of pushes only.\<close>

lemma upd_client_fields [simp]:
  "s_store (upd_client srv c f) = s_store srv" "s_auth (upd_client srv c f) = s_auth srv"
  "areaCode (upd_client srv c f) = areaCode srv" "clients (upd_client srv c f) = clients srv"
  "s_services (upd_client srv c f) = s_services srv" "svcCalls (upd_client srv c f) = svcCalls srv"
  "pendingCalls (upd_client srv c f) = pendingCalls srv" "s_pusher (upd_client srv c f) = s_pusher srv"
  "iceServers (upd_client srv c f) = iceServers srv" "netSvcs (upd_client srv c f) = netSvcs srv"
  "s_vm (upd_client srv c f) = s_vm srv" "s_dmm (upd_client srv c f) = s_dmm srv"
  "ringStates (upd_client srv c f) = ringStates srv" "s_reg (upd_client srv c f) = s_reg srv"
  "outLegs (upd_client srv c f) = outLegs srv" "inLegs (upd_client srv c f) = inLegs srv"
  "svcHeap (upd_client srv c f) = svcHeap srv" "selfEnds (upd_client srv c f) = selfEnds srv"
  "counter (upd_client srv c f) = counter srv" "wire (upd_client srv c f) = wire srv"
  "pushes (upd_client srv c f) = pushes srv" "kicked (upd_client srv c f) = kicked srv"
  by (simp_all add: upd_client_def)

lemma snd_event_state: "\<exists>w. snd (snd_event x srv st ev) = srv\<lparr>wire := w\<rparr>"
  by (simp add: snd_event_def) (metis Server.surjective Server.update_convs(26))

lemma send_push_state: "\<exists>w. snd (send_push x srv p) = srv\<lparr>pushes := w\<rparr>"
  by (simp add: send_push_def) (metis Server.surjective Server.update_convs(27))

section \<open>Identities\<close>

definition ids :: "Server \<Rightarrow> (cref \<Rightarrow> User option) \<times> (string, cref) gomap" where
  "ids srv = (user_of srv, clients srv)"

named_theorems ids_simps \<open>operations that leave the identities alone\<close>

lemma idsD: "ids srv' = ids srv \<Longrightarrow> user_of srv' c = user_of srv c" "ids srv' = ids srv \<Longrightarrow> clients srv' = clients srv"
  by (simp_all add: ids_def)

lemma ids_isOnline: "ids srv' = ids srv \<Longrightarrow> isOnline srv' c = isOnline srv c"
  by (simp add: isOnline_def ids_def split: option.splits)

lemma ids_fields [ids_simps]:
  "ids (srv\<lparr>s_store := a1\<rparr>) = ids srv" "ids (srv\<lparr>s_auth := a2\<rparr>) = ids srv" "ids (srv\<lparr>svcCalls := a3\<rparr>) = ids srv"
  "ids (srv\<lparr>pendingCalls := a4\<rparr>) = ids srv" "ids (srv\<lparr>s_vm := a5\<rparr>) = ids srv" "ids (srv\<lparr>s_dmm := a6\<rparr>) = ids srv"
  "ids (srv\<lparr>ringStates := a7\<rparr>) = ids srv" "ids (srv\<lparr>gConns := a8\<rparr>) = ids srv" "ids (srv\<lparr>outLegs := a9\<rparr>) = ids srv"
  "ids (srv\<lparr>inLegs := b1\<rparr>) = ids srv" "ids (srv\<lparr>svcHeap := b2\<rparr>) = ids srv" "ids (srv\<lparr>selfEnds := b3\<rparr>) = ids srv"
  "ids (srv\<lparr>counter := b4\<rparr>) = ids srv" "ids (srv\<lparr>wire := b5\<rparr>) = ids srv" "ids (srv\<lparr>pushes := b6\<rparr>) = ids srv"
  "ids (srv\<lparr>kicked := b7\<rparr>) = ids srv"
  by (simp_all add: ids_def user_of_def client_def fun_eq_iff)

lemma ids_upd [ids_simps]: "c_user (f (client srv c)) = user_of srv c \<Longrightarrow> ids (upd_client srv c f) = ids srv"
  by (simp add: ids_def fun_eq_iff user_upd)

lemma ids_set_call [ids_simps]: "ids (set_call srv c cid) = ids srv"
  by (simp add: set_call_def ids_upd user_of_def)

lemma ids_sendMessage [ids_simps]: "ids (sendMessage srv c m) = ids srv"
  by (simp add: sendMessage_def ids_upd user_of_def)

lemma ids_sendError [ids_simps]: "ids (sendError srv c k m) = ids srv"
  by (simp add: sendError_def ids_simps)

lemma ids_snd_event [ids_simps]: "ids (snd (snd_event x srv st ev)) = ids srv"
  using snd_event_state [of x srv st ev] by (auto simp: ids_simps)

lemma ids_send_push [ids_simps]: "ids (snd (send_push x srv p)) = ids srv"
  using send_push_state [of x srv p] by (auto simp: ids_simps)

lemma ids_gen [ids_simps]: "ids (snd (generateCallID x srv)) = ids srv" "ids (snd (fresh_ref srv)) = ids srv"
  by (simp_all add: generateCallID_def fresh_ref_def ids_simps)

lemma ids_clearCallID [ids_simps]: "ids (clearCallID srv c cid) = ids srv"
  by (simp add: clearCallID_def ids_simps split: option.split)

lemma ids_upd_svc [ids_simps]: "ids (upd_svc srv v f) = ids srv" "ids (end_svc srv v cid) = ids srv"
  by (simp_all add: upd_svc_def end_svc_def ids_simps split: option.split)

lemma ids_legs [ids_simps]: "ids (put_leg srv cid leg) = ids srv" "ids (removeInLeg srv cid) = ids srv"
  "ids (leg_hangup x srv st cid reason) = ids srv"
  by (simp_all add: put_leg_def removeInLeg_def leg_hangup_def ids_simps)

lemma ids_fold: "(\<And>a s. ids (f a s) = ids s) \<Longrightarrow> ids (fold f xs s) = ids s"
  by (induction xs arbitrary: s) simp_all

lemmas frame_splits = option.split sum.split bool.split self_end.split ev_type.split recv.split

lemma ids_routeToVoicemail [ids_simps]: "ids (snd (routeToVoicemail x srv d u off cid)) = ids srv"
  by (simp add: routeToVoicemail_def Let_def case_prod_beta ids_simps generateCallID_def fresh_ref_def split: frame_splits)

lemma ids_endForClient [ids_simps]: "ids (endForClient srv d cid reason) = ids srv"
  by (simp add: endForClient_def ids_simps split: frame_splits)

lemma ids_endServiceCall [ids_simps]: "ids (endServiceCall srv d cid reason) = ids srv"
  by (simp add: endServiceCall_def Let_def case_prod_beta ids_simps split: frame_splits)

lemma ids_onRingTimeout [ids_simps]: "ids (onRingTimeout x srv cid) = ids srv"
  by (simp add: onRingTimeout_def Let_def case_prod_beta ids_simps split: frame_splits)

lemma ids_routeInboundVoicemail [ids_simps]: "ids (snd (routeInboundVoicemail x srv leg cid)) = ids srv"
  by (simp add: routeInboundVoicemail_def Let_def case_prod_beta ids_simps fresh_ref_def split: frame_splits)

lemma ids_inbound [ids_simps]:
  "ids (endInboundCalleeRing srv cid) = ids srv"
  "ids (onInboundRingTimeout x srv cid) = ids srv"
  "ids (snd (declineInboundCallee x srv c cid)) = ids srv"
  by (simp_all add: endInboundCalleeRing_def onInboundRingTimeout_def declineInboundCallee_def Let_def case_prod_beta ids_simps
      split: frame_splits)

lemma ids_NotifyVoicemailStored [ids_simps]: "ids (NotifyVoicemailStored x srv r cn cname) = ids srv"
  by (simp add: NotifyVoicemailStored_def Let_def ids_simps split: frame_splits)

lemma ids_OnSelfEnd [ids_simps]: "ids (OnSelfEnd x srv se cid) = ids srv"
  by (simp add: OnSelfEnd_def Let_def ids_simps split: frame_splits)

lemma ids_record_session [ids_simps]: "ids (record_session x srv v cid decoder played pkts) = ids srv"
  by (simp add: record_session_def Let_def case_prod_beta ids_simps generateCallID_def split: option.split svc_obj.split)

lemma ids_bridge [ids_simps]:
  "ids (snd (bridgeConn x srv addr ins)) = ids srv"
  "ids (snd (removePendingByCallID srv cid)) = ids srv"
  "ids (snd (closeLocalLeg x srv c cid reason)) = ids srv"
  "ids (out_cleanup srv cid c) = ids srv"
  by (simp_all add: bridgeConn_def removePendingByCallID_def closeLocalLeg_def out_cleanup_def Let_def case_prod_beta ids_simps
      split: frame_splits)

lemma ids_outbound [ids_simps]:
  "ids (open_bridge x srv c u addr dest err off) = ids srv"
  "ids (startCrossCall x srv c area num off) = ids srv"
  "ids (startServiceCall x srv c addr num off) = ids srv"
  "ids (outboundReadLoop srv cid c r) = ids srv"
proof -
  show "ids (open_bridge x srv c u addr dest err off) = ids srv" for u dest err addr
    by (simp add: open_bridge_def Let_def case_prod_beta ids_simps generateCallID_def fresh_ref_def split: frame_splits)
  then show "ids (startCrossCall x srv c area num off) = ids srv" "ids (startServiceCall x srv c addr num off) = ids srv"
    by (simp_all add: startCrossCall_def startServiceCall_def ids_simps split: frame_splits)
  show "ids (outboundReadLoop srv cid c r) = ids srv"
    by (simp add: outboundReadLoop_def Let_def case_prod_beta ids_simps split: frame_splits)
qed

lemma ids_handleNetService [ids_simps]: "ids (snd (handleNetService x srv st ev cid v)) = ids srv"
  by (simp add: handleNetService_def Let_def case_prod_beta ids_simps split: frame_splits)

lemma ids_busy [ids_simps]: "ids (busy x srv st cid) = ids srv"
  by (simp add: busy_def ids_simps)

lemma ids_inbound_offline [ids_simps]: "ids (snd (inbound_offline x srv st ev cid leg)) = ids srv"
  by (simp add: inbound_offline_def Let_def case_prod_beta ids_simps split: frame_splits)

lemma ids_inboundIncoming [ids_simps]: "ids (snd (inboundIncoming x srv st ev)) = ids srv"
  by (simp add: inboundIncoming_def inbound_online_def Let_def case_prod_beta ids_simps split: option.split bool.split)

lemma ids_serveInbound [ids_simps]:
  "ids (inboundICE x srv ev) = ids srv" "ids (inboundRemoteHangup srv cid reason) = ids srv"
  "ids (snd (serveInbound x srv st opened ev)) = ids srv"
  by (simp_all add: inboundICE_def inboundRemoteHangup_def serveInbound_def Let_def case_prod_beta ids_simps split: frame_splits)

lemma ids_inbound_close [ids_simps]: "ids (inbound_close_one srv cid) = ids srv" "ids (inbound_close srv opened) = ids srv"
proof -
  show one: "ids (inbound_close_one srv cid) = ids srv" for srv cid
    by (simp add: inbound_close_one_def Let_def case_prod_beta ids_simps split: frame_splits)
  show "ids (inbound_close srv opened) = ids srv"
    by (simp add: inbound_close_def ids_fold one)
qed

section \<open>Identities in the handlers\<close>

lemma ids_dial [ids_simps]:
  "ids (voicemail_or_404 x srv c callee off) = ids srv"
  "ids (call_offline x srv c u num off) = ids srv"
proof -
  show vm: "ids (voicemail_or_404 x srv c callee off) = ids srv" for srv callee
    by (simp add: voicemail_or_404_def case_prod_beta ids_simps split: bool.split)
  show "ids (call_offline x srv c u num off) = ids srv"
    by (simp add: call_offline_def Let_def case_prod_beta ids_simps vm split: option.split sum.split bool.split)
qed

definition keeps_ids :: "Server \<Rightarrow> Server outcome \<Rightarrow> bool" where
  "keeps_ids srv r \<longleftrightarrow> (\<forall>srv'. r = Done srv' \<longrightarrow> ids srv' = ids srv)"

lemma keeps_ids_simps [simp]:
  "keeps_ids srv (Done srv') \<longleftrightarrow> ids srv' = ids srv" "keeps_ids srv Deadlock" "keeps_ids srv Crash"
  by (simp_all add: keeps_ids_def)

lemma ids_handleServiceCall [ids_simps]: "keeps_ids srv (handleServiceCall x srv c u msg)"
  by (simp add: handleServiceCall_def Let_def case_prod_beta ids_simps split: option.split sum.split)

lemma ids_call_online [ids_simps]: "keeps_ids srv (call_online x srv c u d off)"
  by (simp add: call_online_def startRing_def Let_def case_prod_beta ids_simps)

lemma ids_handleCall [ids_simps]: "keeps_ids srv (handleCall x srv c msg)"
  by (simp add: handleCall_def ids_simps split: option.split sum.split prod.split)

lemma ids_takeRing [ids_simps]: "ids (snd (takeRing srv cid)) = ids srv"
  by (simp add: takeRing_def ids_simps split: option.split)

lemma ids_handleCallAnswer [ids_simps]: "ids (handleCallAnswer x srv c msg) = ids srv"
  by (simp add: handleCallAnswer_def Let_def ids_simps split: option.split)

lemma ids_end_others [ids_simps]: "ids (end_others srv cid c reason) = ids srv"
  by (simp add: end_others_def ids_fold ids_simps)

lemma ids_voicemail_or_end [ids_simps]: "ids (voicemail_or_end x srv rs cid reason) = ids srv"
  by (simp add: voicemail_or_end_def case_prod_beta ids_simps split: bool.split)

lemma ids_handleCallHangup [ids_simps]: "ids (handleCallHangup x srv c) = ids srv"
  by (simp add: handleCallHangup_def Let_def case_prod_beta ids_simps split: option.split bool.split)

lemma ids_handleICECandidate [ids_simps]: "keeps_ids srv (handleICECandidate x srv c msg)"
  by (simp add: handleICECandidate_def Let_def ids_simps ids_fold split: option.split prod.split)

lemma ids_handleCallDecline [ids_simps]: "ids (handleCallDecline x srv c cid) = ids srv"
  by (simp add: handleCallDecline_def Let_def case_prod_beta ids_simps split: option.split)

lemma ids_deliverPendingCall [ids_simps]: "ids (deliverPendingCall srv c) = ids srv"
  by (simp add: deliverPendingCall_def deliver_to_def Let_def ids_simps split: option.split)

lemma ids_expirePendingCalls [ids_simps]: "ids (expire_one x srv num p) = ids srv" "ids (expirePendingCalls x srv) = ids srv"
proof -
  show one: "ids (expire_one x srv num p) = ids srv" for srv num p
    by (simp add: expire_one_def case_prod_beta ids_simps split: option.split bool.split)
  show "ids (expirePendingCalls x srv) = ids srv"
    by (simp add: expirePendingCalls_def Let_def ids_fold one ids_simps split: prod.split)
qed

lemma ids_leave [ids_simps]: "ids (leave_ring x srv c cid) = ids srv" "ids (leave_service_call srv c cid) = ids srv"
  by (simp_all add: leave_ring_def leave_service_call_def case_prod_beta ids_simps split: option.split)

lemma ids_relay [ids_simps]: "ids (snd (relayDMMessage srv num env)) = ids srv" "ids (flushPendingDM x srv c) = ids srv"
proof -
  show one: "ids (snd (relayDMMessage srv num env)) = ids srv" for srv num env
    by (simp add: relayDMMessage_def ids_simps split: option.split)
  show "ids (flushPendingDM x srv c) = ids srv"
    by (simp add: flushPendingDM_def case_prod_beta ids_simps ids_fold one split: option.split sum.split)
qed

lemma ids_small_handlers [ids_simps]:
  "ids (handleChallengeRequest x srv c k) = ids srv" "ids (handleRegisterFCM srv c tok) = ids srv"
  "ids (handleVoicemailList srv c) = ids srv" "ids (handleVoicemailGet x srv c vid) = ids srv"
  "ids (handleVoicemailDelete srv c vid) = ids srv" "ids (handleVoicemailMarkRead srv c vid) = ids srv"
  "ids (handleDMAck srv c mid) = ids srv"
  by (simp_all add: handleChallengeRequest_def handleRegisterFCM_def handleVoicemailList_def handleVoicemailGet_def
      handleVoicemailDelete_def handleVoicemailMarkRead_def handleDMAck_def Let_def case_prod_beta ids_simps
      split: option.split sum.split)

lemma ids_handleDMAttachmentGet [ids_simps]: "ids (handleDMAttachmentGet x srv c mid) = ids srv"
  by (simp add: handleDMAttachmentGet_def Let_def case_prod_beta ids_simps split: option.split sum.split)

lemma ids_relay_or_push [ids_simps]: "ids (relay_or_push x srv num callee env) = ids srv"
  by (simp add: relay_or_push_def case_prod_beta ids_simps split: bool.split)

lemma ids_sendRemoteDM [ids_simps]: "ids (snd (sendRemoteDM x srv c env area)) = ids srv"
  by (simp add: sendRemoteDM_def case_prod_beta ids_simps split: option.split bool.split)

lemma ids_handleDMSend [ids_simps]: "ids (handleDMSend x srv c req) = ids srv"
  by (simp add: handleDMSend_def Let_def case_prod_beta ids_simps split: option.split sum.split bool.split)

lemma ids_deliverInboundDM [ids_simps]: "ids (snd (deliverInboundDM x srv env)) = ids srv"
  by (simp add: deliverInboundDM_def case_prod_beta ids_simps split: option.split sum.split)

lemma ids_DeliverDM [ids_simps]: "ids (snd (DeliverDM x srv req)) = ids srv"
  by (simp add: DeliverDM_def case_prod_beta ids_simps split: option.split)

end
