(* ===== verification/Sig_Inv.thy ===== *)
theory Sig_Inv
  imports Sig_Frame
begin

text \<open>
  What every handler keeps of the state: the send queues never exceed their capacity, ring entries
  are between two connections and know the callee's line, every service that is referred to
  exists, and references are never handed out twice. \<open>sane n\<close> collects these; \<open>n\<close> is a lower bound
  of the reference counter.
\<close>

definition svc_known :: "Server \<Rightarrow> sref \<Rightarrow> bool" where
  "svc_known srv v \<longleftrightarrow> map_of (svcHeap srv) v \<noteq> None"

definition queues_ok :: "Server \<Rightarrow> bool" where
  "queues_ok srv \<longleftrightarrow> (\<forall>c. length (sendCh (client srv c)) \<le> sendCap)"

definition ring_ok :: "ringState \<Rightarrow> bool" where
  "ring_ok rs \<longleftrightarrow> r_caller rs \<noteq> r_callee rs \<and> r_calleeUser rs \<noteq> None \<and> \<not> r_answered rs"

definition rings_ok :: "Server \<Rightarrow> bool" where
  "rings_ok srv \<longleftrightarrow> (\<forall>cid rs. map_of (ringStates srv) cid = Some rs \<longrightarrow> ring_ok rs)"

definition services_ok :: "Server \<Rightarrow> bool" where
  "services_ok srv \<longleftrightarrow>
     (\<forall>cid c v. map_of (svcCalls srv) cid = Some (c, v) \<longrightarrow> svc_known srv v) \<and>
     (\<forall>k v. map_of (s_services srv) k = Some v \<longrightarrow> svc_known srv v) \<and>
     (\<forall>k v. map_of (netSvcs srv) k = Some v \<longrightarrow> svc_known srv v)"

definition sane :: "nat \<Rightarrow> Server \<Rightarrow> bool" where
  "sane n srv \<longleftrightarrow> n \<le> counter srv \<and> queues_ok srv \<and> rings_ok srv \<and> services_ok srv"

lemmas sane_defs = sane_def queues_ok_def rings_ok_def services_ok_def

named_theorems sane_simps \<open>operations that keep the state sane\<close>

section \<open>Small operations\<close>

lemma client_fields [simp]:
  "client (srv\<lparr>s_store := a1\<rparr>) c = client srv c" "client (srv\<lparr>s_auth := a2\<rparr>) c = client srv c"
  "client (srv\<lparr>svcCalls := a3\<rparr>) c = client srv c" "client (srv\<lparr>pendingCalls := a4\<rparr>) c = client srv c"
  "client (srv\<lparr>s_vm := a5\<rparr>) c = client srv c" "client (srv\<lparr>s_dmm := a6\<rparr>) c = client srv c"
  "client (srv\<lparr>ringStates := a7\<rparr>) c = client srv c" "client (srv\<lparr>gConns := a8\<rparr>) c = client srv c"
  "client (srv\<lparr>outLegs := a9\<rparr>) c = client srv c" "client (srv\<lparr>inLegs := b1\<rparr>) c = client srv c"
  "client (srv\<lparr>svcHeap := b2\<rparr>) c = client srv c" "client (srv\<lparr>selfEnds := b3\<rparr>) c = client srv c"
  "client (srv\<lparr>counter := b4\<rparr>) c = client srv c" "client (srv\<lparr>wire := b5\<rparr>) c = client srv c"
  "client (srv\<lparr>pushes := b6\<rparr>) c = client srv c" "client (srv\<lparr>kicked := b7\<rparr>) c = client srv c"
  "client (srv\<lparr>clients := b8\<rparr>) c = client srv c"
  by (simp_all add: client_def)

lemma sane_fields [sane_simps]:
  "sane n (srv\<lparr>s_store := a1\<rparr>) = sane n srv" "sane n (srv\<lparr>s_auth := a2\<rparr>) = sane n srv"
  "sane n (srv\<lparr>pendingCalls := a4\<rparr>) = sane n srv" "sane n (srv\<lparr>s_vm := a5\<rparr>) = sane n srv"
  "sane n (srv\<lparr>s_dmm := a6\<rparr>) = sane n srv" "sane n (srv\<lparr>gConns := a8\<rparr>) = sane n srv"
  "sane n (srv\<lparr>outLegs := a9\<rparr>) = sane n srv" "sane n (srv\<lparr>inLegs := b1\<rparr>) = sane n srv"
  "sane n (srv\<lparr>selfEnds := b3\<rparr>) = sane n srv" "sane n (srv\<lparr>wire := b5\<rparr>) = sane n srv"
  "sane n (srv\<lparr>pushes := b6\<rparr>) = sane n srv" "sane n (srv\<lparr>kicked := b7\<rparr>) = sane n srv"
  "sane n (srv\<lparr>clients := b8\<rparr>) = sane n srv"
  by (simp_all add: sane_defs svc_known_def)

lemma sane_deletes [sane_simps]:
  "sane n srv \<Longrightarrow> rs = ringStates srv \<Longrightarrow> sane n (srv\<lparr>ringStates := adel cid rs\<rparr>)"
  "sane n srv \<Longrightarrow> sc = svcCalls srv \<Longrightarrow> sane n (srv\<lparr>svcCalls := adel cid sc\<rparr>)"
  by (simp_all add: sane_defs svc_known_def)

lemma sane_count [sane_simps]: "sane n srv \<Longrightarrow> k = Suc (counter srv) \<Longrightarrow> sane n (srv\<lparr>counter := k\<rparr>)"
  by (simp add: sane_defs svc_known_def)

lemma sane_upd [sane_simps]:
  "sane n srv \<Longrightarrow> length (sendCh (f (client srv c))) \<le> sendCap \<Longrightarrow> sane n (upd_client srv c f)"
  by (simp add: sane_defs svc_known_def client_upd)

lemma sane_queue: "sane n srv \<Longrightarrow> length (sendCh (client srv c)) \<le> sendCap"
  by (simp add: sane_defs)

lemma sane_set_call [sane_simps]: "sane n srv \<Longrightarrow> sane n (set_call srv c cid)"
  by (simp add: set_call_def sane_upd sane_queue)

lemma sane_sendMessage [sane_simps]: "sane n srv \<Longrightarrow> sane n (sendMessage srv c m)"
  by (simp add: sendMessage_def sane_upd sane_queue)

lemma sane_sendError [sane_simps]: "sane n srv \<Longrightarrow> sane n (sendError srv c k m)"
  by (simp add: sendError_def sane_simps)

lemma sane_snd_event [sane_simps]: "sane n srv \<Longrightarrow> sane n (snd (snd_event x srv st ev))"
  using snd_event_state [of x srv st ev] by (auto simp: sane_simps)

lemma sane_send_push [sane_simps]: "sane n srv \<Longrightarrow> sane n (snd (send_push x srv p))"
  using send_push_state [of x srv p] by (auto simp: sane_simps)

lemma sane_gen [sane_simps]:
  "sane n srv \<Longrightarrow> sane n (snd (generateCallID x srv))" "sane n srv \<Longrightarrow> sane n (snd (fresh_ref srv))"
  by (simp_all add: generateCallID_def fresh_ref_def sane_simps)

lemma sane_clearCallID [sane_simps]: "sane n srv \<Longrightarrow> sane n (clearCallID srv c cid)"
  by (simp add: clearCallID_def sane_simps split: option.split)

lemma sane_heap_put [sane_simps]: "sane n srv \<Longrightarrow> h = svcHeap srv \<Longrightarrow> sane n (srv\<lparr>svcHeap := aput v obj h\<rparr>)"
  by (simp add: sane_defs svc_known_def)

lemma sane_upd_svc [sane_simps]:
  "sane n srv \<Longrightarrow> sane n (upd_svc srv v f)" "sane n srv \<Longrightarrow> sane n (end_svc srv v cid)"
  by (simp_all add: upd_svc_def end_svc_def sane_simps split: option.split)

lemma sane_legs [sane_simps]:
  "sane n srv \<Longrightarrow> sane n (put_leg srv cid leg)" "sane n srv \<Longrightarrow> sane n (removeInLeg srv cid)"
  "sane n srv \<Longrightarrow> sane n (leg_hangup x srv st cid reason)"
  by (simp_all add: put_leg_def removeInLeg_def leg_hangup_def sane_simps)

lemma sane_svcCall [sane_simps]:
  "sane n srv \<Longrightarrow> svc_known srv v \<Longrightarrow> sc = svcCalls srv \<Longrightarrow> sane n (srv\<lparr>svcCalls := aput cid (c, v) sc\<rparr>)"
  by (auto simp: sane_defs svc_known_def)

lemma sane_fold: "(\<And>a s. sane n s \<Longrightarrow> sane n (f a s)) \<Longrightarrow> sane n s \<Longrightarrow> sane n (fold f xs s)"
  by (induction xs arbitrary: s) simp_all

section \<open>Voicemail routing\<close>

lemma sane_new_svc:
  "sane n srv \<Longrightarrow> sane n (srv\<lparr>svcHeap := aput v obj (svcHeap srv), selfEnds := se, svcCalls := aput cid (c, v) (svcCalls srv)\<rparr>)"
  by (auto simp: sane_defs svc_known_def)

lemma sane_routeToVoicemail [sane_simps]: "sane n srv \<Longrightarrow> sane n (snd (routeToVoicemail x srv d u off cid))"
  by (simp add: routeToVoicemail_def Let_def case_prod_beta sane_simps sane_new_svc split: option.split sum.split)

lemma sane_endForClient [sane_simps]: "sane n srv \<Longrightarrow> sane n (endForClient srv d cid reason)"
  by (simp add: endForClient_def sane_simps split: option.split)

lemma sane_endServiceCall [sane_simps]: "sane n srv \<Longrightarrow> sane n (endServiceCall srv d cid reason)"
  by (simp add: endServiceCall_def Let_def case_prod_beta sane_simps split: option.split)

lemma sane_onRingTimeout [sane_simps]: "sane n srv \<Longrightarrow> sane n (onRingTimeout x srv cid)"
  by (simp add: onRingTimeout_def Let_def case_prod_beta sane_simps split: option.split bool.split)

lemma sane_routeInboundVoicemail [sane_simps]: "sane n srv \<Longrightarrow> sane n (snd (routeInboundVoicemail x srv leg cid))"
  by (simp add: routeInboundVoicemail_def Let_def case_prod_beta sane_simps split: option.split sum.split)

lemma sane_endInboundCalleeRing [sane_simps]: "sane n srv \<Longrightarrow> sane n (endInboundCalleeRing srv cid)"
  by (simp add: endInboundCalleeRing_def Let_def sane_simps split: option.split)

lemma sane_onInboundRingTimeout [sane_simps]: "sane n srv \<Longrightarrow> sane n (onInboundRingTimeout x srv cid)"
  by (simp add: onInboundRingTimeout_def Let_def case_prod_beta sane_simps split: option.split bool.split)

lemma sane_declineInboundCallee [sane_simps]: "sane n srv \<Longrightarrow> sane n (snd (declineInboundCallee x srv c cid))"
  by (simp add: declineInboundCallee_def Let_def case_prod_beta sane_simps split: option.split bool.split)

lemma sane_NotifyVoicemailStored [sane_simps]: "sane n srv \<Longrightarrow> sane n (NotifyVoicemailStored x srv r cn cname)"
  by (simp add: NotifyVoicemailStored_def Let_def sane_simps split: option.split sum.split)

lemma sane_OnSelfEnd [sane_simps]: "sane n srv \<Longrightarrow> sane n (OnSelfEnd x srv se cid)"
  by (simp add: OnSelfEnd_def Let_def sane_simps split: option.split self_end.split)

lemma sane_record_session [sane_simps]: "sane n srv \<Longrightarrow> sane n (record_session x srv v cid decoder played pkts)"
  by (simp add: record_session_def Let_def case_prod_beta sane_simps split: option.split svc_obj.split)

section \<open>Bridges\<close>

lemma sane_bridgeConn [sane_simps]: "sane n srv \<Longrightarrow> sane n (snd (bridgeConn x srv addr ins))"
  by (simp add: bridgeConn_def sane_simps)

lemma sane_removePending [sane_simps]: "sane n srv \<Longrightarrow> sane n (snd (removePendingByCallID srv cid))"
  by (simp add: removePendingByCallID_def sane_simps)

lemma sane_closeLocalLeg [sane_simps]: "sane n srv \<Longrightarrow> sane n (snd (closeLocalLeg x srv c cid reason))"
  by (simp add: closeLocalLeg_def sane_simps split: option.split)

lemma sane_out_cleanup [sane_simps]: "sane n srv \<Longrightarrow> sane n (out_cleanup srv cid c)"
  by (simp add: out_cleanup_def sane_simps)

lemma sane_open_bridge [sane_simps]: "sane n srv \<Longrightarrow> sane n (open_bridge x srv c u addr dest err off)"
  by (simp add: open_bridge_def Let_def case_prod_beta sane_simps split: bool.split)

lemma sane_startCross [sane_simps]:
  "sane n srv \<Longrightarrow> sane n (startCrossCall x srv c area num off)" "sane n srv \<Longrightarrow> sane n (startServiceCall x srv c addr num off)"
  by (simp_all add: startCrossCall_def startServiceCall_def sane_simps split: option.split)

lemma sane_outboundReadLoop [sane_simps]: "sane n srv \<Longrightarrow> sane n (outboundReadLoop srv cid c r)"
  by (simp add: outboundReadLoop_def sane_simps split: option.split recv.split ev_type.split)

lemma sane_handleNetService [sane_simps]: "sane n srv \<Longrightarrow> sane n (snd (handleNetService x srv st ev cid v))"
  by (simp add: handleNetService_def Let_def case_prod_beta sane_simps split: option.split sum.split)

lemma sane_busy [sane_simps]: "sane n srv \<Longrightarrow> sane n (busy x srv st cid)"
  by (simp add: busy_def sane_simps)

lemma sane_inbound_offline [sane_simps]: "sane n srv \<Longrightarrow> sane n (snd (inbound_offline x srv st ev cid leg))"
  by (simp add: inbound_offline_def Let_def case_prod_beta sane_simps split: option.split sum.split bool.split)

lemma sane_inboundIncoming [sane_simps]: "sane n srv \<Longrightarrow> sane n (snd (inboundIncoming x srv st ev))"
  by (simp add: inboundIncoming_def inbound_online_def Let_def case_prod_beta sane_simps split: option.split bool.split)

lemma sane_inboundICE [sane_simps]: "sane n srv \<Longrightarrow> sane n (inboundICE x srv ev)"
  by (simp add: inboundICE_def Let_def sane_simps split: option.split)

lemma sane_inboundRemoteHangup [sane_simps]: "sane n srv \<Longrightarrow> sane n (inboundRemoteHangup srv cid reason)"
  by (simp add: inboundRemoteHangup_def Let_def sane_simps split: option.split)

lemma sane_serveInbound [sane_simps]: "sane n srv \<Longrightarrow> sane n (snd (serveInbound x srv st opened ev))"
  by (simp add: serveInbound_def case_prod_beta sane_simps split: ev_type.split)

lemma sane_inbound_close [sane_simps]:
  "sane n srv \<Longrightarrow> sane n (inbound_close_one srv cid)" "sane n srv \<Longrightarrow> sane n (inbound_close srv opened)"
proof -
  show one: "sane n srv \<Longrightarrow> sane n (inbound_close_one srv cid)" for srv cid
    by (simp add: inbound_close_one_def Let_def sane_simps split: option.split)
  show "sane n srv \<Longrightarrow> sane n (inbound_close srv opened)"
    by (simp add: inbound_close_def sane_fold one)
qed

section \<open>Call handlers\<close>

definition keeps_sane :: "nat \<Rightarrow> Server outcome \<Rightarrow> bool" where
  "keeps_sane n r \<longleftrightarrow> (\<forall>srv'. r = Done srv' \<longrightarrow> sane n srv')"

lemma keeps_sane_simps [simp]:
  "keeps_sane n (Done srv') \<longleftrightarrow> sane n srv'" "keeps_sane n Deadlock" "keeps_sane n Crash"
  by (simp_all add: keeps_sane_def)

definition conns_known :: "Server \<Rightarrow> bool" where
  "conns_known srv \<longleftrightarrow> (\<forall>num c. map_of (clients srv) num = Some c \<longrightarrow> user_of srv c \<noteq> None)"

lemma svc_known_upd [simp]: "svc_known (upd_svc srv u f) v = svc_known srv v"
  by (simp add: upd_svc_def svc_known_def svc_obj_of_def split: option.split)

lemma svc_known_obj: "svc_obj_of srv v = Some obj \<Longrightarrow> svc_known srv v"
  by (simp add: svc_known_def svc_obj_of_def)

lemma sane_voicemail_or_404 [sane_simps]: "sane n srv \<Longrightarrow> sane n (voicemail_or_404 x srv c callee off)"
  by (simp add: voicemail_or_404_def case_prod_beta sane_simps split: bool.split)

lemma sane_call_offline [sane_simps]: "sane n srv \<Longrightarrow> sane n (call_offline x srv c u num off)"
  by (simp add: call_offline_def Let_def case_prod_beta sane_simps split: option.split sum.split bool.split)

lemma sane_handleServiceCall [sane_simps]: "sane n srv \<Longrightarrow> keeps_sane n (handleServiceCall x srv c u msg)"
  by (auto simp: handleServiceCall_def Let_def case_prod_beta sane_simps dest!: svc_known_obj split: option.split sum.split)

lemma user_of_small [simp]:
  "user_of (set_call srv c cid) d = user_of srv d" "user_of (sendMessage srv c m) d = user_of srv d"
  "user_of (snd (generateCallID x srv)) d = user_of srv d"
  using ids_simps by (simp_all add: ids_def fun_eq_iff)

lemma sane_startRing:
  "sane n srv \<Longrightarrow> c \<noteq> d \<Longrightarrow> user_of srv d \<noteq> None \<Longrightarrow> sane n (startRing srv cid c d off)"
  by (auto simp: startRing_def sane_defs svc_known_def ring_ok_def)

lemma sane_call_online [sane_simps]:
  "sane n srv \<Longrightarrow> user_of srv d \<noteq> None \<Longrightarrow> keeps_sane n (call_online x srv c u d off)"
  by (auto simp: call_online_def Let_def case_prod_beta sane_simps intro!: sane_startRing)

lemma sane_handleCall [sane_simps]:
  "sane n srv \<Longrightarrow> conns_known srv \<Longrightarrow> keeps_sane n (handleCall x srv c msg)"
  by (auto simp: handleCall_def conns_known_def sane_simps split: option.split sum.split prod.split)

lemma sane_takeRing [sane_simps]: "sane n srv \<Longrightarrow> sane n (snd (takeRing srv cid))"
  by (simp add: takeRing_def sane_simps split: option.split)

lemma sane_handleCallAnswer [sane_simps]: "sane n srv \<Longrightarrow> sane n (handleCallAnswer x srv c msg)"
  by (simp add: handleCallAnswer_def Let_def sane_simps split: option.split)

lemma sane_end_others [sane_simps]: "sane n srv \<Longrightarrow> sane n (end_others srv cid c reason)"
  by (simp add: end_others_def sane_fold sane_simps)

lemma sane_voicemail_or_end [sane_simps]: "sane n srv \<Longrightarrow> sane n (voicemail_or_end x srv rs cid reason)"
  by (simp add: voicemail_or_end_def case_prod_beta sane_simps split: bool.split)

lemma sane_handleCallHangup [sane_simps]: "sane n srv \<Longrightarrow> sane n (handleCallHangup x srv c)"
  by (simp add: handleCallHangup_def Let_def case_prod_beta sane_simps split: option.split bool.split)

lemma sane_handleICECandidate [sane_simps]: "sane n srv \<Longrightarrow> keeps_sane n (handleICECandidate x srv c msg)"
  by (simp add: handleICECandidate_def Let_def sane_simps sane_fold split: option.split prod.split)

lemma sane_handleCallDecline [sane_simps]: "sane n srv \<Longrightarrow> sane n (handleCallDecline x srv c cid)"
  by (simp add: handleCallDecline_def Let_def case_prod_beta sane_simps split: option.split)

lemma sane_deliverPendingCall [sane_simps]: "sane n srv \<Longrightarrow> sane n (deliverPendingCall srv c)"
  by (simp add: deliverPendingCall_def deliver_to_def Let_def sane_simps split: option.split)

lemma sane_expirePendingCalls [sane_simps]:
  "sane n srv \<Longrightarrow> sane n (expire_one x srv num p)" "sane n srv \<Longrightarrow> sane n (expirePendingCalls x srv)"
proof -
  show one: "sane n srv \<Longrightarrow> sane n (expire_one x srv num p)" for srv num p
    by (simp add: expire_one_def case_prod_beta sane_simps split: option.split bool.split)
  show "sane n srv \<Longrightarrow> sane n (expirePendingCalls x srv)"
    by (simp add: expirePendingCalls_def Let_def sane_fold one sane_simps split: prod.split)
qed

lemma sane_leave [sane_simps]:
  "sane n srv \<Longrightarrow> sane n (leave_ring x srv c cid)" "sane n srv \<Longrightarrow> sane n (leave_service_call srv c cid)"
  by (simp_all add: leave_ring_def leave_service_call_def case_prod_beta sane_simps split: option.split)

section \<open>Messages\<close>

lemma sane_relay [sane_simps]:
  "sane n srv \<Longrightarrow> sane n (snd (relayDMMessage srv num env))" "sane n srv \<Longrightarrow> sane n (flushPendingDM x srv c)"
proof -
  show one: "sane n srv \<Longrightarrow> sane n (snd (relayDMMessage srv num env))" for srv num env
    by (simp add: relayDMMessage_def sane_simps split: option.split)
  show "sane n srv \<Longrightarrow> sane n (flushPendingDM x srv c)"
    by (simp add: flushPendingDM_def case_prod_beta sane_simps sane_fold one split: option.split sum.split)
qed

lemma sane_small_handlers [sane_simps]:
  "sane n srv \<Longrightarrow> sane n (handleChallengeRequest x srv c k)" "sane n srv \<Longrightarrow> sane n (handleRegisterFCM srv c tok)"
  "sane n srv \<Longrightarrow> sane n (handleVoicemailList srv c)" "sane n srv \<Longrightarrow> sane n (handleVoicemailGet x srv c vid)"
  "sane n srv \<Longrightarrow> sane n (handleVoicemailDelete srv c vid)" "sane n srv \<Longrightarrow> sane n (handleVoicemailMarkRead srv c vid)"
  "sane n srv \<Longrightarrow> sane n (handleDMAck srv c mid)"
  by (simp_all add: handleChallengeRequest_def handleRegisterFCM_def handleVoicemailList_def handleVoicemailGet_def
      handleVoicemailDelete_def handleVoicemailMarkRead_def handleDMAck_def Let_def case_prod_beta sane_simps
      split: option.split sum.split)

lemma sane_handleDMAttachmentGet [sane_simps]: "sane n srv \<Longrightarrow> sane n (handleDMAttachmentGet x srv c mid)"
  by (simp add: handleDMAttachmentGet_def Let_def case_prod_beta sane_simps split: option.split sum.split)

lemma sane_relay_or_push [sane_simps]: "sane n srv \<Longrightarrow> sane n (relay_or_push x srv num callee env)"
  by (simp add: relay_or_push_def case_prod_beta sane_simps split: bool.split)

lemma sane_sendRemoteDM [sane_simps]: "sane n srv \<Longrightarrow> sane n (snd (sendRemoteDM x srv c env area))"
  by (simp add: sendRemoteDM_def case_prod_beta sane_simps split: option.split bool.split)

lemma sane_handleDMSend [sane_simps]: "sane n srv \<Longrightarrow> sane n (handleDMSend x srv c req)"
  by (simp add: handleDMSend_def Let_def case_prod_beta sane_simps split: option.split sum.split bool.split)

lemma sane_deliverInboundDM [sane_simps]: "sane n srv \<Longrightarrow> sane n (snd (deliverInboundDM x srv env))"
  by (simp add: deliverInboundDM_def case_prod_beta sane_simps split: option.split sum.split)

lemma sane_DeliverDM [sane_simps]: "sane n srv \<Longrightarrow> sane n (snd (DeliverDM x srv req))"
  by (simp add: DeliverDM_def case_prod_beta sane_simps split: option.split)

end
