(* ===== verification/Signaling.thy ===== *)
theory Signaling
  imports Sig_Inv
begin

text \<open>
  The signaling server as a transition system. An \<open>event\<close> is what starts a handler: a frame from a
  device, a timer, an event on a bridge, the end of a recording, a change made by the operator.
  \<open>apply_event\<close> runs the handler; the step relation \<open>sig_step\<close> takes the events in any order.

  \<open>pres_step\<close> is the abstract specification of presence: a device is bound to a line by proving
  possession of the line's key, and a connection that ends gives up its own line only. The server
  refines it.
\<close>

section \<open>Events\<close>

datatype event =
    Connect
  | Receive cref "ClientMessage option"
  | Written cref
  | Closed cref
  | RingTimer callID
  | LegTimer callID
  | ExpiryTick
  | ChallengeTick
  | PruneTick
  | Candidate cref callID ice_init
  | BridgeCandidate stream callID ice_init
  | Recording sref callID "(nat \<Rightarrow> bytes \<Rightarrow> pcm option) option" bool "rtp_packet list"
  | Outbound callID cref recv
  | Inbound stream "callID list" CallEvent
  | InboundEnd "callID list"
  | PeerDM "DMEnvelope option"
  | PanelStore store
  | NewArea string
  | NewPusher bool
  | NewIce "IceServer list"
  | NewRegistry bool
  | NewInsecure bool
  | NewTimeouts gotime gotime
  | NetService string svc_obj

definition apply_event :: "ext \<Rightarrow> Server \<Rightarrow> event \<Rightarrow> Server outcome" where
  "apply_event x srv e =
     (case e of
        Connect \<Rightarrow> Done (snd (HandleWebSocket srv))
      | Receive c data \<Rightarrow> readPump x srv c data
      | Written c \<Rightarrow> Done (writePump srv c)
      | Closed c \<Rightarrow> Done (unregisterClient x srv c)
      | RingTimer cid \<Rightarrow> Done (onRingTimeout x srv cid)
      | LegTimer cid \<Rightarrow> Done (onInboundRingTimeout x srv cid)
      | ExpiryTick \<Rightarrow> Done (expirePendingCalls x srv)
      | ChallengeTick \<Rightarrow> Done (srv\<lparr>s_auth := cleanup (x_now x) (s_auth srv)\<rparr>)
      | PruneTick \<Rightarrow> Done (srv\<lparr>s_store := prune_tick (s_store srv) (x_now x)\<rparr>)
      | Candidate c cid cand \<Rightarrow> Done (makeSendICE srv c cid cand)
      | BridgeCandidate st cid cand \<Rightarrow> Done (bridgeSendICE x srv st cid cand)
      | Recording v cid decoder played pkts \<Rightarrow> Done (record_session x srv v cid decoder played pkts)
      | Outbound cid c r \<Rightarrow> Done (outboundReadLoop srv cid c r)
      | Inbound st opened ev \<Rightarrow> Done (snd (serveInbound x srv st opened ev))
      | InboundEnd opened \<Rightarrow> Done (inbound_close srv opened)
      | PeerDM req \<Rightarrow> Done (snd (DeliverDM x srv req))
      | PanelStore s \<Rightarrow> Done (srv\<lparr>s_store := s\<rparr>)
      | NewArea a \<Rightarrow> Done (SetAreaCode srv a)
      | NewPusher p \<Rightarrow> Done (SetPusher srv p)
      | NewIce servers \<Rightarrow> Done (srv_SetICEServers srv servers)
      | NewRegistry r \<Rightarrow> Done (SetRegistry srv r)
      | NewInsecure v \<Rightarrow> Done (SetFedInsecure srv v)
      | NewTimeouts ring pending \<Rightarrow> Done (SetCallTimeouts srv ring pending)
      | NetService num svc \<Rightarrow> Done (RegisterNetworkService srv num svc))"

text \<open>A frame comes from an open connection; a device is known by a reference handed out before.\<close>

fun possible :: "Server \<Rightarrow> event \<Rightarrow> bool" where
  "possible srv (Receive c data) = (c < counter srv)"
| "possible srv e = True"

inductive sig_step :: "Server \<Rightarrow> Server \<Rightarrow> bool" where
  sig_stepI: "possible srv e \<Longrightarrow> apply_event x srv e = Done srv' \<Longrightarrow> sig_step srv srv'"

inductive_cases sig_stepE: "sig_step srv srv'"

definition sig_init :: "Server \<Rightarrow> bool" where
  "sig_init srv \<longleftrightarrow> (\<exists>st au area regs objs pusher. srv = NewServer st au area regs objs pusher \<and>
     (\<forall>v \<in> snd ` set regs. v \<in> set (akeys objs)))"

section \<open>Registration and the end of a connection\<close>

lemma ids_adopt: "ids (adopt srv c u) = ((user_of srv)(c := Some u), aput (Number u) c (clients srv))"
  by (simp add: adopt_def Let_def ids_def fun_eq_iff user_of_def client_def upd_client_def split: option.split)

lemma sane_adopt [sane_simps]: "sane n srv \<Longrightarrow> sane n (adopt srv c u)"
  by (auto simp: adopt_def Let_def sane_simps sane_queue split: option.split intro!: sane_upd)

text \<open>A key is accepted by a registration message.\<close>

definition accepted :: "ext \<Rightarrow> Server \<Rightarrow> RegisterRequest \<Rightarrow> bytes \<Rightarrow> bool" where
  "accepted x srv msg pub \<longleftrightarrow> rr_KsimID msg = Some pub \<and>
     (\<exists>sig. rr_Signature msg = Some sig \<and> fst (VerifyResponse (x_ed x) (x_now x) (s_auth srv) pub sig) = Inr ())"

lemma register_user_key: "register_user x srv pub dn tok = Inr (u, s) \<Longrightarrow> KSimPublicKey u = pub"
  by (auto simp: register_user_def Let_def GetUserByPublicKey_def find_Some_iff
      split: sum.splits option.splits if_splits)

lemma handleRegister_ids:
  assumes "handleRegister x srv c msg = Done srv'"
  shows "ids srv' = ids srv \<or>
    (\<exists>u. accepted x srv msg (KSimPublicKey u) \<and> ids srv' = ((user_of srv)(c := Some u), aput (Number u) c (clients srv)))"
proof (cases "\<exists>pub sig au. rr_KsimID msg = Some pub \<and> rr_Signature msg = Some sig \<and>
      VerifyResponse (x_ed x) (x_now x) (s_auth srv) pub sig = (Inr (), au)")
  case True
  then obtain pub sig au where k: "rr_KsimID msg = Some pub" "rr_Signature msg = Some sig"
    "VerifyResponse (x_ed x) (x_now x) (s_auth srv) pub sig = (Inr (), au)" by blast
  define dn where "dn = (case rr_DisplayName msg of None \<Rightarrow> [] | Some n \<Rightarrow> n)"
  show ?thesis
  proof (cases "register_user x (srv\<lparr>s_auth := au\<rparr>) pub dn (rr_ActivationToken msg)")
    case (Inl e)
    with assms k show ?thesis
      by (auto simp: handleRegister_def Let_def dn_def ids_simps split: prod.splits)
  next
    case (Inr us)
    then obtain u s where us: "register_user x (srv\<lparr>s_auth := au\<rparr>) pub dn (rr_ActivationToken msg) = Inr (u, s)"
      by (cases us) auto
    with assms k have "ids srv' = ids (adopt (srv\<lparr>s_auth := au, s_store := s\<rparr>) c u)"
      by (auto simp: handleRegister_def Let_def dn_def ids_simps)
    then have "ids srv' = ((user_of srv)(c := Some u), aput (Number u) c (clients srv))"
      by (simp add: ids_adopt user_of_def [abs_def])
    moreover have "accepted x srv msg (KSimPublicKey u)"
      using register_user_key [OF us] k by (auto simp: accepted_def)
    ultimately show ?thesis by blast
  qed
next
  case False
  with assms show ?thesis
    by (auto simp: handleRegister_def Let_def ids_simps split: option.splits prod.splits sum.splits ksim_error.splits)
qed

lemma sane_handleRegister [sane_simps]: "sane n srv \<Longrightarrow> keeps_sane n (handleRegister x srv c msg)"
  by (simp add: handleRegister_def Let_def case_prod_beta sane_simps split: option.split sum.split ksim_error.split)

lemma ids_unregisterClient:
  "ids (unregisterClient x srv c) =
     (user_of srv,
      case user_of srv c of
        None \<Rightarrow> clients srv
      | Some u \<Rightarrow> if map_of (clients srv) (Number u) = Some c then adel (Number u) (clients srv) else clients srv)"
proof (cases "user_of srv c")
  case None
  then show ?thesis by (simp add: unregisterClient_def ids_def)
next
  case (Some u)
  define srv1 where "srv1 = (let cid = call_of srv c; srv = set_call srv c [] in
      if cid = [] then srv
      else end_others (leave_service_call (leave_ring x (snd (removePendingByCallID (snd (closeLocalLeg x srv c cid ''disconnect'')) cid))
        c cid) c cid) cid c ''disconnect'')"
  have i1: "ids srv1 = ids srv" by (simp add: srv1_def Let_def ids_simps)
  have "unregisterClient x srv c = (if map_of (clients srv1) (Number u) = Some c
      then srv1\<lparr>clients := adel (Number u) (clients srv1)\<rparr> else srv1)"
    by (simp add: unregisterClient_def Some srv1_def Let_def)
  then show ?thesis
    using Some i1 by (auto simp: ids_def user_of_def [abs_def])
qed

lemma sane_unregisterClient [sane_simps]: "sane n srv \<Longrightarrow> sane n (unregisterClient x srv c)"
  by (simp add: unregisterClient_def Let_def sane_simps split: option.split)

section \<open>The invariant\<close>

definition sig_inv :: "Server \<Rightarrow> bool" where
  "sig_inv srv \<longleftrightarrow> sane 0 srv \<and> conns_known srv \<and> (\<forall>c. user_of srv c \<noteq> None \<longrightarrow> c < counter srv)"

lemma sane_counter: "sane n srv \<Longrightarrow> n \<le> counter srv" by (simp add: sane_def)

lemma sane_self: "sane n srv \<Longrightarrow> sane (counter srv) srv" by (simp add: sane_def)

lemma sig_inv_keep:
  assumes "sig_inv srv" and "ids srv' = ids srv" and "\<And>n. sane n srv \<Longrightarrow> sane n srv'"
  shows "sig_inv srv'"
proof -
  have "sane (counter srv) srv" using assms(1) sane_self by (auto simp: sig_inv_def)
  from assms(3) [OF this] have "counter srv \<le> counter srv'" by (rule sane_counter)
  then show ?thesis
    using assms by (fastforce simp: sig_inv_def conns_known_def ids_def)
qed

text \<open>The handlers that leave the identities alone.\<close>

fun presence_event :: "event \<Rightarrow> bool" where
  "presence_event Connect = True"
| "presence_event (Closed c) = True"
| "presence_event (Receive c (Some msg)) = (m_ChallengeRequest msg = None \<and> m_Register msg \<noteq> None)"
| "presence_event e = False"

lemma handleMessage_ids:
  assumes "\<not> presence_event (Receive c (Some msg))"
  shows "keeps_ids srv (handleMessage x srv c msg)"
proof (cases "m_ChallengeRequest msg")
  case None
  with assms have "m_Register msg = None" by simp
  with None show ?thesis by (simp add: handleMessage_def ids_simps split: option.split)
qed (simp add: handleMessage_def ids_simps)

lemma handleMessage_sane:
  "sane n srv \<Longrightarrow> conns_known srv \<Longrightarrow> keeps_sane n (handleMessage x srv c msg)"
  by (simp add: handleMessage_def sane_simps split: option.split)

lemma sane_setters:
  "sane n srv \<Longrightarrow> sane n (SetAreaCode srv a)" "sane n srv \<Longrightarrow> sane n (SetPusher srv p)"
  "sane n srv \<Longrightarrow> sane n (srv_SetICEServers srv ice)" "sane n srv \<Longrightarrow> sane n (SetRegistry srv r)"
  "sane n srv \<Longrightarrow> sane n (SetFedInsecure srv v)" "sane n srv \<Longrightarrow> sane n (SetCallTimeouts srv ring pending)"
  "sane n srv \<Longrightarrow> sane n (RegisterNetworkService srv num svc)"
  by (auto simp: SetAreaCode_def SetPusher_def srv_SetICEServers_def SetRegistry_def SetFedInsecure_def SetCallTimeouts_def
      RegisterNetworkService_def sane_defs svc_known_def client_def Let_def)

lemma ids_setters:
  "ids (SetAreaCode srv a) = ids srv" "ids (SetPusher srv p) = ids srv" "ids (srv_SetICEServers srv ice) = ids srv"
  "ids (SetRegistry srv r) = ids srv" "ids (SetFedInsecure srv v) = ids srv" "ids (SetCallTimeouts srv ring pending) = ids srv"
  "ids (RegisterNetworkService srv num svc) = ids srv"
  by (simp_all add: SetAreaCode_def SetPusher_def srv_SetICEServers_def SetRegistry_def SetFedInsecure_def SetCallTimeouts_def
      RegisterNetworkService_def ids_def user_of_def client_def fun_eq_iff Let_def)

lemma writePump_frame: "ids (writePump srv c) = ids srv" "sane n srv \<Longrightarrow> sane n (writePump srv c)"
proof -
  show "ids (writePump srv c) = ids srv"
    by (simp add: writePump_def ids_upd user_of_def)
  have "length (tl (sendCh (client srv c))) \<le> length (sendCh (client srv c))" by simp
  then show "sane n srv \<Longrightarrow> sane n (writePump srv c)"
    using sane_queue [of n srv c] by (auto simp: writePump_def intro!: sane_upd)
qed

lemma apply_event_ids: "\<not> presence_event e \<Longrightarrow> keeps_ids srv (apply_event x srv e)"
proof (cases e)
  case (Receive c data)
  moreover assume "\<not> presence_event e"
  ultimately show ?thesis
    using handleMessage_ids by (cases data) (simp_all add: apply_event_def readPump_def ids_simps)
qed (simp_all add: apply_event_def ids_simps ids_setters writePump_frame makeSendICE_def bridgeSendICE_def)

lemma sane_HandleWebSocket: "sane n srv \<Longrightarrow> sane n (snd (HandleWebSocket srv))"
  by (auto simp: HandleWebSocket_def sane_defs svc_known_def client_def)

lemma apply_event_sane: "sane n srv \<Longrightarrow> conns_known srv \<Longrightarrow> keeps_sane n (apply_event x srv e)"
proof (cases e)
  case (Receive c data)
  moreover assume "sane n srv" "conns_known srv"
  ultimately show ?thesis
    using handleMessage_sane by (cases data) (simp_all add: apply_event_def readPump_def sane_simps)
qed (simp_all add: apply_event_def sane_simps sane_setters writePump_frame sane_HandleWebSocket makeSendICE_def bridgeSendICE_def)

section \<open>Presence, abstractly\<close>

type_synonym presence = "(cref \<Rightarrow> User option) \<times> (string \<rightharpoonup> cref)"

definition presence_of :: "Server \<Rightarrow> presence" where
  "presence_of srv = (user_of srv, map_of (clients srv))"

text \<open>\<open>proves\<close> are the keys whose possession is proved in the step.\<close>

inductive pres_step :: "(bytes \<Rightarrow> bool) \<Rightarrow> presence \<Rightarrow> presence \<Rightarrow> bool" for proves where
  stay: "pres_step proves p p"
| bind_line: "proves (KSimPublicKey u) \<Longrightarrow> pres_step proves (U, M) (U(c := Some u), M(Number u \<mapsto> c))"
| unbind_line: "U c = Some u \<Longrightarrow> M (Number u) = Some c \<Longrightarrow> pres_step proves (U, M) (U, M(Number u := None))"

definition proved_by :: "ext \<Rightarrow> Server \<Rightarrow> event \<Rightarrow> bytes \<Rightarrow> bool" where
  "proved_by x srv e pub \<longleftrightarrow>
     (\<exists>c msg req. e = Receive c (Some msg) \<and> m_ChallengeRequest msg = None \<and> m_Register msg = Some req \<and> accepted x srv req pub)"

lemma presence_ids: "ids srv' = ids srv \<Longrightarrow> presence_of srv' = presence_of srv"
  by (simp add: presence_of_def ids_def)

lemma HandleWebSocket_ids: "user_of srv (counter srv) = None \<Longrightarrow> ids (snd (HandleWebSocket srv)) = ids srv"
  by (auto simp: HandleWebSocket_def ids_def user_of_def client_def fun_eq_iff)

lemma new_conn_unknown: "sig_inv srv \<Longrightarrow> user_of srv (counter srv) = None"
  using less_irrefl by (auto simp: sig_inv_def)

lemma apply_event_presence:
  assumes "sig_inv srv" and "apply_event x srv e = Done srv'"
  shows "pres_step (proved_by x srv e) (presence_of srv) (presence_of srv')"
proof (cases "presence_event e")
  case False
  with assms(2) apply_event_ids [of e srv x] have "ids srv' = ids srv" by simp
  then show ?thesis by (metis presence_ids stay)
next
  case True
  then show ?thesis
  proof (cases e rule: presence_event.cases)
    case 1
    with assms HandleWebSocket_ids [OF new_conn_unknown [OF assms(1)]] have "ids srv' = ids srv"
      by (simp add: apply_event_def)
    then show ?thesis by (metis presence_ids stay)
  next
    case (2 c)
    with assms ids_unregisterClient [of x srv c] show ?thesis
      by (auto simp: apply_event_def presence_of_def ids_def intro: pres_step.intros split: option.splits if_splits)
  next
    case (3 c msg)
    with True obtain req where m: "m_ChallengeRequest msg = None" "m_Register msg = Some req" by auto
    with 3 assms(2) have h: "handleRegister x srv c req = Done srv'"
      by (simp add: apply_event_def readPump_def handleMessage_def)
    from handleRegister_ids [OF h] show ?thesis
    proof (elim disjE exE conjE)
      fix u assume a: "accepted x srv req (KSimPublicKey u)"
        and i: "ids srv' = ((user_of srv)(c := Some u), aput (Number u) c (clients srv))"
      from a 3 m have "proved_by x srv e (KSimPublicKey u)" by (auto simp: proved_by_def)
      then show ?thesis
        using i bind_line [of "proved_by x srv e" u "user_of srv" "map_of (clients srv)" c]
        by (simp add: presence_of_def ids_def)
    qed (metis presence_ids stay)
  qed (use True in simp_all)
qed

lemma pres_step_known:
  assumes "pres_step proves p p'" and "\<forall>num c. snd p num = Some c \<longrightarrow> fst p c \<noteq> None"
  shows "\<forall>num c. snd p' num = Some c \<longrightarrow> fst p' c \<noteq> None"
  using assms by (cases rule: pres_step.cases) (auto split: if_splits)

lemma pres_step_users:
  assumes "pres_step proves p p'" and "fst p' c \<noteq> fst p c"
  obtains u where "proves (KSimPublicKey u)" "fst p' c = Some u" "snd p' (Number u) = Some c"
  using assms by (cases rule: pres_step.cases) (auto split: if_splits)

section \<open>Preservation\<close>

lemma apply_event_users:
  assumes "sig_inv srv" and "apply_event x srv e = Done srv'"
  shows "user_of srv' d = user_of srv d \<or> (\<exists>data. e = Receive d data)"
proof (cases "presence_event e")
  case False
  with assms(2) apply_event_ids [of e srv x] have "ids srv' = ids srv" by simp
  then show ?thesis by (metis idsD(1))
next
  case True
  then show ?thesis
  proof (cases e rule: presence_event.cases)
    case 1
    with assms HandleWebSocket_ids [OF new_conn_unknown [OF assms(1)]] have "ids srv' = ids srv"
      by (simp add: apply_event_def)
    then show ?thesis by (metis idsD(1))
  next
    case (2 c)
    with assms(2) ids_unregisterClient [of x srv c] show ?thesis
      by (auto simp: apply_event_def ids_def)
  next
    case (3 c msg)
    with True assms(2) obtain req where "handleRegister x srv c req = Done srv'"
      by (auto simp: apply_event_def readPump_def handleMessage_def)
    from handleRegister_ids [OF this] 3 show ?thesis by (auto simp: ids_def)
  qed (use True in simp_all)
qed

lemma sig_step_inv:
  assumes "sig_inv srv" and "sig_step srv srv'"
  shows "sig_inv srv'"
proof -
  obtain e x where p: "possible srv e" and a: "apply_event x srv e = Done srv'"
    using assms(2) by (auto elim: sig_stepE)
  have s: "sane n srv'" if "sane n srv" for n
    using apply_event_sane [OF that, of x e] assms(1) a by (auto simp: sig_inv_def)
  have up: "counter srv \<le> counter srv'"
    using s [OF sane_self] assms(1) sane_counter by (auto simp: sig_inv_def)
  have k: "conns_known srv'"
    using pres_step_known [OF apply_event_presence [OF assms(1) a]] assms(1)
    by (simp add: presence_of_def conns_known_def sig_inv_def)
  have "d < counter srv'" if "user_of srv' d \<noteq> None" for d
    using apply_event_users [OF assms(1) a, of d]
  proof
    assume "user_of srv' d = user_of srv d"
    with that assms(1) have "d < counter srv" by (auto simp: sig_inv_def)
    with up show ?thesis by simp
  next
    assume "\<exists>data. e = Receive d data"
    with p up show ?thesis by auto
  qed
  with s [of 0] assms(1) k show ?thesis by (simp add: sig_inv_def)
qed

lemma sig_init_inv: "sig_init srv \<Longrightarrow> sig_inv srv"
  by (auto simp: sig_init_def sig_inv_def NewServer_def sane_defs conns_known_def svc_known_def user_of_def client_def
      map_of_eq_None_iff sendCap_def dest!: map_of_SomeD)
    (metis image_eqI option.distinct(1) snd_conv weak_map_of_SomeI map_of_eq_None_iff prod.collapse image_iff fst_conv)

interpretation signaling: invariant_system sig_init sig_step sig_inv
  by unfold_locales (auto intro: sig_init_inv sig_step_inv)

lemma user_proved:
  assumes "sig_init srv0" and "sig_step\<^sup>*\<^sup>* srv0 srv" and "user_of srv c = Some u"
  shows "\<exists>srv1 x e srv2. sig_step\<^sup>*\<^sup>* srv0 srv1 \<and> apply_event x srv1 e = Done srv2 \<and> sig_step\<^sup>*\<^sup>* srv2 srv \<and>
           proved_by x srv1 e (KSimPublicKey u)"
  using assms(2,3)
proof (induction rule: rtranclp_induct)
  case base
  with assms(1) show ?case by (auto simp: sig_init_def NewServer_def user_of_def client_def)
next
  case (step srv srv')
  obtain e x where p: "possible srv e" and a: "apply_event x srv e = Done srv'"
    using step.hyps(2) by (auto elim: sig_stepE)
  have inv: "sig_inv srv" by (rule signaling.reachable_inv [OF assms(1) step.hyps(1)])
  show ?case
  proof (cases "user_of srv' c = user_of srv c")
    case True
    with step show ?thesis by (metis rtranclp.rtrancl_into_rtrancl)
  next
    case False
    then have "fst (presence_of srv') c \<noteq> fst (presence_of srv) c" by (simp add: presence_of_def)
    from pres_step_users [OF apply_event_presence [OF inv a] this] step.prems
    have "proved_by x srv e (KSimPublicKey u)" by (auto simp: presence_of_def)
    with a step.hyps(1) show ?thesis by blast
  qed
qed

end
