(* ===== verification/Sig_Props.thy ===== *)
theory Sig_Props
  imports Signaling
begin

text \<open>
  Properties of the signaling server as a whole: its invariant, the refinement of the presence
  specification, and the exact causes of a crash or a deadlock.
\<close>

section \<open>A small exchange\<close>

definition sample_pion :: pion where
  "sample_pion = \<lparr>p_newPeer = None, p_newTrack = None, p_addTrack = None, p_setRemote = (\<lambda>_. None),
     p_createAnswer = (\<lambda>_. Inr ''sdp-answer''), p_setLocal = (\<lambda>_. None), p_addICE = (\<lambda>_ _. None)\<rparr>"

definition sample_name :: "nat \<Rightarrow> string" where
  "sample_name n = replicate (Suc n) (CHR ''c'')"

text \<open>Signatures that always verify, a transport that always works, the registry of a network with one peer.\<close>

definition sample_ext :: ext where
  "sample_ext = \<lparr>x_now = secs 100, x_name = sample_name, x_pion = sample_pion, x_push = (\<lambda>_. True),
     x_route = (\<lambda>a. if a = ''216'' then Some ''peer:9443'' else None), x_resolve = (\<lambda>_. None),
     x_dial = (\<lambda>_ _. True), x_bridge = (\<lambda>_. True), x_send = (\<lambda>_ _. True), x_deliver = (\<lambda>_ _. Some (True, [])),
     x_ed = \<lparr>ed_sign = (\<lambda>_ _. []), ed_verify = (\<lambda>_ _ _. True)\<rparr>, x_gcm = plain_gcm,
     x_rand = (\<lambda>_. Some (\<lambda>_. 7)), x_dberr = (\<lambda>_. ''db''), x_pick = (\<lambda>_ _. 0)\<rparr>"

definition sample_user :: "nat \<Rightarrow> string \<Rightarrow> User" where
  "sample_user k num = \<lparr>KSimPublicKey = replicate 32 (word_of_nat k), AreaCode = ''440'', Number = num,
     DisplayName = ''Sub'', FCMToken = [], RegisteredAt = 0, LastSeen = 0\<rparr>"

definition ann :: User where "ann = sample_user 1 ''5551234''"
definition bob :: User where "bob = sample_user 2 ''5556789''"

definition sample_exchange :: Server where
  "sample_exchange = NewServer (empty_store\<lparr>users := [ann, bob]\<rparr>) NewAuthManager ''440'' [] [] False"

definition blank_msg :: ClientMessage where
  "blank_msg = \<lparr>m_ChallengeRequest = None, m_Register = None, m_RegisterFCM = None, m_Call = None, m_CallAnswer = None,
     m_CallHangup = None, m_CallDecline = None, m_ICECandidate = None, m_Ping = False, m_VoicemailList = False,
     m_VoicemailGet = None, m_VoicemailDelete = None, m_VoicemailMarkRead = None, m_DMSend = None, m_DMAck = None,
     m_DMAttachmentGet = None\<rparr>"

text \<open>Ann is connected as 1 and Bob as 2, both idle, with voicemail and messaging switched on.\<close>

definition sample_conn :: "User \<Rightarrow> Client" where
  "sample_conn u = \<lparr>c_user = Some u, sendCh = [], c_callID = []\<rparr>"

definition sample_online :: Server where
  "sample_online = sample_exchange\<lparr>clients := [(''5551234'', 1), (''5556789'', 2)],
     heap := [(1, sample_conn ann), (2, sample_conn bob)], counter := 3,
     s_vm := Some (vm_NewManager True (secs 60) True), s_dmm := Some dm_NewManager\<rparr>"

lemmas sample_defs = sample_exchange_def sample_online_def NewServer_def sample_conn_def ann_def bob_def sample_user_def
  blank_msg_def sample_ext_def sample_pion_def

lemma sample_exchange_init: "sig_init sample_exchange"
  unfolding sig_init_def sample_exchange_def by (intro exI conjI, rule refl) simp

section \<open>Crashes and deadlocks\<close>

lemma outcome_map_simps [simp]:
  "Done s \<noteq> Crash" "Done s \<noteq> Deadlock" "Crash \<noteq> Deadlock" by simp_all

lemma handleRegister_crash:
  "handleRegister x srv c req = Crash \<Longrightarrow> \<exists>pub. rr_KsimID req = Some pub \<and> length pub \<noteq> 32"
  "handleRegister x srv c req \<noteq> Deadlock"
  by (auto simp: handleRegister_def Let_def dest!: VerifyResponse_panic
      split: option.splits prod.splits sum.splits ksim_error.splits)

lemma handleServiceCall_crash:
  assumes "sane n srv" and "handleServiceCall x srv c u req = Crash"
  shows "cr_Offer req = None"
proof (rule ccontr)
  assume o: "cr_Offer req \<noteq> None"
  then obtain v where g: "Get (s_services srv) (cr_Destination req) = Inr v"
    using assms(2) by (cases "Get (s_services srv) (cr_Destination req)") (simp_all add: handleServiceCall_def)
  then have "svc_known srv v"
    using assms(1) by (auto simp: Get_def sane_defs split: option.splits)
  then have "svc_known (snd (generateCallID x srv)) v" by (simp add: generateCallID_def svc_known_def)
  then have "svc_obj_of (upd_svc (snd (generateCallID x srv)) v f) v \<noteq> None" for f
    using svc_known_upd [of "snd (generateCallID x srv)" v f v] by (simp add: svc_known_def svc_obj_of_def)
  then obtain obj where "svc_obj_of (upd_svc (snd (generateCallID x srv)) v
      (\<lambda>svc. svc_SetCaller svc (fst (generateCallID x srv)) (FormatNumber (AreaCode u) (Number u)))) v = Some obj" by blast
  then show False
    using assms(2) g o by (auto simp: handleServiceCall_def Let_def case_prod_beta split: sum.splits)
qed

lemma handleServiceCall_no_deadlock: "handleServiceCall x srv c u req \<noteq> Deadlock"
  by (simp add: handleServiceCall_def Let_def case_prod_beta split: option.split sum.split)

text \<open>The causes, as conditions on the message.\<close>

definition bad_key :: "ClientMessage \<Rightarrow> bool" where
  "bad_key msg \<longleftrightarrow> (\<exists>req pub. m_Register msg = Some req \<and> rr_KsimID req = Some pub \<and> length pub \<noteq> 32)"

definition service_without_offer :: "ClientMessage \<Rightarrow> bool" where
  "service_without_offer msg \<longleftrightarrow> (\<exists>req. m_Call msg = Some req \<and> IsServiceCode (cr_Destination req) \<and> cr_Offer req = None)"

definition service_without_candidate :: "Server \<Rightarrow> ClientMessage \<Rightarrow> bool" where
  "service_without_candidate srv msg \<longleftrightarrow>
     (\<exists>req. m_ICECandidate msg = Some req \<and> map_of (svcCalls srv) (it_CallID req) \<noteq> None \<and> it_Candidate req = None)"

definition self_call :: "Server \<Rightarrow> cref \<Rightarrow> ClientMessage \<Rightarrow> bool" where
  "self_call srv c msg \<longleftrightarrow> (\<exists>req area num. m_Call msg = Some req \<and>
     ParseNumber (cr_Destination req) (areaCode srv) = Inr (area, num) \<and> map_of (clients srv) num = Some c)"

lemma call_online_crash: "call_online x srv c u d off \<noteq> Crash" "call_online x srv c u d off = Deadlock \<Longrightarrow> d = c"
  by (simp_all add: call_online_def Let_def case_prod_beta split: if_splits)

lemma handleCall_crash:
  assumes "sane n srv"
  shows "handleCall x srv c req = Crash \<Longrightarrow> IsServiceCode (cr_Destination req) \<and> cr_Offer req = None"
    and "handleCall x srv c req = Deadlock \<Longrightarrow>
      \<exists>area num. ParseNumber (cr_Destination req) (areaCode srv) = Inr (area, num) \<and> map_of (clients srv) num = Some c"
proof -
  show "handleCall x srv c req = Crash \<Longrightarrow> IsServiceCode (cr_Destination req) \<and> cr_Offer req = None"
    using handleServiceCall_crash [OF assms]
    by (auto simp: handleCall_def call_online_crash split: option.splits sum.splits prod.splits if_splits)
  show "handleCall x srv c req = Deadlock \<Longrightarrow>
      \<exists>area num. ParseNumber (cr_Destination req) (areaCode srv) = Inr (area, num) \<and> map_of (clients srv) num = Some c"
    by (auto simp: handleCall_def handleServiceCall_no_deadlock dest: call_online_crash(2)
        split: option.splits sum.splits prod.splits if_splits)
qed

lemma handleICECandidate_crash:
  "handleICECandidate x srv c req = Crash \<Longrightarrow> map_of (svcCalls srv) (it_CallID req) \<noteq> None \<and> it_Candidate req = None"
  "handleICECandidate x srv c req \<noteq> Deadlock"
  by (auto simp: handleICECandidate_def Let_def split: option.splits prod.splits if_splits)

text \<open>Only three handlers can fail.\<close>

lemma handleMessage_fails:
  assumes "handleMessage x srv c msg = r" and "r = Crash \<or> r = Deadlock"
  shows "(\<exists>req. m_Register msg = Some req \<and> handleRegister x srv c req = r) \<or>
         (\<exists>req. m_Call msg = Some req \<and> handleCall x srv c req = r) \<or>
         (\<exists>req. m_ICECandidate msg = Some req \<and> handleICECandidate x srv c req = r)"
proof (cases "m_ChallengeRequest msg")
  case None
  show ?thesis
  proof (cases "m_Register msg")
    case R: None
    show ?thesis
    proof (cases "m_Call msg")
      case C: None
      have "m_ICECandidate msg \<noteq> None"
        using assms None R C by (auto simp: handleMessage_def split: option.splits if_splits)
      then show ?thesis
        using assms None R C by (auto simp: handleMessage_def split: option.splits)
    next
      case (Some req)
      with assms None R show ?thesis by (auto simp: handleMessage_def split: option.splits)
    qed
  next
    case (Some req)
    with assms None show ?thesis by (simp add: handleMessage_def)
  qed
next
  case (Some req)
  with assms show ?thesis by (auto simp: handleMessage_def)
qed

lemma apply_event_fails:
  assumes "apply_event x srv e = r" and "r = Crash \<or> r = Deadlock"
  shows "\<exists>c msg. e = Receive c (Some msg) \<and> handleMessage x srv c msg = r"
  using assms by (cases e) (auto simp: apply_event_def readPump_def split: option.splits)

lemma connect_step: "sig_step srv (snd (HandleWebSocket srv))"
  by (rule sig_stepI [of _ Connect]) (simp_all add: apply_event_def)

section \<open>Properties\<close>

text \<open>
  C2. Whatever devices, timers, bridges and operators do, in any order, the server keeps its state
  consistent: no send queue exceeds the 64 messages of its channel, a number is owned by a
  connection that has registered, a ring is between two different connections, knows the line of
  the callee and is not marked as answered, and every service call refers to an existing service.
\<close>

theorem signaling_invariant:
  assumes "sig_init srv0" and "sig_step\<^sup>*\<^sup>* srv0 srv"
  shows "length (sendCh (client srv c)) \<le> sendCap \<and>
         (map_of (clients srv) num = Some c \<longrightarrow> user_of srv c \<noteq> None \<and> c < counter srv) \<and>
         (map_of (ringStates srv) cid = Some rs \<longrightarrow>
            r_caller rs \<noteq> r_callee rs \<and> r_calleeUser rs \<noteq> None \<and> \<not> r_answered rs) \<and>
         (map_of (svcCalls srv) cid = Some (d, v) \<longrightarrow> svc_obj_of srv v \<noteq> None)"
proof -
  have "sig_inv srv" by (rule signaling.reachable_inv [OF assms])
  then show ?thesis
    by (simp add: sig_inv_def conns_known_def sane_defs ring_ok_def svc_known_def svc_obj_of_def)
qed

theorem signaling_invariant_witness:
  "sig_step\<^sup>*\<^sup>* sample_exchange (snd (HandleWebSocket sample_exchange)) \<and>
   length (sendCh (client (snd (HandleWebSocket sample_exchange)) 1)) \<le> 64"
proof -
  have r: "sig_step\<^sup>*\<^sup>* sample_exchange (snd (HandleWebSocket sample_exchange))"
    using connect_step by blast
  from signaling_invariant [OF sample_exchange_init r] r show ?thesis by (simp add: sendCap_def)
qed

text \<open>
  C1. The server implements the presence specification: each event either leaves the bindings of
  devices to lines alone, or binds one connection to a line whose key was proved in that very
  event, or releases the line that the ending connection holds. Hence a connection that acts for
  a line has, at some earlier point, answered a challenge with the key of that line.
\<close>

theorem presence_refinement:
  assumes "sig_init srv0" and "sig_step\<^sup>*\<^sup>* srv0 srv"
  shows "(apply_event x srv e = Done srv' \<longrightarrow>
            pres_step (proved_by x srv e) (presence_of srv) (presence_of srv')) \<and>
         (user_of srv c = Some u \<longrightarrow>
            (\<exists>srv1 x1 e1 srv2. sig_step\<^sup>*\<^sup>* srv0 srv1 \<and> apply_event x1 srv1 e1 = Done srv2 \<and> sig_step\<^sup>*\<^sup>* srv2 srv \<and>
               proved_by x1 srv1 e1 (KSimPublicKey u)))"
  using apply_event_presence [OF signaling.reachable_inv [OF assms]] user_proved [OF assms] by blast

theorem presence_refinement_witness:
  "pres_step (proved_by sample_ext sample_exchange Connect) (presence_of sample_exchange)
     (presence_of (snd (HandleWebSocket sample_exchange)))"
  using presence_refinement [OF sample_exchange_init rtranclp.rtrancl_refl, of sample_ext Connect "snd (HandleWebSocket sample_exchange)"]
  by (simp add: apply_event_def)



text \<open>
  C36. Both failures are within reach of a device. Anyone who can open a connection crashes the
  process with two messages: a challenge request and a registration for a key of the wrong
  length. A subscriber who dials the own number blocks the connection for good.
\<close>

theorem device_stops_server:
  assumes "pub \<noteq> []" and "length pub \<noteq> 32" and "x_rand x 0 = Some rnd"
    and "x_now x' \<le> secs (unix_secs (x_now x)) + ChallengeTTL"
    and "user_of srv1 c = Some u" and "map_of (clients srv1) (Number u) = Some c"
    and "length (Number u) = 7" and "list_all is_digit (Number u)"
  shows "(\<exists>srv'. handleMessage x srv c (blank_msg\<lparr>m_ChallengeRequest := Some (Some pub)\<rparr>) = Done srv' \<and>
            handleMessage x' srv' c (blank_msg\<lparr>m_Register := Some \<lparr>rr_KsimID = Some pub, rr_Signature = Some sig,
               rr_DisplayName = nm, rr_ActivationToken = tok\<rparr>\<rparr>) = Crash) \<and>
         handleMessage x srv1 c (blank_msg\<lparr>m_Call := Some \<lparr>cr_Destination = Number u, cr_Offer = off\<rparr>\<rparr>) = Deadlock"
proof
  obtain nonce where n: "rand_bytes (x_rand x 0) 32 = Some nonce" using assms(3) by (simp add: rand_bytes_def)
  define srv' where "srv' = handleChallengeRequest x srv c (Some pub)"
  have a: "map_of (challenges (s_auth srv')) (StdEncode pub) =
      Some \<lparr>Nonce = nonce, Timestamp = unix_secs (x_now x), ChCreatedAt = x_now x\<rparr>"
    using assms(1) n by (simp add: srv'_def handleChallengeRequest_def GenerateChallenge_def Let_def sendMessage_def)
  then have "fst (VerifyResponse (x_ed x') (x_now x') (s_auth srv') pub sig) = Inl (GoPanic ''ed25519: bad public key length'')"
    using assms(2,4) by (simp add: VerifyResponse_def VerifyChallenge_def Verify_def)
  then show "\<exists>srv'. handleMessage x srv c (blank_msg\<lparr>m_ChallengeRequest := Some (Some pub)\<rparr>) = Done srv' \<and>
            handleMessage x' srv' c (blank_msg\<lparr>m_Register := Some \<lparr>rr_KsimID = Some pub, rr_Signature = Some sig,
               rr_DisplayName = nm, rr_ActivationToken = tok\<rparr>\<rparr>) = Crash"
    by (intro exI [of _ srv']) (simp add: handleMessage_def blank_msg_def srv'_def [symmetric] handleRegister_def case_prod_beta)
  have "\<not> IsServiceCode (Number u)"
    using assms(7,8) by (cases "Number u") (auto simp: IsServiceCode_def is_digit_def)
  moreover have "ParseNumber (Number u) (areaCode srv1) = Inr (areaCode srv1, Number u)"
    using assms(7) strip_dashes_id [OF digits_no_dash [OF assms(8)]] by (simp add: ParseNumber_def)
  ultimately show "handleMessage x srv1 c (blank_msg\<lparr>m_Call := Some \<lparr>cr_Destination = Number u, cr_Offer = off\<rparr>\<rparr>) = Deadlock"
    using assms(5,6) by (simp add: handleMessage_def blank_msg_def handleCall_def call_online_def Let_def case_prod_beta)
qed

theorem device_stops_server_witness:
  "(\<exists>srv'. handleMessage sample_ext sample_exchange 1 (blank_msg\<lparr>m_ChallengeRequest := Some (Some [1])\<rparr>) = Done srv' \<and>
      handleMessage sample_ext srv' 1 (blank_msg\<lparr>m_Register := Some \<lparr>rr_KsimID = Some [1], rr_Signature = Some [],
         rr_DisplayName = None, rr_ActivationToken = []\<rparr>\<rparr>) = Crash) \<and>
   handleMessage sample_ext sample_online 1 (blank_msg\<lparr>m_Call := Some \<lparr>cr_Destination = ''5551234'', cr_Offer = None\<rparr>\<rparr>) = Deadlock"
  using device_stops_server [of "[1]" sample_ext "\<lambda>_. 7" sample_ext sample_online 1 ann sample_exchange "[]" None "[]" None]
  by (simp add: sample_defs user_of_def client_def ChallengeTTL_def secs_def unix_secs_def is_digit_def)

end
