(* ===== verification/Sig_Flows.thy ===== *)
theory Sig_Flows
  imports Sig_Props
begin

text \<open>
  Call flows on one exchange, from the dial to the end: the messages each device receives and the
  state that is left behind.
\<close>

section \<open>What a device sees\<close>

definition inbox :: "Server \<Rightarrow> cref \<Rightarrow> ServerMessage list" where
  "inbox srv c = sendCh (client srv c)"

named_theorems flow_simps \<open>calls and queues after the small operations\<close>

lemma call_of_small [flow_simps]:
  "call_of (set_call srv c cid) d = (if d = c then cid else call_of srv d)"
  "call_of (sendMessage srv c m) d = call_of srv d"
  by (simp_all add: set_call_def sendMessage_def call_upd) (simp add: call_of_def)

lemma inbox_small [flow_simps]:
  "inbox (set_call srv c cid) d = inbox srv d"
  "inbox (sendMessage srv c m) d = (if d = c \<and> length (inbox srv c) < sendCap then inbox srv c @ [m] else inbox srv d)"
  by (simp_all add: set_call_def sendMessage_def client_upd inbox_def)

lemma fields_set_call [simp]:
  "clients (set_call srv c cid) = clients srv" "ringStates (set_call srv c cid) = ringStates srv"
  "svcCalls (set_call srv c cid) = svcCalls srv" "pendingCalls (set_call srv c cid) = pendingCalls srv"
  "inLegs (set_call srv c cid) = inLegs srv" "outLegs (set_call srv c cid) = outLegs srv"
  "svcHeap (set_call srv c cid) = svcHeap srv" "s_vm (set_call srv c cid) = s_vm srv"
  "counter (set_call srv c cid) = counter srv" "s_store (set_call srv c cid) = s_store srv"
  "selfEnds (set_call srv c cid) = selfEnds srv" "iceServers (set_call srv c cid) = iceServers srv"
  "areaCode (set_call srv c cid) = areaCode srv" "s_dmm (set_call srv c cid) = s_dmm srv" "wire (set_call srv c cid) = wire srv"
  by (simp_all add: set_call_def)

lemma fields_sendMessage [simp]:
  "clients (sendMessage srv c m) = clients srv" "ringStates (sendMessage srv c m) = ringStates srv"
  "svcCalls (sendMessage srv c m) = svcCalls srv" "pendingCalls (sendMessage srv c m) = pendingCalls srv"
  "inLegs (sendMessage srv c m) = inLegs srv" "outLegs (sendMessage srv c m) = outLegs srv"
  "svcHeap (sendMessage srv c m) = svcHeap srv" "s_vm (sendMessage srv c m) = s_vm srv"
  "counter (sendMessage srv c m) = counter srv" "s_store (sendMessage srv c m) = s_store srv"
  "selfEnds (sendMessage srv c m) = selfEnds srv" "iceServers (sendMessage srv c m) = iceServers srv"
  "areaCode (sendMessage srv c m) = areaCode srv" "s_dmm (sendMessage srv c m) = s_dmm srv" "wire (sendMessage srv c m) = wire srv"
  by (simp_all add: sendMessage_def)

lemma fields_generateCallID [simp]:
  "fst (generateCallID x srv) = x_name x (counter srv)"
  "snd (generateCallID x srv) = srv\<lparr>counter := Suc (counter srv)\<rparr>"
  by (simp_all add: generateCallID_def)

lemma client_updates [flow_simps]:
  "call_of (srv\<lparr>svcCalls := a3\<rparr>) c = call_of srv c" "call_of (srv\<lparr>pendingCalls := a4\<rparr>) c = call_of srv c"
  "call_of (srv\<lparr>ringStates := a7\<rparr>) c = call_of srv c" "call_of (srv\<lparr>outLegs := a9\<rparr>) c = call_of srv c"
  "call_of (srv\<lparr>inLegs := b1\<rparr>) c = call_of srv c" "call_of (srv\<lparr>svcHeap := b2\<rparr>) c = call_of srv c"
  "call_of (srv\<lparr>selfEnds := b3\<rparr>) c = call_of srv c" "call_of (srv\<lparr>counter := b4\<rparr>) c = call_of srv c"
  "call_of (srv\<lparr>wire := b5\<rparr>) c = call_of srv c" "call_of (srv\<lparr>clients := b6\<rparr>) c = call_of srv c"
  "inbox (srv\<lparr>svcCalls := a3\<rparr>) c = inbox srv c" "inbox (srv\<lparr>pendingCalls := a4\<rparr>) c = inbox srv c"
  "inbox (srv\<lparr>ringStates := a7\<rparr>) c = inbox srv c" "inbox (srv\<lparr>outLegs := a9\<rparr>) c = inbox srv c"
  "inbox (srv\<lparr>inLegs := b1\<rparr>) c = inbox srv c" "inbox (srv\<lparr>svcHeap := b2\<rparr>) c = inbox srv c"
  "inbox (srv\<lparr>selfEnds := b3\<rparr>) c = inbox srv c" "inbox (srv\<lparr>counter := b4\<rparr>) c = inbox srv c"
  "inbox (srv\<lparr>wire := b5\<rparr>) c = inbox srv c" "inbox (srv\<lparr>clients := b6\<rparr>) c = inbox srv c"
  by (simp_all add: call_of_def inbox_def)

lemma user_of_updates [simp]:
  "user_of (srv\<lparr>svcCalls := a3\<rparr>) c = user_of srv c" "user_of (srv\<lparr>pendingCalls := a4\<rparr>) c = user_of srv c"
  "user_of (srv\<lparr>ringStates := a7\<rparr>) c = user_of srv c" "user_of (srv\<lparr>outLegs := a9\<rparr>) c = user_of srv c"
  "user_of (srv\<lparr>inLegs := b1\<rparr>) c = user_of srv c" "user_of (srv\<lparr>svcHeap := b2\<rparr>) c = user_of srv c"
  "user_of (srv\<lparr>selfEnds := b3\<rparr>) c = user_of srv c" "user_of (srv\<lparr>counter := b4\<rparr>) c = user_of srv c"
  "user_of (srv\<lparr>wire := b5\<rparr>) c = user_of srv c" "user_of (srv\<lparr>clients := b6\<rparr>) c = user_of srv c"
  "user_of (srv\<lparr>s_auth := b7\<rparr>) c = user_of srv c" "user_of (srv\<lparr>s_store := b8\<rparr>) c = user_of srv c"
  "user_of (srv\<lparr>s_dmm := b9\<rparr>) c = user_of srv c"
  by (simp_all add: user_of_def)

lemma call_of_clearCallID [flow_simps]:
  "call_of (clearCallID srv (Some c) cid) d = (if d = c \<and> call_of srv c = cid then [] else call_of srv d)"
  "inbox (clearCallID srv (Some c) cid) d = inbox srv d"
  by (simp_all add: clearCallID_def flow_simps)

lemma fields_clearCallID [simp]:
  "clients (clearCallID srv e cid) = clients srv" "ringStates (clearCallID srv e cid) = ringStates srv"
  "svcCalls (clearCallID srv e cid) = svcCalls srv" "svcHeap (clearCallID srv e cid) = svcHeap srv"
  "s_vm (clearCallID srv e cid) = s_vm srv" "counter (clearCallID srv e cid) = counter srv"
  "iceServers (clearCallID srv e cid) = iceServers srv" "inLegs (clearCallID srv e cid) = inLegs srv"
  "outLegs (clearCallID srv e cid) = outLegs srv" "pendingCalls (clearCallID srv e cid) = pendingCalls srv"
  "user_of (clearCallID srv e cid) d = user_of srv d"
  by (simp_all add: clearCallID_def split: option.split)

section \<open>The recorder answers\<close>

definition answers :: "pion \<Rightarrow> session_desc \<Rightarrow> string \<Rightarrow> bool" where
  "answers px off ans \<longleftrightarrow> p_newPeer px = None \<and> p_newTrack px = None \<and> p_addTrack px = None \<and> p_setRemote px off = None \<and>
     p_createAnswer px off = Inr ans \<and> p_setLocal px ans = None"

lemma leave_HandleCall_answers:
  "answers px off ans \<Longrightarrow> leave_HandleCall px l cid off = (Inr ans, l\<lparr>l_calls := aput cid [] (l_calls l)\<rparr>)"
  by (simp add: answers_def leave_HandleCall_def)

definition in_voicemail :: "Server \<Rightarrow> callID \<Rightarrow> cref \<Rightarrow> User \<Rightarrow> User \<Rightarrow> bool" where
  "in_voicemail srv cid c u r \<longleftrightarrow> (\<exists>v lv. map_of (svcCalls srv) cid = Some (c, v) \<and> svc_obj_of srv v = Some (Leave lv) \<and>
     l_recipient lv = r \<and> l_callerNum lv = canonicalNumber (AreaCode u) (Number u) \<and> l_callerName lv = DisplayName u \<and>
     svc_live (Leave lv) cid)"

definition vm_connected :: "callID \<Rightarrow> string \<Rightarrow> ServerMessage" where
  "vm_connected cid ans = CallConnected cid (Some \<lparr>SDP = ans, SdpType = ''answer''\<rparr>) (Some (''vm'', ''Voicemail''))"

lemma routeToVoicemail_answers:
  assumes "isOnline srv (Some c)" and "Enabled (s_vm srv)" and "user_of srv c = Some u" and "cid \<noteq> []"
    and "answers (x_pion x) \<lparr>sd_type = SDPTypeOffer, sd_sdp = SDP sdp\<rparr> ans"
  obtains srv' where "routeToVoicemail x srv c (Some r) (Some sdp) cid = (True, srv')"
    "in_voicemail srv' cid c u r" "ringStates srv' = ringStates srv" "clients srv' = clients srv"
    "\<And>d. call_of srv' d = (if d = c then cid else call_of srv d)"
    "\<And>d. inbox srv' d = inbox (sendMessage srv c (vm_connected cid ans)) d"
proof -
  define srv' where "srv' = snd (routeToVoicemail x srv c (Some r) (Some sdp) cid)"
  have ok: "routeToVoicemail x srv c (Some r) (Some sdp) cid = (True, srv')"
    using assms(1-4) leave_HandleCall_answers [OF assms(5)]
    by (simp add: srv'_def routeToVoicemail_def Let_def case_prod_beta)
  have eq: "srv' = sendMessage (set_call (srv\<lparr>counter := Suc (counter srv),
      svcHeap := aput (counter srv) (Leave ((SetICEServers (NewLeaveService r (canonicalNumber (AreaCode u) (Number u)) (DisplayName u))
        (serviceICEServers srv))\<lparr>l_calls := [(cid, [])]\<rparr>)) (svcHeap srv),
      selfEnds := aput (counter srv) (EndClient c) (selfEnds srv),
      svcCalls := aput cid (c, counter srv) (svcCalls srv)\<rparr>) c cid) c (vm_connected cid ans)"
    using assms(1-4) leave_HandleCall_answers [OF assms(5)]
    by (simp add: srv'_def routeToVoicemail_def Let_def fresh_ref_def vm_connected_def NewLeaveService_def SetICEServers_def)
  show thesis
  proof (rule that [OF ok])
    show "in_voicemail srv' cid c u r"
      by (simp add: eq in_voicemail_def svc_obj_of_def SetICEServers_def NewLeaveService_def svc_live_def)
  qed (simp_all add: eq flow_simps)
qed

section \<open>Dialing a connected subscriber\<close>

text \<open>\<open>c\<close> holds the line \<open>u\<close>, \<open>dest\<close> is a number of this exchange held by \<open>d\<close>, and both queues have room.\<close>

definition can_ring :: "Server \<Rightarrow> cref \<Rightarrow> User \<Rightarrow> cref \<Rightarrow> User \<Rightarrow> string \<Rightarrow> bool" where
  "can_ring srv c u d v dest \<longleftrightarrow>
     user_of srv c = Some u \<and> map_of (clients srv) (Number u) = Some c \<and> user_of srv d = Some v \<and> c \<noteq> d \<and>
     \<not> IsServiceCode dest \<and>
     (case ParseNumber dest (areaCode srv) of
        Inl _ \<Rightarrow> False
      | Inr (area, num) \<Rightarrow> (areaCode srv = [] \<or> area = areaCode srv) \<and> map_of (clients srv) num = Some d) \<and>
     length (inbox srv c) + 3 \<le> sendCap \<and> length (inbox srv d) + 3 \<le> sendCap"

definition offered :: "callID \<Rightarrow> User \<Rightarrow> SDPSession option \<Rightarrow> ServerMessage" where
  "offered cid u off = IncomingCall cid \<lparr>pn_AreaCode = AreaCode u, pn_Number = Number u\<rparr> (DisplayName u) off"

lemma dial_rings:
  assumes "can_ring srv c u d v dest"
  obtains srv1 where "handleCall x srv c \<lparr>cr_Destination = dest, cr_Offer = off\<rparr> = Done srv1"
    "ringStates srv1 = aput (x_name x (counter srv)) \<lparr>r_caller = c, r_callee = d, r_calleeUser = Some v, r_offer = off,
       r_answered = False\<rparr> (ringStates srv)"
    "clients srv1 = clients srv" "\<And>e. user_of srv1 e = user_of srv e"
    "\<And>e. call_of srv1 e = (if e = c \<or> e = d then x_name x (counter srv) else call_of srv e)"
    "inbox srv1 c = inbox srv c @ [CallRinging (x_name x (counter srv))]"
    "inbox srv1 d = inbox srv d @ [offered (x_name x (counter srv)) u off]"
    "svcCalls srv1 = svcCalls srv" "inLegs srv1 = inLegs srv" "outLegs srv1 = outLegs srv"
    "pendingCalls srv1 = pendingCalls srv" "s_vm srv1 = s_vm srv"
proof -
  obtain area num where p: "ParseNumber dest (areaCode srv) = Inr (area, num)" "areaCode srv = [] \<or> area = areaCode srv"
    "map_of (clients srv) num = Some d"
    using assms by (auto simp: can_ring_def split: sum.splits)
  let ?cid = "x_name x (counter srv)"
  define srv1 where "srv1 = startRing (sendMessage (set_call (set_call (sendMessage (srv\<lparr>counter := Suc (counter srv)\<rparr>) d
      (offered ?cid u off)) c ?cid) d ?cid) c (CallRinging ?cid)) ?cid c d off"
  have h: "handleCall x srv c \<lparr>cr_Destination = dest, cr_Offer = off\<rparr> = Done srv1"
    using assms p by (auto simp: can_ring_def handleCall_def call_online_def Let_def case_prod_beta srv1_def offered_def)
  show thesis
    by (rule that [OF h])
      (use assms in \<open>simp_all add: srv1_def startRing_def flow_simps can_ring_def\<close>)
qed

section \<open>Ending the others\<close>

definition end_one :: "callID \<Rightarrow> cref \<Rightarrow> string \<Rightarrow> cref \<Rightarrow> Server \<Rightarrow> Server" where
  "end_one cid c reason d srv =
     (if call_of srv d = cid \<and> d \<noteq> c then sendMessage (set_call srv d []) d (CallEnded cid reason) else srv)"

definition ends :: "Server \<Rightarrow> callID \<Rightarrow> cref \<Rightarrow> cref \<Rightarrow> bool" where
  "ends srv cid c e \<longleftrightarrow> e \<noteq> c \<and> call_of srv e = cid"

lemma end_one_same:
  assumes "ends srv cid c d"
  shows "call_of (end_one cid c reason d srv) d = []"
    and "inbox (end_one cid c reason d srv) d = inbox (sendMessage srv d (CallEnded cid reason)) d"
  using assms by (simp_all add: end_one_def ends_def flow_simps)

lemma end_one_other:
  assumes "e \<noteq> d \<or> \<not> ends srv cid c e"
  shows "call_of (end_one cid c reason d srv) e = call_of srv e"
    and "inbox (end_one cid c reason d srv) e = inbox srv e"
  using assms by (auto simp: end_one_def ends_def flow_simps)

lemma fold_end_one_other:
  assumes "e \<notin> set ds \<or> \<not> ends srv cid c e"
  shows "call_of (fold (end_one cid c reason) ds srv) e = call_of srv e \<and>
         inbox (fold (end_one cid c reason) ds srv) e = inbox srv e"
  using assms
proof (induction ds arbitrary: srv)
  case (Cons d ds)
  then have o: "e \<noteq> d \<or> \<not> ends srv cid c e" by auto
  then have "ends (end_one cid c reason d srv) cid c e = ends srv cid c e"
    by (simp add: ends_def end_one_other)
  with Cons.IH [of "end_one cid c reason d srv"] Cons.prems o show ?case by (auto simp: end_one_other)
qed simp

lemma fold_end_one_hit:
  assumes "e \<in> set ds" and "ends srv cid c e" and "cid \<noteq> []"
  shows "call_of (fold (end_one cid c reason) ds srv) e = [] \<and>
         inbox (fold (end_one cid c reason) ds srv) e = inbox (sendMessage srv e (CallEnded cid reason)) e"
  using assms(1,2)
proof (induction ds arbitrary: srv)
  case (Cons d ds)
  show ?case
  proof (cases "e = d")
    case True
    then have "\<not> ends (end_one cid c reason d srv) cid c e"
      using end_one_same(1) [OF Cons.prems(2), of reason] assms(3) by (simp add: ends_def)
    with fold_end_one_other [of e ds "end_one cid c reason d srv"] end_one_same [OF Cons.prems(2), of reason] True
    show ?thesis by simp
  next
    case False
    with Cons.IH [of "end_one cid c reason d srv"] Cons.prems end_one_other [of e d srv cid c reason] show ?thesis
      by (simp add: ends_def inbox_small)
  qed
qed simp

lemma end_others_flow [flow_simps]:
  assumes "cid \<noteq> []"
  shows "call_of (end_others srv cid c reason) e =
           (if e \<in> snd ` set (clients srv) \<and> e \<noteq> c \<and> call_of srv e = cid then [] else call_of srv e)"
    and "inbox (end_others srv cid c reason) e =
           (if e \<in> snd ` set (clients srv) \<and> e \<noteq> c \<and> call_of srv e = cid
            then inbox (sendMessage srv e (CallEnded cid reason)) e else inbox srv e)"
proof -
  have eq: "end_others srv cid c reason = fold (end_one cid c reason) (map snd (clients srv)) srv"
    by (simp add: end_others_def end_one_def [abs_def])
  have "(e \<in> snd ` set (clients srv) \<and> e \<noteq> c \<and> call_of srv e = cid) = (e \<in> set (map snd (clients srv)) \<and> ends srv cid c e)"
    by (simp add: ends_def)
  then show "call_of (end_others srv cid c reason) e =
           (if e \<in> snd ` set (clients srv) \<and> e \<noteq> c \<and> call_of srv e = cid then [] else call_of srv e)"
    "inbox (end_others srv cid c reason) e =
           (if e \<in> snd ` set (clients srv) \<and> e \<noteq> c \<and> call_of srv e = cid
            then inbox (sendMessage srv e (CallEnded cid reason)) e else inbox srv e)"
    using fold_end_one_hit [of e "map snd (clients srv)" srv cid c reason] assms
      fold_end_one_other [of e "map snd (clients srv)" srv cid c reason] unfolding eq by metis+
qed

lemma fields_end_others [simp]:
  "svcCalls (end_others srv cid c reason) = svcCalls srv" "clients (end_others srv cid c reason) = clients srv"
  "svcHeap (end_others srv cid c reason) = svcHeap srv"
proof -
  have "svcCalls (fold f ds s) = svcCalls s \<and> clients (fold f ds s) = clients s \<and> svcHeap (fold f ds s) = svcHeap s"
    if "\<And>d s. svcCalls (f d s) = svcCalls s \<and> clients (f d s) = clients s \<and> svcHeap (f d s) = svcHeap s"
    for f :: "cref \<Rightarrow> Server \<Rightarrow> Server" and ds s
    using that by (induction ds arbitrary: s) simp_all
  then show "svcCalls (end_others srv cid c reason) = svcCalls srv" "clients (end_others srv cid c reason) = clients srv"
    "svcHeap (end_others srv cid c reason) = svcHeap srv"
    by (simp_all add: end_others_def)
qed

lemma clients_range: "map_of (clients srv) num = Some c \<Longrightarrow> c \<in> snd ` set (clients srv)"
  by (force dest: map_of_SomeD)

section \<open>Expiry of waiting calls\<close>

lemma routeToVoicemail_result:
  assumes "routeToVoicemail x srv c r off cid = (ok, srv')" and "cid \<noteq> []"
  shows "if ok then (\<exists>v. map_of (svcCalls srv') cid = Some (c, v)) \<and> call_of srv' c = cid \<and> pendingCalls srv' = pendingCalls srv
         else srv' = srv"
  using assms
  by (auto simp: routeToVoicemail_def Let_def case_prod_beta fresh_ref_def flow_simps split: option.splits sum.splits if_splits)

lemma pending_send [simp]:
  "pendingCalls (snd (snd_event x srv st ev)) = pendingCalls srv" "pendingCalls (leg_hangup x srv st cid reason) = pendingCalls srv"
  "pendingCalls (put_leg srv cid leg) = pendingCalls srv" "pendingCalls (removeInLeg srv cid) = pendingCalls srv"
  by (simp_all add: snd_event_def leg_hangup_def put_leg_def removeInLeg_def)

lemma pending_routeInbound [simp]: "pendingCalls (snd (routeInboundVoicemail x srv leg cid)) = pendingCalls srv"
  by (simp add: routeInboundVoicemail_def Let_def case_prod_beta fresh_ref_def split: option.split sum.split)

lemma pending_route: "pendingCalls (snd (routeToVoicemail x srv c r off cid)) = pendingCalls srv"
  by (simp add: routeToVoicemail_def Let_def case_prod_beta fresh_ref_def split: option.split sum.split)

lemma pending_expire_one [simp]: "pendingCalls (expire_one x srv num p) = pendingCalls srv"
  by (simp add: expire_one_def case_prod_beta pending_route split: option.split bool.split)

lemma pending_fold_expire: "pendingCalls (fold (\<lambda>(num, p) srv. expire_one x srv num p) ps srv) = pendingCalls srv"
  by (induction ps arbitrary: srv) auto

lemma expire_one_local:
  assumes "p_caller p = Some d" and "\<not> p_remote p" and "isOnline srv (Some d)" and "p_callID p \<noteq> []"
    and "call_of srv d = p_callID p" and "length (inbox srv d) < sendCap"
  shows "let srv' = expire_one x srv num p in
     (\<exists>v. map_of (svcCalls srv') (p_callID p) = Some (d, v)) \<and> call_of srv' d = p_callID p \<or>
     call_of srv' d = [] \<and> inbox srv' d = inbox srv d @ [CallEnded (p_callID p) ''no answer'']"
proof -
  let ?r = "routeToVoicemail x srv d (case GetUserByNumber (s_store srv) num of Inl _ \<Rightarrow> None | Inr r \<Rightarrow> r) (p_offer p) (p_callID p)"
  obtain ok srv' where r: "?r = (ok, srv')" by (cases ?r)
  show ?thesis
    using assms r routeToVoicemail_result [OF r assms(4)]
    by (cases ok) (auto simp: expire_one_def Let_def flow_simps)
qed

section \<open>Properties\<close>

text \<open>
  C12. A call that is not answered ends in voicemail: the callee rings, the caller hears the
  ringing; when the ring timer fires the callee is told that the call was not answered and is free
  again, and the caller is connected, under the same call, to a recorder that records for the
  callee's mailbox with the caller's number and name.
\<close>

theorem unanswered_call_to_voicemail:
  assumes "can_ring srv c u d v dest" and "x_name x (counter srv) = cid" and "cid \<noteq> []"
    and "Enabled (s_vm srv)" and "answers (x_pion x') \<lparr>sd_type = SDPTypeOffer, sd_sdp = SDP sdp\<rparr> ans"
  shows "\<exists>srv1 srv2. handleCall x srv c \<lparr>cr_Destination = dest, cr_Offer = Some sdp\<rparr> = Done srv1 \<and>
           srv2 = onRingTimeout x' srv1 cid \<and>
           inbox srv2 d = inbox srv d @ [offered cid u (Some sdp), CallEnded cid ''no answer''] \<and> call_of srv2 d = [] \<and>
           inbox srv2 c = inbox srv c @ [CallRinging cid, vm_connected cid ans] \<and> call_of srv2 c = cid \<and>
           in_voicemail srv2 cid c u v \<and> map_of (ringStates srv2) cid = None"
proof -
  obtain srv1 where h: "handleCall x srv c \<lparr>cr_Destination = dest, cr_Offer = Some sdp\<rparr> = Done srv1"
    and r: "ringStates srv1 = aput cid \<lparr>r_caller = c, r_callee = d, r_calleeUser = Some v, r_offer = Some sdp,
       r_answered = False\<rparr> (ringStates srv)"
    and id1: "clients srv1 = clients srv" "\<And>e. user_of srv1 e = user_of srv e"
    and ca: "\<And>e. call_of srv1 e = (if e = c \<or> e = d then cid else call_of srv e)"
    and ib: "inbox srv1 c = inbox srv c @ [CallRinging cid]" "inbox srv1 d = inbox srv d @ [offered cid u (Some sdp)]"
    and vm: "s_vm srv1 = s_vm srv"
    using dial_rings [OF assms(1), of x "Some sdp"] assms(2) by metis
  have cr: "user_of srv c = Some u" "map_of (clients srv) (Number u) = Some c" "c \<noteq> d"
    "length (inbox srv c) + 3 \<le> sendCap" "length (inbox srv d) + 3 \<le> sendCap"
    using assms(1) by (auto simp: can_ring_def)
  define s where "s = sendMessage (clearCallID (srv1\<lparr>ringStates := adel cid (ringStates srv1)\<rparr>) (Some d) cid) d (CallEnded cid ''no answer'')"
  have on: "isOnline s (Some c)" and us: "user_of s c = Some u"
    using cr id1 by (simp_all add: s_def isOnline_def)
  have en: "Enabled (s_vm s)" using assms(4) vm by (simp add: s_def)
  obtain srv2 where r2: "routeToVoicemail x' s c (Some v) (Some sdp) cid = (True, srv2)"
    and v2: "in_voicemail srv2 cid c u v" "ringStates srv2 = ringStates s"
    and c2: "\<And>e. call_of srv2 e = (if e = c then cid else call_of s e)"
    and i2: "\<And>e. inbox srv2 e = inbox (sendMessage s c (vm_connected cid ans)) e"
    using routeToVoicemail_answers [OF on en us assms(3,5), where r = v] by metis
  have "map_of (ringStates srv1) cid = Some \<lparr>r_caller = c, r_callee = d, r_calleeUser = Some v, r_offer = Some sdp, r_answered = False\<rparr>"
    by (simp add: r)
  then have "onRingTimeout x' srv1 cid = srv2"
    using on r2 by (simp add: onRingTimeout_def Let_def s_def [symmetric])
  moreover have "call_of srv2 d = []" "call_of srv2 c = cid" using cr(3) by (simp_all add: c2 s_def flow_simps ca)
  moreover have "inbox srv2 d = inbox srv d @ [offered cid u (Some sdp), CallEnded cid ''no answer'']"
    "inbox srv2 c = inbox srv c @ [CallRinging cid, vm_connected cid ans]"
    using cr by (simp_all add: i2 s_def flow_simps ib)
  moreover have "map_of (ringStates srv2) cid = None" by (simp add: v2(2) s_def)
  ultimately show ?thesis using h v2(1) by blast
qed

lemma sample_ring: "can_ring sample_online 1 ann 2 bob ''555-6789''"
  by (simp add: can_ring_def sample_defs user_of_def client_def inbox_def IsServiceCode_def ParseNumber_def strip_dashes_def sendCap_def)

lemma sample_answers: "answers sample_pion off ''sdp-answer''"
  by (simp add: answers_def sample_pion_def)

lemma sample_call_name: "x_name sample_ext (counter sample_online) = ''cccc''"
  by (simp add: sample_ext_def sample_name_def sample_online_def numeral_eq_Suc)

theorem unanswered_call_to_voicemail_witness:
  "\<exists>srv1 srv2. handleCall sample_ext sample_online 1 \<lparr>cr_Destination = ''555-6789'', cr_Offer = Some \<lparr>SDP = ''o'', SdpType = ''offer''\<rparr>\<rparr> = Done srv1 \<and>
     srv2 = onRingTimeout sample_ext srv1 ''cccc'' \<and> in_voicemail srv2 ''cccc'' 1 ann bob"
  using unanswered_call_to_voicemail [OF sample_ring, of sample_ext "''cccc''" sample_ext "\<lparr>SDP = ''o'', SdpType = ''offer''\<rparr>" "''sdp-answer''"]
    sample_answers sample_call_name
  by (auto simp: sample_ext_def sample_online_def vm_NewManager_def Enabled_def)

definition unused_call :: "Server \<Rightarrow> callID \<Rightarrow> bool" where
  "unused_call srv cid \<longleftrightarrow> cid \<noteq> [] \<and> map_of (inLegs srv) cid = None \<and> map_of (outLegs srv) cid = None \<and>
     map_of (svcCalls srv) cid = None \<and> (\<forall>(num, p) \<in> set (pendingCalls srv). p_callID p \<noteq> cid) \<and>
     (\<forall>e. call_of srv e \<noteq> cid)"

lemma call_answered:
  assumes "can_ring srv c u d v dest" and "x_name x (counter srv) = cid" and "unused_call srv cid"
  obtains srv1 srv2 where "handleCall x srv c \<lparr>cr_Destination = dest, cr_Offer = off\<rparr> = Done srv1"
    "handleCallAnswer x2 srv1 d \<lparr>ca_CallID = cid, ca_Answer = ans\<rparr> = srv2"
    "map_of (ringStates srv2) cid = None" "clients srv2 = clients srv" "\<And>e. user_of srv2 e = user_of srv e"
    "\<And>e. call_of srv2 e = (if e = c \<or> e = d then cid else call_of srv e)"
    "inbox srv1 d = inbox srv d @ [offered cid u off]" "inbox srv2 d = inbox srv d @ [offered cid u off]"
    "inbox srv2 c = inbox srv c @ [CallRinging cid, CallConnected cid ans None]"
    "inLegs srv2 = inLegs srv" "outLegs srv2 = outLegs srv" "svcCalls srv2 = svcCalls srv" "pendingCalls srv2 = pendingCalls srv"
proof -
  obtain srv1 where h: "handleCall x srv c \<lparr>cr_Destination = dest, cr_Offer = off\<rparr> = Done srv1"
    and r: "ringStates srv1 = aput cid \<lparr>r_caller = c, r_callee = d, r_calleeUser = Some v, r_offer = off,
       r_answered = False\<rparr> (ringStates srv)"
    and id1: "clients srv1 = clients srv" "\<And>e. user_of srv1 e = user_of srv e"
    and ca: "\<And>e. call_of srv1 e = (if e = c \<or> e = d then cid else call_of srv e)"
    and ib: "inbox srv1 c = inbox srv c @ [CallRinging cid]" "inbox srv1 d = inbox srv d @ [offered cid u off]"
    and leg: "svcCalls srv1 = svcCalls srv" "inLegs srv1 = inLegs srv" "outLegs srv1 = outLegs srv" "pendingCalls srv1 = pendingCalls srv"
    using dial_rings [OF assms(1), of x off] assms(2) by metis
  have cr: "map_of (clients srv) (Number u) = Some c" "c \<noteq> d" "user_of srv d = Some v" "length (inbox srv c) + 3 \<le> sendCap"
    using assms(1) by (auto simp: can_ring_def)
  have new: "\<And>e. call_of srv e \<noteq> cid" using assms(3) by (auto simp: unused_call_def)
  define s where "s = srv1\<lparr>ringStates := adel cid (ringStates srv1)\<rparr>"
  have t: "takeRing srv1 cid = (Some \<lparr>r_caller = c, r_callee = d, r_calleeUser = Some v, r_offer = off, r_answered = False\<rparr>, s)"
    by (simp add: takeRing_def r s_def)
  have "set (others_in_call s cid d) = {c}"
    using cr(2) clients_range [OF cr(1)] new by (auto simp: others_in_call_def s_def flow_simps ca id1 split: if_splits)
  from last_singleton_set [OF this] have o: "others_in_call s cid d \<noteq> []" "last (others_in_call s cid d) = c"
    by simp_all
  define srv2 where "srv2 = sendMessage s c (CallConnected cid ans None)"
  have a2: "handleCallAnswer x2 srv1 d \<lparr>ca_CallID = cid, ca_Answer = ans\<rparr> = srv2"
    using cr(3) t o assms(3) by (simp add: handleCallAnswer_def id1 leg s_def unused_call_def srv2_def Let_def)
  show thesis
    by (rule that [OF h a2]) (use cr in \<open>simp_all add: srv2_def s_def flow_simps ca ib leg id1\<close>)
qed

text \<open>
  C10. A call between two subscribers, from the dial to the end: the answer of the callee reaches
  the caller with its session description and stops the ring timer; when one side hangs up the other is told,
  and both are free again.
\<close>

theorem local_call:
  assumes "can_ring srv c u d v dest" and "x_name x (counter srv) = cid" and "unused_call srv cid"
  shows "\<exists>srv1 srv2 srv3. handleCall x srv c \<lparr>cr_Destination = dest, cr_Offer = off\<rparr> = Done srv1 \<and>
           srv2 = handleCallAnswer x2 srv1 d \<lparr>ca_CallID = cid, ca_Answer = ans\<rparr> \<and> srv3 = handleCallHangup x3 srv2 c \<and>
           map_of (ringStates srv2) cid = None \<and> call_of srv2 c = cid \<and> call_of srv2 d = cid \<and>
           inbox srv3 c = inbox srv c @ [CallRinging cid, CallConnected cid ans None] \<and>
           inbox srv3 d = inbox srv d @ [offered cid u off, CallEnded cid ''hangup''] \<and>
           call_of srv3 c = [] \<and> call_of srv3 d = []"
proof -
  obtain srv1 srv2 where h: "handleCall x srv c \<lparr>cr_Destination = dest, cr_Offer = off\<rparr> = Done srv1"
    and a2: "handleCallAnswer x2 srv1 d \<lparr>ca_CallID = cid, ca_Answer = ans\<rparr> = srv2"
    and r2: "map_of (ringStates srv2) cid = None" "clients srv2 = clients srv" "\<And>e. user_of srv2 e = user_of srv e"
    and c2: "\<And>e. call_of srv2 e = (if e = c \<or> e = d then cid else call_of srv e)"
    and ib: "inbox srv2 d = inbox srv d @ [offered cid u off]"
      "inbox srv2 c = inbox srv c @ [CallRinging cid, CallConnected cid ans None]"
    and leg: "inLegs srv2 = inLegs srv" "outLegs srv2 = outLegs srv" "svcCalls srv2 = svcCalls srv" "pendingCalls srv2 = pendingCalls srv"
    by (rule call_answered [OF assms(1-3), of off x2 ans]) blast
  have cr: "user_of srv c = Some u" "c \<noteq> d" "length (inbox srv d) + 3 \<le> sendCap" "d \<in> snd ` set (clients srv)"
    using assms(1) clients_range by (fastforce simp: can_ring_def split: sum.splits)+
  have l2: "cid \<noteq> []" "map_of (inLegs srv2) cid = None" "map_of (outLegs srv2) cid = None" "map_of (svcCalls srv2) cid = None"
    "\<not> (\<exists>(num, p) \<in> set (pendingCalls srv2). p_callID p = cid)"
    using assms(3) by (auto simp: leg unused_call_def)
  have "handleCallHangup x3 srv2 c = end_others (set_call srv2 c []) cid c ''hangup''"
    using cr(1) r2 l2
    by (simp add: handleCallHangup_def c2 takeRing_def declineInboundCallee_def closeLocalLeg_def removePendingByCallID_def Let_def)
  then show ?thesis
    using h a2 r2 cr l2(1) ib by (auto simp: c2 flow_simps)
qed

lemma sample_unused: "unused_call sample_online ''cccc''"
  by (auto simp: sample_online_def sample_exchange_def NewServer_def unused_call_def call_of_def client_def sample_conn_def)

theorem local_call_witness:
  "\<exists>srv1 srv2 srv3. handleCall sample_ext sample_online 1 \<lparr>cr_Destination = ''555-6789'', cr_Offer = None\<rparr> = Done srv1 \<and>
     srv2 = handleCallAnswer sample_ext srv1 2 \<lparr>ca_CallID = ''cccc'', ca_Answer = None\<rparr> \<and>
     srv3 = handleCallHangup sample_ext srv2 1 \<and> call_of srv3 1 = [] \<and> call_of srv3 2 = []"
  using local_call [OF sample_ring, of sample_ext "''cccc''" None sample_ext None sample_ext]
    sample_unused sample_call_name by blast

text \<open>
  C29. A closing connection gives up only the line it is registered for and still owns: a socket
  that was replaced by a reconnect does not evict the new one. A connection that has registered
  for a second line keeps owning the first one after it has closed.
\<close>

theorem closing_connection:
  "map_of (clients (unregisterClient x srv c)) num =
     (if map_of (clients srv) num = Some c \<and> (\<exists>u. user_of srv c = Some u \<and> Number u = num)
      then None else map_of (clients srv) num)"
proof -
  have "clients (unregisterClient x srv c) =
     (case user_of srv c of
        None \<Rightarrow> clients srv
      | Some u \<Rightarrow> if map_of (clients srv) (Number u) = Some c then adel (Number u) (clients srv) else clients srv)"
    using ids_unregisterClient [of x srv c] by (simp add: ids_def)
  then show ?thesis by (auto split: option.splits)
qed

text \<open>
  C37. When the callee's connection breaks while the phone rings, the caller is connected to the
  recorder and then, in the same step, told that the call has ended: the caller's device hangs up, its call is
  cleared on the server, and the recording session stays open with nobody in it.
\<close>

theorem callee_disconnect_drops_voicemail:
  assumes "can_ring srv c u d v dest" and "x_name x (counter srv) = cid" and "unused_call srv cid"
    and "Enabled (s_vm srv)" and "answers (x_pion x') \<lparr>sd_type = SDPTypeOffer, sd_sdp = SDP sdp\<rparr> ans"
  shows "\<exists>srv1 srv2. handleCall x srv c \<lparr>cr_Destination = dest, cr_Offer = Some sdp\<rparr> = Done srv1 \<and>
           srv2 = unregisterClient x' srv1 d \<and>
           inbox srv2 c = inbox srv c @ [CallRinging cid, vm_connected cid ans, CallEnded cid ''disconnect''] \<and>
           call_of srv2 c = [] \<and> in_voicemail srv2 cid c u v"
proof -
  obtain srv1 where h: "handleCall x srv c \<lparr>cr_Destination = dest, cr_Offer = Some sdp\<rparr> = Done srv1"
    and r: "ringStates srv1 = aput cid \<lparr>r_caller = c, r_callee = d, r_calleeUser = Some v, r_offer = Some sdp,
       r_answered = False\<rparr> (ringStates srv)"
    and id1: "clients srv1 = clients srv" "\<And>e. user_of srv1 e = user_of srv e"
    and ca: "\<And>e. call_of srv1 e = (if e = c \<or> e = d then cid else call_of srv e)"
    and ib: "inbox srv1 c = inbox srv c @ [CallRinging cid]"
    and leg: "svcCalls srv1 = svcCalls srv" "inLegs srv1 = inLegs srv" "outLegs srv1 = outLegs srv"
      "pendingCalls srv1 = pendingCalls srv" "s_vm srv1 = s_vm srv"
    using dial_rings [OF assms(1), of x "Some sdp"] assms(2) by metis
  have cr: "user_of srv c = Some u" "map_of (clients srv) (Number u) = Some c" "c \<noteq> d" "user_of srv d = Some v"
    "length (inbox srv c) + 3 \<le> sendCap"
    using assms(1) by (auto simp: can_ring_def)
  have new: "cid \<noteq> []" using assms(3) by (simp add: unused_call_def)
  define s where "s = (set_call srv1 d [])\<lparr>ringStates := adel cid (ringStates srv1)\<rparr>"
  have on: "isOnline s (Some c)" and us: "user_of s c = Some u" and en: "Enabled (s_vm s)"
    using cr id1 assms(4) leg by (simp_all add: s_def isOnline_def)
  obtain s2 where r2: "routeToVoicemail x' s c (Some v) (Some sdp) cid = (True, s2)"
    and v2: "in_voicemail s2 cid c u v" "clients s2 = clients s"
    and c2: "\<And>e. call_of s2 e = (if e = c then cid else call_of s e)"
    and i2: "\<And>e. inbox s2 e = inbox (sendMessage s c (vm_connected cid ans)) e"
    using routeToVoicemail_answers [OF on en us new assms(5), where r = v] by metis
  have close: "snd (closeLocalLeg x' (set_call srv1 d []) d cid ''disconnect'') = set_call srv1 d []"
    "snd (removePendingByCallID (set_call srv1 d []) cid) = set_call srv1 d []"
    using assms(3) by (auto simp: closeLocalLeg_def removePendingByCallID_def leg unused_call_def)
  have "takeRing (set_call srv1 d []) cid =
      (Some \<lparr>r_caller = c, r_callee = d, r_calleeUser = Some v, r_offer = Some sdp, r_answered = False\<rparr>, s)"
    by (simp add: takeRing_def r s_def)
  then have ring: "leave_ring x' (set_call srv1 d []) d cid = s2"
    using on r2 by (simp add: leave_ring_def voicemail_or_end_def)
  have svc: "leave_service_call s2 d cid = s2"
    using v2(1) cr(3) by (auto simp: leave_service_call_def in_voicemail_def)
  define s3 where "s3 = end_others s2 cid d ''disconnect''"
  have un: "unregisterClient x' srv1 d = (if map_of (clients s3) (Number v) = Some d then s3\<lparr>clients := adel (Number v) (clients s3)\<rparr> else s3)"
    using cr(4) new by (simp add: unregisterClient_def id1 ca close ring svc Let_def s3_def [symmetric])
  have "c \<in> snd ` set (clients s2)" using clients_range [OF cr(2)] by (simp add: v2(2) s_def id1)
  then have "call_of s3 c = []" "inbox s3 c = inbox srv c @ [CallRinging cid, vm_connected cid ans, CallEnded cid ''disconnect'']"
    using cr(3,5) new by (simp_all add: s3_def flow_simps c2 i2 s_def ib)
  moreover have "in_voicemail s3 cid c u v" using v2(1) by (simp add: s3_def in_voicemail_def svc_obj_of_def)
  ultimately show ?thesis
    using h un by (auto simp: flow_simps in_voicemail_def svc_obj_of_def)
qed

theorem callee_disconnect_drops_voicemail_witness:
  "\<exists>srv1 srv2. handleCall sample_ext sample_online 1 \<lparr>cr_Destination = ''555-6789'', cr_Offer = Some \<lparr>SDP = ''o'', SdpType = ''offer''\<rparr>\<rparr> = Done srv1 \<and>
     srv2 = unregisterClient sample_ext srv1 2 \<and> call_of srv2 1 = [] \<and> in_voicemail srv2 ''cccc'' 1 ann bob"
  using callee_disconnect_drops_voicemail [OF sample_ring sample_call_name sample_unused,
      of sample_ext "\<lparr>SDP = ''o'', SdpType = ''offer''\<rparr>" "''sdp-answer''"] sample_answers
  by (auto simp: sample_ext_def sample_online_def vm_NewManager_def Enabled_def)


definition sample_pending :: pendingCall where
  "sample_pending = \<lparr>p_callID = ''w'', p_caller = Some 1, p_remote = False, p_offer = None, p_createdAt = 0\<rparr>"

definition sample_waiting :: Server where
  "sample_waiting = (set_call sample_online 1 ''w'')\<lparr>pendingCalls := [(''5550000'', sample_pending)]\<rparr>"


end
