(* ===== verification/Probe.thy ===== *)
theory Probe
  imports Sig_Flows
begin

text \<open>
  The test device \<open>ocnserver/cmd/wsprobe/main.go\<close>: a client that registers an existing identity and
  then places a call or answers the calls it receives. It is the one device in the repository, and
  the other side of the signaling protocol: its frames are fed to the server, and what it reads is
  the queue of its connection.

  Here a frame is the message it decodes to, with byte fields in base64, as \<open>encoding/json\<close> has them
  for \<open>[]byte\<close>; \<open>Wire\<close> has the device on the text of the frames and shows that both agree. Reading the key file is
  \<open>LoadFile\<close>; dialing, closing and pauses are left out.
\<close>

section \<open>The frames of the device\<close>

definition json_bytes :: "string \<Rightarrow> bytes" where
  "json_bytes s = (case StdDecode s of None \<Rightarrow> [] | Some b \<Rightarrow> b)"

definition probe_challenge :: "KSim \<Rightarrow> ClientMessage" where
  "probe_challenge k = blank_msg\<lparr>m_ChallengeRequest := Some (Some (json_bytes (EncodePublicKey k)))\<rparr>"

text \<open>A message without a challenge leaves the zero value in place.\<close>

definition probe_read_challenge :: "ServerMessage \<Rightarrow> bytes \<times> int" where
  "probe_read_challenge m = (case m of ChallengeResponseMsg nonce ts \<Rightarrow> (nonce, ts) | _ \<Rightarrow> ([], 0))"

definition probe_register :: "ed25519 \<Rightarrow> KSim \<Rightarrow> ServerMessage \<Rightarrow> ClientMessage" where
  "probe_register ed k m =
     (let (nonce, ts) = probe_read_challenge m;
          sig = SignChallenge ed k nonce ts
      in blank_msg\<lparr>m_Register := Some \<lparr>rr_KsimID = Some (json_bytes (EncodePublicKey k)),
           rr_Signature = Some (json_bytes (StdEncode sig)), rr_DisplayName = Some ''wsprobe'', rr_ActivationToken = []\<rparr>\<rparr>)"

datatype probe_state = Registered "ServerMessage list" | Refused int string | Reading

text \<open>The loop that consumes messages until the registration is answered.\<close>

fun probe_await :: "ServerMessage list \<Rightarrow> probe_state" where
  "probe_await [] = Reading"
| "probe_await (m # ms) =
     (case m of
        RegisterResponse num ice \<Rightarrow> Registered ms
      | ErrorMsg code text \<Rightarrow> Refused code text
      | _ \<Rightarrow> probe_await ms)"

definition probe_sdp :: "string \<Rightarrow> SDPSession" where
  "probe_sdp ty = \<lparr>SDP = ''v=0'' @ [CHR 0x0D, CHR 0x0A] @ ''o=- 1 1 IN IP4 0.0.0.0'' @ [CHR 0x0D, CHR 0x0A] @ ''s=-'' @ [CHR 0x0D, CHR 0x0A] @
     ''c=IN IP4 0.0.0.0'' @ [CHR 0x0D, CHR 0x0A] @ ''t=0 0'' @ [CHR 0x0D, CHR 0x0A] @ ''m=audio 9 UDP/TLS/RTP/SAVPF 111'' @ [CHR 0x0D, CHR 0x0A],
     SdpType = ty\<rparr>"

definition probe_ice :: "string \<Rightarrow> string \<Rightarrow> ICETrickle" where
  "probe_ice cid cand = \<lparr>it_CallID = cid, it_Candidate = Some \<lparr>ic_Candidate = cand, ic_SDPMid = ''0'', ic_SDPMLineIndex = 0\<rparr>\<rparr>"

text \<open>What the receiving goroutine sends for one message.\<close>

definition probe_react :: "string \<Rightarrow> ServerMessage \<Rightarrow> ClientMessage list" where
  "probe_react mode m =
     (if mode = ''answer'' then
        (case m of
           IncomingCall cid num name off \<Rightarrow>
             [blank_msg\<lparr>m_CallAnswer := Some \<lparr>ca_CallID = cid, ca_Answer = Some (probe_sdp ''answer'')\<rparr>\<rparr>,
              blank_msg\<lparr>m_ICECandidate := Some (probe_ice cid ''candidate:1 1 UDP 1 1.2.3.4 5000 typ host'')\<rparr>]
         | _ \<Rightarrow> [])
      else [])"

definition probe_place_call :: "string \<Rightarrow> ClientMessage" where
  "probe_place_call dest = blank_msg\<lparr>m_Call := Some \<lparr>cr_Destination = dest, cr_Offer = Some (probe_sdp ''offer'')\<rparr>\<rparr>"

text \<open>The candidate the caller sends two seconds later, under the call identifier \<open>x\<close>.\<close>

definition probe_late_ice :: ClientMessage where
  "probe_late_ice = blank_msg\<lparr>m_ICECandidate := Some (probe_ice ''x'' ''candidate:1 1 UDP 1 9.9.9.9 5000 typ host'')\<rparr>"

text \<open>The server takes the frames of a connection in order, each with its own world.\<close>

fun take_frames :: "(nat \<Rightarrow> ext) \<Rightarrow> Server \<Rightarrow> cref \<Rightarrow> ClientMessage list \<Rightarrow> Server outcome" where
  "take_frames xs srv c [] = Done srv"
| "take_frames xs srv c (m # ms) =
     (case readPump (xs 0) srv c (Some m) of
        Done srv' \<Rightarrow> take_frames (\<lambda>i. xs (Suc i)) srv' c ms
      | r \<Rightarrow> r)"

section \<open>Queues only grow\<close>

definition grows :: "Server \<Rightarrow> Server \<Rightarrow> bool" where
  "grows srv srv' \<longleftrightarrow> (\<forall>d. prefix (inbox srv d) (inbox srv' d))"

lemma grows_trans [trans]: "grows a b \<Longrightarrow> grows b c \<Longrightarrow> grows a c"
  unfolding grows_def by (meson prefix_order.trans)

lemma grows_refl [simp]: "grows srv srv" by (simp add: grows_def)

lemma grows_send: "grows srv (sendMessage srv c m)"
  by (simp add: grows_def flow_simps)

lemma grows_fold: "(\<And>a s. grows s (f a s)) \<Longrightarrow> grows srv (fold f as srv)"
  by (induction as arbitrary: srv) (auto intro: grows_trans)

lemma grows_same: "(\<And>d. inbox srv' d = inbox srv d) \<Longrightarrow> grows srv srv'"
  by (simp add: grows_def)

lemma grows_deliverPendingCall: "grows srv (deliverPendingCall srv c)"
  by (simp add: deliverPendingCall_def deliver_to_def put_leg_def Let_def grows_def flow_simps split: option.split)

lemma grows_flushPendingDM: "grows srv (flushPendingDM x srv c)"
proof -
  have rel: "grows s (snd (relayDMMessage s num env))" for s num env
    by (simp add: relayDMMessage_def grows_send split: option.split)
  have upd: "grows s (s\<lparr>s_dmm := m, s_store := st\<rparr>)" for s m st
    by (rule grows_same) (simp add: inbox_def)
  show ?thesis
    by (auto simp: flushPendingDM_def upd split: option.split prod.split sum.split
        intro!: grows_trans [OF upd grows_fold [OF rel]])
qed

section \<open>Registering\<close>

lemma json_bytes_encode [simp]: "json_bytes (StdEncode b) = b"
  by (simp add: json_bytes_def)

lemma HandleWebSocket_inbox: "HandleWebSocket srv = (c, srv0) \<Longrightarrow> inbox srv0 c = []"
  by (auto simp: HandleWebSocket_def inbox_def client_def)

lemma inbox_auth [flow_simps]: "inbox (srv\<lparr>s_auth := a\<rparr>) d = inbox srv d"
  by (simp add: inbox_def)

lemma probe_is_challenged:
  assumes "HandleWebSocket srv = (c, srv0)" and "x_rand x 0 = Some r" and "PublicKey k \<noteq> []"
  obtains srv1 nonce ts au where "readPump x srv0 c (Some (probe_challenge k)) = Done srv1"
    "GenerateChallenge (x_rand x 0) (x_now x) (s_auth srv0) (PublicKey k) = Inr (nonce, ts, au)"
    "srv1 = sendMessage (srv0\<lparr>s_auth := au\<rparr>) c (ChallengeResponseMsg nonce ts)"
    "inbox srv1 c = [ChallengeResponseMsg nonce ts]" "ts = unix_secs (x_now x)"
proof -
  obtain nonce ts au where g: "GenerateChallenge (x_rand x 0) (x_now x) (s_auth srv0) (PublicKey k) = Inr (nonce, ts, au)"
      "ts = unix_secs (x_now x)"
    using assms(2) by (auto simp: GenerateChallenge_def rand_bytes_def Let_def)
  let ?s = "sendMessage (srv0\<lparr>s_auth := au\<rparr>) c (ChallengeResponseMsg nonce ts)"
  have "readPump x srv0 c (Some (probe_challenge k)) = Done ?s"
    using assms(3) g(1) by (simp add: readPump_def handleMessage_def probe_challenge_def handleChallengeRequest_def
        EncodePublicKey_def blank_msg_def)
  moreover have "inbox ?s c = [ChallengeResponseMsg nonce ts]"
    using HandleWebSocket_inbox [OF assms(1)] by (simp add: flow_simps sendCap_def)
  ultimately show thesis using that g by blast
qed

lemma register_known:
  assumes "GetUserByPublicKey (s_store srv) pub = Inr (Some u)" and "name \<noteq> []"
  obtains s where "register_user x srv pub name tok = Inr (u\<lparr>DisplayName := name\<rparr>, s)"
  using assms by (auto simp: register_user_def Let_def)

lemma accepted_key_registers:
  assumes "rr_KsimID msg = Some pub" "rr_Signature msg = Some sig" "rr_DisplayName msg = Some name" "name \<noteq> []"
    and "fst (VerifyResponse (x_ed x) (x_now x) (s_auth srv) pub sig) = Inr ()"
    and "GetUserByPublicKey (s_store srv) pub = Inr (Some u)" and "inbox srv c = []"
  obtains srv' rest where "handleRegister x srv c msg = Done srv'"
    "inbox srv' c = RegisterResponse \<lparr>pn_AreaCode = AreaCode u, pn_Number = Number u\<rparr> (iceServers srv) # rest"
    "ids srv' = ((user_of srv)(c := Some (u\<lparr>DisplayName := name\<rparr>)), aput (Number u) c (clients srv))"
proof -
  let ?u = "u\<lparr>DisplayName := name\<rparr>"
  obtain au where v: "VerifyResponse (x_ed x) (x_now x) (s_auth srv) pub sig = (Inr (), au)"
    using assms(5) by (metis prod.collapse)
  obtain s where r: "register_user x (srv\<lparr>s_auth := au\<rparr>) pub name (rr_ActivationToken msg) = Inr (?u, s)"
    using register_known [of "srv\<lparr>s_auth := au\<rparr>"] assms(4,6) by (metis Server.ext_inject Server.surjective Server.update_convs(2))
  define a where "a = adopt (srv\<lparr>s_auth := au, s_store := s\<rparr>) c ?u"
  define m where "m = RegisterResponse \<lparr>pn_AreaCode = AreaCode u, pn_Number = Number u\<rparr> (iceServers srv)"
  define srv' where "srv' = flushPendingDM x (deliverPendingCall (sendMessage a c m) c) c"
  have ice: "iceServers a = iceServers srv" "inbox a c = []"
    using assms(7) by (auto simp: a_def adopt_def Let_def inbox_def client_upd split: option.split)
  have h: "handleRegister x srv c msg = Done srv'"
    using assms(1-3) v r ice by (simp add: handleRegister_def Let_def srv'_def m_def a_def)
  have "grows (sendMessage a c m) srv'"
    unfolding srv'_def by (rule grows_trans [OF grows_deliverPendingCall grows_flushPendingDM])
  then have "prefix [m] (inbox srv' c)"
    using ice(2) by (auto simp: grows_def flow_simps sendCap_def dest: spec [of _ c])
  then obtain rest where "inbox srv' c = m # rest" by (auto simp: prefix_def)
  moreover have "ids srv' = ids a" by (simp add: srv'_def ids_simps)
  then have "ids srv' = ((user_of srv)(c := Some ?u), aput (Number u) c (clients srv))"
    by (simp add: a_def ids_adopt user_of_def [abs_def])
  ultimately show thesis using that h by (auto simp: m_def)
qed

lemma writePump_fields [simp]:
  "s_auth (writePump srv c) = s_auth srv" "s_store (writePump srv c) = s_store srv"
  "iceServers (writePump srv c) = iceServers srv" "clients (writePump srv c) = clients srv"
  "inbox (writePump srv c) d = (if d = c then tl (inbox srv c) else inbox srv d)"
  "user_of (writePump srv c) d = user_of srv d"
  by (simp_all add: writePump_def inbox_def client_upd user_of_def)

lemma HandleWebSocket_fields:
  assumes "HandleWebSocket srv = (c, srv0)"
  shows "s_store srv0 = s_store srv" "clients srv0 = clients srv" "iceServers srv0 = iceServers srv"
    "user_of srv0 d = (if d = c then None else user_of srv d)"
  using assms by (auto simp: HandleWebSocket_def user_of_def client_def)

text \<open>
  A device that holds the key of a line gets on line, in terms of messages; \<open>Wire\<close> has the same for the bytes on
  the connection.
\<close>

lemma device_registers_messages:
  assumes ed: "\<And>m. ed_verify ed (PublicKey k) m (ed_sign ed (PrivateKey k) m)" "length (PublicKey k) = 32"
    and conn: "HandleWebSocket srv = (c, srv0)"
    and line: "GetUserByPublicKey (s_store srv) (PublicKey k) = Inr (Some u)"
    and rand: "x_rand x1 0 = Some r"
    and time: "x_ed x2 = ed" "x_now x2 \<le> secs (unix_secs (x_now x1)) + challengeTTL"
  obtains srv1 m srv2 rest where "readPump x1 srv0 c (Some (probe_challenge k)) = Done srv1" "inbox srv1 c = [m]"
    "m = ChallengeResponseMsg (fst (probe_read_challenge m)) (unix_secs (x_now x1))"
    "readPump x2 (writePump srv1 c) c (Some (probe_register ed k m)) = Done srv2"
    "inbox srv2 c = RegisterResponse \<lparr>pn_AreaCode = AreaCode u, pn_Number = Number u\<rparr> (iceServers srv) # rest"
    "user_of srv2 c = Some (u\<lparr>DisplayName := ''wsprobe''\<rparr>)" "map_of (clients srv2) (Number u) = Some c"
    "\<And>d. d \<noteq> c \<Longrightarrow> user_of srv2 d = user_of srv d"
proof -
  have ne: "PublicKey k \<noteq> []" using ed(2) by auto
  obtain srv1 nonce ts au where ch: "readPump x1 srv0 c (Some (probe_challenge k)) = Done srv1"
      "GenerateChallenge (x_rand x1 0) (x_now x1) (s_auth srv0) (PublicKey k) = Inr (nonce, ts, au)"
      "srv1 = sendMessage (srv0\<lparr>s_auth := au\<rparr>) c (ChallengeResponseMsg nonce ts)"
      "inbox srv1 c = [ChallengeResponseMsg nonce ts]" "ts = unix_secs (x_now x1)"
    by (rule probe_is_challenged [OF conn rand ne])
  let ?s = "writePump srv1 c" and ?m = "ChallengeResponseMsg nonce ts"
  let ?msg = "\<lparr>rr_KsimID = Some (PublicKey k), rr_Signature = Some (SignChallenge ed k nonce ts),
      rr_DisplayName = Some ''wsprobe'', rr_ActivationToken = []\<rparr>"
  have au: "s_auth srv1 = au" using ch(3) by (simp add: sendMessage_def)
  have ver: "fst (VerifyResponse (x_ed x2) (x_now x2) (s_auth ?s) (PublicKey k) (SignChallenge ed k nonce ts)) = Inr ()"
    using challenge_answered [OF ed(1) ch(2) _ ed(2)] time ch(5) by (simp add: au)
  have st: "GetUserByPublicKey (s_store ?s) (PublicKey k) = Inr (Some u)" "iceServers ?s = iceServers srv" "clients ?s = clients srv"
      "inbox ?s c = []" "user_of ?s d = (if d = c then None else user_of srv d)" for d
    using line ch(4) HandleWebSocket_fields [OF conn] by (simp_all add: ch(3))
  obtain srv2 rest where r: "handleRegister x2 ?s c ?msg = Done srv2"
      "inbox srv2 c = RegisterResponse \<lparr>pn_AreaCode = AreaCode u, pn_Number = Number u\<rparr> (iceServers ?s) # rest"
      "ids srv2 = ((user_of ?s)(c := Some (u\<lparr>DisplayName := ''wsprobe''\<rparr>)), aput (Number u) c (clients ?s))"
    by (rule accepted_key_registers [of ?msg "PublicKey k" _ "''wsprobe''" x2 ?s u c]) (use ver st in auto)
  have "readPump x2 ?s c (Some (probe_register ed k ?m)) = Done srv2"
    using r(1) by (simp add: readPump_def handleMessage_def probe_register_def probe_read_challenge_def EncodePublicKey_def blank_msg_def)
  moreover have "user_of srv2 = (user_of ?s)(c := Some (u\<lparr>DisplayName := ''wsprobe''\<rparr>))" "clients srv2 = aput (Number u) c (clients srv)"
    using r(3) st(3) by (auto simp: ids_def)
  ultimately show thesis
    using ch(1,4,5) r(2) st by (intro that [of srv1 ?m srv2 rest]) (auto simp: probe_read_challenge_def)
qed

section \<open>A call between two test devices\<close>

lemma trickle_in_call:
  assumes "user_of srv c \<noteq> None" "map_of (svcCalls srv) cid = None" "map_of (outLegs srv) cid = None" "map_of (inLegs srv) cid = None"
  shows "handleICECandidate x srv c (probe_ice cid cand) =
    Done (fold (\<lambda>d srv. sendMessage srv d (IceMsg (probe_ice cid cand))) (others_in_call srv cid c) srv)"
  using assms by (auto simp: handleICECandidate_def probe_ice_def Let_def)

text \<open>
  A candidate without a call identifier goes to every idle subscriber: an idle connection carries the empty identifier, and
  the search for the other party compares identifiers only.
\<close>

lemma stray_candidate:
  assumes "user_of srv c \<noteq> None" "map_of (svcCalls srv) [] = None" "map_of (outLegs srv) [] = None" "map_of (inLegs srv) [] = None"
    and "map_of (clients srv) num = Some d" "d \<noteq> c" "call_of srv d = []"
  shows "d \<in> set (others_in_call srv [] c) \<and>
    handleICECandidate x srv c (probe_ice [] cand) =
      Done (fold (\<lambda>d srv. sendMessage srv d (IceMsg (probe_ice [] cand))) (others_in_call srv [] c) srv)"
  using trickle_in_call [OF assms(1-4)] assms(5-7) clients_range [OF assms(5)] by (auto simp: others_in_call_def)

lemma distinct_one: "distinct xs \<Longrightarrow> set xs = {a} \<Longrightarrow> xs = [a]"
  by (cases xs) (auto simp: insert_eq_iff subset_singleton_iff)

text \<open>
  C11. Two test devices on one exchange complete a call without help: the one in call mode dials, the
  one in answer mode reacts to the offer it reads with its answer and a candidate, and the caller reads
  ringing, the answer and the candidate, in this order; both are then in the call and nothing rings. The
  candidate of the caller names no call and changes nothing.
\<close>

theorem probe_call:
  assumes "can_ring srv c u d v dest" and "x_name (xs 0) (counter srv) = cid" and "unused_call srv cid" "unused_call srv ''x''" "cid \<noteq> ''x''"
    and "distinct (map snd (clients srv))"
  shows "\<exists>srv1 srv2. take_frames xs srv c [probe_place_call dest] = Done srv1 \<and>
    take_frames ys srv1 d (concat (map (probe_react ''answer'') (drop (length (inbox srv d)) (inbox srv1 d)))) = Done srv2 \<and>
    take_frames zs srv2 c [probe_late_ice] = Done srv2 \<and>
    inbox srv2 c = inbox srv c @ [CallRinging cid, CallConnected cid (Some (probe_sdp ''answer'')) None,
      IceMsg (probe_ice cid ''candidate:1 1 UDP 1 1.2.3.4 5000 typ host'')] \<and>
    inbox srv2 d = inbox srv d @ [offered cid u (Some (probe_sdp ''offer''))] \<and>
    map_of (ringStates srv2) cid = None \<and> call_of srv2 c = cid \<and> call_of srv2 d = cid"
proof -
  let ?ice = "probe_ice cid ''candidate:1 1 UDP 1 1.2.3.4 5000 typ host''" and ?ans = "Some (probe_sdp ''answer'')"
  obtain srv1 s where h: "handleCall (xs 0) srv c \<lparr>cr_Destination = dest, cr_Offer = Some (probe_sdp ''offer'')\<rparr> = Done srv1"
    and a: "handleCallAnswer (ys 0) srv1 d \<lparr>ca_CallID = cid, ca_Answer = ?ans\<rparr> = s"
    and r: "map_of (ringStates s) cid = None" "clients s = clients srv" "\<And>e. user_of s e = user_of srv e"
    and ca: "\<And>e. call_of s e = (if e = c \<or> e = d then cid else call_of srv e)"
    and ib: "inbox srv1 d = inbox srv d @ [offered cid u (Some (probe_sdp ''offer''))]"
      "inbox s d = inbox srv d @ [offered cid u (Some (probe_sdp ''offer''))]"
      "inbox s c = inbox srv c @ [CallRinging cid, CallConnected cid ?ans None]"
    and leg: "inLegs s = inLegs srv" "outLegs s = outLegs srv" "svcCalls s = svcCalls srv"
    by (rule call_answered [OF assms(1-3), of "Some (probe_sdp ''offer'')" "ys 0" ?ans]) blast
  have cr: "user_of srv c = Some u" "map_of (clients srv) (Number u) = Some c" "c \<noteq> d" "user_of srv d = Some v"
      "length (inbox srv c) + 3 \<le> sendCap"
    using assms(1) by (auto simp: can_ring_def)
  have free: "\<And>e. call_of srv e \<noteq> cid" "\<And>e. call_of srv e \<noteq> ''x''" using assms(3,4) by (auto simp: unused_call_def)
  have "set (others_in_call s cid d) = {c}" "distinct (others_in_call s cid d)"
    using cr(3) clients_range [OF cr(2)] free(1) assms(6) by (auto simp: others_in_call_def ca r split: if_splits)
  then have one: "others_in_call s cid d = [c]" by (simp add: distinct_one)
  define srv2 where "srv2 = sendMessage s c (IceMsg ?ice)"
  have i: "handleICECandidate (ys 1) s d ?ice = Done srv2"
    using trickle_in_call [of s d cid] cr(4) assms(3) by (simp add: r leg unused_call_def one srv2_def)
  have "others_in_call srv2 ''x'' c = []"
    using assms(5) free(2) by (auto simp: others_in_call_def srv2_def flow_simps ca r)
  then have l: "handleICECandidate (zs 0) srv2 c (probe_ice ''x'' cand) = Done srv2" for cand
    using trickle_in_call [of srv2 c "''x''"] cr(1) assms(4) by (simp add: srv2_def r leg unused_call_def)
  show ?thesis
    using h a i l r cr ib
    by (intro exI [of _ srv1] exI [of _ srv2])
      (simp add: readPump_def handleMessage_def probe_place_call_def probe_late_ice_def blank_msg_def probe_react_def offered_def srv2_def flow_simps ca)
qed

theorem probe_call_witness:
  "\<exists>srv1 srv2. take_frames (\<lambda>_. sample_ext) sample_online 1 [probe_place_call ''555-6789''] = Done srv1 \<and>
     take_frames (\<lambda>_. sample_ext) srv1 2 (concat (map (probe_react ''answer'') (drop (length (inbox sample_online 2)) (inbox srv1 2)))) = Done srv2 \<and>
     call_of srv2 1 = ''cccc'' \<and> call_of srv2 2 = ''cccc''"
proof -
  have u: "unused_call sample_online ''x''"
    by (auto simp: sample_online_def sample_exchange_def NewServer_def unused_call_def call_of_def client_def sample_conn_def)
  have d: "distinct (map snd (clients sample_online))" by (simp add: sample_online_def)
  from probe_call [OF sample_ring, of "\<lambda>_. sample_ext" "''cccc''", OF sample_call_name sample_unused u _ d,
      of "\<lambda>_. sample_ext" "\<lambda>_. sample_ext"] show ?thesis by auto
qed

end
