(* ===== verification/Wire.thy ===== *)
theory Wire
  imports Probe
begin

text \<open>
  The wire format of the signaling protocol: the structs of \<open>ocnserver/internal/signaling/messages.go\<close>
  with their JSON tags. A frame is the text of one \<open>ClientMessage\<close> or \<open>ServerMessage\<close>; the server
  decodes the former (\<open>readPump\<close>) and encodes the latter (\<open>sendMessage\<close>), the test device
  \<open>cmd/wsprobe/main.go\<close> does the opposite with maps of its own.

  A struct with a single field is the value of the field, and a pointer to an empty struct a
  boolean, as in the message types.
\<close>

section \<open>Structs\<close>

abbreviation only :: "string \<Rightarrow> (jvalue \<Rightarrow> 'a \<Rightarrow> 'a option) \<Rightarrow> 'a field" where
  "only k d \<equiv> fld k (\<lambda>v. v) (\<lambda>v _. v) d"

definition enc_KSimID :: "bytes \<Rightarrow> jvalue" where
  "enc_KSimID b = VObj [(''public_key'', e_bytes b)]"

definition dec_KSimID :: "jvalue \<Rightarrow> bytes \<Rightarrow> bytes option" where
  "dec_KSimID = d_struct [only ''public_key'' d_bytes]"

definition enc_ChallengeResponse :: "bytes \<Rightarrow> jvalue" where
  "enc_ChallengeResponse b = VObj [(''signature'', e_bytes b)]"

definition dec_ChallengeResponse :: "jvalue \<Rightarrow> bytes \<Rightarrow> bytes option" where
  "dec_ChallengeResponse = d_struct [only ''signature'' d_bytes]"

definition enc_DisplayName :: "string \<Rightarrow> jvalue" where
  "enc_DisplayName s = VObj [(''name'', VStr s)]"

definition dec_DisplayName :: "jvalue \<Rightarrow> string \<Rightarrow> string option" where
  "dec_DisplayName = d_struct [only ''name'' d_string]"

definition enc_PhoneNumber :: "PhoneNumber \<Rightarrow> jvalue" where
  "enc_PhoneNumber p = VObj [(''area_code'', VStr (pn_AreaCode p)), (''number'', VStr (pn_Number p))]"

definition enc_SDPSession :: "SDPSession \<Rightarrow> jvalue" where
  "enc_SDPSession s = VObj [(''sdp'', VStr (SDP s)), (''type'', VStr (SdpType s))]"

definition dec_SDPSession :: "jvalue \<Rightarrow> SDPSession \<Rightarrow> SDPSession option" where
  "dec_SDPSession = d_struct [fld ''sdp'' SDP (\<lambda>v s. s\<lparr>SDP := v\<rparr>) d_string, fld ''type'' SdpType (\<lambda>v s. s\<lparr>SdpType := v\<rparr>) d_string]"

definition zero_SDPSession :: SDPSession where "zero_SDPSession = \<lparr>SDP = [], SdpType = []\<rparr>"

definition enc_ICECandidate :: "ICECandidate \<Rightarrow> jvalue" where
  "enc_ICECandidate c = VObj [(''candidate'', VStr (ic_Candidate c)), (''sdp_mid'', VStr (ic_SDPMid c)),
     (''sdp_mline_index'', e_int (sint (ic_SDPMLineIndex c)))]"

definition dec_ICECandidate :: "jvalue \<Rightarrow> ICECandidate \<Rightarrow> ICECandidate option" where
  "dec_ICECandidate = d_struct [fld ''candidate'' ic_Candidate (\<lambda>v c. c\<lparr>ic_Candidate := v\<rparr>) d_string,
     fld ''sdp_mid'' ic_SDPMid (\<lambda>v c. c\<lparr>ic_SDPMid := v\<rparr>) d_string,
     fld ''sdp_mline_index'' ic_SDPMLineIndex (\<lambda>v c. c\<lparr>ic_SDPMLineIndex := v\<rparr>) d_int32]"

definition zero_ICECandidate :: ICECandidate where
  "zero_ICECandidate = \<lparr>ic_Candidate = [], ic_SDPMid = [], ic_SDPMLineIndex = 0\<rparr>"

section \<open>Requests of a device\<close>

definition enc_ChallengeRequest :: "bytes option \<Rightarrow> jvalue" where
  "enc_ChallengeRequest k = VObj [(''ksim_id'', e_ptr enc_KSimID k)]"

definition dec_ChallengeRequest :: "jvalue \<Rightarrow> bytes option \<Rightarrow> bytes option option" where
  "dec_ChallengeRequest = d_struct [only ''ksim_id'' (d_ptr [] dec_KSimID)]"

definition enc_RegisterRequest :: "RegisterRequest \<Rightarrow> jvalue" where
  "enc_RegisterRequest r = VObj ([(''ksim_id'', e_ptr enc_KSimID (rr_KsimID r)),
     (''challenge_response'', e_ptr enc_ChallengeResponse (rr_Signature r)),
     (''display_name'', e_ptr enc_DisplayName (rr_DisplayName r))] @ omit_str ''activation_token'' (rr_ActivationToken r))"

definition dec_RegisterRequest :: "jvalue \<Rightarrow> RegisterRequest \<Rightarrow> RegisterRequest option" where
  "dec_RegisterRequest = d_struct [fld ''ksim_id'' rr_KsimID (\<lambda>v r. r\<lparr>rr_KsimID := v\<rparr>) (d_ptr [] dec_KSimID),
     fld ''challenge_response'' rr_Signature (\<lambda>v r. r\<lparr>rr_Signature := v\<rparr>) (d_ptr [] dec_ChallengeResponse),
     fld ''display_name'' rr_DisplayName (\<lambda>v r. r\<lparr>rr_DisplayName := v\<rparr>) (d_ptr [] dec_DisplayName),
     fld ''activation_token'' rr_ActivationToken (\<lambda>v r. r\<lparr>rr_ActivationToken := v\<rparr>) d_string]"

definition zero_RegisterRequest :: RegisterRequest where
  "zero_RegisterRequest = \<lparr>rr_KsimID = None, rr_Signature = None, rr_DisplayName = None, rr_ActivationToken = []\<rparr>"

definition enc_RegisterFCM :: "string \<Rightarrow> jvalue" where "enc_RegisterFCM s = VObj [(''token'', VStr s)]"

definition dec_RegisterFCM :: "jvalue \<Rightarrow> string \<Rightarrow> string option" where "dec_RegisterFCM = d_struct [only ''token'' d_string]"

definition enc_CallRequest :: "CallRequest \<Rightarrow> jvalue" where
  "enc_CallRequest r = VObj [(''destination'', VStr (cr_Destination r)), (''offer'', e_ptr enc_SDPSession (cr_Offer r))]"

definition dec_CallRequest :: "jvalue \<Rightarrow> CallRequest \<Rightarrow> CallRequest option" where
  "dec_CallRequest = d_struct [fld ''destination'' cr_Destination (\<lambda>v r. r\<lparr>cr_Destination := v\<rparr>) d_string,
     fld ''offer'' cr_Offer (\<lambda>v r. r\<lparr>cr_Offer := v\<rparr>) (d_ptr zero_SDPSession dec_SDPSession)]"

definition enc_CallAnswer :: "CallAnswerMsg \<Rightarrow> jvalue" where
  "enc_CallAnswer r = VObj [(''call_id'', VStr (ca_CallID r)), (''answer'', e_ptr enc_SDPSession (ca_Answer r))]"

definition dec_CallAnswer :: "jvalue \<Rightarrow> CallAnswerMsg \<Rightarrow> CallAnswerMsg option" where
  "dec_CallAnswer = d_struct [fld ''call_id'' ca_CallID (\<lambda>v r. r\<lparr>ca_CallID := v\<rparr>) d_string,
     fld ''answer'' ca_Answer (\<lambda>v r. r\<lparr>ca_Answer := v\<rparr>) (d_ptr zero_SDPSession dec_SDPSession)]"

definition enc_CallHangup :: "string \<Rightarrow> jvalue" where "enc_CallHangup s = VObj [(''call_id'', VStr s)]"

definition dec_CallHangup :: "jvalue \<Rightarrow> string \<Rightarrow> string option" where "dec_CallHangup = d_struct [only ''call_id'' d_string]"

definition enc_CallDecline :: "string \<Rightarrow> jvalue" where "enc_CallDecline s = VObj [(''call_id'', VStr s)]"

definition dec_CallDecline :: "jvalue \<Rightarrow> string \<Rightarrow> string option" where "dec_CallDecline = d_struct [only ''call_id'' d_string]"

definition enc_ICECandidateTrickle :: "ICETrickle \<Rightarrow> jvalue" where
  "enc_ICECandidateTrickle r = VObj [(''call_id'', VStr (it_CallID r)), (''candidate'', e_ptr enc_ICECandidate (it_Candidate r))]"

definition dec_ICECandidateTrickle :: "jvalue \<Rightarrow> ICETrickle \<Rightarrow> ICETrickle option" where
  "dec_ICECandidateTrickle = d_struct [fld ''call_id'' it_CallID (\<lambda>v r. r\<lparr>it_CallID := v\<rparr>) d_string,
     fld ''candidate'' it_Candidate (\<lambda>v r. r\<lparr>it_Candidate := v\<rparr>) (d_ptr zero_ICECandidate dec_ICECandidate)]"

text \<open>A pointer to an empty struct.\<close>

definition dec_Ping :: "jvalue \<Rightarrow> bool \<Rightarrow> bool option" where
  "dec_Ping j old = (case j of VNull \<Rightarrow> Some False | VObj _ \<Rightarrow> Some True | _ \<Rightarrow> None)"

definition omit_Ping :: "string \<Rightarrow> bool \<Rightarrow> (string \<times> jvalue) list" where
  "omit_Ping k b = (if b then [(k, VObj [])] else [])"

definition enc_VoicemailGetReq :: "string \<Rightarrow> jvalue" where "enc_VoicemailGetReq s = VObj [(''id'', VStr s)]"

definition dec_VoicemailGetReq :: "jvalue \<Rightarrow> string \<Rightarrow> string option" where "dec_VoicemailGetReq = d_struct [only ''id'' d_string]"

definition enc_VoicemailDeleteReq :: "string \<Rightarrow> jvalue" where "enc_VoicemailDeleteReq s = VObj [(''id'', VStr s)]"

definition dec_VoicemailDeleteReq :: "jvalue \<Rightarrow> string \<Rightarrow> string option" where "dec_VoicemailDeleteReq = d_struct [only ''id'' d_string]"

definition enc_VoicemailMarkReadReq :: "string \<Rightarrow> jvalue" where "enc_VoicemailMarkReadReq s = VObj [(''id'', VStr s)]"

definition dec_VoicemailMarkReadReq :: "jvalue \<Rightarrow> string \<Rightarrow> string option" where "dec_VoicemailMarkReadReq = d_struct [only ''id'' d_string]"

definition enc_DMImageReq :: "Image \<Rightarrow> jvalue" where
  "enc_DMImageReq i = VObj [(''name'', VStr (im_Name i)), (''mime'', VStr (im_Mime i)), (''b64'', VStr (im_B64 i))]"

definition dec_DMImageReq :: "jvalue \<Rightarrow> Image \<Rightarrow> Image option" where
  "dec_DMImageReq = d_struct [fld ''name'' im_Name (\<lambda>v i. i\<lparr>im_Name := v\<rparr>) d_string,
     fld ''mime'' im_Mime (\<lambda>v i. i\<lparr>im_Mime := v\<rparr>) d_string, fld ''b64'' im_B64 (\<lambda>v i. i\<lparr>im_B64 := v\<rparr>) d_string]"

definition enc_DMSend :: "DMSendReq \<Rightarrow> jvalue" where
  "enc_DMSend r = VObj ([(''to'', VStr (ds_To r))] @ omit_str ''client_id'' (ds_ClientID r) @ [(''kind'', VStr (ds_Kind r))] @
     omit_str ''text'' (ds_Text r) @ omit_ptr ''image'' enc_DMImageReq (ds_Image r))"

definition dec_DMSend :: "jvalue \<Rightarrow> DMSendReq \<Rightarrow> DMSendReq option" where
  "dec_DMSend = d_struct [fld ''to'' ds_To (\<lambda>v r. r\<lparr>ds_To := v\<rparr>) d_string, fld ''client_id'' ds_ClientID (\<lambda>v r. r\<lparr>ds_ClientID := v\<rparr>) d_string,
     fld ''kind'' ds_Kind (\<lambda>v r. r\<lparr>ds_Kind := v\<rparr>) d_string, fld ''text'' ds_Text (\<lambda>v r. r\<lparr>ds_Text := v\<rparr>) d_string,
     fld ''image'' ds_Image (\<lambda>v r. r\<lparr>ds_Image := v\<rparr>) (d_ptr zero_Image dec_DMImageReq)]"

definition zero_DMSend :: DMSendReq where
  "zero_DMSend = \<lparr>ds_To = [], ds_ClientID = [], ds_Kind = [], ds_Text = [], ds_Image = None\<rparr>"

definition enc_DMAck :: "string \<Rightarrow> jvalue" where "enc_DMAck s = VObj [(''message_id'', VStr s)]"

definition dec_DMAck :: "jvalue \<Rightarrow> string \<Rightarrow> string option" where "dec_DMAck = d_struct [only ''message_id'' d_string]"

definition enc_DMAttachmentGet :: "string \<Rightarrow> jvalue" where "enc_DMAttachmentGet s = VObj [(''message_id'', VStr s)]"

definition dec_DMAttachmentGet :: "jvalue \<Rightarrow> string \<Rightarrow> string option" where "dec_DMAttachmentGet = d_struct [only ''message_id'' d_string]"

definition enc_ClientMessage :: "ClientMessage \<Rightarrow> jvalue" where
  "enc_ClientMessage m = VObj (
     omit_ptr ''challenge_request'' enc_ChallengeRequest (m_ChallengeRequest m) @
     omit_ptr ''register'' enc_RegisterRequest (m_Register m) @
     omit_ptr ''register_fcm'' enc_RegisterFCM (m_RegisterFCM m) @
     omit_ptr ''call'' enc_CallRequest (m_Call m) @
     omit_ptr ''call_answer'' enc_CallAnswer (m_CallAnswer m) @
     omit_ptr ''call_hangup'' enc_CallHangup (m_CallHangup m) @
     omit_ptr ''call_decline'' enc_CallDecline (m_CallDecline m) @
     omit_ptr ''ice_candidate'' enc_ICECandidateTrickle (m_ICECandidate m) @
     omit_Ping ''ping'' (m_Ping m) @
     omit_Ping ''voicemail_list'' (m_VoicemailList m) @
     omit_ptr ''voicemail_get'' enc_VoicemailGetReq (m_VoicemailGet m) @
     omit_ptr ''voicemail_delete'' enc_VoicemailDeleteReq (m_VoicemailDelete m) @
     omit_ptr ''voicemail_mark_read'' enc_VoicemailMarkReadReq (m_VoicemailMarkRead m) @
     omit_ptr ''dm_send'' enc_DMSend (m_DMSend m) @
     omit_ptr ''dm_ack'' enc_DMAck (m_DMAck m) @
     omit_ptr ''dm_attachment_get'' enc_DMAttachmentGet (m_DMAttachmentGet m))"

definition client_fields :: "ClientMessage field list" where
  "client_fields =
     [fld ''challenge_request'' m_ChallengeRequest (\<lambda>v m. m\<lparr>m_ChallengeRequest := v\<rparr>) (d_ptr None dec_ChallengeRequest),
      fld ''register'' m_Register (\<lambda>v m. m\<lparr>m_Register := v\<rparr>) (d_ptr zero_RegisterRequest dec_RegisterRequest),
      fld ''register_fcm'' m_RegisterFCM (\<lambda>v m. m\<lparr>m_RegisterFCM := v\<rparr>) (d_ptr [] dec_RegisterFCM),
      fld ''call'' m_Call (\<lambda>v m. m\<lparr>m_Call := v\<rparr>) (d_ptr \<lparr>cr_Destination = [], cr_Offer = None\<rparr> dec_CallRequest),
      fld ''call_answer'' m_CallAnswer (\<lambda>v m. m\<lparr>m_CallAnswer := v\<rparr>) (d_ptr \<lparr>ca_CallID = [], ca_Answer = None\<rparr> dec_CallAnswer),
      fld ''call_hangup'' m_CallHangup (\<lambda>v m. m\<lparr>m_CallHangup := v\<rparr>) (d_ptr [] dec_CallHangup),
      fld ''call_decline'' m_CallDecline (\<lambda>v m. m\<lparr>m_CallDecline := v\<rparr>) (d_ptr [] dec_CallDecline),
      fld ''ice_candidate'' m_ICECandidate (\<lambda>v m. m\<lparr>m_ICECandidate := v\<rparr>) (d_ptr \<lparr>it_CallID = [], it_Candidate = None\<rparr> dec_ICECandidateTrickle),
      fld ''ping'' m_Ping (\<lambda>v m. m\<lparr>m_Ping := v\<rparr>) dec_Ping,
      fld ''voicemail_list'' m_VoicemailList (\<lambda>v m. m\<lparr>m_VoicemailList := v\<rparr>) dec_Ping,
      fld ''voicemail_get'' m_VoicemailGet (\<lambda>v m. m\<lparr>m_VoicemailGet := v\<rparr>) (d_ptr [] dec_VoicemailGetReq),
      fld ''voicemail_delete'' m_VoicemailDelete (\<lambda>v m. m\<lparr>m_VoicemailDelete := v\<rparr>) (d_ptr [] dec_VoicemailDeleteReq),
      fld ''voicemail_mark_read'' m_VoicemailMarkRead (\<lambda>v m. m\<lparr>m_VoicemailMarkRead := v\<rparr>) (d_ptr [] dec_VoicemailMarkReadReq),
      fld ''dm_send'' m_DMSend (\<lambda>v m. m\<lparr>m_DMSend := v\<rparr>) (d_ptr zero_DMSend dec_DMSend),
      fld ''dm_ack'' m_DMAck (\<lambda>v m. m\<lparr>m_DMAck := v\<rparr>) (d_ptr [] dec_DMAck),
      fld ''dm_attachment_get'' m_DMAttachmentGet (\<lambda>v m. m\<lparr>m_DMAttachmentGet := v\<rparr>) (d_ptr [] dec_DMAttachmentGet)]"

definition dec_ClientMessage :: "jvalue \<Rightarrow> ClientMessage \<Rightarrow> ClientMessage option" where
  "dec_ClientMessage = d_struct client_fields"

section \<open>Messages of the server\<close>

definition enc_ChallengeResponseMsg :: "bytes \<Rightarrow> int \<Rightarrow> jvalue" where
  "enc_ChallengeResponseMsg nonce ts = VObj [(''nonce'', e_bytes nonce), (''timestamp'', e_int ts)]"

definition enc_IceServer :: "IceServer \<Rightarrow> jvalue" where
  "enc_IceServer i = VObj ([(''urls'', VArr (map VStr (iURLs i)))] @ omit_str ''username'' (iUsername i) @ omit_str ''credential'' (iCredential i))"

text \<open>The one answer the server sends is of a registration that succeeded, without an error text.\<close>

definition enc_RegisterResponse :: "PhoneNumber \<Rightarrow> IceServer list \<Rightarrow> jvalue" where
  "enc_RegisterResponse num ice = VObj ([(''success'', VBool True), (''assigned_number'', enc_PhoneNumber num)] @
     (if ice = [] then [] else [(''ice_servers'', VArr (map enc_IceServer ice))]))"

definition enc_IncomingCall :: "string \<Rightarrow> PhoneNumber \<Rightarrow> string \<Rightarrow> SDPSession option \<Rightarrow> jvalue" where
  "enc_IncomingCall cid num name off = VObj [(''call_id'', VStr cid), (''caller_number'', enc_PhoneNumber num),
     (''caller_name'', enc_DisplayName name), (''offer'', e_ptr enc_SDPSession off)]"

definition enc_CallRinging :: "string \<Rightarrow> jvalue" where "enc_CallRinging cid = VObj [(''call_id'', VStr cid)]"

definition enc_ServiceInfo :: "string \<times> string \<Rightarrow> jvalue" where
  "enc_ServiceInfo s = VObj [(''code'', VStr (fst s)), (''name'', VStr (snd s))]"

definition enc_CallConnected :: "string \<Rightarrow> SDPSession option \<Rightarrow> (string \<times> string) option \<Rightarrow> jvalue" where
  "enc_CallConnected cid ans svc = VObj ([(''call_id'', VStr cid)] @ omit_ptr ''answer'' enc_SDPSession ans @ omit_ptr ''service'' enc_ServiceInfo svc)"

definition enc_CallEnded :: "string \<Rightarrow> string \<Rightarrow> jvalue" where
  "enc_CallEnded cid reason = VObj [(''call_id'', VStr cid), (''reason'', VStr reason)]"

definition enc_Error :: "int \<Rightarrow> string \<Rightarrow> jvalue" where
  "enc_Error code msg = VObj [(''code'', e_int code), (''message'', VStr msg)]"

definition enc_VoicemailInfo :: "VoicemailInfo \<Rightarrow> jvalue" where
  "enc_VoicemailInfo v = VObj [(''id'', VStr (vi_ID v)), (''caller_number'', VStr (vi_CallerNumber v)), (''caller_name'', VStr (vi_CallerName v)),
     (''duration_seconds'', e_int (vi_DurationSeconds v)), (''listened'', VBool (vi_Listened v)), (''created_at'', e_int (vi_CreatedAt v))]"

definition enc_VoicemailListResponse :: "VoicemailInfo list \<Rightarrow> nat \<Rightarrow> jvalue" where
  "enc_VoicemailListResponse vs unread = VObj [(''messages'', VArr (map enc_VoicemailInfo vs)), (''unread'', e_int (int unread))]"

definition enc_VoicemailGetResponse :: "string \<Rightarrow> string \<Rightarrow> jvalue" where
  "enc_VoicemailGetResponse vid aud = VObj [(''id'', VStr vid), (''audio_b64'', VStr aud)]"

definition enc_VoicemailEvent :: "string \<Rightarrow> string \<Rightarrow> nat \<Rightarrow> jvalue" where
  "enc_VoicemailEvent num name unread = VObj [(''action'', VStr ''new''), (''caller_number'', VStr num), (''caller_name'', VStr name),
     (''unread'', e_int (int unread))]"

definition enc_DMEvent :: "DMEvent \<Rightarrow> jvalue" where
  "enc_DMEvent d = VObj ([(''type'', VStr (de_Type d)), (''message_id'', VStr (de_MessageID d))] @
     omit_str ''client_id'' (de_ClientID d) @ omit_str ''status'' (de_Status d) @ omit_str ''from'' (de_From d) @
     omit_str ''from_name'' (de_FromName d) @ omit_str ''kind'' (de_Kind d) @ omit_str ''text'' (de_Text d) @
     omit_str ''image_name'' (de_ImageName d) @ omit_str ''image_mime'' (de_ImageMime d) @
     (if de_CreatedAt d = 0 then [] else [(''created_at'', e_int (de_CreatedAt d))]))"

definition enc_DMAttachment :: "string \<Rightarrow> string \<Rightarrow> string \<Rightarrow> string \<Rightarrow> jvalue" where
  "enc_DMAttachment mid name mime b64 = VObj [(''message_id'', VStr mid), (''name'', VStr name), (''mime'', VStr mime), (''b64'', VStr b64)]"

definition enc_ServerMessage :: "ServerMessage \<Rightarrow> jvalue" where
  "enc_ServerMessage m = VObj [
     (case m of
        ChallengeResponseMsg nonce ts \<Rightarrow> (''challenge_response'', enc_ChallengeResponseMsg nonce ts)
      | RegisterResponse num ice \<Rightarrow> (''register_response'', enc_RegisterResponse num ice)
      | IncomingCall cid num name off \<Rightarrow> (''incoming_call'', enc_IncomingCall cid num name off)
      | CallRinging cid \<Rightarrow> (''call_ringing'', enc_CallRinging cid)
      | CallConnected cid ans svc \<Rightarrow> (''call_connected'', enc_CallConnected cid ans svc)
      | CallEnded cid reason \<Rightarrow> (''call_ended'', enc_CallEnded cid reason)
      | IceMsg r \<Rightarrow> (''ice_candidate'', enc_ICECandidateTrickle r)
      | ErrorMsg code msg \<Rightarrow> (''error'', enc_Error code msg)
      | Pong \<Rightarrow> (''pong'', VObj [])
      | VoicemailListResponse vs unread \<Rightarrow> (''voicemail_list_response'', enc_VoicemailListResponse vs unread)
      | VoicemailGetResponse vid aud \<Rightarrow> (''voicemail_get_response'', enc_VoicemailGetResponse vid aud)
      | VoicemailEvent num name unread \<Rightarrow> (''voicemail_event'', enc_VoicemailEvent num name unread)
      | DMEventMsg d \<Rightarrow> (''dm_event'', enc_DMEvent d)
      | DMAttachment mid name mime b64 \<Rightarrow> (''dm_attachment'', enc_DMAttachment mid name mime b64))]"

text \<open>What \<open>sendMessage\<close> puts on the wire.\<close>

definition server_frame :: "ServerMessage \<Rightarrow> string" where
  "server_frame m = Marshal enc_ServerMessage m"

section \<open>Reading a frame\<close>

text \<open>One round of the read loop of a connection, from the bytes of the frame.\<close>

definition read_frame :: "ext \<Rightarrow> Server \<Rightarrow> cref \<Rightarrow> string \<Rightarrow> Server outcome" where
  "read_frame x srv c data = readPump x srv c (Unmarshal dec_ClientMessage blank_msg data)"

section \<open>Reading back requests\<close>

lemma simple_codec [json_simps]:
  "dec_KSimID (enc_KSimID b) z = Some b" "enc_KSimID b \<noteq> VNull"
  "dec_ChallengeResponse (enc_ChallengeResponse b) z = Some b" "enc_ChallengeResponse b \<noteq> VNull"
  "dec_DisplayName (enc_DisplayName s) t = Some s" "enc_DisplayName s \<noteq> VNull"
  "dec_RegisterFCM (enc_RegisterFCM s) t = Some s" "enc_RegisterFCM s \<noteq> VNull"
  "dec_CallHangup (enc_CallHangup s) t = Some s" "enc_CallHangup s \<noteq> VNull"
  "dec_CallDecline (enc_CallDecline s) t = Some s" "enc_CallDecline s \<noteq> VNull"
  "dec_VoicemailGetReq (enc_VoicemailGetReq s) t = Some s" "enc_VoicemailGetReq s \<noteq> VNull"
  "dec_VoicemailDeleteReq (enc_VoicemailDeleteReq s) t = Some s" "enc_VoicemailDeleteReq s \<noteq> VNull"
  "dec_VoicemailMarkReadReq (enc_VoicemailMarkReadReq s) t = Some s" "enc_VoicemailMarkReadReq s \<noteq> VNull"
  "dec_DMAck (enc_DMAck s) t = Some s" "enc_DMAck s \<noteq> VNull"
  "dec_DMAttachmentGet (enc_DMAttachmentGet s) t = Some s" "enc_DMAttachmentGet s \<noteq> VNull"
  by (simp_all add: enc_KSimID_def dec_KSimID_def enc_ChallengeResponse_def dec_ChallengeResponse_def enc_DisplayName_def dec_DisplayName_def
      enc_RegisterFCM_def dec_RegisterFCM_def enc_CallHangup_def dec_CallHangup_def enc_CallDecline_def dec_CallDecline_def
      enc_VoicemailGetReq_def dec_VoicemailGetReq_def enc_VoicemailDeleteReq_def dec_VoicemailDeleteReq_def
      enc_VoicemailMarkReadReq_def dec_VoicemailMarkReadReq_def enc_DMAck_def dec_DMAck_def enc_DMAttachmentGet_def dec_DMAttachmentGet_def json_simps)

lemma leaf_codec [json_simps]:
  "dec_SDPSession (enc_SDPSession s) z = Some s" "enc_SDPSession s \<noteq> VNull"
  "dec_ICECandidate (enc_ICECandidate c) z' = Some c" "enc_ICECandidate c \<noteq> VNull"
  "dec_DMImageReq (enc_DMImageReq i) z'' = Some i" "enc_DMImageReq i \<noteq> VNull"
  by (simp_all add: enc_SDPSession_def dec_SDPSession_def enc_ICECandidate_def dec_ICECandidate_def enc_DMImageReq_def dec_DMImageReq_def json_simps)

lemma request_codec [json_simps]:
  "dec_ChallengeRequest (enc_ChallengeRequest k) None = Some k" "enc_ChallengeRequest k \<noteq> VNull"
  "dec_RegisterRequest (enc_RegisterRequest r) zero_RegisterRequest = Some r" "enc_RegisterRequest r \<noteq> VNull"
  "dec_CallRequest (enc_CallRequest q) \<lparr>cr_Destination = [], cr_Offer = None\<rparr> = Some q" "enc_CallRequest q \<noteq> VNull"
  "dec_CallAnswer (enc_CallAnswer a) \<lparr>ca_CallID = [], ca_Answer = None\<rparr> = Some a" "enc_CallAnswer a \<noteq> VNull"
  "dec_ICECandidateTrickle (enc_ICECandidateTrickle i) \<lparr>it_CallID = [], it_Candidate = None\<rparr> = Some i" "enc_ICECandidateTrickle i \<noteq> VNull"
  "dec_DMSend (enc_DMSend d) zero_DMSend = Some d" "enc_DMSend d \<noteq> VNull"
  by (simp_all add: enc_ChallengeRequest_def dec_ChallengeRequest_def enc_RegisterRequest_def dec_RegisterRequest_def zero_RegisterRequest_def
      enc_CallRequest_def dec_CallRequest_def enc_CallAnswer_def dec_CallAnswer_def enc_ICECandidateTrickle_def dec_ICECandidateTrickle_def
      enc_DMSend_def dec_DMSend_def zero_DMSend_def json_simps)

lemma d_members_omit_Ping [json_simps]:
  "find_field fs k = Some f \<Longrightarrow> f (if b then VObj [] else VNull) r = Some r' \<Longrightarrow> (\<not> b \<Longrightarrow> r' = r) \<Longrightarrow>
   d_members fs (omit_Ping k b @ kvs) r = d_members fs kvs r'"
  by (cases b) (simp_all add: omit_Ping_def)

lemma dec_Ping_enc [json_simps]: "dec_Ping (if b then VObj [] else VNull) old = Some b"
  by (simp add: dec_Ping_def)

lemma dec_enc_ClientMessage: "dec_ClientMessage (enc_ClientMessage m) blank_msg = Some m"
  by (simp add: dec_ClientMessage_def client_fields_def enc_ClientMessage_def blank_msg_def json_simps)

section \<open>Requests as text\<close>

definition sdp_texts :: "SDPSession option \<Rightarrow> string list" where
  "sdp_texts s = (case s of None \<Rightarrow> [] | Some s \<Rightarrow> [SDP s, SdpType s])"

definition trickle_texts :: "ICETrickle \<Rightarrow> string list" where
  "trickle_texts r = it_CallID r # (case it_Candidate r of None \<Rightarrow> [] | Some c \<Rightarrow> [ic_Candidate c, ic_SDPMid c])"

text \<open>The strings of a message.\<close>

definition client_texts :: "ClientMessage \<Rightarrow> string list" where
  "client_texts m =
     (case m_Register m of None \<Rightarrow> [] | Some r \<Rightarrow> rr_ActivationToken r # (case rr_DisplayName r of None \<Rightarrow> [] | Some s \<Rightarrow> [s])) @
     (case m_Call m of None \<Rightarrow> [] | Some r \<Rightarrow> cr_Destination r # sdp_texts (cr_Offer r)) @
     (case m_CallAnswer m of None \<Rightarrow> [] | Some r \<Rightarrow> ca_CallID r # sdp_texts (ca_Answer r)) @
     (case m_ICECandidate m of None \<Rightarrow> [] | Some r \<Rightarrow> trickle_texts r) @
     (case m_DMSend m of None \<Rightarrow> [] | Some r \<Rightarrow> [ds_To r, ds_ClientID r, ds_Kind r, ds_Text r] @
        (case ds_Image r of None \<Rightarrow> [] | Some i \<Rightarrow> [im_Name i, im_Mime i, im_B64 i])) @
     concat (map (\<lambda>p. case p of None \<Rightarrow> [] | Some s \<Rightarrow> [s])
       [m_RegisterFCM m, m_CallHangup m, m_CallDecline m, m_VoicemailGet m, m_VoicemailDelete m, m_VoicemailMarkRead m,
        m_DMAck m, m_DMAttachmentGet m])"

definition ok_ClientMessage :: "ClientMessage \<Rightarrow> bool" where
  "ok_ClientMessage m \<longleftrightarrow> list_all utf8 (client_texts m)"

lemma leaf_ok [ok_simps]:
  "value_ok (Suc n) (enc_KSimID b)" "value_ok (Suc n) (enc_ChallengeResponse b)" "value_ok (Suc n) (enc_DisplayName s) \<longleftrightarrow> utf8 s"
  "value_ok (Suc n) (enc_RegisterFCM s) \<longleftrightarrow> utf8 s" "value_ok (Suc n) (enc_CallHangup s) \<longleftrightarrow> utf8 s" "value_ok (Suc n) (enc_CallDecline s) \<longleftrightarrow> utf8 s"
  "value_ok (Suc n) (enc_VoicemailGetReq s) \<longleftrightarrow> utf8 s" "value_ok (Suc n) (enc_VoicemailDeleteReq s) \<longleftrightarrow> utf8 s"
  "value_ok (Suc n) (enc_VoicemailMarkReadReq s) \<longleftrightarrow> utf8 s" "value_ok (Suc n) (enc_DMAck s) \<longleftrightarrow> utf8 s" "value_ok (Suc n) (enc_DMAttachmentGet s) \<longleftrightarrow> utf8 s"
  "value_ok (Suc n) (enc_SDPSession d) \<longleftrightarrow> utf8 (SDP d) \<and> utf8 (SdpType d)"
  "value_ok (Suc n) (enc_ICECandidate c) \<longleftrightarrow> utf8 (ic_Candidate c) \<and> utf8 (ic_SDPMid c)"
  "value_ok (Suc n) (enc_DMImageReq i) \<longleftrightarrow> utf8 (im_Name i) \<and> utf8 (im_Mime i) \<and> utf8 (im_B64 i)"
  "value_ok (Suc n) (enc_PhoneNumber p) \<longleftrightarrow> utf8 (pn_AreaCode p) \<and> utf8 (pn_Number p)"
  by (simp_all add: enc_KSimID_def enc_ChallengeResponse_def enc_DisplayName_def enc_RegisterFCM_def enc_CallHangup_def enc_CallDecline_def
      enc_VoicemailGetReq_def enc_VoicemailDeleteReq_def enc_VoicemailMarkReadReq_def enc_DMAck_def enc_DMAttachmentGet_def
      enc_SDPSession_def enc_ICECandidate_def enc_DMImageReq_def enc_PhoneNumber_def ok_simps)

lemma trickle_ok [ok_simps]: "value_ok (Suc (Suc n)) (enc_ICECandidateTrickle r) \<longleftrightarrow> list_all utf8 (trickle_texts r)"
  by (auto simp: enc_ICECandidateTrickle_def trickle_texts_def ok_simps split: option.split)

lemma all_case_option [ok_simps]: "list_all P (case p of None \<Rightarrow> [] | Some v \<Rightarrow> f v) \<longleftrightarrow> (\<forall>v. p = Some v \<longrightarrow> list_all P (f v))"
  by (cases p) auto

lemma request_ok [ok_simps]:
  "value_ok (Suc (Suc n)) (enc_ChallengeRequest k)"
  "value_ok (Suc (Suc n)) (enc_RegisterRequest r) \<longleftrightarrow> utf8 (rr_ActivationToken r) \<and> pred_option utf8 (rr_DisplayName r)"
  "value_ok (Suc (Suc n)) (enc_CallRequest q) \<longleftrightarrow> utf8 (cr_Destination q) \<and> list_all utf8 (sdp_texts (cr_Offer q))"
  "value_ok (Suc (Suc n)) (enc_CallAnswer a) \<longleftrightarrow> utf8 (ca_CallID a) \<and> list_all utf8 (sdp_texts (ca_Answer a))"
  by (auto simp: enc_ChallengeRequest_def enc_RegisterRequest_def enc_CallRequest_def enc_CallAnswer_def sdp_texts_def ok_simps option.pred_set)

lemma send_ok [ok_simps]:
  "value_ok (Suc (Suc n)) (enc_DMSend d) \<longleftrightarrow> (\<forall>s\<in>set [ds_To d, ds_ClientID d, ds_Kind d, ds_Text d]. utf8 s) \<and> pred_option ok_Image (ds_Image d)"
  by (auto simp: enc_DMSend_def ok_Image_def ok_simps option.pred_set)

lemma members_ok_Ping [ok_simps]: "utf8 k \<Longrightarrow> members_ok (Suc n) (omit_Ping k b)"
  by (simp add: omit_Ping_def ok_simps)

lemma ok_ClientMessage_value: "ok_ClientMessage m \<Longrightarrow> value_ok (Suc (Suc (Suc 0))) (enc_ClientMessage m)"
  by (simp add: ok_ClientMessage_def client_texts_def enc_ClientMessage_def ok_simps option.pred_set ok_Image_def)

interpretation client_json: json_codec enc_ClientMessage dec_ClientMessage blank_msg ok_ClientMessage
proof
  show "json_ok (enc_ClientMessage m)" if "ok_ClientMessage m" for m
    using ok_ClientMessage_value [OF that] by (rule value_ok_json) (simp add: maxNestingDepth_def)
qed (rule dec_enc_ClientMessage)

text \<open>What the server reads is in UTF-8, whatever the device sends.\<close>

lemma keeps_leaf [keeps_rules]:
  "keeps dec_DisplayName utf8" "keeps dec_RegisterFCM utf8" "keeps dec_CallHangup utf8" "keeps dec_CallDecline utf8" "keeps dec_VoicemailGetReq utf8"
  "keeps dec_VoicemailDeleteReq utf8" "keeps dec_VoicemailMarkReadReq utf8" "keeps dec_DMAck utf8" "keeps dec_DMAttachmentGet utf8"
  unfolding dec_DisplayName_def dec_RegisterFCM_def dec_CallHangup_def dec_CallDecline_def dec_VoicemailGetReq_def dec_VoicemailDeleteReq_def
    dec_VoicemailMarkReadReq_def dec_DMAck_def dec_DMAttachmentGet_def
  by (rule keeps_rules | simp)+

definition ok_SDPSession :: "SDPSession \<Rightarrow> bool" where "ok_SDPSession s \<longleftrightarrow> utf8 (SDP s) \<and> utf8 (SdpType s)"

definition ok_ICECandidate :: "ICECandidate \<Rightarrow> bool" where "ok_ICECandidate c \<longleftrightarrow> utf8 (ic_Candidate c) \<and> utf8 (ic_SDPMid c)"

lemma keeps_record [keeps_rules]:
  "keeps dec_SDPSession ok_SDPSession" "keeps dec_ICECandidate ok_ICECandidate" "keeps dec_DMImageReq ok_Image"
  unfolding dec_SDPSession_def dec_ICECandidate_def dec_DMImageReq_def
  by (rule keeps_rules | simp add: ok_SDPSession_def ok_ICECandidate_def ok_Image_def)+

definition ok_RegisterRequest :: "RegisterRequest \<Rightarrow> bool" where
  "ok_RegisterRequest r \<longleftrightarrow> pred_option utf8 (rr_DisplayName r) \<and> utf8 (rr_ActivationToken r)"

definition ok_DMSend :: "DMSendReq \<Rightarrow> bool" where
  "ok_DMSend d \<longleftrightarrow> utf8 (ds_To d) \<and> utf8 (ds_ClientID d) \<and> utf8 (ds_Kind d) \<and> utf8 (ds_Text d) \<and> pred_option ok_Image (ds_Image d)"

lemmas zero_texts = zero_SDPSession_def zero_ICECandidate_def zero_RegisterRequest_def zero_DMSend_def zero_Image_def
lemmas ok_texts = ok_SDPSession_def ok_ICECandidate_def ok_Image_def ok_RegisterRequest_def ok_DMSend_def

lemma keeps_pointers [keeps_rules]: "keeps (d_ptr [] dec_KSimID) (\<lambda>_. True)" "keeps (d_ptr [] dec_ChallengeResponse) (\<lambda>_. True)"
    "keeps (d_ptr None dec_ChallengeRequest) (\<lambda>_. True)" "keeps dec_Ping (\<lambda>_. True)"
  by (rule keeps_True)+

lemma keeps_request [keeps_rules]:
  "keeps dec_RegisterRequest ok_RegisterRequest" "keeps dec_DMSend ok_DMSend"
  "keeps dec_CallRequest (\<lambda>r. utf8 (cr_Destination r) \<and> pred_option ok_SDPSession (cr_Offer r))"
  "keeps dec_CallAnswer (\<lambda>r. utf8 (ca_CallID r) \<and> pred_option ok_SDPSession (ca_Answer r))"
  "keeps dec_ICECandidateTrickle (\<lambda>r. utf8 (it_CallID r) \<and> pred_option ok_ICECandidate (it_Candidate r))"
  unfolding dec_RegisterRequest_def dec_DMSend_def dec_CallRequest_def dec_CallAnswer_def dec_ICECandidateTrickle_def
  by (rule keeps_rules | simp add: ok_texts zero_texts)+

definition utf8_ClientMessage :: "ClientMessage \<Rightarrow> bool" where
  "utf8_ClientMessage m \<longleftrightarrow> pred_option ok_RegisterRequest (m_Register m) \<and>
     pred_option (\<lambda>r. utf8 (cr_Destination r) \<and> pred_option ok_SDPSession (cr_Offer r)) (m_Call m) \<and>
     pred_option (\<lambda>r. utf8 (ca_CallID r) \<and> pred_option ok_SDPSession (ca_Answer r)) (m_CallAnswer m) \<and>
     pred_option (\<lambda>r. utf8 (it_CallID r) \<and> pred_option ok_ICECandidate (it_Candidate r)) (m_ICECandidate m) \<and>
     pred_option ok_DMSend (m_DMSend m) \<and> pred_option utf8 (m_RegisterFCM m) \<and> pred_option utf8 (m_CallHangup m) \<and> pred_option utf8 (m_CallDecline m) \<and>
     pred_option utf8 (m_VoicemailGet m) \<and> pred_option utf8 (m_VoicemailDelete m) \<and> pred_option utf8 (m_VoicemailMarkRead m) \<and>
     pred_option utf8 (m_DMAck m) \<and> pred_option utf8 (m_DMAttachmentGet m)"

lemma utf8_ClientMessage_ok: "utf8_ClientMessage m \<Longrightarrow> ok_ClientMessage m"
  by (simp add: utf8_ClientMessage_def ok_ClientMessage_def client_texts_def sdp_texts_def trickle_texts_def ok_texts ok_simps option.pred_set)

lemma keeps_ClientMessage: "keeps dec_ClientMessage utf8_ClientMessage"
  unfolding dec_ClientMessage_def client_fields_def
  by (rule keeps_rules | simp add: utf8_ClientMessage_def ok_texts zero_texts)+

lemma decoded_ok: "Unmarshal dec_ClientMessage blank_msg text = Some m \<Longrightarrow> ok_ClientMessage m"
  by (rule utf8_ClientMessage_ok, rule Unmarshal_keeps [OF keeps_ClientMessage])
    (simp_all add: utf8_ClientMessage_def blank_msg_def)

section \<open>Server messages as text\<close>

definition server_texts :: "ServerMessage \<Rightarrow> string list" where
  "server_texts m =
     (case m of
        ChallengeResponseMsg nonce ts \<Rightarrow> []
      | RegisterResponse num ice \<Rightarrow> [pn_AreaCode num, pn_Number num] @ concat (map (\<lambda>i. iUsername i # iCredential i # iURLs i) ice)
      | IncomingCall cid num name off \<Rightarrow> [cid, pn_AreaCode num, pn_Number num, name] @ sdp_texts off
      | CallRinging cid \<Rightarrow> [cid]
      | CallConnected cid ans svc \<Rightarrow> cid # sdp_texts ans @ (case svc of None \<Rightarrow> [] | Some s \<Rightarrow> [fst s, snd s])
      | CallEnded cid reason \<Rightarrow> [cid, reason]
      | IceMsg r \<Rightarrow> trickle_texts r
      | ErrorMsg code msg \<Rightarrow> [msg]
      | Pong \<Rightarrow> []
      | VoicemailListResponse vs unread \<Rightarrow> concat (map (\<lambda>v. [vi_ID v, vi_CallerNumber v, vi_CallerName v]) vs)
      | VoicemailGetResponse vid aud \<Rightarrow> [vid, aud]
      | VoicemailEvent num name unread \<Rightarrow> [num, name]
      | DMEventMsg d \<Rightarrow> [de_Type d, de_MessageID d, de_ClientID d, de_Status d, de_From d, de_FromName d, de_Kind d, de_Text d,
          de_ImageName d, de_ImageMime d]
      | DMAttachment mid name mime b64 \<Rightarrow> [mid, name, mime, b64])"

lemma info_ok [ok_simps]:
  "value_ok (Suc (Suc n)) (enc_IceServer i) \<longleftrightarrow> list_all utf8 (iUsername i # iCredential i # iURLs i)"
  "value_ok (Suc n) (enc_VoicemailInfo v) \<longleftrightarrow> utf8 (vi_ID v) \<and> utf8 (vi_CallerNumber v) \<and> utf8 (vi_CallerName v)"
  "value_ok (Suc n) (enc_ServiceInfo s) \<longleftrightarrow> utf8 (fst s) \<and> utf8 (snd s)"
  "value_ok (Suc n) (enc_DMEvent d) \<longleftrightarrow> list_all utf8 (server_texts (DMEventMsg d))"
  by (auto simp: enc_IceServer_def enc_VoicemailInfo_def enc_ServiceInfo_def enc_DMEvent_def server_texts_def ok_simps list_all_iff)

lemma server_value_ok: "list_all utf8 (server_texts m) \<Longrightarrow> value_ok (Suc (Suc (Suc (Suc (Suc 0))))) (enc_ServerMessage m)"
proof (cases m)
  case (DMEventMsg d)
  then show "list_all utf8 (server_texts m) \<Longrightarrow> ?thesis" by (simp add: enc_ServerMessage_def ok_simps)
next
  case (RegisterResponse num ice)
  then show "list_all utf8 (server_texts m) \<Longrightarrow> ?thesis"
    by (auto simp: enc_ServerMessage_def enc_RegisterResponse_def server_texts_def ok_simps list_all_iff)
next
  case (VoicemailListResponse vs n)
  then show "list_all utf8 (server_texts m) \<Longrightarrow> ?thesis"
    by (auto simp: enc_ServerMessage_def enc_VoicemailListResponse_def server_texts_def ok_simps list_all_iff)
qed (auto simp: enc_ServerMessage_def server_texts_def enc_ChallengeResponseMsg_def enc_IncomingCall_def enc_CallRinging_def
    enc_CallConnected_def enc_CallEnded_def enc_Error_def enc_VoicemailGetResponse_def enc_VoicemailEvent_def enc_DMAttachment_def
    sdp_texts_def ok_simps)

lemma server_frame_parses: "list_all utf8 (server_texts m) \<Longrightarrow> json_parse (server_frame m) = Some (enc_ServerMessage m)"
  using value_ok_json [OF server_value_ok] by (simp add: server_frame_def Marshal_def parse_ok maxNestingDepth_def)

text \<open>The encoding of each message determines it.\<close>

definition str_member :: "jvalue \<Rightarrow> string \<Rightarrow> string" where
  "str_member j k = (case j of VObj kvs \<Rightarrow> (case map_of kvs k of Some (VStr s) \<Rightarrow> s | _ \<Rightarrow> []) | _ \<Rightarrow> [])"

lemma map_of_omit: "map_of (omit_str k s @ r) k' = (if k = k' \<and> s \<noteq> [] then Some (VStr s) else map_of r k')"
    "map_of (omit_str k s) k' = (if k = k' \<and> s \<noteq> [] then Some (VStr s) else None)"
    "map_of (omit_ptr k e p @ r) k' = (if k = k' \<and> p \<noteq> None then Some (e (the p)) else map_of r k')"
    "map_of (omit_ptr k e p) k' = (if k = k' \<and> p \<noteq> None then Some (e (the p)) else None)"
  by (auto simp: omit_str_def omit_ptr_def split: option.splits)

lemma enc_DMEvent_members:
  "str_member (enc_DMEvent d) ''type'' = de_Type d" "str_member (enc_DMEvent d) ''message_id'' = de_MessageID d"
  "str_member (enc_DMEvent d) ''client_id'' = de_ClientID d" "str_member (enc_DMEvent d) ''status'' = de_Status d"
  "str_member (enc_DMEvent d) ''from'' = de_From d" "str_member (enc_DMEvent d) ''from_name'' = de_FromName d"
  "str_member (enc_DMEvent d) ''kind'' = de_Kind d" "str_member (enc_DMEvent d) ''text'' = de_Text d"
  "str_member (enc_DMEvent d) ''image_name'' = de_ImageName d" "str_member (enc_DMEvent d) ''image_mime'' = de_ImageMime d"
  by (auto simp: str_member_def enc_DMEvent_def map_of_omit simp del: map_of_append)

lemma enc_DMEvent_inject [simp]: "enc_DMEvent d = enc_DMEvent d' \<longleftrightarrow> d = d'"
proof
  assume e: "enc_DMEvent d = enc_DMEvent d'"
  then have "str_member (enc_DMEvent d) k = str_member (enc_DMEvent d') k" for k by simp
  note s = this [of "''type''"] this [of "''message_id''"] this [of "''client_id''"] this [of "''status''"] this [of "''from''"]
    this [of "''from_name''"] this [of "''kind''"] this [of "''text''"] this [of "''image_name''"] this [of "''image_mime''"]
  moreover from e have "de_CreatedAt d = de_CreatedAt d'"
    using s [unfolded enc_DMEvent_members] by (auto simp: enc_DMEvent_def split: if_splits)
  ultimately show "d = d'" by (simp add: enc_DMEvent_members)
qed simp

lemma enc_leaf_inject [simp]:
  "enc_PhoneNumber p = enc_PhoneNumber p' \<longleftrightarrow> p = p'" "enc_DisplayName n = enc_DisplayName n' \<longleftrightarrow> n = n'"
  "enc_ServiceInfo v = enc_ServiceInfo v' \<longleftrightarrow> v = v'" "enc_VoicemailInfo i = enc_VoicemailInfo i' \<longleftrightarrow> i = i'"
  by (auto simp: enc_PhoneNumber_def enc_DisplayName_def enc_ServiceInfo_def enc_VoicemailInfo_def prod_eq_iff)

lemma enc_SDPSession_inject [simp]: "enc_SDPSession s = enc_SDPSession s' \<longleftrightarrow> s = s'"
  by (metis leaf_codec(1) option.inject)

lemma enc_ICECandidateTrickle_inject [simp]: "enc_ICECandidateTrickle r = enc_ICECandidateTrickle r' \<longleftrightarrow> r = r'"
  by (metis request_codec(9) option.inject)

lemma e_ptr_SDPSession_inject [simp]: "e_ptr enc_SDPSession p = e_ptr enc_SDPSession q \<longleftrightarrow> p = q"
  using leaf_codec(2) by (cases p; cases q) (auto simp: e_ptr_def dest: sym)

lemma enc_IceServer_inject [simp]: "enc_IceServer i = enc_IceServer j \<longleftrightarrow> i = j"
proof
  assume e: "enc_IceServer i = enc_IceServer j"
  have m: "str_member (enc_IceServer k) ''username'' = iUsername k" "str_member (enc_IceServer k) ''credential'' = iCredential k" for k
    by (auto simp: str_member_def enc_IceServer_def map_of_omit simp del: map_of_append)
  have "iURLs i = iURLs j" using e by (auto simp: enc_IceServer_def inj_map_eq_map inj_on_def)
  then show "i = j" using e m [of i] m [of j] by simp
qed simp

lemma enc_CallConnected_inject [simp]: "enc_CallConnected c a s = enc_CallConnected c' a' s' \<longleftrightarrow> c = c' \<and> a = a' \<and> s = s'"
  by (auto simp: enc_CallConnected_def omit_ptr_def split: option.splits)

lemma enc_ServerMessage_inject: "enc_ServerMessage m = enc_ServerMessage m' \<longleftrightarrow> m = m'"
proof -
  show ?thesis
    by (cases m; cases m')
      (auto simp: enc_ServerMessage_def enc_ChallengeResponseMsg_def enc_RegisterResponse_def enc_IncomingCall_def enc_CallRinging_def
        enc_CallEnded_def enc_Error_def enc_VoicemailListResponse_def enc_VoicemailGetResponse_def enc_VoicemailEvent_def
        enc_DMAttachment_def inj_map_eq_map inj_on_def split: if_splits)
qed

section \<open>The test device on the wire\<close>

text \<open>
  The maps of \<open>wsprobe\<close>, with the members in the order of their names, as \<open>encoding/json\<close> writes
  maps. \<open>WriteJSON\<close> ends the text with a newline.
\<close>

definition WriteJSON :: "jvalue \<Rightarrow> string" where
  "WriteJSON j = json_print j @ [CHR 0x0A]"

definition wp_challenge :: "KSim \<Rightarrow> jvalue" where
  "wp_challenge k = VObj [(''challenge_request'', VObj [(''ksim_id'', VObj [(''public_key'', VStr (EncodePublicKey k))])])]"

definition wp_register :: "ed25519 \<Rightarrow> KSim \<Rightarrow> bytes \<times> int \<Rightarrow> jvalue" where
  "wp_register ed k cr = VObj [(''register'', VObj [
     (''challenge_response'', VObj [(''signature'', VStr (StdEncode (SignChallenge ed k (fst cr) (snd cr))))]),
     (''display_name'', VObj [(''name'', VStr ''wsprobe'')]),
     (''ksim_id'', VObj [(''public_key'', VStr (EncodePublicKey k))])])]"

text \<open>The struct the challenge is read into.\<close>

definition dec_chResp :: "jvalue \<Rightarrow> bytes \<times> int \<Rightarrow> (bytes \<times> int) option" where
  "dec_chResp = d_struct [fld ''nonce'' fst (\<lambda>v r. (v, snd r)) d_bytes, fld ''timestamp'' snd (\<lambda>v r. (fst r, v)) (d_int 64)]"

definition wp_read_challenge :: "string \<Rightarrow> (bytes \<times> int) option" where
  "wp_read_challenge text = Unmarshal (d_struct [only ''challenge_response'' dec_chResp]) ([], 0) text"

text \<open>A frame read into a map: nothing when it is not an object; the last of equal names counts.\<close>

definition ReadJSON_map :: "string \<Rightarrow> (string \<rightharpoonup> jvalue) option" where
  "ReadJSON_map text =
     (case json_parse text of
        Some (VObj kvs) \<Rightarrow> Some (map_of (rev kvs))
      | Some VNull \<Rightarrow> Some Map.empty
      | _ \<Rightarrow> None)"

datatype wp_state = WRegistered "string list" | WRefused jvalue | WReading | WFailed

fun wp_await :: "string list \<Rightarrow> wp_state" where
  "wp_await [] = WReading"
| "wp_await (text # texts) =
     (case ReadJSON_map text of
        None \<Rightarrow> WFailed
      | Some m \<Rightarrow>
          if m ''register_response'' \<noteq> None then WRegistered texts
          else (case m ''error'' of Some e \<Rightarrow> WRefused e | None \<Rightarrow> wp_await texts))"

definition wp_sdp :: "string \<Rightarrow> jvalue" where
  "wp_sdp ty = VObj [(''sdp'', VStr (SDP (probe_sdp ty))), (''type'', VStr ty)]"

definition wp_ice :: "string \<Rightarrow> string \<Rightarrow> jvalue" where
  "wp_ice cid cand = VObj [(''ice_candidate'', VObj [(''call_id'', VStr cid),
     (''candidate'', VObj [(''candidate'', VStr cand), (''sdp_mid'', VStr ''0''), (''sdp_mline_index'', e_int 0)])])]"

text \<open>The reaction to a frame; \<open>None\<close> when the device ends: a frame that cannot be read, or a call identifier that is no string.\<close>

definition wp_react :: "string \<Rightarrow> string \<Rightarrow> jvalue list option" where
  "wp_react mode text =
     (case ReadJSON_map text of
        None \<Rightarrow> None
      | Some m \<Rightarrow>
          if mode = ''answer'' then
            (case m ''incoming_call'' of
               Some (VObj ic) \<Rightarrow>
                 (case map_of (rev ic) ''call_id'' of
                    Some (VStr cid) \<Rightarrow>
                      Some [VObj [(''call_answer'', VObj [(''answer'', wp_sdp ''answer''), (''call_id'', VStr cid)])],
                        wp_ice cid ''candidate:1 1 UDP 1 1.2.3.4 5000 typ host'']
                  | _ \<Rightarrow> None)
             | _ \<Rightarrow> Some [])
          else Some [])"

definition wp_call :: "string \<Rightarrow> jvalue" where
  "wp_call dest = VObj [(''call'', VObj [(''destination'', VStr dest), (''offer'', wp_sdp ''offer'')])]"

lemma probe_sdp_ascii: "list_all (\<lambda>c. ord c < 128) (SDP (probe_sdp ty))"
  by (simp add: probe_sdp_def)

lemma WriteJSON_read: "json_ok j \<Longrightarrow> Unmarshal decode z (WriteJSON j) = decode j z"
  by (simp add: WriteJSON_def Unmarshal_def parse_ok)

lemma wp_value_ok [ok_simps]:
  "value_ok (Suc n) (wp_sdp ty) \<longleftrightarrow> utf8 ty"
  "value_ok (Suc (Suc (Suc n))) (wp_ice cid cand) \<longleftrightarrow> utf8 cid \<and> utf8 cand"
  using utf8_literal [OF probe_sdp_ascii] by (simp_all add: wp_sdp_def wp_ice_def ok_simps)

lemma read_text:
  assumes "value_ok n j" "n \<le> maxNestingDepth" "dec_ClientMessage j blank_msg = Some m"
  shows "read_frame x srv c (WriteJSON j) = readPump x srv c (Some m)"
  using WriteJSON_read [OF value_ok_json [OF assms(1,2)], of dec_ClientMessage blank_msg] assms(3) by (simp add: read_frame_def)

lemma wp_sdp_enc: "wp_sdp ty = enc_SDPSession (probe_sdp ty)"
  by (simp add: wp_sdp_def enc_SDPSession_def probe_sdp_def)

lemma dec_frames:
  "dec_ClientMessage (wp_challenge k) blank_msg = Some (probe_challenge k)"
  "dec_ClientMessage (wp_register ed k (probe_read_challenge m)) blank_msg = Some (probe_register ed k m)"
  "dec_ClientMessage (wp_call dest) blank_msg = Some (probe_place_call dest)"
  "dec_ClientMessage (wp_ice cid cand) blank_msg = Some (blank_msg\<lparr>m_ICECandidate := Some (probe_ice cid cand)\<rparr>)"
proof -
  note d = dec_ClientMessage_def client_fields_def dec_ChallengeRequest_def dec_KSimID_def dec_RegisterRequest_def dec_ChallengeResponse_def dec_DisplayName_def
    zero_RegisterRequest_def dec_CallRequest_def dec_ICECandidateTrickle_def dec_ICECandidate_def zero_ICECandidate_def blank_msg_def d_ptr_def
  show "dec_ClientMessage (wp_challenge k) blank_msg = Some (probe_challenge k)"
    by (simp add: wp_challenge_def probe_challenge_def EncodePublicKey_def d json_simps)
  show "dec_ClientMessage (wp_register ed k (probe_read_challenge m)) blank_msg = Some (probe_register ed k m)"
    by (simp add: wp_register_def probe_register_def EncodePublicKey_def d json_simps split: prod.split)
  show "dec_ClientMessage (wp_call dest) blank_msg = Some (probe_place_call dest)"
    by (simp add: wp_call_def probe_place_call_def wp_sdp_enc d json_simps)
  show "dec_ClientMessage (wp_ice cid cand) blank_msg = Some (blank_msg\<lparr>m_ICECandidate := Some (probe_ice cid cand)\<rparr>)"
    by (simp add: wp_ice_def probe_ice_def d d_int32_def d_int_def num_int_fmt_d json_simps)
qed

lemma read_map: "list_all utf8 (server_texts m) \<Longrightarrow> enc_ServerMessage m = VObj [(k, j)] \<Longrightarrow> ReadJSON_map (server_frame m) = Some [k \<mapsto> j]"
  by (simp add: ReadJSON_map_def server_frame_parses)

text \<open>The text of a message and the times in it fit the protocol's types.\<close>

definition ok_ServerMessage :: "ServerMessage \<Rightarrow> bool" where
  "ok_ServerMessage m \<longleftrightarrow> list_all utf8 (server_texts m) \<and>
     (case m of ChallengeResponseMsg nonce ts \<Rightarrow> - (2 ^ 63) \<le> ts \<and> ts < 2 ^ 63 | _ \<Rightarrow> True)"

lemma wp_read_challenge_frame: "ok_ServerMessage m \<Longrightarrow> wp_read_challenge (server_frame m) = Some (probe_read_challenge m)"
  by (cases m)
    (auto simp: ok_ServerMessage_def wp_read_challenge_def Unmarshal_def server_frame_parses enc_ServerMessage_def dec_chResp_def
      enc_ChallengeResponseMsg_def probe_read_challenge_def json_simps)

lemma wp_await_frames:
  "list_all ok_ServerMessage ms \<Longrightarrow> wp_await (map server_frame ms) =
     (case probe_await ms of Registered r \<Rightarrow> WRegistered (map server_frame r) | Refused code msg \<Rightarrow> WRefused (enc_Error code msg) | Reading \<Rightarrow> WReading)"
proof (induction ms)
  case (Cons m ms)
  then have t: "list_all utf8 (server_texts m)" by (simp add: ok_ServerMessage_def)
  obtain k j where kj: "enc_ServerMessage m = VObj [(k, j)]" by (cases m) (auto simp: enc_ServerMessage_def)
  show ?case
    using Cons read_map [OF t kj] kj by (cases m) (auto simp: enc_ServerMessage_def)
qed simp

lemma wp_react_frame:
  assumes "ok_ServerMessage m"
  obtains js where "wp_react mode (server_frame m) = Some js" "map (\<lambda>j. dec_ClientMessage j blank_msg) js = map Some (probe_react mode m)"
    "list_all (value_ok (Suc (Suc (Suc 0)))) js"
proof -
  have t: "list_all utf8 (server_texts m)" using assms by (simp add: ok_ServerMessage_def)
  obtain k j where kj: "enc_ServerMessage m = VObj [(k, j)]" by (cases m) (auto simp: enc_ServerMessage_def)
  note r = read_map [OF t kj]
  show thesis
  proof (cases "mode = ''answer'' \<and> (\<exists>cid num name off. m = IncomingCall cid num name off)")
    case True
    then obtain cid num name off where m: "m = IncomingCall cid num name off" "mode = ''answer''" by blast
    let ?a = "VObj [(''call_answer'', VObj [(''answer'', wp_sdp ''answer''), (''call_id'', VStr cid)])]"
    let ?i = "wp_ice cid ''candidate:1 1 UDP 1 1.2.3.4 5000 typ host''"
    have "wp_react mode (server_frame m) = Some [?a, ?i]"
      using r kj m by (auto simp: wp_react_def enc_ServerMessage_def enc_IncomingCall_def)
    moreover have "dec_ClientMessage ?a blank_msg = Some (blank_msg\<lparr>m_CallAnswer := Some \<lparr>ca_CallID = cid, ca_Answer = Some (probe_sdp ''answer'')\<rparr>\<rparr>)"
      by (simp add: dec_ClientMessage_def client_fields_def dec_CallAnswer_def wp_sdp_enc d_ptr_def blank_msg_def json_simps)
    moreover have "utf8 cid" using t m by (simp add: server_texts_def)
    ultimately show thesis using m dec_frames(4) by (intro that [of "[?a, ?i]"]) (simp_all add: probe_react_def ok_simps)
  next
    case False
    then have "wp_react mode (server_frame m) = Some []" "probe_react mode m = []"
      using r kj by (cases m; auto simp: wp_react_def probe_react_def enc_ServerMessage_def)+
    then show thesis using that by simp
  qed
qed

section \<open>Properties\<close>

text \<open>
  C6. The tags of the messages are consistent. The messages that reach a handler are exactly those with text in UTF-8: whatever
  text a device sends, nothing else is decoded from it, and each of them is the decoding of its own encoding. Members the
  server does not know, before or after the others, change nothing: the handler gets the message.
\<close>

theorem client_message_roundtrip:
  assumes "enc_ClientMessage m = VObj kvs"
    and "list_all (\<lambda>(k, j). find_field client_fields k = None) (before @ after)"
    and "json_ok (VObj (before @ kvs @ after))"
  shows "(ok_ClientMessage m \<longleftrightarrow> (\<exists>text. Unmarshal dec_ClientMessage blank_msg text = Some m)) \<and>
    (ok_ClientMessage m \<longrightarrow> Unmarshal dec_ClientMessage blank_msg (Marshal enc_ClientMessage m) = Some m) \<and>
    read_frame x srv c (json_print (VObj (before @ kvs @ after))) = handleMessage x srv c m"
proof (intro conjI impI)
  show r: "Unmarshal dec_ClientMessage blank_msg (Marshal enc_ClientMessage m) = Some m" if "ok_ClientMessage m"
    by (rule client_json.roundtrip [OF that])
  show "ok_ClientMessage m \<longleftrightarrow> (\<exists>text. Unmarshal dec_ClientMessage blank_msg text = Some m)"
    using r decoded_ok by blast
  have "d_members client_fields kvs blank_msg = Some m"
    using dec_enc_ClientMessage [of m] assms(1) by (simp add: dec_ClientMessage_def d_struct_def)
  then have "dec_ClientMessage (VObj (before @ kvs @ after)) blank_msg = Some m"
    using assms(2) by (simp add: dec_ClientMessage_def d_struct_def d_members_append d_members_unknown)
  then show "read_frame x srv c (json_print (VObj (before @ kvs @ after))) = handleMessage x srv c m"
    by (simp add: read_frame_def Unmarshal_def parse_ok [OF assms(3)] readPump_def del: json_print.simps)
qed

definition sample_call :: ClientMessage where
  "sample_call = blank_msg\<lparr>m_Call := Some \<lparr>cr_Destination = ''555-6789'', cr_Offer = Some \<lparr>SDP = ''v=0'', SdpType = ''offer''\<rparr>\<rparr>\<rparr>"

theorem client_message_roundtrip_witness:
  "Marshal enc_ClientMessage sample_call =
     ''{'' @ quote_str ''call'' @ '':{'' @ quote_str ''destination'' @ '':'' @ quote_str ''555-6789'' @ '','' @ quote_str ''offer'' @ '':{'' @
       quote_str ''sdp'' @ '':'' @ quote_str ''v=0'' @ '','' @ quote_str ''type'' @ '':'' @ quote_str ''offer'' @ ''}}}'' \<and>
   read_frame sample_ext sample_online 1 (json_print (VObj [(''v'', VStr ''2''),
     (''call'', enc_CallRequest \<lparr>cr_Destination = ''555-6789'', cr_Offer = Some \<lparr>SDP = ''v=0'', SdpType = ''offer''\<rparr>\<rparr>)])) =
     handleMessage sample_ext sample_online 1 sample_call"
proof
  let ?q = "\<lparr>cr_Destination = ''555-6789'', cr_Offer = Some \<lparr>SDP = ''v=0'', SdpType = ''offer''\<rparr>\<rparr>"
  have e: "enc_ClientMessage sample_call = VObj [(''call'', enc_CallRequest ?q)]"
    by (simp add: enc_ClientMessage_def sample_call_def blank_msg_def omit_ptr_def omit_Ping_def)
  have "value_ok (Suc (Suc (Suc 0))) (VObj ([(''v'', VStr ''2'')] @ [(''call'', enc_CallRequest ?q)] @ []))"
    by (simp add: ok_simps sdp_texts_def)
  then have j: "json_ok (VObj ([(''v'', VStr ''2'')] @ [(''call'', enc_CallRequest ?q)] @ []))"
    by (rule value_ok_json) (simp add: maxNestingDepth_def)
  have u: "list_all (\<lambda>(k, j). find_field client_fields k = None) ([(''v'', VStr ''2'')] @ [])"
    by (simp add: find_field_def client_fields_def fld_def)
  show "read_frame sample_ext sample_online 1 (json_print (VObj [(''v'', VStr ''2''), (''call'', enc_CallRequest ?q)])) =
     handleMessage sample_ext sample_online 1 sample_call"
    using client_message_roundtrip [OF e u j] by simp
  show "Marshal enc_ClientMessage sample_call =
     ''{'' @ quote_str ''call'' @ '':{'' @ quote_str ''destination'' @ '':'' @ quote_str ''555-6789'' @ '','' @ quote_str ''offer'' @ '':{'' @
       quote_str ''sdp'' @ '':'' @ quote_str ''v=0'' @ '','' @ quote_str ''type'' @ '':'' @ quote_str ''offer'' @ ''}}}''"
    by (simp add: Marshal_def e enc_CallRequest_def enc_SDPSession_def e_ptr_def)
qed

definition server_kinds :: "string list" where
  "server_kinds = [''challenge_response'', ''register_response'', ''incoming_call'', ''call_ringing'', ''call_connected'', ''call_ended'',
     ''ice_candidate'', ''error'', ''pong'', ''voicemail_list_response'', ''voicemail_get_response'', ''voicemail_event'', ''dm_event'', ''dm_attachment'']"

lemma omit_names [simp]:
  "distinct (map fst (omit_str k s))" "x \<in> fst ` set (omit_str k s) \<longleftrightarrow> x = k \<and> s \<noteq> []"
  "distinct (map fst (omit_ptr k e p))" "x \<in> fst ` set (omit_ptr k e p) \<longleftrightarrow> x = k \<and> p \<noteq> None"
  by (auto simp: omit_str_def omit_ptr_def split: option.splits)

lemma DMEvent_shape: "\<exists>kvs. enc_DMEvent d = VObj kvs \<and> distinct (map fst kvs)"
  by (simp add: enc_DMEvent_def disjoint_iff)

lemma server_frame_shape:
  "\<exists>k kvs. enc_ServerMessage m = VObj [(k, VObj kvs)] \<and> k \<in> set server_kinds \<and> distinct (map fst kvs)"
proof (cases m)
  case (DMEventMsg d)
  then show ?thesis using DMEvent_shape [of d] by (auto simp: enc_ServerMessage_def server_kinds_def)
qed (simp_all add: enc_ServerMessage_def server_kinds_def enc_ChallengeResponseMsg_def enc_RegisterResponse_def enc_IncomingCall_def enc_CallRinging_def
      enc_CallConnected_def enc_CallEnded_def enc_Error_def enc_VoicemailListResponse_def enc_VoicemailGetResponse_def enc_VoicemailEvent_def
      enc_DMAttachment_def enc_ICECandidateTrickle_def disjoint_iff)



lemma wp_frames_ok: "value_ok (Suc (Suc (Suc 0))) (wp_challenge k)" "value_ok (Suc (Suc (Suc 0))) (wp_register ed k cr)"
  "utf8 dest \<Longrightarrow> value_ok (Suc (Suc (Suc 0))) (wp_call dest)"
  by (simp_all add: wp_challenge_def wp_register_def wp_call_def EncodePublicKey_def ok_simps)

lemma read_wp:
  "read_frame x srv c (WriteJSON (wp_challenge k)) = readPump x srv c (Some (probe_challenge k))"
  "read_frame x srv c (WriteJSON (wp_register ed k (probe_read_challenge m))) = readPump x srv c (Some (probe_register ed k m))"
  "utf8 dest \<Longrightarrow> read_frame x srv c (WriteJSON (wp_call dest)) = readPump x srv c (Some (probe_place_call dest))"
  using read_text [OF wp_frames_ok(1) _ dec_frames(1)] read_text [OF wp_frames_ok(2) _ dec_frames(2)] read_text [OF wp_frames_ok(3) _ dec_frames(3)]
  by (simp_all add: maxNestingDepth_def)

text \<open>
  C39. The test device on the wire is the test device of the message types: every frame it writes is taken by the server as
  the message, the challenge it reads is the one that was sent, it waits for its registration in the same way, and its
  reaction to any frame of the server is never to end and is, frame by frame, the reaction to the message.
\<close>

theorem probe_on_the_wire:
  assumes "ok_ServerMessage m" and "list_all ok_ServerMessage ms" and "utf8 dest"
  shows "read_frame x srv c (WriteJSON (wp_challenge k)) = readPump x srv c (Some (probe_challenge k)) \<and>
    wp_read_challenge (server_frame m) = Some (probe_read_challenge m) \<and>
    read_frame x srv c (WriteJSON (wp_register ed k (probe_read_challenge m))) = readPump x srv c (Some (probe_register ed k m)) \<and>
    wp_await (map server_frame ms) =
      (case probe_await ms of Registered r \<Rightarrow> WRegistered (map server_frame r) | Refused code msg \<Rightarrow> WRefused (enc_Error code msg) | Reading \<Rightarrow> WReading) \<and>
    read_frame x srv c (WriteJSON (wp_call dest)) = readPump x srv c (Some (probe_place_call dest)) \<and>
    (\<exists>js. wp_react mode (server_frame m) = Some js \<and>
       map (\<lambda>j. Unmarshal dec_ClientMessage blank_msg (WriteJSON j)) js = map Some (probe_react mode m))"
proof -
  obtain js where js: "wp_react mode (server_frame m) = Some js"
      "map (\<lambda>j. dec_ClientMessage j blank_msg) js = map Some (probe_react mode m)" "list_all (value_ok (Suc (Suc (Suc 0)))) js"
    by (rule wp_react_frame [OF assms(1)])
  have "Unmarshal dec_ClientMessage blank_msg (WriteJSON j) = dec_ClientMessage j blank_msg" if "j \<in> set js" for j
    using that js(3) by (intro WriteJSON_read value_ok_json [of "Suc (Suc (Suc 0))"]) (auto simp: list_all_iff maxNestingDepth_def)
  then have "map (\<lambda>j. Unmarshal dec_ClientMessage blank_msg (WriteJSON j)) js = map (\<lambda>j. dec_ClientMessage j blank_msg) js" by simp
  with js(1,2) show ?thesis using wp_read_challenge_frame [OF assms(1)] wp_await_frames [OF assms(2)] read_wp assms(3) by auto
qed

theorem probe_on_the_wire_witness:
  "wp_react ''answer'' (server_frame (CallRinging ''c1'')) = Some [] \<and>
   wp_await (map server_frame [Pong, ErrorMsg 401 ''no'']) = WRefused (enc_Error 401 ''no'')"
proof -
  have o: "ok_ServerMessage (CallRinging ''c1'')" "list_all ok_ServerMessage [Pong, ErrorMsg 401 ''no'']" "utf8 ''5556789''"
    by (simp_all add: ok_ServerMessage_def server_texts_def ok_simps)
  from probe_on_the_wire [OF o, of _ _ _ _ _ "''answer''"] show ?thesis by (auto simp: probe_react_def)
qed

text \<open>
  C5. A device that holds the key of a line gets on line, to the byte: it connects, sends the frame that asks for a challenge,
  reads the frame of the server, signs what it read and sends its registration within the five minutes of the challenge; the
  server neither crashes nor refuses, the device reads from the frames sent to it that it is registered, and the
  connection owns the number of the line from then on, whoever owned it before. No other connection changes its line.
\<close>

theorem device_registers:
  assumes ed: "\<And>m. ed_verify ed (PublicKey k) m (ed_sign ed (PrivateKey k) m)" "length (PublicKey k) = 32"
    and conn: "HandleWebSocket srv = (c, srv0)"
    and line: "GetUserByPublicKey (s_store srv) (PublicKey k) = Inr (Some u)"
    and rand: "x_rand x1 0 = Some r"
    and time: "x_ed x2 = ed" "x_now x2 \<le> secs (unix_secs (x_now x1)) + challengeTTL" "- (2 ^ 63) \<le> unix_secs (x_now x1)" "unix_secs (x_now x1) < 2 ^ 63"
    and ans: "resp = RegisterResponse \<lparr>pn_AreaCode = AreaCode u, pn_Number = Number u\<rparr> (iceServers srv)" "ok_ServerMessage resp"
  shows "\<exists>srv1 m cr srv2 rest. read_frame x1 srv0 c (WriteJSON (wp_challenge k)) = Done srv1 \<and> inbox srv1 c = [m] \<and>
    wp_read_challenge (server_frame m) = Some cr \<and>
    read_frame x2 (writePump srv1 c) c (WriteJSON (wp_register ed k cr)) = Done srv2 \<and>
    wp_await (map server_frame (inbox srv2 c)) = WRegistered rest \<and> hd (inbox srv2 c) = resp \<and>
    user_of srv2 c = Some (u\<lparr>DisplayName := ''wsprobe''\<rparr>) \<and> map_of (clients srv2) (Number u) = Some c \<and>
    (\<forall>d. d \<noteq> c \<longrightarrow> user_of srv2 d = user_of srv d)"
proof -
  obtain srv1 m srv2 rest where s: "readPump x1 srv0 c (Some (probe_challenge k)) = Done srv1" "inbox srv1 c = [m]"
      "m = ChallengeResponseMsg (fst (probe_read_challenge m)) (unix_secs (x_now x1))"
      "readPump x2 (writePump srv1 c) c (Some (probe_register ed k m)) = Done srv2" "inbox srv2 c = resp # rest"
      "user_of srv2 c = Some (u\<lparr>DisplayName := ''wsprobe''\<rparr>)" "map_of (clients srv2) (Number u) = Some c"
      "\<And>d. d \<noteq> c \<Longrightarrow> user_of srv2 d = user_of srv d"
    using device_registers_messages [OF ed conn line rand time(1,2)] ans(1) by metis
  have "ok_ServerMessage m" using time(3,4) by (subst s(3)) (simp add: ok_ServerMessage_def server_texts_def)
  then have r: "wp_read_challenge (server_frame m) = Some (probe_read_challenge m)" by (rule wp_read_challenge_frame)
  have "list_all utf8 (server_texts resp)" using ans(2) by (simp add: ok_ServerMessage_def)
  then have "wp_await (map server_frame (inbox srv2 c)) = WRegistered (map server_frame rest)"
    using read_map [of resp] by (simp add: s(5) ans(1) enc_ServerMessage_def)
  then show ?thesis
    using s r read_wp(1,2)
    by (intro exI [of _ srv1] exI [of _ m] exI [of _ "probe_read_challenge m"] exI [of _ srv2] exI [of _ "map server_frame rest"]) auto
qed

definition probe_line :: ext where "probe_line = sample_ext\<lparr>x_ed := sample_ed\<rparr>"

theorem device_registers_witness:
  "\<exists>srv1 m srv2. read_frame probe_line (snd (HandleWebSocket sample_exchange)) 1 (WriteJSON (wp_challenge sample_ksim)) = Done srv1 \<and>
     read_frame probe_line (writePump srv1 1) 1 (WriteJSON (wp_register sample_ed sample_ksim m)) = Done srv2 \<and>
     map_of (clients srv2) ''5551234'' = Some 1"
proof -
  have w: "HandleWebSocket sample_exchange = (1, snd (HandleWebSocket sample_exchange))"
    by (simp add: HandleWebSocket_def sample_exchange_def NewServer_def)
  have l: "GetUserByPublicKey (s_store sample_exchange) (PublicKey sample_ksim) = Inr (Some ann)"
    by (simp add: sample_defs empty_store_def GetUserByPublicKey_def sample_ksim_def)
  have n: "Number ann = ''5551234''" "iceServers sample_exchange = []" "AreaCode ann = ''440''"
    by (simp_all add: ann_def sample_user_def sample_exchange_def NewServer_def)
  have e: "ed_verify sample_ed (PublicKey sample_ksim) m (ed_sign sample_ed (PrivateKey sample_ksim) m)" "length (PublicKey sample_ksim) = 32" for m
    by (simp_all add: sample_ed_def sample_ksim_def)
  have t: "x_rand probe_line 0 = Some (\<lambda>_. 7)" "x_ed probe_line = sample_ed"
    "x_now probe_line \<le> secs (unix_secs (x_now probe_line)) + challengeTTL" "- (2 ^ 63) \<le> unix_secs (x_now probe_line)" "unix_secs (x_now probe_line) < 2 ^ 63"
    by (simp_all add: probe_line_def sample_ext_def challengeTTL_def unix_secs_def secs_def)
  have o: "ok_ServerMessage (RegisterResponse \<lparr>pn_AreaCode = AreaCode ann, pn_Number = Number ann\<rparr> (iceServers sample_exchange))"
    by (simp add: ok_ServerMessage_def server_texts_def n ok_simps)
  from device_registers [OF e w l t refl o] n(1) show ?thesis by metis
qed

end
