(* ===== verification/Sig_Network.thy ===== *)
theory Sig_Network
  imports Sig_Flows
begin

text \<open>
  Two exchanges together: a call across a bridge, with the events of one exchange fed to the other
  in the order in which they were sent, and direct messages on one exchange and between two.
\<close>

section \<open>Calls across a bridge\<close>

lemma sdp_wire [simp]: "commonToSdp (sdpToCommon s) = s"
  by (cases s) (simp_all add: commonToSdp_def sdpToCommon_def)

definition incoming :: "Server \<Rightarrow> User \<Rightarrow> callID \<Rightarrow> string \<Rightarrow> SDPSession option \<Rightarrow> CallEvent" where
  "incoming srv u cid num off = (blank_event cid INCOMING)
     \<lparr>ev_CallerNumber := Some \<lparr>pn_AreaCode = areaCode srv, pn_Number = Number u\<rparr>,
      ev_CallerName := Some (caller_name u), ev_Destination := num, ev_Sdp := sdpToCommon off\<rparr>"

text \<open>\<open>dest\<close> is a subscriber of an area with a route, and the transport accepts what is sent.\<close>

definition can_cross :: "ext \<Rightarrow> Server \<Rightarrow> cref \<Rightarrow> User \<Rightarrow> string \<Rightarrow> string \<Rightarrow> string \<Rightarrow> bool" where
  "can_cross x srv c u dest area num \<longleftrightarrow>
     user_of srv c = Some u \<and> \<not> IsServiceCode dest \<and> ParseNumber dest (areaCode srv) = Inr (area, num) \<and>
     areaCode srv \<noteq> [] \<and> area \<noteq> areaCode srv \<and> s_reg srv \<and> area \<noteq> ''800'' \<and> area \<noteq> ''900'' \<and>
     (\<exists>addr. x_route x area = Some addr \<and> x_dial x addr (insecureFed srv) \<and> x_bridge x addr) \<and> (\<forall>st ev. x_send x st ev)"

lemma cross_dial:
  assumes "can_cross x srv c u dest area num"
  obtains srv1 where "handleCall x srv c \<lparr>cr_Destination = dest, cr_Offer = off\<rparr> = Done srv1"
    "wire srv1 = wire srv @ [(counter srv, incoming srv u (x_name x (Suc (counter srv))) num off)]"
    "map_of (outLegs srv1) (x_name x (Suc (counter srv))) = Some (counter srv)"
    "call_of srv1 c = x_name x (Suc (counter srv))" "\<And>e. inbox srv1 e = inbox srv e"
    "\<And>e. user_of srv1 e = user_of srv e" "ringStates srv1 = ringStates srv" "inLegs srv1 = inLegs srv"
    "\<And>a. x_route x area = Some a \<Longrightarrow> a \<in> set (gConns srv1)"
proof -
  obtain addr where r: "x_route x area = Some addr" "x_dial x addr (insecureFed srv)" "x_bridge x addr"
    using assms by (auto simp: can_cross_def)
  define gc where "gc = (if addr \<in> set (gConns srv) then gConns srv else addr # gConns srv)"
  have bc: "bridgeConn x srv addr (insecureFed srv) = (True, srv\<lparr>gConns := gc\<rparr>)"
    using r(2) by (simp add: bridgeConn_def gc_def)
  let ?cid = "x_name x (Suc (counter srv))"
  define srv1 where "srv1 = (set_call (srv\<lparr>gConns := gc, counter := Suc (Suc (counter srv)),
      wire := wire srv @ [(counter srv, incoming srv u ?cid num off)]\<rparr>) c ?cid)\<lparr>outLegs := aput ?cid (counter srv) (outLegs srv)\<rparr>"
  have "handleCall x srv c \<lparr>cr_Destination = dest, cr_Offer = off\<rparr> = Done srv1"
    using assms r bc
    by (simp add: can_cross_def handleCall_def startCrossCall_def open_bridge_def fresh_ref_def generateCallID_def snd_event_def
        incoming_def srv1_def Let_def)
  moreover have "\<And>e. inbox srv1 e = inbox srv e" "\<And>e. user_of srv1 e = user_of srv e"
    by (simp_all add: srv1_def flow_simps) (simp_all add: inbox_def user_of_def client_def)
  moreover have "a \<in> set (gConns srv1)" if "x_route x area = Some a" for a
    using that r(1) by (simp add: srv1_def flow_simps gc_def set_call_def upd_client_def)
  ultimately show thesis
    using that by (simp add: srv1_def flow_simps)
qed

definition ring_leg :: "stream \<Rightarrow> CallEvent \<Rightarrow> nat \<Rightarrow> cref \<Rightarrow> inLeg" where
  "ring_leg st ev p d = (new_leg st ev p)\<lparr>il_callee := Some d, il_timer := True\<rparr>"

lemma cross_ring:
  assumes "ev_Type ev = INCOMING" and "ev_CallId ev = cid" and "cid \<noteq> []"
    and "networkService srv (ev_Destination ev) = None" and "map_of (clients srv) (ev_Destination ev) = Some d"
    and "\<And>st ev. x_send x st ev" and "length (inbox srv d) < sendCap"
  obtains srv1 where "serveInbound x srv st opened ev = (opened @ [cid], srv1)"
    "map_of (inLegs srv1) cid = Some (ring_leg st ev (counter srv) d)"
    "call_of srv1 d = cid" "wire srv1 = wire srv @ [(st, blank_event cid RINGING)]"
    "inbox srv1 d = inbox srv d @ [IncomingCall cid \<lparr>pn_AreaCode = il_callerArea (new_leg st ev 0),
       pn_Number = il_callerNum (new_leg st ev 0)\<rparr> (il_callerName (new_leg st ev 0)) (commonToSdp (ev_Sdp ev))]"
    "\<And>e. user_of srv1 e = user_of srv e"
proof -
  define s where "s = put_leg (put_leg (srv\<lparr>counter := Suc (counter srv)\<rparr>) cid (new_leg st ev (counter srv))) cid (ring_leg st ev (counter srv) d)"
  define srv1 where "srv1 = (sendMessage (set_call s d cid) d (IncomingCall cid \<lparr>pn_AreaCode = il_callerArea (new_leg st ev 0),
       pn_Number = il_callerNum (new_leg st ev 0)\<rparr> (il_callerName (new_leg st ev 0)) (commonToSdp (ev_Sdp ev))))
       \<lparr>wire := wire srv @ [(st, blank_event cid RINGING)]\<rparr>"
  have s: "serveInbound x srv st opened ev = (opened @ [cid], srv1)"
    using assms
    by (simp add: serveInbound_def inboundIncoming_def fresh_ref_def networkService_def inbound_online_def snd_event_def
        srv1_def s_def ring_leg_def new_leg_def Let_def put_leg_def)
  show thesis
    by (rule that [OF s]) (use assms(7) in \<open>simp_all add: srv1_def s_def flow_simps put_leg_def\<close>)
qed

definition answered_leg :: "inLeg \<Rightarrow> cref \<Rightarrow> inLeg" where
  "answered_leg leg d = leg\<lparr>il_timer := False, il_answered := True, il_callee := Some d\<rparr>"

lemma cross_answer:
  assumes "user_of srv d = Some v" and "map_of (inLegs srv) cid = Some leg" and "il_callee leg = Some d"
    and "\<And>st ev. x_send x st ev"
  obtains srv1 where "handleCallAnswer x srv d \<lparr>ca_CallID = cid, ca_Answer = ans\<rparr> = srv1"
    "map_of (inLegs srv1) cid = Some (answered_leg leg d)"
    "wire srv1 = wire srv @ [(il_snd leg, (blank_event cid ANSWER)\<lparr>ev_Sdp := sdpToCommon ans\<rparr>)]"
    "\<And>e. inbox srv1 e = inbox srv e" "\<And>e. call_of srv1 e = call_of srv e"
proof -
  define s where "s = snd (takeRing srv cid)"
  have s: "inLegs s = inLegs srv" "wire s = wire srv" "\<And>e. inbox s e = inbox srv e" "\<And>e. call_of s e = call_of srv e"
    by (simp_all add: s_def takeRing_def flow_simps split: option.split)
  have h: "handleCallAnswer x srv d \<lparr>ca_CallID = cid, ca_Answer = ans\<rparr> =
      (put_leg s cid (answered_leg leg d))\<lparr>wire := wire s @ [(il_snd leg, (blank_event cid ANSWER)\<lparr>ev_Sdp := sdpToCommon ans\<rparr>)]\<rparr>"
    using assms s(1) by (simp add: handleCallAnswer_def s_def [symmetric] snd_event_def answered_leg_def put_leg_def)
  show thesis
    by (rule that [OF h]) (simp_all add: put_leg_def s flow_simps)
qed

lemma cross_hangup:
  assumes "user_of srv c = Some u" and "call_of srv c = cid" and "cid \<noteq> []"
    and "map_of (ringStates srv) cid = None" and "map_of (inLegs srv) cid = None" and "map_of (outLegs srv) cid = Some st"
    and "\<And>st ev. x_send x st ev"
  shows "handleCallHangup x srv c = (set_call srv c [])\<lparr>outLegs := adel cid (outLegs srv),
      wire := wire srv @ [(st, (blank_event cid HANGUP)\<lparr>ev_Reason := ''hangup''\<rparr>)]\<rparr>"
  using assms
  by (simp add: handleCallHangup_def takeRing_def declineInboundCallee_def closeLocalLeg_def leg_hangup_def snd_event_def Let_def)

lemma cross_remote_hangup:
  assumes "map_of (inLegs srv) cid = Some (answered_leg (ring_leg st ev p d) d)"
  shows "serveInbound x srv st opened ((blank_event cid HANGUP)\<lparr>ev_Reason := ''hangup''\<rparr>) =
    (opened, sendMessage (clearCallID (removeInLeg srv cid) (Some d) cid) d (CallEnded cid ''hangup''))"
  using assms
  by (simp add: serveInbound_def inboundRemoteHangup_def answered_leg_def ring_leg_def new_leg_def blank_event_def orDefault_def Let_def)

section \<open>Direct messages\<close>

lemma envelope_wire [simp]: "dmEnvelopeFromProto (Some (dmEnvelopeToProto env)) = Some env"
proof -
  have "map_option (\<lambda>(n, m, b). \<lparr>im_Name = n, im_Mime = m, im_B64 = b\<rparr>) (map_option (\<lambda>i. (im_Name i, im_Mime i, im_B64 i)) (Img env)) = Img env"
    by (cases "Img env") simp_all
  then show ?thesis by (simp add: dmEnvelopeFromProto_def dmEnvelopeToProto_def)
qed

lemma relay_or_push_store [simp]:
  "s_store (relay_or_push x srv num callee env) = s_store srv" "s_dmm (relay_or_push x srv num callee env) = s_dmm srv"
  by (simp_all add: relay_or_push_def relayDMMessage_def send_push_def split: option.split)

lemma relay_online: "map_of (clients srv) num = Some d \<Longrightarrow> relay_or_push x srv num callee env = sendMessage srv d (DMEventMsg (new_event env))"
  by (simp add: relay_or_push_def relayDMMessage_def)

text \<open>\<open>req\<close> is accepted for \<open>num\<close> of area \<open>area\<close>.\<close>

definition sends :: "ext \<Rightarrow> Server \<Rightarrow> cref \<Rightarrow> User \<Rightarrow> DMSendReq \<Rightarrow> string \<Rightarrow> string \<Rightarrow> bool" where
  "sends x srv c u req area num \<longleftrightarrow> user_of srv c = Some u \<and> dm_send_error req = None \<and> s_dmm srv \<noteq> None \<and>
     ParseNumber (ds_To req) (areaCode srv) = Inr (area, num)"

definition sent_env :: "ext \<Rightarrow> Server \<Rightarrow> User \<Rightarrow> DMSendReq \<Rightarrow> string \<Rightarrow> string \<Rightarrow> Envelope" where
  "sent_env x srv u req area num = dm_envelope x u req (x_name x (counter srv)) area num"

definition dm_status :: "ext \<Rightarrow> Server \<Rightarrow> DMSendReq \<Rightarrow> ServerMessage" where
  "dm_status x srv req = DMEventMsg (status_event (x_name x (counter srv)) (ds_ClientID req))"

lemma handleDMSend_local:
  assumes "sends x srv c u req area num" and "areaCode srv = [] \<or> area = areaCode srv" and "s_dmm srv = Some m"
    and "GetUserByNumber (s_store srv) num = Inr (Some callee)"
    and "Enqueue (x_gcm x) (x_rand x 0) (x_rand x 1) m (s_store srv) (x_now x) num (sent_env x srv u req area num) = (Inr i, m', s')"
  shows "handleDMSend x srv c req = sendMessage (relay_or_push x (srv\<lparr>counter := Suc (counter srv), s_dmm := Some m', s_store := s'\<rparr>)
     num callee (sent_env x srv u req area num)) c (dm_status x srv req)"
  using assms by (auto simp: sends_def handleDMSend_def sent_env_def dm_status_def generateCallID_def Let_def)

lemma handleDMSend_remote:
  assumes "sends x srv c u req area num" and "areaCode srv \<noteq> []" "area \<noteq> areaCode srv" and "s_reg srv"
    and "x_route x area = Some addr" and "x_dial x addr (insecureFed srv)"
    and "x_deliver x addr (sent_env x srv u req area num) = Some (ok, err)"
  shows "\<exists>s. handleDMSend x srv c req =
      (if ok then sendMessage s c (dm_status x srv req) else sendError s c 404 (''delivery failed: '' @ err)) \<and>
      (\<forall>e. inbox s e = inbox srv e)"
proof -
  define s where "s = snd (bridgeConn x (srv\<lparr>counter := Suc (counter srv)\<rparr>) addr (insecureFed srv))"
  have b: "bridgeConn x (srv\<lparr>counter := Suc (counter srv)\<rparr>) addr (insecureFed srv) = (True, s)"
    using assms(6) by (simp add: s_def bridgeConn_def)
  have "inbox s e = inbox srv e" for e by (simp add: s_def bridgeConn_def inbox_def)
  moreover have "handleDMSend x srv c req =
      (if ok then sendMessage s c (dm_status x srv req) else sendError s c 404 (''delivery failed: '' @ err))"
    using assms b by (auto simp: sends_def handleDMSend_def sendRemoteDM_def sent_env_def dm_status_def generateCallID_def Let_def)
  ultimately show ?thesis by blast
qed

text \<open>A number of another area was dialed with its area code, and is read the same by the other exchange.\<close>

lemma remote_number:
  assumes "ParseNumber dest a = Inr (area, num)" and "area \<noteq> a"
  shows "ParseNumber (Canonical area num) b = Inr (area, num)" and "Canonical area num \<noteq> []"
proof -
  let ?d = "strip_dashes dest"
  have p: "length ?d = 10" "area = take 3 ?d" "num = drop 3 ?d"
    using assms by (auto simp: ParseNumber_def Let_def split: if_splits)
  then have c: "Canonical area num = ?d" by (auto simp: Canonical_def)
  have "strip_dashes ?d = ?d" by (simp add: strip_dashes_def)
  with p c show "ParseNumber (Canonical area num) b = Inr (area, num)" "Canonical area num \<noteq> []"
    by (auto simp: ParseNumber_def Let_def)
qed

lemma enqueue_remote_local:
  "EnqueueRemote g r1 r2 m s now (MessageID env) num env = (Inr (), m', s') \<Longrightarrow>
   Enqueue g r1 r2 m s now num env = (Inr (MessageID env), m', s')"
  by (auto simp: EnqueueRemote_def Enqueue_def split: sum.splits prod.splits)

lemma DeliverDM_accepted:
  assumes "DeliverDM x srv (Some (dmEnvelopeToProto env)) = ((True, err), srv')"
    and "ParseNumber (To env) (areaCode srv) = Inr (area, num)"
  obtains m m' s' callee where "s_dmm srv = Some m" "GetUserByNumber (s_store srv) num = Inr (Some callee)"
    "Enqueue (x_gcm x) (x_rand x 0) (x_rand x 1) m (s_store srv) (x_now x) num env = (Inr (MessageID env), m', s')"
    "srv' = relay_or_push x (srv\<lparr>s_dmm := Some m', s_store := s'\<rparr>) num callee env"
proof -
  have d: "deliverInboundDM x srv (Some env) = (None, srv')"
    using assms(1) by (auto simp: DeliverDM_def split: prod.splits option.splits)
  obtain m where m: "s_dmm srv = Some m"
    using d by (cases "s_dmm srv") (auto simp: deliverInboundDM_def split: if_splits)
  obtain callee where g: "GetUserByNumber (s_store srv) num = Inr (Some callee)"
    using d m assms(2) by (auto simp: deliverInboundDM_def split: if_splits sum.splits option.splits)
  obtain r m' s' where e: "EnqueueRemote (x_gcm x) (x_rand x 0) (x_rand x 1) m (s_store srv) (x_now x) (MessageID env) num env = (r, m', s')"
    using prod_cases3 by blast
  with d m g assms(2) have "r = Inr ()" "srv' = relay_or_push x (srv\<lparr>s_dmm := Some m', s_store := s'\<rparr>) num callee env"
    by (auto simp: deliverInboundDM_def split: if_splits sum.splits)
  with that [OF m g] enqueue_remote_local e show thesis by blast
qed

section \<open>Properties\<close>


definition carol :: User where
  "carol = (sample_user 3 ''5550001'')\<lparr>AreaCode := ''216''\<rparr>"

definition sample_peer :: Server where
  "sample_peer = (NewServer (empty_store\<lparr>users := [carol]\<rparr>) NewAuthManager ''216'' [] [] False)
     \<lparr>clients := [(''5550001'', 1)], heap := [(1, sample_conn carol)], counter := 2, s_dmm := Some dm_NewManager\<rparr>"

definition sample_home :: Server where
  "sample_home = sample_online\<lparr>s_reg := True\<rparr>"

lemmas sample_home_defs = sample_home_def sample_peer_def carol_def sample_defs

lemma sample_cross: "can_cross sample_ext sample_home 1 ann ''216-555-0001'' ''216'' ''5550001''"
  by (simp add: can_cross_def sample_home_defs user_of_def client_def IsServiceCode_def ParseNumber_def strip_dashes_def)


text \<open>
  C14. A direct message between two subscribers of one exchange: the connected recipient is told,
  the sender gets the delivery status, the message is in the recipient's queue word for word, and
  the recipient's acknowledgement removes it.
\<close>

theorem local_message:
  assumes s: "sends x srv c u req area num" "areaCode srv = [] \<or> area = areaCode srv" "s_dmm srv = Some m"
    and r: "GetUserByNumber (s_store srv) num = Inr (Some callee)"
    and env: "env = sent_env x srv u req area num"
    and q: "Enqueue (x_gcm x) (x_rand x 0) (x_rand x 1) m (s_store srv) (x_now x) num env = (Inr i, m', s')"
    and prim: "gcm_ok (x_gcm x)" "ok_Envelope env"
    and "dm_secret.agrees m (s_store srv)"
    and d: "map_of (clients srv) num = Some d" "user_of srv d = Some v" "Number v = num" "d \<noteq> c"
      "length (inbox srv d) < sendCap" "length (inbox srv c) < sendCap" "MessageID env \<noteq> []"
  shows "\<exists>srv'. srv' = handleDMSend x srv c req \<and>
           inbox srv' d = inbox srv d @ [DMEventMsg (new_event env)] \<and> inbox srv' c = inbox srv c @ [dm_status x srv req] \<and>
           (\<exists>m2. s_dmm srv' = Some m2 \<and> fst (dm_Get (x_gcm x) rnd m2 (s_store srv') (MessageID env) num) = Inr (Some env)) \<and>
           GetDM (s_store (handleDMAck srv' d (MessageID env))) (MessageID env) num = Inr None"
proof -
  define srv' where "srv' = handleDMSend x srv c req"
  define s0 where "s0 = srv\<lparr>counter := Suc (counter srv), s_dmm := Some m', s_store := s'\<rparr>"
  have e: "srv' = sendMessage (sendMessage s0 d (DMEventMsg (new_event env))) c (dm_status x srv req)"
    using handleDMSend_local [OF s r q [unfolded env]] relay_online [of s0 num d x callee env] d(1)
    by (simp add: srv'_def s0_def env)
  have get: "fst (dm_Get (x_gcm x) rnd m' s' (MessageID env) num) = Inr (Some env)"
    using enqueue_delivers [OF prim(1,2) assms(9) q, of m' rnd] by auto
  have ib: "inbox s0 e = inbox srv e" for e by (simp add: s0_def inbox_def client_def)
  have us: "user_of srv' d = Some v" using d(2) by (simp add: e s0_def)
  have up: "db_up s'" using get by (auto simp: dm_Get_def GetDM_def split: if_splits)
  have "DeleteDM s' (MessageID env) num = Inr (s'\<lparr>dm_outbox := filter (\<lambda>m. \<not> (DmID m = MessageID env \<and> DmRecipient m = num)) (dm_outbox s')\<rparr>)"
    using up by (simp add: DeleteDM_def)
  with us d(3,7) have "s_store (handleDMAck srv' d (MessageID env)) =
      s'\<lparr>dm_outbox := filter (\<lambda>m. \<not> (DmID m = MessageID env \<and> DmRecipient m = num)) (dm_outbox s')\<rparr>"
    by (simp add: handleDMAck_def dm_Remove_def lift_store_def e s0_def)
  then have "GetDM (s_store (handleDMAck srv' d (MessageID env))) (MessageID env) num = Inr None"
    using up by (auto simp: GetDM_def find_None_iff)
  then show ?thesis
    using get d(4-6) by (intro exI [of _ srv'] conjI exI [of _ m']) (simp_all add: srv'_def [symmetric] e flow_simps ib, simp_all add: s0_def)
qed

definition sample_req :: "string \<Rightarrow> DMSendReq" where
  "sample_req dest = \<lparr>ds_To = dest, ds_ClientID = ''k1'', ds_Kind = ''text'', ds_Text = ''hi'', ds_Image = None\<rparr>"

lemma sample_sends:
  "sends x sample_online 1 ann (sample_req ''5556789'') ''440'' ''5556789''"
  "sends x sample_home 1 ann (sample_req ''216-555-0001'') ''216'' ''5550001''"
  by (simp_all add: sends_def sample_req_def sample_home_defs user_of_def client_def dm_send_error_def is_space_def is_space2_def
      ParseNumber_def strip_dashes_def)

lemma sample_enqueue:
  assumes "settings s = []" "db_up s" "dm_outbox s = []"
  obtains i m' s' where "Enqueue plain_gcm (Some (\<lambda>_. 7)) (Some (\<lambda>_. 7))
     dm_NewManager s now num e = (Inr i, m', s')"
  using assms
  by (simp add: Enqueue_def dm_key_def dm_NewManager_def dm_EnsureMasterSecret_def GetSetting_def SetSetting_def
        rand_bytes_def sealJSON_def Encrypt_def StoreDMPreassigned_def)

lemma sample_agrees: "dm_secret.agrees dm_NewManager s"
  by (simp add: dm_secret.agrees_def dm_NewManager_def)

lemma sample_sent_ok:
  "ok_Envelope (sent_env sample_ext sample_online ann (sample_req ''5556789'') ''440'' ''5556789'')"
  "ok_Envelope (sent_env sample_ext sample_home ann (sample_req ''216-555-0001'') ''216'' ''5550001'')"
  by (simp_all add: ok_Envelope_def sent_env_def dm_envelope_def sample_req_def sample_home_defs sample_ext_def sample_name_def Canonical_def secs_def list_all_iff ok_simps)

theorem local_message_witness:
  "\<exists>x env. env = sent_env x sample_online ann (sample_req ''5556789'') ''440'' ''5556789'' \<and>
     inbox (handleDMSend x sample_online 1 (sample_req ''5556789'')) 2 = [DMEventMsg (new_event env)]"
proof -
  let ?srv = sample_online and ?req = "sample_req ''5556789''"
  define env where "env = sent_env sample_ext ?srv ann ?req ''440'' ''5556789''"
  define x where "x = sample_ext"
  have env: "env = sent_env x ?srv ann ?req ''440'' ''5556789''"
    by (simp add: env_def x_def)
  have st: "settings (s_store ?srv) = []" "db_up (s_store ?srv)" "dm_outbox (s_store ?srv) = []" "s_dmm ?srv = Some dm_NewManager"
    "areaCode ?srv = ''440''" "GetUserByNumber (s_store ?srv) ''5556789'' = Inr (Some bob)" "inbox ?srv 1 = []" "inbox ?srv 2 = []"
    "map_of (clients ?srv) ''5556789'' = Some 2" "user_of ?srv 2 = Some bob" "Number bob = ''5556789''"
    by (simp_all add: sample_defs empty_store_def GetUserByNumber_def inbox_def client_def user_of_def)
  obtain i m' s' where q: "Enqueue (x_gcm x) (x_rand x 0) (x_rand x 1) dm_NewManager (s_store ?srv) (x_now x) ''5556789'' env = (Inr i, m', s')"
    using sample_enqueue [OF st(1-3), of "x_now x" "''5556789''" env] by (auto simp: x_def sample_ext_def)
  have g: "gcm_ok (x_gcm x)" "ok_Envelope env"
    by (simp_all add: x_def env_def sample_sent_ok) (simp add: sample_ext_def plain_gcm_ok)
  have n: "MessageID env \<noteq> []" by (simp add: env_def sent_env_def dm_envelope_def sample_ext_def sample_name_def)
  have "inbox (handleDMSend x ?srv 1 ?req) 2 = [DMEventMsg (new_event env)]"
    using local_message [OF sample_sends(1) _ st(4,6) env q g sample_agrees st(9-11) _ _ _ n] st
    by (simp add: sendCap_def)
  with env show ?thesis by blast
qed

text \<open>
  C15. A direct message to a subscriber of another exchange: when the other exchange accepts it, the
  sender gets the delivery status and the message is in the recipient's queue there word for word; when the
  other exchange refuses it, the sender gets an error and no delivery status.
\<close>

theorem cross_exchange_message:
  assumes s: "sends x srv c u req area num" "areaCode srv \<noteq> []" "area \<noteq> areaCode srv" "s_reg srv"
      "x_route x area = Some addr" "x_dial x addr (insecureFed srv)"
    and env: "env = sent_env x srv u req area num"
    and peer: "DeliverDM x' peer (Some (dmEnvelopeToProto env)) = ((ok, err), peer')"
    and link: "x_deliver x addr env = Some (ok, err)"
    and prim: "gcm_ok (x_gcm x')" "ok_Envelope env"
    and "\<And>m. s_dmm peer = Some m \<Longrightarrow> dm_secret.agrees m (s_store peer)" and "length (inbox srv c) < sendCap"
  shows "inbox (handleDMSend x srv c req) c =
           inbox srv c @ [if ok then dm_status x srv req else ErrorMsg 404 (''delivery failed: '' @ err)] \<and>
         (ok \<longrightarrow> (\<exists>m2. s_dmm peer' = Some m2 \<and>
            fst (dm_Get (x_gcm x') rnd m2 (s_store peer') (MessageID env) num) = Inr (Some env)))"
proof
  obtain s0 where h: "handleDMSend x srv c req =
      (if ok then sendMessage s0 c (dm_status x srv req) else sendError s0 c 404 (''delivery failed: '' @ err))"
    and ib: "\<And>e. inbox s0 e = inbox srv e"
    using handleDMSend_remote [OF s link [unfolded env]] by blast
  show "inbox (handleDMSend x srv c req) c =
           inbox srv c @ [if ok then dm_status x srv req else ErrorMsg 404 (''delivery failed: '' @ err)]"
    using assms(13) by (simp add: h sendError_def flow_simps ib)
  show "ok \<longrightarrow> (\<exists>m2. s_dmm peer' = Some m2 \<and>
            fst (dm_Get (x_gcm x') rnd m2 (s_store peer') (MessageID env) num) = Inr (Some env))"
  proof
    assume ok
    have p: "ParseNumber (To env) (areaCode peer) = Inr (area, num)"
      using remote_number(1) [of "ds_To req" "areaCode srv"] s(1,3) by (simp add: env sent_env_def dm_envelope_def sends_def)
    obtain m m' s' callee where m: "s_dmm peer = Some m"
      and q: "Enqueue (x_gcm x') (x_rand x' 0) (x_rand x' 1) m (s_store peer) (x_now x') num env = (Inr (MessageID env), m', s')"
      and p': "peer' = relay_or_push x' (peer\<lparr>s_dmm := Some m', s_store := s'\<rparr>) num callee env"
      using DeliverDM_accepted [OF _ p] peer \<open>ok\<close> by metis
    show "\<exists>m2. s_dmm peer' = Some m2 \<and>
            fst (dm_Get (x_gcm x') rnd m2 (s_store peer') (MessageID env) num) = Inr (Some env)"
      using enqueue_delivers [OF prim assms(12) [OF m] q, of m' rnd] p' by auto
  qed
qed

theorem cross_exchange_message_witness:
  "\<exists>x env err peer'. env = sent_env x sample_home ann (sample_req ''216-555-0001'') ''216'' ''5550001'' \<and>
     DeliverDM x sample_peer (Some (dmEnvelopeToProto env)) = ((True, err), peer') \<and>
     inbox (handleDMSend x sample_home 1 (sample_req ''216-555-0001'')) 1 = [dm_status x sample_home (sample_req ''216-555-0001'')]"
proof -
  let ?srv = sample_home and ?req = "sample_req ''216-555-0001''"
  define env where "env = sent_env sample_ext ?srv ann ?req ''216'' ''5550001''"
  define x where "x = sample_ext"
  have env: "env = sent_env x ?srv ann ?req ''216'' ''5550001''"
    by (simp add: env_def x_def)
  have st: "settings (s_store sample_peer) = []" "db_up (s_store sample_peer)" "dm_outbox (s_store sample_peer) = []"
    "s_dmm sample_peer = Some dm_NewManager" "areaCode sample_peer = ''216''" "GetUserByNumber (s_store sample_peer) ''5550001'' = Inr (Some carol)"
    "areaCode ?srv = ''440''" "s_reg ?srv" "inbox ?srv 1 = []"
    by (simp_all add: sample_home_defs empty_store_def GetUserByNumber_def inbox_def client_def)
  obtain i m' s' where q: "Enqueue (x_gcm x) (x_rand x 0) (x_rand x 1) dm_NewManager (s_store sample_peer) (x_now x) ''5550001'' env = (Inr i, m', s')"
    using sample_enqueue [OF st(1-3), of "x_now x" "''5550001''" env] by (auto simp: x_def sample_ext_def)
  have "EnqueueRemote (x_gcm x) (x_rand x 0) (x_rand x 1) dm_NewManager (s_store sample_peer) (x_now x) (MessageID env) ''5550001'' env = (Inr (), m', s')"
    using q by (auto simp: EnqueueRemote_def Enqueue_def split: sum.splits prod.splits)
  moreover have "To env = ''2165550001''" by (simp add: env_def sent_env_def dm_envelope_def Canonical_def)
  ultimately obtain peer' where p: "DeliverDM x sample_peer (Some (dmEnvelopeToProto env)) = ((True, []), peer')"
    using st by (simp add: DeliverDM_def deliverInboundDM_def ParseNumber_def strip_dashes_def)
  have ok: "ok_Envelope env" by (simp add: env_def sample_sent_ok)
  have g: "gcm_ok (x_gcm x)"
    "x_route x ''216'' = Some ''peer:9443''" "x_dial x ''peer:9443'' (insecureFed ?srv)" "x_deliver x ''peer:9443'' env = Some (True, [])"
    by (simp_all add: x_def sample_ext_def plain_gcm_ok)
  have "inbox (handleDMSend x ?srv 1 ?req) 1 = [dm_status x ?srv ?req]"
    using cross_exchange_message [OF sample_sends(2) _ _ st(8) g(2,3) env p g(4,1) ok] sample_agrees st
    by (simp add: sendCap_def)
  with env p show ?thesis by blast
qed

end
