(* ===== verification/Http.thy ===== *)
theory Http
  imports OCN_Prelude
begin

text \<open>
  What the two operator panels use of Go's HTTP and text libraries: the bearer token of a request,
  JSON answers, \<open>strconv.Atoi\<close> with its error ignored, and \<open>url.Values.Encode\<close>.

  A JSON object is the list of its members as the source writes them. \<open>Atoi\<close> gives the value the
  call returns beside the error: 0 for text that is not a number, the nearest 64-bit integer for a
  number that does not fit.
\<close>

datatype json = JStr string | JInt int | JBool bool | JObj "(string \<times> json) list" | JArr "json list"

type_synonym http_resp = "nat \<times> json"

definition err_json :: "string \<Rightarrow> json" where
  "err_json msg = JObj [(''error'', JStr msg)]"

definition ok_json :: json where
  "ok_json = JObj [(''ok'', JBool True)]"

record http_req =
  h_authorization :: string
  h_host :: string
  h_tls :: bool

definition bearer_token :: "http_req \<Rightarrow> string" where
  "bearer_token r =
     (let h = h_authorization r in
      if \<not> has_prefix h ''Bearer '' then [] else TrimSpace (drop 7 h))"

section \<open>strconv.Atoi\<close>

fun parse_uint :: "string \<Rightarrow> nat \<Rightarrow> nat option" where
  "parse_uint [] n = Some n"
| "parse_uint (c # cs) n =
     (if \<not> is_digit c then None
      else let n1 = 10 * n + (of_char c - 48) in
        if 2 ^ 64 \<le> n1 then Some (2 ^ 64 - 1) else parse_uint cs n1)"

definition parse_digits :: "string \<Rightarrow> nat option" where
  "parse_digits s = (if s = [] then None else parse_uint s 0)"

definition Atoi :: "string \<Rightarrow> int" where
  "Atoi s =
     (let neg = (s \<noteq> [] \<and> hd s = CHR ''-'');
          digits = (if s \<noteq> [] \<and> (hd s = CHR ''-'' \<or> hd s = CHR ''+'') then tl s else s)
      in case parse_digits digits of
           None \<Rightarrow> 0
         | Some n \<Rightarrow> if neg then max (- int n) (- (2 ^ 63)) else min (int n) (2 ^ 63 - 1))"

section \<open>url.QueryEscape\<close>

definition unreserved :: "char \<Rightarrow> bool" where
  "unreserved c \<longleftrightarrow> (let n = of_char c :: nat in
     48 \<le> n \<and> n \<le> 57 \<or> 65 \<le> n \<and> n \<le> 90 \<or> 97 \<le> n \<and> n \<le> 122 \<or> n \<in> {45, 95, 46, 126})"

definition upper_hex :: "nat \<Rightarrow> char" where
  "upper_hex d = char_of (if d < 10 then 48 + d else 55 + d)"

definition escape_char :: "char \<Rightarrow> string" where
  "escape_char c =
     (if unreserved c then [c]
      else if c = CHR '' '' then ''+''
      else [CHR ''%'', upper_hex (of_char c div 16), upper_hex (of_char c mod 16)])"

definition QueryEscape :: "string \<Rightarrow> string" where
  "QueryEscape s = concat (map escape_char s)"

definition query_pair :: "string \<times> string \<Rightarrow> string" where
  "query_pair kv = QueryEscape (fst kv) @ ''='' @ QueryEscape (snd kv)"

fun join_with :: "string \<Rightarrow> string list \<Rightarrow> string" where
  "join_with sep [] = []"
| "join_with sep [s] = s"
| "join_with sep (s # t # ss) = s @ sep @ join_with sep (t # ss)"

text \<open>The members are given in the order of their keys, which is the order \<open>Encode\<close> writes them in.\<close>

definition query_encode :: "(string \<times> string) list \<Rightarrow> string" where
  "query_encode kvs = join_with ''&'' (map query_pair kvs)"

section \<open>Lemmas\<close>

text \<open>The reader of such a query: the part of a pair, with its escapes undone.\<close>

definition hex_value :: "char \<Rightarrow> nat" where
  "hex_value c = (let n = of_char c :: nat in if n < 65 then n - 48 else n - 55)"

fun unescape :: "string \<Rightarrow> string" where
  "unescape [] = []"
| "unescape (c # s) =
     (if c = CHR ''+'' then CHR '' '' # unescape s
      else if c = CHR ''%'' then
        (case s of a # b # s' \<Rightarrow> char_of (16 * hex_value a + hex_value b) # unescape s' | _ \<Rightarrow> [])
      else c # unescape s)"

lemma of_char_upper_hex: "d < 16 \<Longrightarrow> (of_char (upper_hex d) :: nat) = (if d < 10 then 48 + d else 55 + d)"
  by (simp add: upper_hex_def)

lemma hex_value_upper_hex: "d < 16 \<Longrightarrow> hex_value (upper_hex d) = d"
  by (simp add: hex_value_def of_char_upper_hex Let_def)

lemma upper_hex_no_sep: "d < 16 \<Longrightarrow> upper_hex d \<noteq> CHR ''&'' \<and> upper_hex d \<noteq> CHR ''=''"
  using of_char_upper_hex [of d] by (auto split: if_splits)

lemma nibbles: "of_char c div 16 < (16 :: nat)" "of_char c mod 16 < (16 :: nat)"
proof -
  have "(of_char c :: nat) < 16 * 16" by simp
  then show "of_char c div 16 < (16 :: nat)" by (rule less_mult_imp_div_less)
qed simp

lemma unescape_escape_char: "unescape (escape_char c @ s) = c # unescape s"
proof -
  have "c \<noteq> CHR ''+'' \<and> c \<noteq> CHR ''%''" if "unreserved c"
    using that by (auto simp: unreserved_def)
  moreover have "16 * (of_char c div 16) + of_char c mod 16 = (of_char c :: nat)" by simp
  ultimately show ?thesis
    by (auto simp: escape_char_def hex_value_upper_hex nibbles simp del: mult_div_mod_eq)
qed

lemma unescape_QueryEscape: "unescape (QueryEscape s) = s"
  by (induction s) (simp_all add: QueryEscape_def unescape_escape_char)

lemma escape_no_sep: "c \<in> set (QueryEscape s) \<Longrightarrow> c \<noteq> CHR ''&'' \<and> c \<noteq> CHR ''=''"
  using upper_hex_no_sep [OF nibbles(1)] upper_hex_no_sep [OF nibbles(2)]
  by (auto simp: QueryEscape_def escape_char_def unreserved_def split: if_splits)

text \<open>A whole query, as a reader takes it apart.\<close>

fun split_on :: "char \<Rightarrow> string \<Rightarrow> string list" where
  "split_on c [] = [[]]"
| "split_on c (x # xs) =
     (if x = c then [] # split_on c xs
      else (case split_on c xs of seg # segs \<Rightarrow> (x # seg) # segs | [] \<Rightarrow> [[x]]))"

definition parse_pair :: "string \<Rightarrow> string \<times> string" where
  "parse_pair p = (unescape (takeWhile (\<lambda>c. c \<noteq> CHR ''='') p), unescape (tl (dropWhile (\<lambda>c. c \<noteq> CHR ''='') p)))"

definition parse_query :: "string \<Rightarrow> (string \<times> string) list" where
  "parse_query q = map parse_pair (split_on (CHR ''&'') q)"

lemma split_on_plain: "c \<notin> set s \<Longrightarrow> split_on c s = [s]"
  by (induction s) auto

lemma split_on_append: "c \<notin> set s \<Longrightarrow> split_on c (s @ c # t) = s # split_on c t"
  by (induction s) auto

lemma split_on_join: "segs \<noteq> [] \<Longrightarrow> \<forall>s \<in> set segs. c \<notin> set s \<Longrightarrow> split_on c (join_with [c] segs) = segs"
  by (induction "[c]" segs rule: join_with.induct) (auto simp: split_on_plain split_on_append)

lemma parse_pair_query_pair: "parse_pair (query_pair kv) = kv"
proof -
  have k: "\<forall>c \<in> set (QueryEscape (fst kv)). c \<noteq> CHR ''=''" by (auto dest: escape_no_sep)
  then have "takeWhile (\<lambda>c. c \<noteq> CHR ''='') (query_pair kv) = QueryEscape (fst kv)"
    "dropWhile (\<lambda>c. c \<noteq> CHR ''='') (query_pair kv) = CHR ''='' # QueryEscape (snd kv)"
    by (simp_all add: query_pair_def takeWhile_append2 dropWhile_append2)
  then show ?thesis by (simp add: parse_pair_def unescape_QueryEscape)
qed

lemma parse_query_encode: "kvs \<noteq> [] \<Longrightarrow> parse_query (query_encode kvs) = kvs"
proof -
  assume "kvs \<noteq> []"
  moreover have "CHR ''&'' \<notin> set (query_pair kv)" for kv by (auto simp: query_pair_def dest: escape_no_sep)
  ultimately have "split_on (CHR ''&'') (query_encode kvs) = map query_pair kvs"
    unfolding query_encode_def by (intro split_on_join) auto
  then show ?thesis by (simp add: parse_query_def comp_def parse_pair_query_pair)
qed

lemma parse_uint_less: "parse_uint s n = Some m \<Longrightarrow> n < 2 ^ 64 \<Longrightarrow> m < 2 ^ 64"
  by (induction s n rule: parse_uint.induct) (auto simp: Let_def split: if_splits)

lemma Atoi_bounds: "- (2 ^ 63) \<le> Atoi s \<and> Atoi s < 2 ^ 63"
  by (auto simp: Atoi_def Let_def split: option.splits)

end
