(* ===== verification/Registry_Store.thy ===== *)
theory Registry_Store
  imports Store_Admin Identity "HOL-Library.List_Lexorder" "HOL-Library.Char_ord"
begin

text \<open>
  The store of the registry server (\<open>registry_server/internal/store\<close>): the exchanges and their area
  codes (\<open>store.go\<close>), the 800/900 service numbers (\<open>service_numbers.go\<close>), the operator accounts and
  sessions (\<open>admin.go\<close>).

  Tables are lists of rows, as for the store of an exchange; \<open>reg_up\<close> is false when the database does
  not answer. \<open>ORDER BY\<close> on a text column is the byte order of the strings. \<open>rand.Intn(600)\<close> of the
  \<open>i\<close>-th draw is \<open>rnd i mod 600\<close>. Ed25519 and bcrypt are parameters; the panic of
  \<open>ed25519.Verify\<close> on a key of the wrong length is the error \<open>GoPanic\<close> of \<open>Verify\<close>.
\<close>

section \<open>Tables\<close>

record ServerInfo =
  SiAreaCode :: string
  SiName :: string
  SiDescription :: string
  SiServerAddr :: string
  SiPublicKey :: bytes
  SiRegisteredAt :: int
  SiStatus :: string

record ServiceNumber =
  SnFullNumber :: string
  SnVanity :: string
  SnName :: string
  SnDescription :: string
  SnHostArea :: string
  SnStatus :: string
  SnCreatedAt :: int

record registry_store =
  reg_up :: bool
  ocn_servers :: "ServerInfo list"
  service_numbers :: "ServiceNumber list"
  reg_accounts :: "AdminAccount list"
  reg_sessions :: "AdminSession list"

datatype registry_error =
    ErrAreaInvalid | ErrAreaTaken | ErrNoFreeAreas | ErrServerNotFound | ErrBadSignature | ErrBadTimestamp
  | ErrServiceInvalid | ErrServiceTaken | ErrServiceNotFound | ErrInvalidStatus
  | ErrBadLogin | ErrNewPassword | ErrBcrypt | ErrRandRead | ErrNoAccount | ErrDb | RegPanic string

section \<open>Area codes: store.go\<close>

definition AllowedArea :: "string \<Rightarrow> bool" where
  "AllowedArea area \<longleftrightarrow>
     length area = 3 \<and> area \<noteq> ''800'' \<and> area \<noteq> ''900'' \<and> list_all is_digit area \<and>
     200 \<le> undec area 0 \<and> undec area 0 \<le> 999"

definition fmt03 :: "nat \<Rightarrow> string" where
  "fmt03 n = pad_left 3 (dec n)"

fun area_random :: "string set \<Rightarrow> (nat \<Rightarrow> nat) \<Rightarrow> nat \<Rightarrow> nat \<Rightarrow> string option" where
  "area_random used rnd i 0 = None"
| "area_random used rnd i (Suc k) =
     (let c = fmt03 (200 + rnd i mod 600)
      in if c \<notin> used then Some c else area_random used rnd (Suc i) k)"

function area_scan :: "string set \<Rightarrow> nat \<Rightarrow> string option" where
  "area_scan used n =
     (if n \<le> 999 then
        (if fmt03 n \<notin> used \<and> AllowedArea (fmt03 n) then Some (fmt03 n) else area_scan used (n + 1))
      else None)"
  by pat_completeness auto
termination
  by (relation "measure (\<lambda>(_, n). 1000 - n)") auto

declare area_scan.simps [simp del]

definition pickFree :: "(nat \<Rightarrow> nat) \<Rightarrow> registry_store \<Rightarrow> registry_error + string" where
  "pickFree rnd s =
     (if \<not> reg_up s then Inl ErrDb
      else let used = SiAreaCode ` set (ocn_servers s) in
        case area_random used rnd 0 500 of
          Some c \<Rightarrow> Inr c
        | None \<Rightarrow> (case area_scan used 200 of Some c \<Rightarrow> Inr c | None \<Rightarrow> Inl ErrNoFreeAreas))"

definition area_exists :: "registry_store \<Rightarrow> string \<Rightarrow> bool" where
  "area_exists s code \<longleftrightarrow> 0 < length (filter (\<lambda>r. SiAreaCode r = code) (ocn_servers s))"

definition insert_server :: "registry_store \<Rightarrow> gotime \<Rightarrow> ServerInfo \<Rightarrow> string \<Rightarrow> registry_error + (string \<times> registry_store)" where
  "insert_server s now info code =
     (if code \<in> SiAreaCode ` set (ocn_servers s) then Inl ErrAreaTaken
      else Inr (code, s\<lparr>ocn_servers := ocn_servers s @
             [info\<lparr>SiAreaCode := code, SiRegisteredAt := unix_secs now, SiStatus := ''ACTIVE''\<rparr>]\<rparr>))"

definition refresh_server :: "ServerInfo \<Rightarrow> string \<Rightarrow> registry_store \<Rightarrow> registry_store" where
  "refresh_server info code s =
     s\<lparr>ocn_servers := map (\<lambda>r. if SiAreaCode r = code
          then r\<lparr>SiName := SiName info, SiDescription := SiDescription info,
                 SiServerAddr := SiServerAddr info, SiStatus := ''ACTIVE''\<rparr> else r) (ocn_servers s)\<rparr>"

definition RegisterServer ::
  "(nat \<Rightarrow> nat) \<Rightarrow> registry_store \<Rightarrow> gotime \<Rightarrow> ServerInfo \<Rightarrow> registry_error + (string \<times> registry_store)" where
  "RegisterServer rnd s now info =
     (if \<not> reg_up s then Inl ErrDb
      else let code = TrimSpace (SiAreaCode info) in
        if code = [] then
          (case pickFree rnd s of Inl e \<Rightarrow> Inl e | Inr c \<Rightarrow> insert_server s now info c)
        else if \<not> AllowedArea code then Inl ErrAreaInvalid
        else if area_exists s code then
          (case find (\<lambda>r. SiAreaCode r = code) (ocn_servers s) of
             Some r \<Rightarrow> if SiPublicKey r = SiPublicKey info then Inr (code, refresh_server info code s)
                        else Inl ErrAreaTaken
           | None \<Rightarrow> Inl ErrAreaTaken)
        else insert_server s now info code)"

definition get_server :: "registry_store \<Rightarrow> string \<Rightarrow> registry_error + ServerInfo" where
  "get_server s area =
     (if \<not> reg_up s then Inl ErrDb
      else case find (\<lambda>r. SiAreaCode r = area) (ocn_servers s) of
             None \<Rightarrow> Inl ErrServerNotFound | Some r \<Rightarrow> Inr r)"

definition GetRoute :: "registry_store \<Rightarrow> string \<Rightarrow> registry_error + ServerInfo" where
  "GetRoute s area =
     (case get_server s area of
        Inl e \<Rightarrow> Inl e
      | Inr info \<Rightarrow> if SiStatus info \<noteq> ''ACTIVE'' then Inl ErrServerNotFound else Inr info)"

definition ListServers :: "registry_store \<Rightarrow> int \<Rightarrow> registry_error + ServerInfo list" where
  "ListServers s limit =
     (let limit = (if limit \<le> 0 \<or> 500 < limit then 500 else limit) in
      if \<not> reg_up s then Inl ErrDb
      else Inr (take (nat limit) (sort_key SiAreaCode (ocn_servers s))))"

definition authWindow :: gotime where
  "authWindow = secs (5 * 60)"

definition auth_data :: "string \<Rightarrow> int \<Rightarrow> bytes" where
  "auth_data area ts = str_bytes (area @ ''|'' @ fmt_d ts)"

definition ValidAuth ::
  "ed25519 \<Rightarrow> gotime \<Rightarrow> bytes \<Rightarrow> string \<Rightarrow> int \<Rightarrow> bytes \<Rightarrow> ksim_error + bool" where
  "ValidAuth ed now pub area ts sig =
     (if length sig \<noteq> 64 then Inr False
      else let n = unix_secs now in
        if ts > n + unix_secs authWindow \<or> ts < n - unix_secs authWindow then Inr False
        else Verify ed pub (auth_data area ts) sig)"

definition SignAuth :: "ed25519 \<Rightarrow> bytes \<Rightarrow> string \<Rightarrow> int \<Rightarrow> bytes" where
  "SignAuth ed priv area ts = ed_sign ed priv (auth_data area ts)"

definition DeregisterServer ::
  "ed25519 \<Rightarrow> registry_store \<Rightarrow> gotime \<Rightarrow> string \<Rightarrow> int \<Rightarrow> bytes \<Rightarrow> registry_error + registry_store" where
  "DeregisterServer ed s now area ts sig =
     (case get_server s area of
        Inl _ \<Rightarrow> Inl ErrServerNotFound
      | Inr info \<Rightarrow>
          (case ValidAuth ed now (SiPublicKey info) area ts sig of
             Inl _ \<Rightarrow> Inl (RegPanic ''ed25519: bad public key length'')
           | Inr False \<Rightarrow> Inl ErrBadSignature
           | Inr True \<Rightarrow>
               if \<not> reg_up s then Inl ErrDb
               else Inr (s\<lparr>ocn_servers := filter (\<lambda>r. SiAreaCode r \<noteq> area) (ocn_servers s)\<rparr>)))"

definition VerifyPushAuth ::
  "ed25519 \<Rightarrow> registry_store \<Rightarrow> gotime \<Rightarrow> string \<Rightarrow> int \<Rightarrow> string \<Rightarrow> bytes \<Rightarrow> registry_error + unit" where
  "VerifyPushAuth ed s now area ts message sig =
     (case get_server s area of
        Inl _ \<Rightarrow> Inl ErrServerNotFound
      | Inr info \<Rightarrow>
          if SiStatus info \<noteq> ''ACTIVE'' then Inl ErrServerNotFound
          else (case ValidAuth ed now (SiPublicKey info) area ts sig of
                  Inl _ \<Rightarrow> Inl (RegPanic ''ed25519: bad public key length'')
                | Inr False \<Rightarrow> Inl ErrBadSignature
                | Inr True \<Rightarrow> Inr ()))"

section \<open>Service numbers: service\_numbers.go\<close>

definition AllowedServiceFull :: "string \<Rightarrow> bool" where
  "AllowedServiceFull full \<longleftrightarrow>
     length full = 10 \<and> list_all is_digit full \<and> (has_prefix full ''800'' \<or> has_prefix full ''900'')"

definition ClaimServiceNumber :: "registry_store \<Rightarrow> gotime \<Rightarrow> ServiceNumber \<Rightarrow> registry_error + registry_store" where
  "ClaimServiceNumber s now sn =
     (if \<not> reg_up s then Inl ErrDb
      else if \<not> AllowedServiceFull (SnFullNumber sn) then Inl ErrServiceInvalid
      else if \<not> (\<exists>r \<in> set (ocn_servers s). SiAreaCode r = SnHostArea sn \<and> SiStatus r = ''ACTIVE'')
      then Inl ErrServerNotFound
      else if SnFullNumber sn \<in> SnFullNumber ` set (service_numbers s) then Inl ErrServiceTaken
      else Inr (s\<lparr>service_numbers := service_numbers s @
             [sn\<lparr>SnStatus := ''ACTIVE'', SnCreatedAt := unix_secs now\<rparr>]\<rparr>))"

definition ListServiceNumbers :: "registry_store \<Rightarrow> registry_error + ServiceNumber list" where
  "ListServiceNumbers s =
     (if \<not> reg_up s then Inl ErrDb else Inr (sort_key SnFullNumber (service_numbers s)))"

definition GetServiceNumber :: "registry_store \<Rightarrow> string \<Rightarrow> registry_error + ServiceNumber" where
  "GetServiceNumber s full =
     (if \<not> reg_up s then Inl ErrDb
      else case find (\<lambda>n. SnFullNumber n = full) (service_numbers s) of
             None \<Rightarrow> Inl ErrServiceNotFound | Some sn \<Rightarrow> Inr sn)"

definition SetServiceStatus :: "registry_store \<Rightarrow> string \<Rightarrow> string \<Rightarrow> registry_error + registry_store" where
  "SetServiceStatus s full status =
     (if status \<noteq> ''ACTIVE'' \<and> status \<noteq> ''SUSPENDED'' then Inl ErrInvalidStatus
      else if \<not> reg_up s then Inl ErrDb
      else if \<not> (\<exists>n \<in> set (service_numbers s). SnFullNumber n = full) then Inl ErrServiceNotFound
      else Inr (s\<lparr>service_numbers :=
             map (\<lambda>n. if SnFullNumber n = full then n\<lparr>SnStatus := status\<rparr> else n) (service_numbers s)\<rparr>))"

definition DeleteServiceNumber :: "registry_store \<Rightarrow> string \<Rightarrow> registry_error + registry_store" where
  "DeleteServiceNumber s full =
     (if \<not> reg_up s then Inl ErrDb
      else if \<not> (\<exists>n \<in> set (service_numbers s). SnFullNumber n = full) then Inl ErrServiceNotFound
      else Inr (s\<lparr>service_numbers := filter (\<lambda>n. SnFullNumber n \<noteq> full) (service_numbers s)\<rparr>))"

definition ResolveService :: "registry_store \<Rightarrow> string \<Rightarrow> registry_error + (ServiceNumber \<times> ServerInfo)" where
  "ResolveService s full =
     (if \<not> AllowedServiceFull full then Inl ErrServiceNotFound
      else case GetServiceNumber s full of
             Inl e \<Rightarrow> Inl e
           | Inr sn \<Rightarrow>
               if SnStatus sn \<noteq> ''ACTIVE'' then Inl ErrServiceNotFound
               else case GetRoute s (SnHostArea sn) of Inl e \<Rightarrow> Inl e | Inr host \<Rightarrow> Inr (sn, host))"

section \<open>Operator accounts: admin.go\<close>

definition EnsureDefaultAdmin ::
  "(string \<Rightarrow> string option) \<Rightarrow> registry_store \<Rightarrow> gotime \<Rightarrow> registry_error + registry_store" where
  "EnsureDefaultAdmin gen s now =
     (if \<not> reg_up s then Inl ErrDb
      else if 0 < length (reg_accounts s) then Inr s
      else case gen ''admin'' of
             None \<Rightarrow> Inl ErrBcrypt
           | Some h \<Rightarrow> Inr (s\<lparr>reg_accounts := [\<lparr>Username = ''admin'', PasswordHash = h,
                 AaCreatedAt = unix_secs now, LastLogin = 0, MustChange = True\<rparr>]\<rparr>))"

definition reg_Open :: "(string \<Rightarrow> string option) \<Rightarrow> gotime \<Rightarrow> registry_store \<Rightarrow> registry_error + registry_store" where
  "reg_Open gen now s = (if \<not> reg_up s then Inl ErrDb else EnsureDefaultAdmin gen s now)"

definition reg_account :: "registry_store \<Rightarrow> string \<Rightarrow> AdminAccount option" where
  "reg_account s username = find (\<lambda>a. Username a = username) (reg_accounts s)"

definition reg_update_account :: "registry_store \<Rightarrow> string \<Rightarrow> (AdminAccount \<Rightarrow> AdminAccount) \<Rightarrow> registry_store" where
  "reg_update_account s username f =
     s\<lparr>reg_accounts := map (\<lambda>a. if Username a = username then f a else a) (reg_accounts s)\<rparr>"

definition reg_VerifyAdminLogin ::
  "(string \<Rightarrow> string \<Rightarrow> bool) \<Rightarrow> registry_store \<Rightarrow> gotime \<Rightarrow> string \<Rightarrow> string \<Rightarrow> registry_error + (bool \<times> registry_store)" where
  "reg_VerifyAdminLogin cmp s now username password =
     (if \<not> reg_up s then Inl ErrBadLogin
      else case reg_account s username of
             None \<Rightarrow> Inl ErrBadLogin
           | Some a \<Rightarrow>
               if \<not> cmp (PasswordHash a) password then Inl ErrBadLogin
               else Inr (MustChange a, reg_update_account s username (\<lambda>a. a\<lparr>LastLogin := unix_secs now\<rparr>)))"

definition reg_ChangeAdminPassword ::
  "(string \<Rightarrow> string option) \<Rightarrow> (string \<Rightarrow> string \<Rightarrow> bool) \<Rightarrow> registry_store \<Rightarrow> string \<Rightarrow> string \<Rightarrow> string \<Rightarrow>
   registry_error + registry_store" where
  "reg_ChangeAdminPassword gen cmp s username cur pw =
     (if \<not> reg_up s then Inl ErrBadLogin
      else case reg_account s username of
             None \<Rightarrow> Inl ErrBadLogin
           | Some a \<Rightarrow>
               if \<not> cmp (PasswordHash a) cur then Inl ErrBadLogin
               else if length pw < 4 then Inl ErrNewPassword
               else case gen pw of
                      None \<Rightarrow> Inl ErrBcrypt
                    | Some h \<Rightarrow> Inr (reg_update_account s username (\<lambda>a. a\<lparr>PasswordHash := h, MustChange := False\<rparr>)))"

definition reg_AdminMustChange :: "registry_store \<Rightarrow> string \<Rightarrow> registry_error + bool" where
  "reg_AdminMustChange s username =
     (if \<not> reg_up s then Inl ErrDb
      else case reg_account s username of None \<Rightarrow> Inl ErrNoAccount | Some a \<Rightarrow> Inr (MustChange a))"

definition adminSessionTTL :: gotime where
  "adminSessionTTL = secs (12 * 3600)"

definition reg_HashToken :: "string \<Rightarrow> string" where
  "reg_HashToken v = hex (Sum256 (str_bytes v))"

definition reg_CreateSession ::
  "registry_store \<Rightarrow> gotime \<Rightarrow> bytes option \<Rightarrow> string \<Rightarrow> registry_error + (string \<times> registry_store)" where
  "reg_CreateSession s now rand username =
     (case rand of
        None \<Rightarrow> Inl ErrRandRead
      | Some raw \<Rightarrow>
          let token = RawURLEncode raw; h = reg_HashToken token in
          if \<not> reg_up s then Inl ErrDb
          else if h \<in> SessHash ` set (reg_sessions s) then Inl ErrDb
          else Inr (token, s\<lparr>reg_sessions := reg_sessions s @
                 [\<lparr>SessHash = h, SessUser = username, SessCreated = unix_secs now,
                   SessExpires = unix_secs (now + adminSessionTTL)\<rparr>]\<rparr>))"

definition reg_drop_session :: "registry_store \<Rightarrow> string \<Rightarrow> registry_store" where
  "reg_drop_session s h = s\<lparr>reg_sessions := filter (\<lambda>r. SessHash r \<noteq> h) (reg_sessions s)\<rparr>"

definition reg_SessionUsername :: "registry_store \<Rightarrow> gotime \<Rightarrow> string \<Rightarrow> (registry_error + string) \<times> registry_store" where
  "reg_SessionUsername s now token =
     (if token = [] then (Inl ErrBadLogin, s)
      else if \<not> reg_up s then (Inl ErrBadLogin, s)
      else case find (\<lambda>r. SessHash r = reg_HashToken token) (reg_sessions s) of
             None \<Rightarrow> (Inl ErrBadLogin, s)
           | Some r \<Rightarrow>
               if unix_secs now > SessExpires r
               then (Inl ErrBadLogin, reg_drop_session s (reg_HashToken token))
               else (Inr (SessUser r), s))"

definition reg_DeleteSession :: "registry_store \<Rightarrow> string \<Rightarrow> registry_error + registry_store" where
  "reg_DeleteSession s token =
     (if token = [] then Inr s
      else if \<not> reg_up s then Inl ErrDb
      else Inr (reg_drop_session s (reg_HashToken token)))"

section \<open>Lemmas\<close>

lemma length_fmt03: "200 \<le> n \<Longrightarrow> n \<le> 999 \<Longrightarrow> length (fmt03 n) = 3"
  using length_dec [of 2 n] by (simp add: fmt03_def)

lemma fmt03_digits: "list_all is_digit (fmt03 n)"
  by (simp add: fmt03_def pad_left_digits dec_digits)

lemma undec_fmt03 [simp]: "undec (fmt03 n) 0 = n"
  by (simp add: fmt03_def)

lemma AllowedArea_fmt03:
  assumes "200 \<le> n" and "n \<le> 999"
  shows "AllowedArea (fmt03 n) \<longleftrightarrow> n \<noteq> 800 \<and> n \<noteq> 900"
proof -
  have "fmt03 n = c \<longleftrightarrow> n = undec c 0" if "list_all is_digit c" "length c = 3" for c
    using undec_inject [OF fmt03_digits that(1)] length_fmt03 [OF assms] that(2) by (metis undec_fmt03)
  from this [of "''800''"] this [of "''900''"] show ?thesis
    using assms length_fmt03 [OF assms] fmt03_digits by (auto simp: AllowedArea_def is_digit_def)
qed

lemma AllowedAreaE:
  assumes "AllowedArea c"
  obtains n where "200 \<le> n" "n \<le> 999" "c = fmt03 n"
proof
  show "200 \<le> undec c 0" "undec c 0 \<le> 999" using assms by (simp_all add: AllowedArea_def)
  with assms show "c = fmt03 (undec c 0)"
    by (intro undec_inject) (simp_all add: AllowedArea_def fmt03_digits length_fmt03)
qed

lemma AllowedArea_trim: "AllowedArea c \<Longrightarrow> TrimSpace c = c \<and> c \<noteq> []"
  by (auto simp: AllowedArea_def TrimSpace_digits)

lemma area_random_sound: "area_random used rnd i k = Some c \<Longrightarrow> AllowedArea c \<and> c \<notin> used"
proof (induction k arbitrary: i)
  case (Suc k)
  have "200 + rnd i mod 600 < 800" by simp
  then have "AllowedArea (fmt03 (200 + rnd i mod 600))" by (subst AllowedArea_fmt03) linarith+
  with Suc show ?case by (auto simp: Let_def split: if_splits)
qed simp

lemma area_scan_sound: "area_scan used n = Some c \<Longrightarrow> AllowedArea c \<and> c \<notin> used"
proof (induction used n rule: area_scan.induct)
  case (1 used n)
  from "1.prems" show ?case by (subst (asm) area_scan.simps) (auto split: if_splits dest: "1.IH")
qed

lemma area_scan_None:
  "area_scan used n = None \<Longrightarrow> n \<le> m \<Longrightarrow> m \<le> 999 \<Longrightarrow> AllowedArea (fmt03 m) \<Longrightarrow> fmt03 m \<in> used"
proof (induction used n rule: area_scan.induct)
  case (1 used n)
  have "n \<le> 999" using 1 by simp
  with 1 have no: "\<not> (fmt03 n \<notin> used \<and> AllowedArea (fmt03 n))" and rest: "area_scan used (n + 1) = None"
    by (metis area_scan.simps option.distinct(1))+
  show ?case
  proof (cases "m = n")
    case False
    then show ?thesis using 1 no rest \<open>n \<le> 999\<close> by simp
  qed (use no 1 in auto)
qed

lemma pickFree_sound: "pickFree rnd s = Inr c \<Longrightarrow> AllowedArea c \<and> c \<notin> SiAreaCode ` set (ocn_servers s)"
  by (auto simp: pickFree_def Let_def dest: area_random_sound area_scan_sound split: if_splits option.splits)

lemma pickFree_total:
  assumes "reg_up s" and "AllowedArea c" and "c \<notin> SiAreaCode ` set (ocn_servers s)"
  shows "\<exists>d. pickFree rnd s = Inr d"
proof -
  from assms(2) obtain n where "200 \<le> n" "n \<le> 999" "c = fmt03 n" by (rule AllowedAreaE)
  then have "area_scan (SiAreaCode ` set (ocn_servers s)) 200 \<noteq> None"
    using area_scan_None [of _ 200 n] assms by blast
  then show ?thesis using assms(1) by (auto simp: pickFree_def Let_def split: option.splits)
qed

lemma pickFree_error: "pickFree rnd s = Inl e \<Longrightarrow> reg_up s \<Longrightarrow> e = ErrNoFreeAreas"
  by (auto simp: pickFree_def Let_def split: if_splits option.splits)

text \<open>The exchanges as a map from area codes, which is how the rest of the network sees them.\<close>

definition server_of :: "registry_store \<Rightarrow> string \<Rightarrow> ServerInfo option" where
  "server_of s area = find (\<lambda>r. SiAreaCode r = area) (ocn_servers s)"

definition number_of :: "registry_store \<Rightarrow> string \<Rightarrow> ServiceNumber option" where
  "number_of s full = find (\<lambda>n. SnFullNumber n = full) (service_numbers s)"

lemma find_map_key:
  "(\<And>x. key (f x) = key x) \<Longrightarrow>
   find (\<lambda>x. key x = k) (map (\<lambda>x. if key x = k' then f x else x) xs) =
   (if k = k' then map_option f (find (\<lambda>x. key x = k) xs) else find (\<lambda>x. key x = k) xs)"
  by (induction xs) auto

lemma find_filter_key:
  "find (\<lambda>x. key x = k) (filter (\<lambda>x. key x \<noteq> k') xs) = (if k = k' then None else find (\<lambda>x. key x = k) xs)"
  by (induction xs) (auto simp: find_None_iff)

lemma find_key_None: "find (\<lambda>x. key x = k) xs = None \<longleftrightarrow> k \<notin> key ` set xs"
  by (auto simp: find_None_iff)

lemma server_of_area: "server_of s area = Some r \<Longrightarrow> SiAreaCode r = area \<and> r \<in> set (ocn_servers s)"
  by (auto simp: server_of_def find_Some_iff)

lemma area_exists_iff: "area_exists s code \<longleftrightarrow> server_of s code \<noteq> None"
  by (auto simp: area_exists_def server_of_def find_None_iff filter_empty_conv)

lemma get_server_of:
  "get_server s area = (if \<not> reg_up s then Inl ErrDb
     else case server_of s area of None \<Rightarrow> Inl ErrServerNotFound | Some r \<Rightarrow> Inr r)"
  by (simp add: get_server_def server_of_def)

lemma server_of_refresh [simp]:
  "server_of (refresh_server info code s) a =
   (if a = code then map_option (\<lambda>r. r\<lparr>SiName := SiName info, SiDescription := SiDescription info,
      SiServerAddr := SiServerAddr info, SiStatus := ''ACTIVE''\<rparr>) (server_of s a) else server_of s a)"
  by (simp add: server_of_def refresh_server_def find_map_key [where key = SiAreaCode])

text \<open>What a successful registration does: a new row with the assigned code, or new details for the same key.\<close>

definition registered :: "registry_store \<Rightarrow> gotime \<Rightarrow> ServerInfo \<Rightarrow> string \<Rightarrow> ServerInfo" where
  "registered s now info code =
     (case server_of s code of
        None \<Rightarrow> info\<lparr>SiAreaCode := code, SiRegisteredAt := unix_secs now, SiStatus := ''ACTIVE''\<rparr>
      | Some r \<Rightarrow> r\<lparr>SiName := SiName info, SiDescription := SiDescription info,
                     SiServerAddr := SiServerAddr info, SiStatus := ''ACTIVE''\<rparr>)"

lemma insert_server_result:
  "insert_server s now info c = Inr (code, s') \<Longrightarrow>
   code = c \<and> server_of s c = None \<and> s' = s\<lparr>ocn_servers := ocn_servers s @ [registered s now info c]\<rparr>"
  by (simp add: insert_server_def server_of_def find_key_None registered_def split: if_splits option.splits)
    (metis find_key_None option.distinct(1))

lemma RegisterServer_result:
  assumes "RegisterServer rnd s now info = Inr (code, s')"
  shows "AllowedArea code" and "TrimSpace (SiAreaCode info) \<noteq> [] \<longrightarrow> code = TrimSpace (SiAreaCode info)"
    and "server_of s code = None \<and> s' = s\<lparr>ocn_servers := ocn_servers s @ [registered s now info code]\<rparr> \<or>
         (\<exists>r. server_of s code = Some r \<and> SiPublicKey r = SiPublicKey info \<and> s' = refresh_server info code s)"
  using assms
  by (auto simp: RegisterServer_def Let_def area_exists_iff server_of_def [symmetric] dest: pickFree_sound insert_server_result
      split: if_splits sum.splits option.splits)

lemma RegisterServer_server_of:
  assumes "RegisterServer rnd s now info = Inr (code, s')"
  shows "server_of s' a = (if a = code then Some (registered s now info code) else server_of s a)"
  using RegisterServer_result(3) [OF assms]
proof (elim disjE exE conjE)
  assume "server_of s code = None" "s' = s\<lparr>ocn_servers := ocn_servers s @ [registered s now info code]\<rparr>"
  then show ?thesis
    by (auto simp: server_of_def find_append registered_def split: option.splits)
qed (auto simp: registered_def)

lemma RegisterServer_same:
  assumes "RegisterServer rnd s now info = Inr (code, s')"
  shows "reg_up s' = reg_up s" "service_numbers s' = service_numbers s" "reg_sessions s' = reg_sessions s"
    "reg_accounts s' = reg_accounts s" "reg_up s"
  using RegisterServer_result(3) [OF assms] assms
  by (auto simp: refresh_server_def RegisterServer_def split: if_splits)

lemma registered_fields:
  assumes "RegisterServer rnd s now info = Inr (code, s')"
  shows "SiStatus (registered s now info code) = ''ACTIVE'' \<and> SiAreaCode (registered s now info code) = code \<and>
         SiServerAddr (registered s now info code) = SiServerAddr info \<and>
         SiPublicKey (registered s now info code) = SiPublicKey info"
  using RegisterServer_result(3) [OF assms] server_of_area
  by (auto simp: registered_def split: option.splits)

lemma GetRoute_of:
  "GetRoute s area = Inr r \<longleftrightarrow> reg_up s \<and> server_of s area = Some r \<and> SiStatus r = ''ACTIVE''"
  by (auto simp: GetRoute_def get_server_of split: option.splits if_splits)

lemma DeregisterServer_result:
  assumes "DeregisterServer ed s now area ts sig = Inr s'"
  shows "reg_up s" "\<exists>r. server_of s area = Some r \<and> ValidAuth ed now (SiPublicKey r) area ts sig = Inr True"
    "s' = s\<lparr>ocn_servers := filter (\<lambda>r. SiAreaCode r \<noteq> area) (ocn_servers s)\<rparr>"
    "server_of s' a = (if a = area then None else server_of s a)"
  using assms
  by (auto simp: DeregisterServer_def get_server_of server_of_def find_filter_key [where key = SiAreaCode]
      split: sum.splits option.splits bool.splits if_splits)

section \<open>The invariant of the tables\<close>

definition server_ok :: "ServerInfo \<Rightarrow> bool" where
  "server_ok r \<longleftrightarrow> AllowedArea (SiAreaCode r) \<and> length (SiPublicKey r) = 32 \<and> SiStatus r = ''ACTIVE'' \<and> SiServerAddr r \<noteq> []"

definition number_ok :: "ServiceNumber \<Rightarrow> bool" where
  "number_ok n \<longleftrightarrow> AllowedServiceFull (SnFullNumber n) \<and> SnStatus n \<in> {''ACTIVE'', ''SUSPENDED''} \<and>
     AllowedArea (SnHostArea n)"

definition registry_ok :: "registry_store \<Rightarrow> bool" where
  "registry_ok s \<longleftrightarrow>
     distinct (map SiAreaCode (ocn_servers s)) \<and> list_all server_ok (ocn_servers s) \<and>
     distinct (map SnFullNumber (service_numbers s)) \<and> list_all number_ok (service_numbers s)"

lemma map_key_same: "(\<And>x. key (f x) = key x) \<Longrightarrow> map key (map (\<lambda>x. if key x = k then f x else x) xs) = map key xs"
  by (induction xs) auto

lemma server_of_ok: "registry_ok s \<Longrightarrow> server_of s a = Some r \<Longrightarrow> server_ok r"
  by (auto simp: registry_ok_def list_all_iff dest: server_of_area)

lemma server_of_member: "registry_ok s \<Longrightarrow> r \<in> set (ocn_servers s) \<Longrightarrow> server_of s (SiAreaCode r) = Some r"
  unfolding server_of_def registry_ok_def by (rule find_unique [where f = SiAreaCode]) auto

lemma number_of_member: "registry_ok s \<Longrightarrow> n \<in> set (service_numbers s) \<Longrightarrow> number_of s (SnFullNumber n) = Some n"
  unfolding number_of_def registry_ok_def by (rule find_unique [where f = SnFullNumber]) auto

lemma RegisterServer_ok:
  assumes "RegisterServer rnd s now info = Inr (code, s')" and "registry_ok s"
    and "length (SiPublicKey info) = 32" and "SiServerAddr info \<noteq> []"
  shows "registry_ok s'"
  using RegisterServer_result(3) [OF assms(1)]
proof (elim disjE exE conjE)
  assume a: "server_of s code = None" "s' = s\<lparr>ocn_servers := ocn_servers s @ [registered s now info code]\<rparr>"
  then have "code \<notin> SiAreaCode ` set (ocn_servers s)" by (simp add: server_of_def find_key_None)
  then show ?thesis using a assms registered_fields [OF assms(1)] RegisterServer_result(1) [OF assms(1)]
    by (auto simp: registry_ok_def server_ok_def)
next
  fix r
  assume "s' = refresh_server info code s"
  then show ?thesis using assms
    by (auto simp: registry_ok_def refresh_server_def server_ok_def list_all_iff comp_def
        map_key_same [where key = SiAreaCode, unfolded map_map comp_def])
qed

lemma DeregisterServer_ok: "DeregisterServer ed s now area ts sig = Inr s' \<Longrightarrow> registry_ok s \<Longrightarrow> registry_ok s'"
  by (drule DeregisterServer_result(3)) (auto simp: registry_ok_def distinct_map_filter list_all_iff)

lemma ClaimServiceNumber_result:
  assumes "ClaimServiceNumber s now sn = Inr s'"
  shows "AllowedServiceFull (SnFullNumber sn)" "number_of s (SnFullNumber sn) = None"
    "\<exists>r \<in> set (ocn_servers s). SiAreaCode r = SnHostArea sn \<and> SiStatus r = ''ACTIVE''"
    "s' = s\<lparr>service_numbers := service_numbers s @ [sn\<lparr>SnStatus := ''ACTIVE'', SnCreatedAt := unix_secs now\<rparr>]\<rparr>"
    "reg_up s"
  using assms
  by (auto simp: ClaimServiceNumber_def number_of_def find_key_None [where key = SnFullNumber] split: if_splits)

lemma ClaimServiceNumber_ok: "ClaimServiceNumber s now sn = Inr s' \<Longrightarrow> registry_ok s \<Longrightarrow> registry_ok s'"
  using ClaimServiceNumber_result [of s now sn s']
  by (auto simp: registry_ok_def number_ok_def server_ok_def list_all_iff number_of_def find_key_None [where key = SnFullNumber])

lemma SetServiceStatus_ok: "SetServiceStatus s full st = Inr s' \<Longrightarrow> registry_ok s \<Longrightarrow> registry_ok s'"
  by (auto simp: SetServiceStatus_def registry_ok_def number_ok_def list_all_iff comp_def
      map_key_same [where key = SnFullNumber, unfolded map_map comp_def] split: if_splits)

lemma DeleteServiceNumber_ok: "DeleteServiceNumber s full = Inr s' \<Longrightarrow> registry_ok s \<Longrightarrow> registry_ok s'"
  by (auto simp: DeleteServiceNumber_def registry_ok_def distinct_map_filter list_all_iff split: if_splits)

lemma registry_ok_cong:
  "ocn_servers s' = ocn_servers s \<Longrightarrow> service_numbers s' = service_numbers s \<Longrightarrow> registry_ok s' = registry_ok s"
  by (simp add: registry_ok_def)

lemma no_panic:
  assumes "registry_ok s"
  shows "DeregisterServer ed s now area ts sig \<noteq> Inl (RegPanic m)" "VerifyPushAuth ed s now area ts msg sig \<noteq> Inl (RegPanic m)"
  using server_of_ok [OF assms]
  by (auto simp: DeregisterServer_def VerifyPushAuth_def get_server_of ValidAuth_def Verify_def server_ok_def Let_def
      split: option.splits sum.splits bool.splits if_splits)

section \<open>Sessions\<close>

definition registry_create :: "registry_store \<Rightarrow> gotime \<Rightarrow> bytes \<Rightarrow> string \<Rightarrow> registry_error + (string \<times> registry_store)" where
  "registry_create s now raw u = (if raw = [] then Inl ErrRandRead else reg_CreateSession s now (Some raw) u)"

definition registry_sess :: "registry_store \<Rightarrow> string \<Rightarrow> (string \<times> int) option" where
  "registry_sess s t =
     (if t = [] \<or> \<not> reg_up s then None
      else map_option (\<lambda>r. (SessUser r, SessExpires r)) (find (\<lambda>r. SessHash r = reg_HashToken t) (reg_sessions s)))"

lemma registry_create_result:
  "registry_create s now raw u = Inr (tok, s') \<Longrightarrow>
   tok \<noteq> [] \<and> reg_up s \<and> find (\<lambda>r. SessHash r = reg_HashToken tok) (reg_sessions s) = None \<and>
   s' = s\<lparr>reg_sessions := reg_sessions s @ [\<lparr>SessHash = reg_HashToken tok, SessUser = u,
      SessCreated = unix_secs now, SessExpires = unix_secs (now + adminSessionTTL)\<rparr>]\<rparr>"
  by (auto simp: registry_create_def reg_CreateSession_def Let_def find_hash_None split: if_splits)

lemma registry_sess_drop:
  "registry_sess (reg_drop_session s (reg_HashToken t)) t' =
   (if t' \<noteq> [] \<and> reg_HashToken t' = reg_HashToken t then None else registry_sess s t')"
  by (simp add: registry_sess_def reg_drop_session_def find_filter_key [where key = SessHash])

interpretation registry_sessions: session_table registry_create reg_SessionUsername reg_DeleteSession
  "\<lambda>t t'. t \<noteq> [] \<and> t' \<noteq> [] \<and> reg_HashToken t = reg_HashToken t'" adminSessionTTL registry_sess ErrBadLogin
proof
  fix s :: registry_store and now :: gotime and raw u tok s' t
  assume "registry_create s now raw u = Inr (tok, s')"
  note r = registry_create_result [OF this]
  show "registry_sess s' t = (if t \<noteq> [] \<and> tok \<noteq> [] \<and> reg_HashToken t = reg_HashToken tok
      then Some (u, unix_secs (now + adminSessionTTL)) else registry_sess s t)"
    using r by (auto simp: registry_sess_def find_append split: option.splits)
  show "tok \<noteq> [] \<and> tok \<noteq> [] \<and> reg_HashToken tok = reg_HashToken tok" using r by simp
next
  fix s tok s' t
  assume "reg_DeleteSession s tok = Inr s'"
  then show "registry_sess s' t = (if t \<noteq> [] \<and> tok \<noteq> [] \<and> reg_HashToken t = reg_HashToken tok then None else registry_sess s t)"
    by (auto simp: reg_DeleteSession_def registry_sess_drop split: if_splits)
qed (auto simp: registry_sess_def reg_SessionUsername_def reg_drop_session_def find_filter_key [where key = SessHash]
    split: option.splits if_splits)

end
