(* ===== verification/Push.thy ===== *)
theory Push
  imports OCN_Prelude
begin

text \<open>
  The two senders of wake-up notifications: the Firebase client of an exchange
  (\<open>ocnserver/internal/fcm/fcm.go\<close>) and the shared one of the registry server
  (\<open>registry_server/internal/push/firebase.go\<close>), behind the interface
  \<open>ocnserver/internal/push/push.go\<close>.

  The messaging service is a parameter: \<open>provider m\<close> is the error text of \<open>messaging.Send\<close>, \<open>None\<close> when it
  accepted the message. A client that could not be created is \<open>None\<close>. The outcome \<open>PushPanic m\<close> is a
  run-time panic after \<open>m\<close> was sent.
\<close>

record PushMessage =
  pm_Token :: string
  pm_Priority :: string
  pm_Data :: "(string, string) gomap"

type_synonym provider = "PushMessage \<Rightarrow> string option"

datatype push_result = PushErr string | PushSent PushMessage | PushPanic PushMessage

definition call_message :: "string \<Rightarrow> string \<Rightarrow> string \<Rightarrow> string \<Rightarrow> PushMessage" where
  "call_message token callID callerNumber callerName =
     \<lparr>pm_Token = token, pm_Priority = ''high'',
      pm_Data = [(''type'', ''incoming_call''), (''call_id'', callID),
                 (''caller_number'', callerNumber), (''caller_name'', callerName)]\<rparr>"

definition notice_message :: "string \<Rightarrow> string \<Rightarrow> string \<Rightarrow> string \<Rightarrow> PushMessage" where
  "notice_message ty token number name =
     \<lparr>pm_Token = token, pm_Priority = ''high'',
      pm_Data = [(''type'', ty), (''caller_number'', number), (''caller_name'', name)]\<rparr>"

section \<open>The registry server's client: firebase.go\<close>

text \<open>
  Creating a client: \<open>raw\<close> is the service account file, \<open>project\<close> the project its JSON names, \<open>app\<close> and \<open>msg\<close> the
  results of the Firebase library.
\<close>

definition reg_NewClient ::
  "string + bytes \<Rightarrow> (bytes \<Rightarrow> string + string) \<Rightarrow> (string \<Rightarrow> string option) \<Rightarrow> string + provider \<Rightarrow> string + provider" where
  "reg_NewClient raw project app msg =
     (case raw of
        Inl e \<Rightarrow> Inl (''read service account: '' @ e)
      | Inr data \<Rightarrow>
     (case project data of
        Inl e \<Rightarrow> Inl (''parse service account: '' @ e)
      | Inr pid \<Rightarrow>
     (case app pid of
        Some e \<Rightarrow> Inl (''init firebase app: '' @ e)
      | None \<Rightarrow>
     (case msg of Inl e \<Rightarrow> Inl (''init messaging client: '' @ e) | Inr client \<Rightarrow> Inr client))))"

definition truncate :: "string \<Rightarrow> nat \<Rightarrow> string" where
  "truncate s n = (if length s \<le> n then s else take n s)"

definition reg_send :: "provider option \<Rightarrow> string \<Rightarrow> PushMessage \<Rightarrow> push_result" where
  "reg_send c context msg =
     (case c of
        None \<Rightarrow> PushErr ''push client not initialized''
      | Some send \<Rightarrow> (case send msg of Some err \<Rightarrow> PushErr (context @ '': '' @ err) | None \<Rightarrow> PushSent msg))"

definition reg_SendCallNotification :: "provider option \<Rightarrow> string \<Rightarrow> string \<Rightarrow> string \<Rightarrow> string \<Rightarrow> push_result" where
  "reg_SendCallNotification c token callID callerNumber callerName =
     reg_send c ''send fcm message'' (call_message token callID callerNumber callerName)"

definition reg_SendVoicemailNotification :: "provider option \<Rightarrow> string \<Rightarrow> string \<Rightarrow> string \<Rightarrow> push_result" where
  "reg_SendVoicemailNotification c token callerNumber callerName =
     reg_send c ''send fcm voicemail message'' (notice_message ''voicemail'' token callerNumber callerName)"

definition reg_SendMessageNotification :: "provider option \<Rightarrow> string \<Rightarrow> string \<Rightarrow> string \<Rightarrow> push_result" where
  "reg_SendMessageNotification c token fromNumber fromName =
     reg_send c ''send fcm message notification'' (notice_message ''message'' token fromNumber fromName)"

section \<open>The exchange's client: fcm.go\<close>

definition fcm_NewClient :: "string option \<Rightarrow> string + provider \<Rightarrow> string + provider" where
  "fcm_NewClient app msg =
     (case app of
        Some e \<Rightarrow> Inl (''failed to initialize firebase app: '' @ e)
      | None \<Rightarrow> (case msg of Inl e \<Rightarrow> Inl (''failed to get messaging client: '' @ e) | Inr client \<Rightarrow> Inr client))"

text \<open>After a message is sent, the log line slices the token with \<open>token[:20]\<close>.\<close>

definition fcm_send :: "provider option \<Rightarrow> string \<Rightarrow> PushMessage \<Rightarrow> push_result" where
  "fcm_send c context msg =
     (case c of
        None \<Rightarrow> PushErr ''FCM client not initialized''
      | Some send \<Rightarrow>
          (case send msg of
             Some err \<Rightarrow> PushErr (context @ '': '' @ err)
           | None \<Rightarrow> if length (pm_Token msg) < 20 then PushPanic msg else PushSent msg))"

definition fcm_SendCallNotification :: "provider option \<Rightarrow> string \<Rightarrow> string \<Rightarrow> string \<Rightarrow> string \<Rightarrow> push_result" where
  "fcm_SendCallNotification c token callID callerNumber callerName =
     fcm_send c ''failed to send FCM message'' (call_message token callID callerNumber callerName)"

definition fcm_SendVoicemailNotification :: "provider option \<Rightarrow> string \<Rightarrow> string \<Rightarrow> string \<Rightarrow> push_result" where
  "fcm_SendVoicemailNotification c token callerNumber callerName =
     fcm_send c ''failed to send FCM voicemail message'' (notice_message ''voicemail'' token callerNumber callerName)"

definition fcm_SendMessageNotification :: "provider option \<Rightarrow> string \<Rightarrow> string \<Rightarrow> string \<Rightarrow> push_result" where
  "fcm_SendMessageNotification c token fromNumber fromName =
     fcm_send c ''failed to send FCM message notification'' (notice_message ''message'' token fromNumber fromName)"

section \<open>Lemmas\<close>

lemma reg_send_sent: "reg_send (Some send) ctx msg = PushSent m \<longleftrightarrow> m = msg \<and> send msg = None"
  by (auto simp: reg_send_def split: option.splits)

lemma reg_send_no_panic: "reg_send c ctx msg \<noteq> PushPanic m"
  by (simp add: reg_send_def split: option.splits)

end
