(* ===== verification/Registry_Svc.thy ===== *)
theory Registry_Svc
  imports Registry_Store Push
begin

text \<open>
  The gRPC service of the registry server (\<open>registry_server/internal/registrysvc/service.go\<close>) and its
  operator panel (\<open>internal/adminapi/adminapi.go\<close>), over the store of \<open>Registry_Store\<close>.

  A request is a record of its fields. The error text \<open>err.Error()\<close> of a store error is the error
  itself (\<open>Of e\<close>), since the text of a database error is SQLite's. A panic in a gRPC handler ends
  the process (\<open>GCrash\<close>); \<open>net/http\<close> recovers panics of the panel handlers, which have none. JSON
  bodies are given decoded, \<open>None\<close> when decoding fails; JSON answers are values of \<open>json\<close>.
\<close>

datatype grpc_code = InvalidArgument | ResourceExhausted | Internal | NotFound | PermissionDenied | Unavailable

datatype errmsg = Lit string | Of registry_error | Push string

datatype grpc_error = GStatus grpc_code errmsg | GCrash

section \<open>registrysvc/service.go\<close>

record registry_server =
  rs_store :: registry_store
  rs_push :: "provider option option"
  rs_stun :: "string list"
  rs_turnHost :: string
  rs_turnUser :: string
  rs_turnPass :: string

definition reg_New :: "registry_store \<Rightarrow> provider option option \<Rightarrow> string list \<Rightarrow> registry_server" where
  "reg_New st pusher stun = \<lparr>rs_store = st, rs_push = pusher, rs_stun = stun, rs_turnHost = [], rs_turnUser = [], rs_turnPass = []\<rparr>"

definition SetTURN :: "registry_server \<Rightarrow> string \<Rightarrow> string \<Rightarrow> string \<Rightarrow> registry_server" where
  "SetTURN s host username password = s\<lparr>rs_turnHost := host, rs_turnUser := username, rs_turnPass := password\<rparr>"

record RegisterOCNServerRequest =
  rq_Name :: string
  rq_Description :: string
  rq_ServerAddress :: string
  rq_RequestedAreaCode :: string
  rq_PublicKey :: bytes

record RegisterOCNServerResponse =
  rp_Success :: bool
  rp_AssignedAreaCode :: string
  rp_ErrorMessage :: "registry_error option"

definition request_info :: "RegisterOCNServerRequest \<Rightarrow> ServerInfo" where
  "request_info req =
     \<lparr>SiAreaCode = rq_RequestedAreaCode req, SiName = rq_Name req, SiDescription = rq_Description req,
      SiServerAddr = rq_ServerAddress req, SiPublicKey = rq_PublicKey req, SiRegisteredAt = 0, SiStatus = []\<rparr>"

definition RegisterOCNServer ::
  "(nat \<Rightarrow> nat) \<Rightarrow> gotime \<Rightarrow> registry_server \<Rightarrow> RegisterOCNServerRequest \<Rightarrow>
   (grpc_error + RegisterOCNServerResponse) \<times> registry_server" where
  "RegisterOCNServer rnd now s req =
     (if rq_ServerAddress req = [] then (Inl (GStatus InvalidArgument (Lit ''server_address is required'')), s)
      else if length (rq_PublicKey req) \<noteq> 32
      then (Inl (GStatus InvalidArgument (Lit ''ocnserver_public_key must be a 32-byte Ed25519 key'')), s)
      else case RegisterServer rnd (rs_store s) now (request_info req) of
             Inl e \<Rightarrow>
               ((if e \<in> {ErrAreaInvalid, ErrAreaTaken}
                 then Inr \<lparr>rp_Success = False, rp_AssignedAreaCode = [], rp_ErrorMessage = Some e\<rparr>
                 else if e = ErrNoFreeAreas then Inl (GStatus ResourceExhausted (Of e))
                 else Inl (GStatus Internal (Of e))), s)
           | Inr (code, st) \<Rightarrow>
               (Inr \<lparr>rp_Success = True, rp_AssignedAreaCode = code, rp_ErrorMessage = None\<rparr>, s\<lparr>rs_store := st\<rparr>))"

definition DeregisterOCNServer ::
  "ed25519 \<Rightarrow> gotime \<Rightarrow> registry_server \<Rightarrow> string \<Rightarrow> int \<Rightarrow> bytes \<Rightarrow> (grpc_error + unit) \<times> registry_server" where
  "DeregisterOCNServer ed now s area ts sig =
     (case DeregisterServer ed (rs_store s) now area ts sig of
        Inl (RegPanic m) \<Rightarrow> (Inl GCrash, s)
      | Inl e \<Rightarrow>
          ((if e = ErrServerNotFound then Inl (GStatus NotFound (Of e))
            else if e = ErrBadSignature \<or> e = ErrBadTimestamp then Inl (GStatus PermissionDenied (Of e))
            else Inl (GStatus Internal (Of e))), s)
      | Inr st \<Rightarrow> (Inr (), s\<lparr>rs_store := st\<rparr>))"

record OCNServerInfo =
  oi_AreaCode :: string
  oi_Name :: string
  oi_Description :: string
  oi_ServerAddress :: string
  oi_PublicKey :: bytes
  oi_RegisteredAt :: int
  oi_Status :: string

definition to_info :: "ServerInfo \<Rightarrow> OCNServerInfo" where
  "to_info sv = \<lparr>oi_AreaCode = SiAreaCode sv, oi_Name = SiName sv, oi_Description = SiDescription sv,
     oi_ServerAddress = SiServerAddr sv, oi_PublicKey = SiPublicKey sv, oi_RegisteredAt = SiRegisteredAt sv,
     oi_Status = SiStatus sv\<rparr>"

definition ListOCNServers :: "registry_server \<Rightarrow> int \<Rightarrow> grpc_error + (32 word \<times> OCNServerInfo list)" where
  "ListOCNServers s pageSize =
     (case ListServers (rs_store s) pageSize of
        Inl e \<Rightarrow> Inl (GStatus Internal (Of e))
      | Inr list \<Rightarrow> Inr (word_of_nat (length list), map to_info list))"

record GetRouteResponse =
  gr_Found :: bool
  gr_Ocnserver :: "OCNServerInfo option"

definition svc_GetRoute :: "registry_server \<Rightarrow> string \<Rightarrow> GetRouteResponse" where
  "svc_GetRoute s area =
     (case GetRoute (rs_store s) area of
        Inl _ \<Rightarrow> \<lparr>gr_Found = False, gr_Ocnserver = None\<rparr>
      | Inr info \<Rightarrow> \<lparr>gr_Found = True, gr_Ocnserver = Some (to_info info)\<rparr>)"

record ResolveServiceResponse =
  rr_Found :: bool
  rr_FullNumber :: string
  rr_Vanity :: string
  rr_Name :: string
  rr_Description :: string
  rr_Ocnserver :: "OCNServerInfo option"

definition svc_ResolveService :: "registry_server \<Rightarrow> string \<Rightarrow> ResolveServiceResponse" where
  "svc_ResolveService s full =
     (case ResolveService (rs_store s) full of
        Inl _ \<Rightarrow> \<lparr>rr_Found = False, rr_FullNumber = full, rr_Vanity = [], rr_Name = [], rr_Description = [], rr_Ocnserver = None\<rparr>
      | Inr (sn, host) \<Rightarrow>
          \<lparr>rr_Found = True, rr_FullNumber = SnFullNumber sn, rr_Vanity = SnVanity sn, rr_Name = SnName sn,
           rr_Description = SnDescription sn, rr_Ocnserver = Some (to_info host)\<rparr>)"

record PbICEServer =
  pi_Urls :: "string list"
  pi_Username :: string
  pi_Credential :: string

definition GetICECandidates :: "registry_server \<Rightarrow> PbICEServer list \<times> string" where
  "GetICECandidates s =
     (map (\<lambda>c. \<lparr>pi_Urls = [''stun:'' @ c], pi_Username = [], pi_Credential = []\<rparr>) (rs_stun s) @
      (if rs_turnHost s \<noteq> [] \<and> rs_turnUser s \<noteq> [] then
         [\<lparr>pi_Urls = [''turn:'' @ rs_turnHost s @ ''?transport=udp'', ''turn:'' @ rs_turnHost s @ ''?transport=tcp''],
           pi_Username = rs_turnUser s, pi_Credential = rs_turnPass s\<rparr>]
       else []),
      fold (\<lambda>c addr. if addr = [] then c else addr) (rs_stun s) [])"

record PushDeviceRequest =
  pq_Token :: string
  pq_CallId :: string
  pq_CallerNumber :: string
  pq_CallerName :: string
  pq_AreaCode :: string
  pq_Timestamp :: int
  pq_Signature :: bytes
  pq_MessageType :: string

definition push_dispatch :: "provider option \<Rightarrow> PushDeviceRequest \<Rightarrow> grpc_error + push_result" where
  "push_dispatch c req =
     (if pq_MessageType req = ''voicemail''
      then Inr (reg_SendVoicemailNotification c (pq_Token req) (pq_CallerNumber req) (pq_CallerName req))
      else if pq_MessageType req = ''message''
      then Inr (reg_SendMessageNotification c (pq_Token req) (pq_CallerNumber req) (pq_CallerName req))
      else if pq_CallId req = [] then Inl (GStatus InvalidArgument (Lit ''token and call_id are required''))
      else Inr (reg_SendCallNotification c (pq_Token req) (pq_CallId req) (pq_CallerNumber req) (pq_CallerName req)))"

definition PushDevice :: "ed25519 \<Rightarrow> gotime \<Rightarrow> registry_server \<Rightarrow> PushDeviceRequest \<Rightarrow> grpc_error + PushMessage" where
  "PushDevice ed now s req =
     (case rs_push s of
        None \<Rightarrow> Inl (GStatus Unavailable (Lit ''registry push not configured''))
      | Some c \<Rightarrow>
          (case VerifyPushAuth ed (rs_store s) now (pq_AreaCode req) (pq_Timestamp req) (pq_Token req) (pq_Signature req) of
             Inl (RegPanic m) \<Rightarrow> Inl GCrash
           | Inl e \<Rightarrow> Inl (GStatus PermissionDenied (Of e))
           | Inr _ \<Rightarrow>
               if pq_Token req = [] then Inl (GStatus InvalidArgument (Lit ''token is required''))
               else (case push_dispatch c req of
                       Inl e \<Rightarrow> Inl e
                     | Inr (PushErr e) \<Rightarrow> Inl (GStatus Unavailable (Push e))
                     | Inr (PushSent m) \<Rightarrow> Inr m
                     | Inr (PushPanic m) \<Rightarrow> Inl GCrash)))"

end
