(* ===== verification/Registry_Panel.thy ===== *)
theory Registry_Panel
  imports Registry_Svc Http
begin

text \<open>
  The operator panel of the registry server (\<open>registry_server/internal/adminapi/adminapi.go\<close>).

  A handler maps the store to the answer and the new store. A request body is given decoded, with
  \<open>None\<close> for a body \<open>readJSON\<close> rejects; \<open>serve\<close> is the routing table of \<open>Handler\<close>, without the static
  files. The texts of the errors are those of the source; \<open>fault\<close> gives the text of the errors that
  come from SQLite, bcrypt and the random source.
\<close>

fun reg_error_text :: "(registry_error \<Rightarrow> string) \<Rightarrow> registry_error \<Rightarrow> string" where
  "reg_error_text fault ErrAreaInvalid = ''area code must be a 3-digit number in 200-999 (800 and 900 are reserved)''"
| "reg_error_text fault ErrAreaTaken = ''area code already in use''"
| "reg_error_text fault ErrNoFreeAreas = ''no free area codes''"
| "reg_error_text fault ErrServerNotFound = ''server not found''"
| "reg_error_text fault ErrBadSignature = ''invalid signature''"
| "reg_error_text fault ErrBadTimestamp = ''timestamp out of range''"
| "reg_error_text fault ErrServiceInvalid = ''service number must be 10 digits starting with 800 or 900''"
| "reg_error_text fault ErrServiceTaken = ''service number already in use''"
| "reg_error_text fault ErrServiceNotFound = ''service number not found''"
| "reg_error_text fault ErrInvalidStatus = ''invalid status''"
| "reg_error_text fault ErrBadLogin = ''invalid username or password''"
| "reg_error_text fault ErrNewPassword = ''new password must be at least 4 characters''"
| "reg_error_text fault e = fault e"

record LoginRequest =
  lr_Username :: string
  lr_Password :: string

record PasswordRequest =
  pw_OldPassword :: string
  pw_NewPassword :: string

record ClaimRequest =
  cr_FullNumber :: string
  cr_Vanity :: string
  cr_Name :: string
  cr_Description :: string
  cr_HostArea :: string

datatype panel_request =
    PLogin "LoginRequest option" | PMe | PLogout | PPassword "PasswordRequest option"
  | PExchanges | PServices | PClaim "ClaimRequest option" | PStatus string "string option" | PDelete string

record panel_env =
  pe_gen :: "string \<Rightarrow> string option"
  pe_cmp :: "string \<Rightarrow> string \<Rightarrow> bool"
  pe_rand :: "bytes option"
  pe_fault :: "registry_error \<Rightarrow> string"

definition require ::
  "gotime \<Rightarrow> http_req \<Rightarrow> (string \<Rightarrow> registry_store \<Rightarrow> http_resp \<times> registry_store) \<Rightarrow> registry_store \<Rightarrow>
   http_resp \<times> registry_store" where
  "require now r next_handler s =
     (case reg_SessionUsername s now (bearer_token r) of
        (Inl _, s) \<Rightarrow> ((401, err_json ''not authenticated''), s)
      | (Inr u, s) \<Rightarrow> next_handler u s)"

definition reg_handleLogin :: "panel_env \<Rightarrow> gotime \<Rightarrow> LoginRequest option \<Rightarrow> registry_store \<Rightarrow> http_resp \<times> registry_store" where
  "reg_handleLogin pe now body s =
     (case body of
        None \<Rightarrow> ((400, err_json ''bad request''), s)
      | Some req \<Rightarrow>
          (case reg_VerifyAdminLogin (pe_cmp pe) s now (lr_Username req) (lr_Password req) of
             Inl _ \<Rightarrow> ((401, err_json ''invalid username or password''), s)
           | Inr (must, s) \<Rightarrow>
               (case reg_CreateSession s now (pe_rand pe) (lr_Username req) of
                  Inl _ \<Rightarrow> ((500, err_json ''session error''), s)
                | Inr (token, s) \<Rightarrow> ((200, JObj [(''token'', JStr token), (''must_change'', JBool must)]), s))))"

definition reg_handleMe :: "string \<Rightarrow> registry_store \<Rightarrow> http_resp \<times> registry_store" where
  "reg_handleMe u s = ((200, JObj [(''username'', JStr u)]), s)"

definition reg_handleLogout :: "http_req \<Rightarrow> registry_store \<Rightarrow> http_resp \<times> registry_store" where
  "reg_handleLogout r s =
     ((200, ok_json), case reg_DeleteSession s (bearer_token r) of Inl _ \<Rightarrow> s | Inr s' \<Rightarrow> s')"

definition reg_handlePassword :: "panel_env \<Rightarrow> PasswordRequest option \<Rightarrow> string \<Rightarrow> registry_store \<Rightarrow> http_resp \<times> registry_store" where
  "reg_handlePassword pe body u s =
     (case body of
        None \<Rightarrow> ((400, err_json ''bad request''), s)
      | Some req \<Rightarrow>
          (case reg_ChangeAdminPassword (pe_gen pe) (pe_cmp pe) s u (pw_OldPassword req) (pw_NewPassword req) of
             Inl e \<Rightarrow> ((400, err_json (reg_error_text (pe_fault pe) e)), s)
           | Inr s' \<Rightarrow> ((200, ok_json), s')))"

definition exchange_json :: "ServerInfo \<Rightarrow> json" where
  "exchange_json sv = JObj [(''area_code'', JStr (SiAreaCode sv)), (''name'', JStr (SiName sv)),
     (''server_address'', JStr (SiServerAddr sv)), (''status'', JStr (SiStatus sv))]"

definition handleExchanges :: "panel_env \<Rightarrow> registry_store \<Rightarrow> http_resp" where
  "handleExchanges pe s =
     (case ListServers s 500 of
        Inl e \<Rightarrow> (500, err_json (reg_error_text (pe_fault pe) e))
      | Inr list \<Rightarrow> (200, JObj [(''servers'', JArr (map exchange_json list))]))"

definition svToMap :: "ServiceNumber \<Rightarrow> json" where
  "svToMap sn = JObj [(''full_number'', JStr (SnFullNumber sn)), (''vanity'', JStr (SnVanity sn)),
     (''name'', JStr (SnName sn)), (''description'', JStr (SnDescription sn)),
     (''host_area'', JStr (SnHostArea sn)), (''status'', JStr (SnStatus sn))]"

definition handleServices :: "panel_env \<Rightarrow> registry_store \<Rightarrow> http_resp" where
  "handleServices pe s =
     (case ListServiceNumbers s of
        Inl e \<Rightarrow> (500, err_json (reg_error_text (pe_fault pe) e))
      | Inr list \<Rightarrow> (200, JObj [(''services'', JArr (map svToMap list))]))"

definition handleClaimService :: "panel_env \<Rightarrow> gotime \<Rightarrow> ClaimRequest option \<Rightarrow> registry_store \<Rightarrow> http_resp \<times> registry_store" where
  "handleClaimService pe now body s =
     (case body of
        None \<Rightarrow> ((400, err_json ''bad request''), s)
      | Some req \<Rightarrow>
          if cr_Name req = [] \<or> cr_HostArea req = [] then ((400, err_json ''name and host_area are required''), s)
          else (case ClaimServiceNumber s now
                  \<lparr>SnFullNumber = cr_FullNumber req, SnVanity = cr_Vanity req, SnName = cr_Name req,
                   SnDescription = cr_Description req, SnHostArea = cr_HostArea req, SnStatus = [], SnCreatedAt = 0\<rparr> of
                  Inl e \<Rightarrow> ((400, err_json (reg_error_text (pe_fault pe) e)), s)
                | Inr s' \<Rightarrow> ((201, ok_json), s')))"

definition handleServiceStatus :: "panel_env \<Rightarrow> string \<Rightarrow> string option \<Rightarrow> registry_store \<Rightarrow> http_resp \<times> registry_store" where
  "handleServiceStatus pe num body s =
     (case body of
        None \<Rightarrow> ((400, err_json ''bad request''), s)
      | Some status \<Rightarrow>
          (case SetServiceStatus s num status of
             Inl e \<Rightarrow> ((400, err_json (reg_error_text (pe_fault pe) e)), s)
           | Inr s' \<Rightarrow> ((200, ok_json), s')))"

definition handleDeleteService :: "panel_env \<Rightarrow> string \<Rightarrow> registry_store \<Rightarrow> http_resp \<times> registry_store" where
  "handleDeleteService pe num s =
     (case DeleteServiceNumber s num of
        Inl e \<Rightarrow> ((400, err_json (reg_error_text (pe_fault pe) e)), s)
      | Inr s' \<Rightarrow> ((200, ok_json), s'))"

definition serve :: "panel_env \<Rightarrow> gotime \<Rightarrow> http_req \<Rightarrow> panel_request \<Rightarrow> registry_store \<Rightarrow> http_resp \<times> registry_store" where
  "serve pe now r rq s =
     (case rq of
        PLogin body \<Rightarrow> reg_handleLogin pe now body s
      | PMe \<Rightarrow> require now r reg_handleMe s
      | PLogout \<Rightarrow> require now r (\<lambda>_. reg_handleLogout r) s
      | PPassword body \<Rightarrow> require now r (reg_handlePassword pe body) s
      | PExchanges \<Rightarrow> require now r (\<lambda>_ s. (handleExchanges pe s, s)) s
      | PServices \<Rightarrow> require now r (\<lambda>_ s. (handleServices pe s, s)) s
      | PClaim body \<Rightarrow> require now r (\<lambda>_. handleClaimService pe now body) s
      | PStatus num body \<Rightarrow> require now r (\<lambda>_. handleServiceStatus pe num body) s
      | PDelete num \<Rightarrow> require now r (\<lambda>_. handleDeleteService pe num) s)"

section \<open>Lemmas\<close>

text \<open>
  A property of the store that each store operation behind the panel keeps is kept by the panel.
\<close>

locale panel_invariant =
  fixes P :: "registry_store \<Rightarrow> bool"
  assumes keep_lookup: "P s \<Longrightarrow> P (snd (reg_SessionUsername s now t))"
    and keep_login: "P s \<Longrightarrow> reg_VerifyAdminLogin cmp s now u pw = Inr (m, s') \<Longrightarrow> P s'"
    and keep_create: "P s \<Longrightarrow> reg_CreateSession s now rnd u = Inr (tok, s') \<Longrightarrow> P s'"
    and keep_logout: "P s \<Longrightarrow> reg_DeleteSession s t = Inr s' \<Longrightarrow> P s'"
    and keep_password: "P s \<Longrightarrow> reg_ChangeAdminPassword gen cmp s u pw pw' = Inr s' \<Longrightarrow> P s'"
    and keep_claim: "P s \<Longrightarrow> ClaimServiceNumber s now sn = Inr s' \<Longrightarrow> P s'"
    and keep_status: "P s \<Longrightarrow> SetServiceStatus s full st = Inr s' \<Longrightarrow> P s'"
    and keep_delete: "P s \<Longrightarrow> DeleteServiceNumber s full = Inr s' \<Longrightarrow> P s'"
begin

lemma handlers_keep:
  assumes "P s"
  shows "P (snd (reg_handleLogin pe now b0 s))" "P (snd (reg_handlePassword pe b1 u s))" "P (snd (reg_handleLogout r s))"
    "P (snd (handleClaimService pe now b2 s))" "P (snd (handleServiceStatus pe num b3 s))" "P (snd (handleDeleteService pe num s))"
    "P (snd (reg_handleMe u s))"
  using assms
  by (simp_all add: reg_handleLogin_def reg_handleMe_def reg_handleLogout_def reg_handlePassword_def
      handleClaimService_def handleServiceStatus_def handleDeleteService_def split: option.split sum.split)
    (auto dest: keep_login [OF assms] keep_create [rotated] keep_logout [OF assms] keep_password [OF assms]
      keep_claim [OF assms] keep_status [OF assms] keep_delete [OF assms])

lemma require_keeps: "P s \<Longrightarrow> (\<And>u s1. P s1 \<Longrightarrow> P (snd (h u s1))) \<Longrightarrow> P (snd (require now r h s))"
  using keep_lookup [of s now "bearer_token r"] by (auto simp: require_def split: prod.split sum.split)

lemma serve_keeps: "P s \<Longrightarrow> P (snd (serve pe now r rq s))"
  by (cases rq) (auto simp: serve_def intro!: require_keeps handlers_keep)

end

lemma session_ops_same:
  "ocn_servers (snd (reg_SessionUsername s now t)) = ocn_servers s \<and> service_numbers (snd (reg_SessionUsername s now t)) = service_numbers s"
  "reg_VerifyAdminLogin cmp s now u pw = Inr (m, s1) \<Longrightarrow> ocn_servers s1 = ocn_servers s \<and> service_numbers s1 = service_numbers s"
  "reg_CreateSession s now rnd u = Inr (tok, s2) \<Longrightarrow> ocn_servers s2 = ocn_servers s \<and> service_numbers s2 = service_numbers s"
  "reg_ChangeAdminPassword gen cmp s u pw pw' = Inr s3 \<Longrightarrow> ocn_servers s3 = ocn_servers s \<and> service_numbers s3 = service_numbers s"
  "reg_DeleteSession s t = Inr s4 \<Longrightarrow> ocn_servers s4 = ocn_servers s \<and> service_numbers s4 = service_numbers s"
  by (auto simp: reg_VerifyAdminLogin_def reg_CreateSession_def reg_ChangeAdminPassword_def reg_DeleteSession_def
      reg_SessionUsername_def reg_update_account_def reg_drop_session_def Let_def split: if_splits option.splits)

lemma service_ops_servers:
  "ClaimServiceNumber s now sn = Inr s1 \<Longrightarrow> ocn_servers s1 = ocn_servers s"
  "SetServiceStatus s full st = Inr s2 \<Longrightarrow> ocn_servers s2 = ocn_servers s"
  "DeleteServiceNumber s full = Inr s3 \<Longrightarrow> ocn_servers s3 = ocn_servers s"
  by (auto simp: ClaimServiceNumber_def SetServiceStatus_def DeleteServiceNumber_def split: if_splits)

interpretation panel_servers: panel_invariant "\<lambda>s. ocn_servers s = X" for X
  by unfold_locales (auto dest: session_ops_same(2-) service_ops_servers simp: session_ops_same(1))

interpretation panel_tables: panel_invariant registry_ok
proof
  fix s now t assume "registry_ok s"
  then show "registry_ok (snd (reg_SessionUsername s now t))"
    using registry_ok_cong session_ops_same(1) by blast
qed (metis registry_ok_cong session_ops_same(2), metis registry_ok_cong session_ops_same(3),
  metis registry_ok_cong session_ops_same(5), metis registry_ok_cong session_ops_same(4),
  blast intro: ClaimServiceNumber_ok, blast intro: SetServiceStatus_ok, blast intro: DeleteServiceNumber_ok)

end
