(* ===== verification/Registry_Props.thy ===== *)
theory Registry_Props
  imports Registry_Panel
begin

text \<open>
  The registry server as a transition system (calls of its gRPC service, requests to its panel,
  failures and recoveries of its database) and its properties.
\<close>

section \<open>Steps\<close>

datatype reg_request =
    RqRegister "nat \<Rightarrow> nat" RegisterOCNServerRequest
  | RqDeregister string int bytes
  | RqPanel panel_env http_req panel_request
  | RqDatabase bool

definition reg_apply :: "ed25519 \<Rightarrow> gotime \<times> reg_request \<Rightarrow> registry_server \<Rightarrow> registry_server" where
  "reg_apply ed nr s =
     (case nr of (now, rq) \<Rightarrow>
       (case rq of
          RqRegister rnd req \<Rightarrow> snd (RegisterOCNServer rnd now s req)
        | RqDeregister area ts sig \<Rightarrow> snd (DeregisterOCNServer ed now s area ts sig)
        | RqPanel pe r preq \<Rightarrow> s\<lparr>rs_store := snd (serve pe now r preq (rs_store s))\<rparr>
        | RqDatabase up \<Rightarrow> s\<lparr>rs_store := (rs_store s)\<lparr>reg_up := up\<rparr>\<rparr>))"

inductive reg_step :: "ed25519 \<Rightarrow> registry_server \<Rightarrow> registry_server \<Rightarrow> bool" for ed where
  reg_request: "reg_step ed s (reg_apply ed nr s)"

definition reg_init :: "registry_server \<Rightarrow> bool" where
  "reg_init s \<longleftrightarrow> ocn_servers (rs_store s) = [] \<and> service_numbers (rs_store s) = []"

lemma request_info_area [simp]: "SiAreaCode (request_info req) = rq_RequestedAreaCode req"
  by (simp add: request_info_def)

lemma RegisterOCNServer_cases:
  assumes "RegisterOCNServer rnd now s req = (resp, s')"
  obtains "s' = s" "\<And>rp. resp = Inr rp \<Longrightarrow> \<not> rp_Success rp"
  | code st where "RegisterServer rnd (rs_store s) now (request_info req) = Inr (code, st)"
      "resp = Inr \<lparr>rp_Success = True, rp_AssignedAreaCode = code, rp_ErrorMessage = None\<rparr>"
      "s' = s\<lparr>rs_store := st\<rparr>" "length (SiPublicKey (request_info req)) = 32" "SiServerAddr (request_info req) \<noteq> []"
proof (cases "rq_ServerAddress req = [] \<or> length (rq_PublicKey req) \<noteq> 32")
  case True
  then show ?thesis using assms that(1) by (auto simp: RegisterOCNServer_def split: if_splits)
next
  case False
  show ?thesis
  proof (cases "RegisterServer rnd (rs_store s) now (request_info req)")
    case (Inl e)
    with False show ?thesis using assms that(1) by (auto simp: RegisterOCNServer_def split: if_splits)
  next
    case (Inr p)
    with False show ?thesis using assms that(2)
      by (cases p) (auto simp: RegisterOCNServer_def request_info_def)
  qed
qed

lemma DeregisterOCNServer_cases:
  assumes "DeregisterOCNServer ed now s area ts sig = (resp, s')"
  obtains "s' = s" | st where "DeregisterServer ed (rs_store s) now area ts sig = Inr st" "s' = s\<lparr>rs_store := st\<rparr>"
  using assms by (auto simp: DeregisterOCNServer_def split: sum.splits registry_error.splits)

lemma reg_apply_ok:
  assumes "registry_ok (rs_store s)"
  shows "registry_ok (rs_store (reg_apply ed nr s))"
proof (cases nr)
  case (Pair now rq)
  show ?thesis
  proof (cases rq)
    case (RqRegister rnd req)
    obtain resp s' where r: "RegisterOCNServer rnd now s req = (resp, s')" by fastforce
    then have "registry_ok (rs_store s')"
      by (rule RegisterOCNServer_cases) (use assms RegisterServer_ok in auto)
    with r Pair RqRegister show ?thesis by (simp add: reg_apply_def)
  next
    case (RqDeregister area ts sig)
    obtain resp s' where r: "DeregisterOCNServer ed now s area ts sig = (resp, s')" by fastforce
    then have "registry_ok (rs_store s')"
      by (rule DeregisterOCNServer_cases) (use assms DeregisterServer_ok in auto)
    with r Pair RqDeregister show ?thesis by (simp add: reg_apply_def)
  next
    case (RqPanel pe r preq)
    with Pair show ?thesis
      using panel_tables.serve_keeps [OF assms] by (simp add: reg_apply_def)
  next
    case (RqDatabase up)
    with Pair show ?thesis using assms by (simp add: reg_apply_def registry_ok_def)
  qed
qed

lemma reg_step_ok: "registry_ok (rs_store s) \<Longrightarrow> reg_step ed s s' \<Longrightarrow> registry_ok (rs_store s')"
  by (auto elim!: reg_step.cases intro: reg_apply_ok)

interpretation registry: invariant_system reg_init "reg_step ed" "\<lambda>s. registry_ok (rs_store s)" for ed
  by unfold_locales (simp add: reg_init_def registry_ok_def, rule reg_step_ok)

definition key_of :: "registry_server \<Rightarrow> string \<Rightarrow> bytes option" where
  "key_of s area = map_option SiPublicKey (server_of (rs_store s) area)"

text \<open>A deregistration request that the key of the area signed, at a time within its window.\<close>

definition signed_off :: "ed25519 \<Rightarrow> bytes \<Rightarrow> string \<Rightarrow> gotime \<times> reg_request \<Rightarrow> bool" where
  "signed_off ed k area nr \<longleftrightarrow>
     (case nr of (now, RqDeregister a ts sig) \<Rightarrow>
        a = area \<and> length sig = 64 \<and> \<bar>ts - unix_secs now\<bar> \<le> 300 \<and> ed_verify ed k (auth_data a ts) sig
      | _ \<Rightarrow> False)"

lemma ValidAuth_True:
  "ValidAuth ed now k area ts sig = Inr True \<longleftrightarrow>
   length sig = 64 \<and> \<bar>ts - unix_secs now\<bar> \<le> 300 \<and> length k = 32 \<and> ed_verify ed k (auth_data area ts) sig"
  by (auto simp: ValidAuth_def Verify_def Let_def authWindow_def secs_def unix_secs_def abs_le_iff)

lemma reg_apply_key:
  assumes "key_of s area = Some k" and "\<not> signed_off ed k area nr"
  shows "key_of (reg_apply ed nr s) area = Some k"
proof (cases nr)
  case (Pair now rq)
  show ?thesis
  proof (cases rq)
    case (RqRegister rnd req)
    obtain resp s' where r: "RegisterOCNServer rnd now s req = (resp, s')" by fastforce
    then have "key_of s' area = Some k"
    proof (rule RegisterOCNServer_cases)
      fix code st
      assume r: "RegisterServer rnd (rs_store s) now (request_info req) = Inr (code, st)" and s': "s' = s\<lparr>rs_store := st\<rparr>"
      have "area = code \<Longrightarrow> SiPublicKey (registered (rs_store s) now (request_info req) code) = k"
        using assms(1) by (auto simp: key_of_def registered_def)
      then show ?thesis
        using RegisterServer_server_of [OF r, of area] assms(1) s' by (auto simp: key_of_def)
    qed (use assms(1) in simp)
    with r Pair RqRegister show ?thesis by (simp add: reg_apply_def)
  next
    case (RqDeregister a ts sig)
    obtain resp s' where r: "DeregisterOCNServer ed now s a ts sig = (resp, s')" by fastforce
    then have "key_of s' area = Some k"
    proof (rule DeregisterOCNServer_cases)
      fix st
      assume d: "DeregisterServer ed (rs_store s) now a ts sig = Inr st" and s': "s' = s\<lparr>rs_store := st\<rparr>"
      have "a \<noteq> area"
        using DeregisterServer_result(2) [OF d] assms Pair RqDeregister
        by (auto simp: key_of_def ValidAuth_True signed_off_def)
      then show ?thesis
        using DeregisterServer_result(4) [OF d, of area] assms(1) s' by (auto simp: key_of_def)
    qed (use assms(1) in simp)
    with r Pair RqDeregister show ?thesis by (simp add: reg_apply_def)
  next
    case (RqPanel pe r preq)
    with Pair show ?thesis
      using panel_servers.serve_keeps [of "rs_store s" "ocn_servers (rs_store s)" pe now r preq] assms(1)
      by (simp add: reg_apply_def key_of_def server_of_def)
  next
    case (RqDatabase up)
    with Pair show ?thesis using assms(1) by (simp add: reg_apply_def key_of_def server_of_def)
  qed
qed

lemma reg_run_key:
  "key_of s area = Some k \<Longrightarrow> \<forall>nr \<in> set nrs. \<not> signed_off ed k area nr \<Longrightarrow>
   key_of (fold (reg_apply ed) nrs s) area = Some k"
  by (induction nrs arbitrary: s) (simp_all add: reg_apply_key)

text \<open>A registration request for the area that names the key: it is accepted, and replaces the address.\<close>

definition renewed :: "bytes \<Rightarrow> string \<Rightarrow> gotime \<times> reg_request \<Rightarrow> bool" where
  "renewed k area nr \<longleftrightarrow>
     (case nr of (now, RqRegister rnd req) \<Rightarrow> rq_PublicKey req = k \<and> TrimSpace (rq_RequestedAreaCode req) = area | _ \<Rightarrow> False)"

lemma reg_apply_row:
  assumes "server_of (rs_store s) area = Some r" and "\<not> signed_off ed (SiPublicKey r) area nr" and "AllowedArea area"
    and "\<not> renewed (SiPublicKey r) area nr"
  shows "server_of (rs_store (reg_apply ed nr s)) area = Some r"
proof (cases nr)
  case (Pair now rq)
  show ?thesis
  proof (cases rq)
    case (RqRegister rnd req)
    obtain resp s' where r: "RegisterOCNServer rnd now s req = (resp, s')" by fastforce
    then have "server_of (rs_store s') area = Some r"
    proof (rule RegisterOCNServer_cases)
      fix code st
      assume g: "RegisterServer rnd (rs_store s) now (request_info req) = Inr (code, st)" and s': "s' = s\<lparr>rs_store := st\<rparr>"
      have "area \<noteq> code"
      proof
        assume "area = code"
        then have "SiPublicKey r = rq_PublicKey req" "code \<in> SiAreaCode ` set (ocn_servers (rs_store s))"
          using RegisterServer_result(3) [OF g] assms(1) server_of_area [OF assms(1)] by (auto simp: request_info_def)
        moreover have "TrimSpace (rq_RequestedAreaCode req) \<noteq> []"
        proof
          assume "TrimSpace (rq_RequestedAreaCode req) = []"
          then obtain c where "pickFree rnd (rs_store s) = Inr c" "insert_server (rs_store s) now (request_info req) c = Inr (code, st)"
            using g by (auto simp: RegisterServer_def split: if_splits sum.splits)
          then show False using pickFree_sound insert_server_result calculation(2) by blast
        qed
        ultimately show False
          using RegisterServer_result(2) [OF g] assms(4) \<open>area = code\<close> Pair RqRegister by (simp add: renewed_def)
      qed
      then show ?thesis using RegisterServer_server_of [OF g, of area] assms(1) s' by simp
    qed (use assms(1) in simp)
    with r Pair RqRegister show ?thesis by (simp add: reg_apply_def)
  next
    case (RqDeregister a ts sig)
    obtain resp s' where r: "DeregisterOCNServer ed now s a ts sig = (resp, s')" by fastforce
    then have "server_of (rs_store s') area = Some r"
    proof (rule DeregisterOCNServer_cases)
      fix st
      assume d: "DeregisterServer ed (rs_store s) now a ts sig = Inr st" and s': "s' = s\<lparr>rs_store := st\<rparr>"
      have "a \<noteq> area"
        using DeregisterServer_result(2) [OF d] assms Pair RqDeregister
        by (auto simp: ValidAuth_True signed_off_def)
      then show ?thesis
        using DeregisterServer_result(4) [OF d, of area] assms(1) s' by auto
    qed (use assms(1) in simp)
    with r Pair RqDeregister show ?thesis by (simp add: reg_apply_def)
  next
    case (RqPanel pe h preq)
    with Pair show ?thesis
      using panel_servers.serve_keeps [of "rs_store s" "ocn_servers (rs_store s)" pe now h preq] assms(1)
      by (simp add: reg_apply_def server_of_def)
  next
    case (RqDatabase up)
    with Pair show ?thesis using assms(1) by (simp add: reg_apply_def server_of_def)
  qed
qed

lemma reg_run_row:
  "server_of (rs_store s) area = Some r \<Longrightarrow> AllowedArea area \<Longrightarrow>
   \<forall>nr \<in> set nrs. \<not> signed_off ed (SiPublicKey r) area nr \<and> \<not> renewed (SiPublicKey r) area nr \<Longrightarrow>
   server_of (rs_store (fold (reg_apply ed) nrs s)) area = Some r"
  by (induction nrs arbitrary: s) (simp_all add: reg_apply_row)

lemma reg_run_steps: "(reg_step ed)\<^sup>*\<^sup>* s (fold (reg_apply ed) nrs s)"
  by (induction nrs arbitrary: s) (auto intro: reg_request converse_rtranclp_into_rtranclp)

section \<open>Sample registry\<close>

definition reg_ed :: ed25519 where
  "reg_ed = \<lparr>ed_sign = (\<lambda>priv m. take 64 (drop 32 priv @ m @ replicate 64 0)),
     ed_verify = (\<lambda>pub m sig. sig = take 64 (pub @ m @ replicate 64 0))\<rparr>"

definition empty_registry :: registry_server where
  "empty_registry = reg_New \<lparr>reg_up = True, ocn_servers = [], service_numbers = [], reg_accounts = [], reg_sessions = []\<rparr>
     (Some (Some (\<lambda>_. None))) [''stun.example:3478'']"

definition sample_join :: RegisterOCNServerRequest where
  "sample_join = \<lparr>rq_Name = ''Lakeside'', rq_Description = [], rq_ServerAddress = ''lake:9110'',
     rq_RequestedAreaCode = ''440'', rq_PublicKey = replicate 32 1\<rparr>"

definition lakeside :: registry_server where
  "lakeside = empty_registry\<lparr>rs_store := (rs_store empty_registry)\<lparr>ocn_servers :=
     [(request_info sample_join)\<lparr>SiRegisteredAt := 1000, SiStatus := ''ACTIVE''\<rparr>]\<rparr>\<rparr>"

lemma area_440: "AllowedArea ''440''" "TrimSpace ''440'' = ''440''"
  by (auto simp: AllowedArea_def is_digit_def intro!: TrimSpace_digits)

lemmas sample_registry_defs = lakeside_def empty_registry_def reg_New_def sample_join_def request_info_def

lemma sample_register:
  "RegisterOCNServer (\<lambda>_. 0) (secs 1000) empty_registry sample_join =
     (Inr \<lparr>rp_Success = True, rp_AssignedAreaCode = ''440'', rp_ErrorMessage = None\<rparr>, lakeside)"
  by (simp add: sample_registry_defs RegisterOCNServer_def RegisterServer_def area_440 area_exists_def
      insert_server_def unix_secs_def secs_def Let_def)

lemma sample_registry_init: "reg_init empty_registry"
  by (simp add: reg_init_def empty_registry_def reg_New_def)

lemma lakeside_ok: "registry_ok (rs_store lakeside)"
  by (simp add: registry_ok_def server_ok_def sample_registry_defs area_440)

lemma lakeside_reached: "(reg_step ed)\<^sup>*\<^sup>* empty_registry lakeside"
proof -
  have "reg_apply ed (secs 1000, RqRegister (\<lambda>_. 0) sample_join) empty_registry = lakeside"
    by (simp add: reg_apply_def sample_register)
  then show ?thesis by (metis reg_request r_into_rtranclp)
qed

section \<open>Properties\<close>

text \<open>
  C16. Whatever exchanges and operators send, in any order and across database failures, the registry
  keeps its tables sound: no area code is assigned twice, every assigned code is a three-digit code
  from 200 to 999 other than 800 and 900, every exchange has a 32-byte key and is active, no service
  number is listed twice, and each is ten digits starting with 800 or 900. Hence neither of the
  calls that verify a signature can crash the registry with a malformed key.
\<close>

theorem registry_invariant:
  assumes "reg_init s0" and "(reg_step ed)\<^sup>*\<^sup>* s0 s"
  shows "distinct (map SiAreaCode (ocn_servers (rs_store s))) \<and>
    list_all (\<lambda>r. AllowedArea (SiAreaCode r) \<and> length (SiPublicKey r) = 32 \<and> SiStatus r = ''ACTIVE'')
      (ocn_servers (rs_store s)) \<and>
    distinct (map SnFullNumber (service_numbers (rs_store s))) \<and>
    list_all (\<lambda>n. AllowedServiceFull (SnFullNumber n)) (service_numbers (rs_store s)) \<and>
    fst (DeregisterOCNServer ed now s area ts sig) \<noteq> Inl GCrash \<and> PushDevice ed now s req \<noteq> Inl GCrash"
proof -
  have ok: "registry_ok (rs_store s)" by (rule registry.reachable_inv [OF assms])
  have crash: "fst (DeregisterOCNServer ed now s area ts sig) \<noteq> Inl GCrash"
    using no_panic(1) [OF ok] by (auto simp: DeregisterOCNServer_def split: sum.split registry_error.split)
  have "push_dispatch c req \<noteq> Inr (PushPanic m) \<and> push_dispatch c req \<noteq> Inl GCrash" for c m
    by (simp add: push_dispatch_def reg_SendVoicemailNotification_def reg_SendMessageNotification_def
        reg_SendCallNotification_def reg_send_no_panic)
  then have "PushDevice ed now s req \<noteq> Inl GCrash"
    using no_panic(2) [OF ok] by (auto simp: PushDevice_def split: option.split sum.split registry_error.split push_result.split)
  with ok crash show ?thesis
    by (auto simp: registry_ok_def server_ok_def number_ok_def list_all_iff)
qed

theorem registry_invariant_witness:
  "distinct (map SiAreaCode (ocn_servers (rs_store lakeside))) \<and>
   fst (DeregisterOCNServer reg_ed 0 lakeside ''440'' 0 []) \<noteq> Inl GCrash"
  using registry_invariant [OF sample_registry_init lakeside_reached [of reg_ed], of 0 "''440''" 0 "[]"] by blast

text \<open>
  C3. An exchange keeps its area code: once a code belongs to a key, no sequence of registrations,
  deregistrations, panel requests and database failures takes it away or gives it to another key,
  unless one of the requests is a deregistration of that very code carrying a signature that
  verifies under that key and a time stamp within five minutes of the registry's clock.
\<close>

theorem area_ownership:
  assumes "key_of s area = Some k" and "key_of (fold (reg_apply ed) nrs s) area \<noteq> Some k"
  shows "\<exists>now ts sig. (now, RqDeregister area ts sig) \<in> set nrs \<and> length sig = 64 \<and>
    \<bar>ts - unix_secs now\<bar> \<le> 300 \<and> ed_verify ed k (auth_data area ts) sig"
proof -
  obtain nr where "nr \<in> set nrs" "signed_off ed k area nr" using reg_run_key assms by blast
  then show ?thesis by (auto simp: signed_off_def split: prod.splits reg_request.splits)
qed

definition lakeside_bye :: "gotime \<times> reg_request" where
  "lakeside_bye = (secs 1000, RqDeregister ''440'' 1000 (take 64 (replicate 32 1 @ auth_data ''440'' 1000 @ replicate 64 0)))"

theorem area_ownership_witness:
  "key_of lakeside ''440'' = Some (replicate 32 1) \<and> key_of (fold (reg_apply reg_ed) [lakeside_bye] lakeside) ''440'' = None \<and>
   (\<exists>sig. ed_verify reg_ed (replicate 32 1) (auth_data ''440'' 1000) sig \<and> length sig = 64)"
proof -
  have k: "key_of lakeside ''440'' = Some (replicate 32 1)"
    by (simp add: key_of_def server_of_def sample_registry_defs)
  have "ValidAuth reg_ed (secs 1000) (replicate 32 1) ''440'' 1000 (take 64 (replicate 32 1 @ auth_data ''440'' 1000 @ replicate 64 0)) = Inr True"
    by (simp add: ValidAuth_True unix_secs_def secs_def reg_ed_def)
  then have n: "key_of (fold (reg_apply reg_ed) [lakeside_bye] lakeside) ''440'' = None"
    by (simp add: lakeside_bye_def reg_apply_def DeregisterOCNServer_def DeregisterServer_def get_server_def
        sample_registry_defs key_of_def server_of_def)
  from n have "key_of (fold (reg_apply reg_ed) [lakeside_bye] lakeside) ''440'' \<noteq> Some (replicate 32 1)" by simp
  from area_ownership [OF k this] k n show ?thesis by (auto simp: lakeside_bye_def)
qed

text \<open>
  C17. A successful registration takes effect for the whole network: the assigned code is allowed, is
  the requested one when one was requested, was free or already belonged to the same key, and is
  routed to the address of the request from then on; every other route, and every service number,
  is as before.
\<close>

theorem registration_routes:
  assumes "RegisterOCNServer rnd now s req = (Inr rp, s')" and "rp_Success rp"
  shows "AllowedArea (rp_AssignedAreaCode rp) \<and>
    (TrimSpace (rq_RequestedAreaCode req) \<noteq> [] \<longrightarrow> rp_AssignedAreaCode rp = TrimSpace (rq_RequestedAreaCode req)) \<and>
    key_of s (rp_AssignedAreaCode rp) \<in> {None, Some (rq_PublicKey req)} \<and>
    (\<exists>i. svc_GetRoute s' (rp_AssignedAreaCode rp) = \<lparr>gr_Found = True, gr_Ocnserver = Some i\<rparr> \<and>
       oi_ServerAddress i = rq_ServerAddress req \<and> oi_PublicKey i = rq_PublicKey req) \<and>
    (\<forall>a. a \<noteq> rp_AssignedAreaCode rp \<longrightarrow> svc_GetRoute s' a = svc_GetRoute s a) \<and>
    service_numbers (rs_store s') = service_numbers (rs_store s)"
  using assms(1)
proof (rule RegisterOCNServer_cases)
  fix code st
  assume r: "RegisterServer rnd (rs_store s) now (request_info req) = Inr (code, st)"
    and rp: "Inr rp = Inr \<lparr>rp_Success = True, rp_AssignedAreaCode = code, rp_ErrorMessage = None\<rparr>"
    and s': "s' = s\<lparr>rs_store := st\<rparr>"
  let ?i = "registered (rs_store s) now (request_info req) code"
  have f: "SiStatus ?i = ''ACTIVE''" "SiServerAddr ?i = rq_ServerAddress req" "SiPublicKey ?i = rq_PublicKey req"
    using registered_fields [OF r] by (simp_all add: request_info_def)
  have "GetRoute st code = Inr ?i"
    using RegisterServer_server_of [OF r, of code] RegisterServer_same [OF r] f(1) by (simp add: GetRoute_of)
  moreover have "GetRoute st a = GetRoute (rs_store s) a" if "a \<noteq> code" for a
    using RegisterServer_server_of [OF r, of a] RegisterServer_same [OF r] that by (simp add: GetRoute_def get_server_of)
  moreover have "key_of s code \<in> {None, Some (rq_PublicKey req)}"
    using RegisterServer_result(3) [OF r] by (auto simp: key_of_def request_info_def)
  ultimately show ?thesis
    using rp s' f RegisterServer_result(1,2) [OF r] RegisterServer_same(2) [OF r]
    by (simp add: svc_GetRoute_def to_info_def request_info_def)
qed (use assms(2) in blast)

theorem registration_routes_witness:
  "\<exists>i. svc_GetRoute lakeside ''440'' = \<lparr>gr_Found = True, gr_Ocnserver = Some i\<rparr> \<and> oi_ServerAddress i = ''lake:9110''"
  using registration_routes [OF sample_register] by (auto simp: sample_join_def)

text \<open>
  C32. Anyone can redirect an exchange. The registry lists the public key of every exchange to
  everybody, and a registration proves nothing but knowledge of that key: a request that repeats a
  listed area code and key succeeds, and from then on the whole network is routed to the address in
  the request. The exchange's own signature is never asked for.
\<close>

theorem route_hijack:
  assumes "registry_ok (rs_store s)" and "ListOCNServers s 0 = Inr (n, listed)" and "i \<in> set listed" and "addr \<noteq> []"
  shows "\<exists>s' j. RegisterOCNServer rnd now s \<lparr>rq_Name = [], rq_Description = [], rq_ServerAddress = addr,
        rq_RequestedAreaCode = oi_AreaCode i, rq_PublicKey = oi_PublicKey i\<rparr> =
      (Inr \<lparr>rp_Success = True, rp_AssignedAreaCode = oi_AreaCode i, rp_ErrorMessage = None\<rparr>, s') \<and>
    svc_GetRoute s' (oi_AreaCode i) = \<lparr>gr_Found = True, gr_Ocnserver = Some j\<rparr> \<and> oi_ServerAddress j = addr"
proof -
  let ?req = "\<lparr>rq_Name = [], rq_Description = [], rq_ServerAddress = addr, rq_RequestedAreaCode = oi_AreaCode i, rq_PublicKey = oi_PublicKey i\<rparr>"
  obtain r where r: "r \<in> set (ocn_servers (rs_store s))" "i = to_info r" and up: "reg_up (rs_store s)"
    using assms(2,3) by (auto simp: ListOCNServers_def ListServers_def Let_def split: if_splits)
      (metis in_set_takeD set_sort)
  have so: "server_of (rs_store s) (oi_AreaCode i) = Some r" "oi_PublicKey i = SiPublicKey r" "oi_AreaCode i = SiAreaCode r"
    using server_of_member [OF assms(1) r(1)] r(2) by (simp_all add: to_info_def)
  have ok: "AllowedArea (oi_AreaCode i)" "length (oi_PublicKey i) = 32"
    using server_of_ok [OF assms(1) so(1)] so(2,3) by (simp_all add: server_ok_def)
  have trim: "TrimSpace (oi_AreaCode i) = oi_AreaCode i" "oi_AreaCode i \<noteq> []" using AllowedArea_trim [OF ok(1)] by auto
  have g: "RegisterServer rnd (rs_store s) now (request_info ?req) = Inr (oi_AreaCode i, refresh_server (request_info ?req) (oi_AreaCode i) (rs_store s))"
    using up so trim ok(1) by (simp add: RegisterServer_def area_exists_iff server_of_def [symmetric] request_info_def Let_def)
  then have reg: "RegisterOCNServer rnd now s ?req =
      (Inr \<lparr>rp_Success = True, rp_AssignedAreaCode = oi_AreaCode i, rp_ErrorMessage = None\<rparr>,
       s\<lparr>rs_store := refresh_server (request_info ?req) (oi_AreaCode i) (rs_store s)\<rparr>)"
    using assms(4) ok(2) by (simp add: RegisterOCNServer_def)
  let ?r' = "registered (rs_store s) now (request_info ?req) (oi_AreaCode i)"
  have "GetRoute (refresh_server (request_info ?req) (oi_AreaCode i) (rs_store s)) (oi_AreaCode i) = Inr ?r'" "SiServerAddr ?r' = addr"
    using RegisterServer_server_of [OF g, of "oi_AreaCode i"] RegisterServer_same(1,5) [OF g] registered_fields [OF g]
    by (simp_all add: GetRoute_of request_info_def)
  with reg show ?thesis by (simp add: svc_GetRoute_def to_info_def)
qed

theorem route_hijack_witness:
  "\<exists>s' j. RegisterOCNServer (\<lambda>_. 0) 0 lakeside \<lparr>rq_Name = [], rq_Description = [], rq_ServerAddress = ''evil:1'',
        rq_RequestedAreaCode = ''440'', rq_PublicKey = replicate 32 1\<rparr> =
      (Inr \<lparr>rp_Success = True, rp_AssignedAreaCode = ''440'', rp_ErrorMessage = None\<rparr>, s') \<and>
    svc_GetRoute s' ''440'' = \<lparr>gr_Found = True, gr_Ocnserver = Some j\<rparr> \<and> oi_ServerAddress j = ''evil:1''"
proof -
  let ?i = "to_info ((request_info sample_join)\<lparr>SiRegisteredAt := 1000, SiStatus := ''ACTIVE''\<rparr>)"
  have "ListOCNServers lakeside 0 = Inr (1, [?i])"
    by (simp add: ListOCNServers_def ListServers_def sample_registry_defs Let_def)
  from route_hijack [OF lakeside_ok this, of ?i "''evil:1''" "\<lambda>_. 0" 0]
  show ?thesis by (simp add: to_info_def request_info_def sample_join_def)
qed

text \<open>
  C18. Automatic assignment always ends with a code when one is left: a well-formed request without an
  area code succeeds exactly when some allowed code is unassigned, with whatever values the random
  source gives, and is refused as exhausted otherwise; the loop of 500 random draws never hides the
  codes 801 to 999, which only the scan after it can assign.
\<close>

theorem assignment_complete:
  assumes "reg_up (rs_store s)" and "TrimSpace (rq_RequestedAreaCode req) = []"
    and "rq_ServerAddress req \<noteq> []" and "length (rq_PublicKey req) = 32"
  shows "if \<exists>c. AllowedArea c \<and> key_of s c = None
    then \<exists>rp. fst (RegisterOCNServer rnd now s req) = Inr rp \<and> rp_Success rp
    else RegisterOCNServer rnd now s req = (Inl (GStatus ResourceExhausted (Of ErrNoFreeAreas)), s)"
proof -
  have free: "key_of s c = None \<longleftrightarrow> c \<notin> SiAreaCode ` set (ocn_servers (rs_store s))" for c
    by (simp add: key_of_def server_of_def find_key_None)
  have eq: "RegisterServer rnd (rs_store s) now (request_info req) =
      (case pickFree rnd (rs_store s) of Inl e \<Rightarrow> Inl e | Inr c \<Rightarrow> insert_server (rs_store s) now (request_info req) c)"
    using assms by (simp add: RegisterServer_def)
  show ?thesis
  proof (cases "\<exists>c. AllowedArea c \<and> key_of s c = None")
    case True
    then obtain d where d: "pickFree rnd (rs_store s) = Inr d"
      using pickFree_total [OF assms(1)] unfolding free by blast
    then have "\<exists>st. insert_server (rs_store s) now (request_info req) d = Inr (d, st)"
      using pickFree_sound [OF d] by (simp add: insert_server_def)
    with True d eq assms show ?thesis by (auto simp: RegisterOCNServer_def)
  next
    case False
    then have "pickFree rnd (rs_store s) = Inl ErrNoFreeAreas"
      using pickFree_sound [of rnd "rs_store s"] pickFree_error [of rnd "rs_store s"] assms(1)
      by (cases "pickFree rnd (rs_store s)") (auto simp: free)
    with False eq assms show ?thesis by (simp add: RegisterOCNServer_def)
  qed
qed

theorem assignment_complete_witness:
  "\<exists>rp. fst (RegisterOCNServer (\<lambda>i. 7) 0 lakeside (sample_join\<lparr>rq_RequestedAreaCode := []\<rparr>)) = Inr rp \<and> rp_Success rp"
proof -
  have "AllowedArea ''441'' \<and> key_of lakeside ''441'' = None"
    by (simp add: AllowedArea_def is_digit_def key_of_def server_of_def sample_registry_defs)
  then have "\<exists>c. AllowedArea c \<and> key_of lakeside c = None" by blast
  with assignment_complete [of lakeside "sample_join\<lparr>rq_RequestedAreaCode := []\<rparr>" "\<lambda>i. 7" 0]
  show ?thesis by (simp add: sample_registry_defs)
qed

text \<open>
  C33. A push request gives away the area code. The signature that authenticates a push covers only
  the area code and the time, neither the device token nor the kind of request: whoever sees one
  accepted push request can push to any other device, and can remove the exchange from the registry
  with the same signature, at any time within its five minutes.
\<close>

theorem push_signature_deregisters:
  assumes "PushDevice ed now s req = Inr m" and "\<bar>pq_Timestamp req - unix_secs now'\<bar> \<le> 300"
  shows "fst (DeregisterOCNServer ed now' s (pq_AreaCode req) (pq_Timestamp req) (pq_Signature req)) = Inr () \<and>
    key_of (snd (DeregisterOCNServer ed now' s (pq_AreaCode req) (pq_Timestamp req) (pq_Signature req))) (pq_AreaCode req) = None \<and>
    VerifyPushAuth ed (rs_store s) now' (pq_AreaCode req) (pq_Timestamp req) token (pq_Signature req) = Inr ()"
proof -
  have "VerifyPushAuth ed (rs_store s) now (pq_AreaCode req) (pq_Timestamp req) (pq_Token req) (pq_Signature req) = Inr ()"
    using assms(1) by (auto simp: PushDevice_def split: option.splits sum.splits registry_error.splits)
  then obtain r where r: "reg_up (rs_store s)" "server_of (rs_store s) (pq_AreaCode req) = Some r" "SiStatus r = ''ACTIVE''"
    and "ValidAuth ed now (SiPublicKey r) (pq_AreaCode req) (pq_Timestamp req) (pq_Signature req) = Inr True"
    by (auto simp: VerifyPushAuth_def get_server_of split: option.splits sum.splits bool.splits if_splits)
  then have v: "ValidAuth ed now' (SiPublicKey r) (pq_AreaCode req) (pq_Timestamp req) (pq_Signature req) = Inr True"
    using assms(2) by (simp add: ValidAuth_True)
  then obtain st where d: "DeregisterServer ed (rs_store s) now' (pq_AreaCode req) (pq_Timestamp req) (pq_Signature req) = Inr st"
    using r by (simp add: DeregisterServer_def get_server_of)
  then have "server_of st (pq_AreaCode req) = None" using DeregisterServer_result(4) [OF d] by simp
  then show ?thesis
    using d r v by (simp add: DeregisterOCNServer_def key_of_def VerifyPushAuth_def get_server_of)
qed

definition sample_push :: PushDeviceRequest where
  "sample_push = \<lparr>pq_Token = ''device'', pq_CallId = ''c1'', pq_CallerNumber = ''5551234'', pq_CallerName = ''Ann'',
     pq_AreaCode = ''440'', pq_Timestamp = 1000,
     pq_Signature = take 64 (replicate 32 1 @ auth_data ''440'' 1000 @ replicate 64 0), pq_MessageType = []\<rparr>"

lemma sample_push_sent: "PushDevice reg_ed (secs 1000) lakeside sample_push = Inr (call_message ''device'' ''c1'' ''5551234'' ''Ann'')"
proof -
  have "ValidAuth reg_ed (secs 1000) (replicate 32 1) ''440'' 1000 (take 64 (replicate 32 1 @ auth_data ''440'' 1000 @ replicate 64 0)) = Inr True"
    by (simp add: ValidAuth_True unix_secs_def secs_def reg_ed_def)
  then show ?thesis
    by (simp add: PushDevice_def VerifyPushAuth_def get_server_def sample_push_def sample_registry_defs
        push_dispatch_def reg_SendCallNotification_def reg_send_def)
qed

theorem push_signature_deregisters_witness:
  "PushDevice reg_ed (secs 1000) lakeside sample_push = Inr (call_message ''device'' ''c1'' ''5551234'' ''Ann'') \<and>
   key_of (snd (DeregisterOCNServer reg_ed (secs 1200) lakeside ''440'' 1000 (pq_Signature sample_push))) ''440'' = None"
  using push_signature_deregisters [OF sample_push_sent, of "secs 1200"] sample_push_sent
  by (simp add: sample_push_def unix_secs_def secs_def)

text \<open>
  A service number follows its area code, not its exchange. While the number and its host are
  active it resolves to the host; when the host leaves the registry it resolves to nothing but
  stays listed; and when any other exchange is then given that area code, the number resolves to
  the newcomer, without an operator having assigned it.
\<close>

theorem service_follows_area:
  assumes "number_of (rs_store s) full = Some sn" and "SnStatus sn = ''ACTIVE''" and "AllowedServiceFull full"
    and "DeregisterOCNServer ed now s (SnHostArea sn) ts sig = (Inr (), s1)"
    and "RegisterOCNServer rnd now' s1 req = (Inr rp, s2)" and "rp_Success rp" and "rp_AssignedAreaCode rp = SnHostArea sn"
  shows "\<not> rr_Found (svc_ResolveService s1 full) \<and> number_of (rs_store s1) full = Some sn \<and>
    rr_Found (svc_ResolveService s2 full) \<and>
    map_option oi_ServerAddress (rr_Ocnserver (svc_ResolveService s2 full)) = Some (rq_ServerAddress req) \<and>
    map_option oi_PublicKey (rr_Ocnserver (svc_ResolveService s2 full)) = Some (rq_PublicKey req)"
proof -
  obtain st1 where d: "DeregisterServer ed (rs_store s) now (SnHostArea sn) ts sig = Inr st1" and s1: "s1 = s\<lparr>rs_store := st1\<rparr>"
    using assms(4) by (auto simp: DeregisterOCNServer_def split: sum.splits registry_error.splits if_splits)
  have n1: "number_of st1 full = Some sn" "reg_up st1" "server_of st1 (SnHostArea sn) = None"
    using DeregisterServer_result [OF d] assms(1) by (auto simp: number_of_def)
  have gone: "\<not> rr_Found (svc_ResolveService s1 full)"
    using n1 s1 by (auto simp: svc_ResolveService_def ResolveService_def GetServiceNumber_def number_of_def
        GetRoute_def get_server_of split: sum.split option.split)
  from assms(5) show ?thesis
  proof (rule RegisterOCNServer_cases)
    fix code st
    assume r: "RegisterServer rnd (rs_store s1) now' (request_info req) = Inr (code, st)"
      and rp: "Inr rp = Inr \<lparr>rp_Success = True, rp_AssignedAreaCode = code, rp_ErrorMessage = None\<rparr>"
      and s2: "s2 = s1\<lparr>rs_store := st\<rparr>"
    have code: "code = SnHostArea sn" using rp assms(7) by simp
    let ?i = "registered st1 now' (request_info req) code"
    have f: "SiStatus ?i = ''ACTIVE''" "SiServerAddr ?i = rq_ServerAddress req" "SiPublicKey ?i = rq_PublicKey req"
      using registered_fields [OF r] s1 by (simp_all add: request_info_def)
    have "GetRoute st code = Inr ?i"
      using RegisterServer_server_of [OF r, of code] RegisterServer_same [OF r] f(1) s1 by (simp add: GetRoute_of)
    moreover have "number_of st full = Some sn" "reg_up st"
      using n1 RegisterServer_same [OF r] s1 by (simp_all add: number_of_def)
    ultimately show ?thesis
      using gone n1 s1 s2 code f assms(2,3)
      by (simp add: svc_ResolveService_def ResolveService_def GetServiceNumber_def number_of_def to_info_def)
  qed (use assms(6) in blast)
qed

definition sample_pe :: panel_env where
  "sample_pe = \<lparr>pe_gen = Some, pe_cmp = (=), pe_rand = None, pe_fault = (\<lambda>_. [])\<rparr>"

definition hotline :: ServiceNumber where
  "hotline = \<lparr>SnFullNumber = ''8005550100'', SnVanity = [], SnName = ''Hotline'', SnDescription = [],
     SnHostArea = ''440'', SnStatus = ''ACTIVE'', SnCreatedAt = 0\<rparr>"

definition with_hotline :: "registry_server \<Rightarrow> registry_server" where
  "with_hotline s = s\<lparr>rs_store := (rs_store s)\<lparr>service_numbers := [hotline]\<rparr>\<rparr>"

definition newcomer :: RegisterOCNServerRequest where
  "newcomer = sample_join\<lparr>rq_ServerAddress := ''other:9110'', rq_PublicKey := replicate 32 2\<rparr>"

theorem service_follows_area_witness:
  "map_option oi_ServerAddress (rr_Ocnserver (svc_ResolveService (snd (RegisterOCNServer (\<lambda>_. 0) 0
       (snd (DeregisterOCNServer reg_ed (secs 1000) (with_hotline lakeside) ''440'' 1000 (pq_Signature sample_push))) newcomer))
       ''8005550100'')) = Some ''other:9110''"
proof -
  have "ValidAuth reg_ed (secs 1000) (replicate 32 1) ''440'' 1000 (pq_Signature sample_push) = Inr True"
    by (simp add: ValidAuth_True unix_secs_def secs_def reg_ed_def sample_push_def)
  then have d: "DeregisterOCNServer reg_ed (secs 1000) (with_hotline lakeside) ''440'' 1000 (pq_Signature sample_push) =
      (Inr (), with_hotline empty_registry)"
    by (simp add: DeregisterOCNServer_def DeregisterServer_def get_server_def sample_registry_defs with_hotline_def)
  obtain rp s2 where r: "RegisterOCNServer (\<lambda>_. 0) 0 (with_hotline empty_registry) newcomer = (Inr rp, s2)"
      "rp_Success rp" "rp_AssignedAreaCode rp = ''440''"
    by (simp add: RegisterOCNServer_def RegisterServer_def sample_registry_defs newcomer_def with_hotline_def area_440
        area_exists_def insert_server_def Let_def)
  have n: "number_of (rs_store (with_hotline lakeside)) ''8005550100'' = Some hotline" "SnHostArea hotline = ''440''"
    "SnStatus hotline = ''ACTIVE''" "AllowedServiceFull ''8005550100''"
    by (simp_all add: number_of_def with_hotline_def hotline_def AllowedServiceFull_def is_digit_def has_prefix_def)
  from service_follows_area [OF n(1,3,4), of reg_ed "secs 1000" 1000 "pq_Signature sample_push" "with_hotline empty_registry"
      "\<lambda>_. 0" 0 newcomer rp s2] d r n(2)
  show ?thesis by (simp add: newcomer_def)
qed

text \<open>
  The panel is closed without a session: every request other than a login that carries no
  unexpired session token is answered with 401 and changes neither the exchanges, the service
  numbers nor the accounts; and a login gives a token only for an account whose password matches.
\<close>

theorem registry_panel_closed:
  assumes "\<And>u. fst (reg_SessionUsername s now (bearer_token r)) \<noteq> Inr u"
  shows "if \<exists>body. rq = PLogin body
    then fst (fst (serve pe now r rq s)) = 200 \<longrightarrow>
      (\<exists>req a. rq = PLogin (Some req) \<and> reg_account s (lr_Username req) = Some a \<and> pe_cmp pe (PasswordHash a) (lr_Password req))
    else fst (serve pe now r rq s) = (401, err_json ''not authenticated'') \<and>
      ocn_servers (snd (serve pe now r rq s)) = ocn_servers s \<and>
      service_numbers (snd (serve pe now r rq s)) = service_numbers s \<and>
      reg_accounts (snd (serve pe now r rq s)) = reg_accounts s"
proof (cases "\<exists>body. rq = PLogin body")
  case True
  then show ?thesis
    by (auto simp: serve_def reg_handleLogin_def reg_VerifyAdminLogin_def split: option.splits sum.splits if_splits)
next
  case False
  obtain e s' where l: "reg_SessionUsername s now (bearer_token r) = (Inl e, s')"
    using assms by (cases "reg_SessionUsername s now (bearer_token r)") (metis fst_conv sum.exhaust)
  then have "require now r h s = ((401, err_json ''not authenticated''), s')" for h by (simp add: require_def)
  moreover have "ocn_servers s' = ocn_servers s" "service_numbers s' = service_numbers s" "reg_accounts s' = reg_accounts s"
    using l by (auto simp: reg_SessionUsername_def reg_drop_session_def split: if_splits option.splits)
  ultimately show ?thesis using False by (cases rq) (simp_all add: serve_def)
qed

theorem registry_panel_closed_witness:
  "fst (serve sample_pe 0 \<lparr>h_authorization = ''Basic x'', h_host = [], h_tls = True\<rparr> (PDelete ''8005550100'') (rs_store lakeside)) =
     (401, err_json ''not authenticated'')"
  using registry_panel_closed [of "rs_store lakeside" 0 "\<lparr>h_authorization = ''Basic x'', h_host = [], h_tls = True\<rparr>"
      "PDelete ''8005550100''" sample_pe]
  by (simp add: reg_SessionUsername_def bearer_token_def has_prefix_def)

end
