(* ===== verification/Registry_Client.thy ===== *)
theory Registry_Client
  imports Registry_Props
begin

text \<open>
  The exchange's client of the registry (\<open>ocnserver/internal/registry/registry.go\<close>): registration,
  routing, ICE servers and delegated push.

  The generated gRPC stub is a parameter: a call maps the request to the status it failed with or
  the response (a call that timed out or lost its connection fails with a status too), and for the
  registration to the new state of the other side. Section \<open>Joined\<close> joins the client with the
  service of \<open>Registry_Svc\<close>, which is what the stub of an exchange talks to.
\<close>

section \<open>registry.go\<close>

record registry_client =
  rc_address :: string
  rc_key :: "KSim option"
  rc_area :: string

datatype client_error =
    DialFailed string | RpcFailed grpc_error | RegistryRefused "registry_error option"
  | NoRoute string | NoService string | NotIdentified | PushFailed grpc_error

text \<open>\<open>grpc.Dial\<close> does not wait for the connection; \<open>dial_ok\<close> is false when it rejects the address.\<close>

definition Dial :: "(string \<Rightarrow> bool \<Rightarrow> bool) \<Rightarrow> string \<Rightarrow> bool \<Rightarrow> client_error + registry_client" where
  "Dial dial_ok addr insec =
     (if dial_ok addr insec then Inr \<lparr>rc_address = addr, rc_key = None, rc_area = []\<rparr> else Inl (DialFailed addr))"

definition SetIdentity :: "registry_client \<Rightarrow> KSim \<Rightarrow> registry_client" where
  "SetIdentity c key = c\<lparr>rc_key := Some key\<rparr>"

definition SetArea :: "registry_client \<Rightarrow> string \<Rightarrow> registry_client" where
  "SetArea c area = c\<lparr>rc_area := area\<rparr>"

definition client_RegisterServer ::
  "(RegisterOCNServerRequest \<Rightarrow> (grpc_error + RegisterOCNServerResponse) \<times> 'w) \<Rightarrow>
   string \<Rightarrow> string \<Rightarrow> string \<Rightarrow> string \<Rightarrow> bytes \<Rightarrow> (client_error + string) \<times> 'w" where
  "client_RegisterServer call name description serverAddress requestedArea pub =
     (case call \<lparr>rq_Name = name, rq_Description = description, rq_ServerAddress = serverAddress,
                 rq_RequestedAreaCode = requestedArea, rq_PublicKey = pub\<rparr> of
        (Inl e, w) \<Rightarrow> (Inl (RpcFailed e), w)
      | (Inr resp, w) \<Rightarrow>
          ((if \<not> rp_Success resp then Inl (RegistryRefused (rp_ErrorMessage resp))
            else Inr (rp_AssignedAreaCode resp)), w))"

definition Route :: "(string \<Rightarrow> grpc_error + GetRouteResponse) \<Rightarrow> string \<Rightarrow> client_error + string" where
  "Route call area =
     (case call area of
        Inl e \<Rightarrow> Inl (RpcFailed e)
      | Inr resp \<Rightarrow>
          (case gr_Ocnserver resp of
             Some i \<Rightarrow> if gr_Found resp then Inr (oi_ServerAddress i) else Inl (NoRoute area)
           | None \<Rightarrow> Inl (NoRoute area)))"

definition client_ResolveService :: "(string \<Rightarrow> grpc_error + ResolveServiceResponse) \<Rightarrow> string \<Rightarrow> client_error + string" where
  "client_ResolveService call full =
     (case call full of
        Inl e \<Rightarrow> Inl (RpcFailed e)
      | Inr resp \<Rightarrow>
          (case rr_Ocnserver resp of
             Some i \<Rightarrow> if rr_Found resp then Inr (oi_ServerAddress i) else Inl (NoService full)
           | None \<Rightarrow> Inl (NoService full)))"

definition ICEServers :: "grpc_error + (PbICEServer list \<times> string) \<Rightarrow> client_error + PbICEServer list" where
  "ICEServers reply =
     (case reply of
        Inl e \<Rightarrow> Inl (RpcFailed e)
      | Inr (servers, _) \<Rightarrow>
          Inr (map (\<lambda>s. \<lparr>pi_Urls = pi_Urls s, pi_Username = pi_Username s, pi_Credential = pi_Credential s\<rparr>) servers))"

definition client_sign :: "ed25519 \<Rightarrow> registry_client \<Rightarrow> int \<Rightarrow> bytes" where
  "client_sign ed c ts =
     (case rc_key c of None \<Rightarrow> [] | Some k \<Rightarrow> Sign ed k (str_bytes (rc_area c @ ''|'' @ fmt_d ts)))"

definition push_request :: "ed25519 \<Rightarrow> gotime \<Rightarrow> registry_client \<Rightarrow> string \<Rightarrow> string \<Rightarrow> string \<Rightarrow> string \<Rightarrow> string \<Rightarrow> PushDeviceRequest" where
  "push_request ed now c ty token callID number name =
     (let ts = unix_secs now in
      \<lparr>pq_Token = token, pq_CallId = callID, pq_CallerNumber = number, pq_CallerName = name,
       pq_AreaCode = rc_area c, pq_Timestamp = ts, pq_Signature = client_sign ed c ts, pq_MessageType = ty\<rparr>)"

definition client_push ::
  "(PushDeviceRequest \<Rightarrow> grpc_error + 'r) \<Rightarrow> ed25519 \<Rightarrow> gotime \<Rightarrow> registry_client \<Rightarrow>
   string \<Rightarrow> string \<Rightarrow> string \<Rightarrow> string \<Rightarrow> string \<Rightarrow> client_error + 'r" where
  "client_push call ed now c ty token callID number name =
     (if rc_area c = [] \<or> rc_key c = None then Inl NotIdentified
      else case call (push_request ed now c ty token callID number name) of
             Inl e \<Rightarrow> Inl (PushFailed e) | Inr r \<Rightarrow> Inr r)"

definition client_SendCallNotification ::
  "(PushDeviceRequest \<Rightarrow> grpc_error + 'r) \<Rightarrow> ed25519 \<Rightarrow> gotime \<Rightarrow> registry_client \<Rightarrow>
   string \<Rightarrow> string \<Rightarrow> string \<Rightarrow> string \<Rightarrow> client_error + 'r" where
  "client_SendCallNotification call ed now c token callID callerNumber callerName =
     client_push call ed now c [] token callID callerNumber callerName"

definition client_SendMessageNotification ::
  "(PushDeviceRequest \<Rightarrow> grpc_error + 'r) \<Rightarrow> ed25519 \<Rightarrow> gotime \<Rightarrow> registry_client \<Rightarrow>
   string \<Rightarrow> string \<Rightarrow> string \<Rightarrow> client_error + 'r" where
  "client_SendMessageNotification call ed now c token fromNumber fromName =
     client_push call ed now c ''message'' token [] fromNumber fromName"

definition client_SendVoicemailNotification ::
  "(PushDeviceRequest \<Rightarrow> grpc_error + 'r) \<Rightarrow> ed25519 \<Rightarrow> gotime \<Rightarrow> registry_client \<Rightarrow>
   string \<Rightarrow> string \<Rightarrow> string \<Rightarrow> client_error + 'r" where
  "client_SendVoicemailNotification call ed now c token callerNumber callerName =
     client_push call ed now c ''voicemail'' token [] callerNumber callerName"

section \<open>Joined\<close>

text \<open>The stub of an exchange whose connection to the registry \<open>s\<close> works.\<close>

definition route_call :: "registry_server \<Rightarrow> string \<Rightarrow> grpc_error + GetRouteResponse" where
  "route_call s area = Inr (svc_GetRoute s area)"

definition resolve_call :: "registry_server \<Rightarrow> string \<Rightarrow> grpc_error + ResolveServiceResponse" where
  "resolve_call s full = Inr (svc_ResolveService s full)"

lemma Route_joined:
  "Route (route_call s) area =
   (case GetRoute (rs_store s) area of Inl _ \<Rightarrow> Inl (NoRoute area) | Inr r \<Rightarrow> Inr (SiServerAddr r))"
  by (simp add: Route_def route_call_def svc_GetRoute_def to_info_def split: sum.split)

lemma client_sign_auth: "rc_key c = Some k \<Longrightarrow> client_sign ed c ts = ed_sign ed (PrivateKey k) (auth_data (rc_area c) ts)"
  by (simp add: client_sign_def Sign_def auth_data_def)

lemma push_dispatch_sent:
  "pq_MessageType req \<in> {''voicemail'', ''message''} \<or> pq_CallId req \<noteq> [] \<Longrightarrow>
   \<exists>r. push_dispatch c req = Inr r"
  by (auto simp: push_dispatch_def)

lemma client_register_joined:
  assumes "client_RegisterServer (RegisterOCNServer rnd now s) name desc addr area pub = (Inr code, s')"
  shows "\<exists>r. server_of (rs_store s') code = Some r \<and> SiStatus r = ''ACTIVE'' \<and> SiServerAddr r = addr \<and>
    SiPublicKey r = pub \<and> reg_up (rs_store s') \<and> length pub = 32 \<and> AllowedArea code \<and> rs_push s' = rs_push s"
proof -
  let ?req = "\<lparr>rq_Name = name, rq_Description = desc, rq_ServerAddress = addr, rq_RequestedAreaCode = area, rq_PublicKey = pub\<rparr>"
  obtain rp where r: "RegisterOCNServer rnd now s ?req = (Inr rp, s')" "rp_Success rp" "rp_AssignedAreaCode rp = code"
    using assms by (auto simp: client_RegisterServer_def split: prod.splits sum.splits if_splits)
  from r(1) show ?thesis
  proof (rule RegisterOCNServer_cases)
    fix c st
    assume g: "RegisterServer rnd (rs_store s) now (request_info ?req) = Inr (c, st)"
      and rp: "Inr rp = Inr \<lparr>rp_Success = True, rp_AssignedAreaCode = c, rp_ErrorMessage = None\<rparr>"
      and s': "s' = s\<lparr>rs_store := st\<rparr>" and len: "length (SiPublicKey (request_info ?req)) = 32"
    have "c = code" using rp r(3) by simp
    then show ?thesis
      using RegisterServer_server_of [OF g, of c] registered_fields [OF g] RegisterServer_same [OF g]
        RegisterServer_result(1) [OF g] s' len by (simp add: request_info_def)
  qed (use r(2) in blast)
qed

lemma client_register_route:
  assumes "client_RegisterServer (RegisterOCNServer rnd now s) name desc addr area pub = (Inr code, s')"
  shows "Route (route_call s') code = Inr addr" "key_of s' code = Some pub"
proof -
  obtain r where "server_of (rs_store s') code = Some r" "SiStatus r = ''ACTIVE''" "SiServerAddr r = addr"
      "SiPublicKey r = pub" "reg_up (rs_store s')"
    using client_register_joined [OF assms] by blast
  then show "Route (route_call s') code = Inr addr" "key_of s' code = Some pub"
    using GetRoute_of [of "rs_store s'" code r] by (simp_all add: Route_joined key_of_def)
qed

section \<open>Properties\<close>

text \<open>
  C19. An exchange that joined can be reached and can push. After a registration through the client,
  every other exchange that asks the registry for the assigned area code is given the address this
  exchange advertised, and the push requests the client signs are accepted by the registry for
  their five minutes and reach the device with the caller's data: a call with its call identifier,
  a voicemail and a direct message without one.
\<close>

theorem join_route_push:
  assumes "client_RegisterServer (RegisterOCNServer rnd now s) name desc addr area (PublicKey k) = (Inr code, s')"
    and "rs_push s = Some (Some provider)" and "\<And>m. provider m = None"
    and sign: "\<And>m. length (ed_sign ed (PrivateKey k) m) = 64" "\<And>m. ed_verify ed (PublicKey k) m (ed_sign ed (PrivateKey k) m)"
    and "c = SetArea (SetIdentity c0 k) code" and "token \<noteq> []" and "callID \<noteq> []"
    and "\<bar>unix_secs t - unix_secs t'\<bar> \<le> 300"
  shows "Route (route_call s') code = Inr addr \<and>
    client_SendCallNotification (PushDevice ed t' s') ed t c token callID number nm = Inr (call_message token callID number nm) \<and>
    client_SendVoicemailNotification (PushDevice ed t' s') ed t c token number nm = Inr (notice_message ''voicemail'' token number nm) \<and>
    client_SendMessageNotification (PushDevice ed t' s') ed t c token number nm = Inr (notice_message ''message'' token number nm)"
proof -
  obtain r where r: "server_of (rs_store s') code = Some r" "SiStatus r = ''ACTIVE''" "SiServerAddr r = addr"
      "SiPublicKey r = PublicKey k" "reg_up (rs_store s')" "length (PublicKey k) = 32" "AllowedArea code" "rs_push s' = rs_push s"
    using client_register_joined [OF assms(1)] by blast
  have route: "Route (route_call s') code = Inr addr" by (rule client_register_route [OF assms(1)])
  have key: "rc_key c = Some k" "rc_area c = code" "code \<noteq> []"
    using assms(6) r(7) by (auto simp: SetArea_def SetIdentity_def AllowedArea_def)
  have "ValidAuth ed t' (PublicKey k) code (unix_secs t) (client_sign ed c (unix_secs t)) = Inr True"
    using r sign assms(9) key by (simp add: ValidAuth_True client_sign_auth)
  then have "VerifyPushAuth ed (rs_store s') t' code (unix_secs t) token (client_sign ed c (unix_secs t)) = Inr ()"
    using r by (simp add: VerifyPushAuth_def get_server_of)
  then have "client_push (PushDevice ed t' s') ed t c ty token cid number nm =
      (case push_dispatch (Some provider) (push_request ed t c ty token cid number nm) of
         Inr (PushSent m) \<Rightarrow> Inr m | Inr (PushErr e) \<Rightarrow> Inl (PushFailed (GStatus Unavailable (Push e)))
       | Inr (PushPanic m) \<Rightarrow> Inl (PushFailed GCrash) | Inl e \<Rightarrow> Inl (PushFailed e))" for ty cid
    using key r(8) assms(2,7) by (simp add: client_push_def PushDevice_def push_request_def Let_def split: sum.split push_result.split)
  then show ?thesis
    using route assms(3,8)
    by (simp add: client_SendCallNotification_def client_SendVoicemailNotification_def client_SendMessageNotification_def
        push_dispatch_def push_request_def Let_def reg_SendCallNotification_def reg_SendVoicemailNotification_def
        reg_SendMessageNotification_def reg_send_def)
qed

definition lake_key :: KSim where
  "lake_key = \<lparr>PublicKey = replicate 32 1, PrivateKey = replicate 64 1\<rparr>"

theorem join_route_push_witness:
  "\<exists>s'. client_RegisterServer (RegisterOCNServer (\<lambda>_. 0) (secs 1000) empty_registry) ''Lakeside'' [] ''lake:9110'' ''440'' (PublicKey lake_key) = (Inr ''440'', s') \<and>
     Route (route_call s') ''440'' = Inr ''lake:9110'' \<and>
     client_SendVoicemailNotification (PushDevice reg_ed (secs 2000) s') reg_ed (secs 1900)
       (SetArea (SetIdentity \<lparr>rc_address = ''reg:7443'', rc_key = None, rc_area = []\<rparr> lake_key) ''440'') ''device'' ''5551234'' ''Ann'' =
       Inr (notice_message ''voicemail'' ''device'' ''5551234'' ''Ann'')"
proof -
  have j: "client_RegisterServer (RegisterOCNServer (\<lambda>_. 0) (secs 1000) empty_registry) ''Lakeside'' [] ''lake:9110'' ''440'' (PublicKey lake_key) = (Inr ''440'', lakeside)"
    using sample_register by (simp add: client_RegisterServer_def lake_key_def sample_join_def)
  show ?thesis
    by (rule exI [of _ lakeside], intro conjI j)
      (use join_route_push [OF j, of "\<lambda>_. None" reg_ed "SetArea (SetIdentity \<lparr>rc_address = ''reg:7443'', rc_key = None, rc_area = []\<rparr> lake_key) ''440''"
         "\<lparr>rc_address = ''reg:7443'', rc_key = None, rc_area = []\<rparr>" "''device''" "''c1''" "secs 1900" "secs 2000" "''5551234''" "''Ann''"]
       in \<open>auto simp: empty_registry_def reg_New_def reg_ed_def lake_key_def unix_secs_def secs_def\<close>)
qed

end
