(* ===== verification/Admin_Panel.thy ===== *)
theory Admin_Panel
  imports Store_Admin Identity Http Registry_Client
begin

text \<open>
  The operator panel of an exchange and its public sign-up page
  (\<open>ocnserver/internal/admin/server.go\<close>, \<open>join.go\<close>, \<open>federation.go\<close>).

  A handler maps the store to the answer and the new store. Bodies are given decoded (\<open>None\<close> when
  \<open>readJSON\<close> fails), query parameters as the strings of the URL. Parameters of a panel
  (\<open>admin_env\<close>): bcrypt, random bytes, the draws of \<open>RandomFreeNumbers\<close>, the rendering of QR codes (a
  third-party library, \<open>None\<close> when it fails), RFC 3339 formatting, the text of an error, the numbers
  that are on line, the disk with the server key, and the registry as the stub of \<open>Registry_Client\<close>.
  \<open>panel\<close> is the routing table of \<open>routes\<close>, without the static files. An HTTP request is served from
  start to end before the next one.
\<close>

section \<open>Options and requests\<close>

record admin_opts =
  ao_Online :: "(string \<Rightarrow> bool) option"
  ao_OnlineCount :: nat
  ao_SignalingPort :: int
  ao_PublicAddress :: string
  ao_AreaCode :: string
  ao_ServerName :: string
  ao_ServerKeyPath :: string
  ao_Area :: "string option"
  ao_RegistryAddress :: string
  ao_OnFederated :: "(FederationSettings \<Rightarrow> string \<Rightarrow> string option) option"

record 'w admin_env =
  ae_opts :: admin_opts
  ae_now :: gotime
  ae_gen :: "string \<Rightarrow> string option"
  ae_cmp :: "string \<Rightarrow> string \<Rightarrow> bool"
  ae_rand :: "bytes option"
  ae_draw :: "nat \<Rightarrow> nat"
  ae_qr :: "string \<Rightarrow> nat \<Rightarrow> bytes option"
  ae_rfc3339 :: "gotime \<Rightarrow> string"
  ae_text :: "store_error \<Rightarrow> string"
  ae_load :: "string \<Rightarrow> string + KSim"
  ae_dial :: "string \<Rightarrow> bool \<Rightarrow> bool"
  ae_join :: "RegisterOCNServerRequest \<Rightarrow> (grpc_error + RegisterOCNServerResponse) \<times> 'w"
  ae_client_text :: "client_error \<Rightarrow> string"

definition requireAuth ::
  "gotime \<Rightarrow> http_req \<Rightarrow> (string \<Rightarrow> store \<Rightarrow> http_resp \<times> store) \<Rightarrow> store \<Rightarrow> http_resp \<times> store" where
  "requireAuth now r next_handler s =
     (case SessionUsername s now (bearer_token r) of
        (Inl _, s) \<Rightarrow> ((401, err_json ''not authenticated''), s)
      | (Inr u, s) \<Rightarrow> next_handler u s)"

section \<open>Accounts\<close>

definition handleLogin :: "'w admin_env \<Rightarrow> LoginRequest option \<Rightarrow> store \<Rightarrow> http_resp \<times> store" where
  "handleLogin e body s =
     (case body of
        None \<Rightarrow> ((400, err_json ''bad request''), s)
      | Some req \<Rightarrow>
          (case VerifyAdminLogin (ae_cmp e) s (ae_now e) (lr_Username req) (lr_Password req) of
             Inl _ \<Rightarrow> ((401, err_json ''invalid username or password''), s)
           | Inr (mustChange, s) \<Rightarrow>
               (case CreateSession s (ae_now e) (ae_rand e) (lr_Username req) of
                  Inl _ \<Rightarrow> ((500, err_json ''failed to create session''), s)
                | Inr (token, s) \<Rightarrow>
                    ((200, JObj [(''token'', JStr token), (''username'', JStr (lr_Username req)),
                                 (''must_change'', JBool mustChange)]), s))))"

definition handleLogout :: "http_req \<Rightarrow> store \<Rightarrow> http_resp \<times> store" where
  "handleLogout r s = ((200, ok_json), case DeleteSession s (bearer_token r) of Inl _ \<Rightarrow> s | Inr s' \<Rightarrow> s')"

definition handleMe :: "string \<Rightarrow> store \<Rightarrow> http_resp \<times> store" where
  "handleMe user s =
     ((200, JObj [(''username'', JStr user),
        (''must_change'', JBool (case AdminMustChange s user of Inl _ \<Rightarrow> False | Inr m \<Rightarrow> m))]), s)"

definition handlePassword :: "'w admin_env \<Rightarrow> PasswordRequest option \<Rightarrow> string \<Rightarrow> store \<Rightarrow> http_resp \<times> store" where
  "handlePassword e body user s =
     (case body of
        None \<Rightarrow> ((400, err_json ''bad request''), s)
      | Some req \<Rightarrow>
          (case ChangeAdminPassword (ae_gen e) (ae_cmp e) s user (pw_OldPassword req) (pw_NewPassword req) of
             Inl err \<Rightarrow> ((400, err_json (ae_text e err)), s)
           | Inr s' \<Rightarrow> ((200, ok_json), s')))"

section \<open>Lines\<close>

definition handleStats :: "'w admin_env \<Rightarrow> store \<Rightarrow> http_resp" where
  "handleStats e s =
     (case LinesTotal s of Inl err \<Rightarrow> (500, err_json (ae_text e err)) | Inr lines \<Rightarrow>
     (case FreeNumberEstimate s of Inl err \<Rightarrow> (500, err_json (ae_text e err)) | Inr free \<Rightarrow>
     (case ProvisionTokenCounts s of Inl err \<Rightarrow> (500, err_json (ae_text e err)) | Inr (issued, used) \<Rightarrow>
        (200, JObj [(''lines_total'', JInt (int lines)),
           (''lines_online'', JInt (case ao_Online (ae_opts e) of None \<Rightarrow> 0 | Some _ \<Rightarrow> int (ao_OnlineCount (ae_opts e)))),
           (''free_estimate'', JInt (int free)), (''tokens_issued'', JInt (int issued)), (''tokens_used'', JInt (int used)),
           (''server_name'', JStr (ao_ServerName (ae_opts e))), (''area_code'', JStr (ao_AreaCode (ae_opts e)))]))))"

definition lineDTO :: "(string \<Rightarrow> bool) option \<Rightarrow> User \<Rightarrow> json" where
  "lineDTO online u =
     JObj [(''number'', JStr (Number u)), (''display_number'', JStr (FormatNumber (AreaCode u) (Number u))),
       (''display_name'', JStr (DisplayName u)),
       (''online'', JBool (case online of None \<Rightarrow> False | Some f \<Rightarrow> f (Number u))),
       (''fcm'', JBool (FCMToken u \<noteq> [])), (''registered_at'', JInt (RegisteredAt u)), (''last_seen'', JInt (LastSeen u))]"

definition handleListLines :: "'w admin_env \<Rightarrow> string \<Rightarrow> string \<Rightarrow> string \<Rightarrow> store \<Rightarrow> http_resp" where
  "handleListLines e search qoffset qlimit s =
     (let offset = Atoi qoffset; limit = Atoi qlimit;
          limit = (if limit \<le> 0 \<or> 200 < limit then 50 else limit)
      in case ListLines s search offset limit of
           Inl err \<Rightarrow> (500, err_json (ae_text e err))
         | Inr (us, cnt) \<Rightarrow>
             (200, JObj [(''lines'', JArr (map (lineDTO (ao_Online (ae_opts e))) us)), (''total'', JInt (int cnt))]))"

record UpdateLineRequest =
  ul_DisplayName :: "string option"
  ul_Number :: "string option"

definition handleUpdateLine :: "'w admin_env \<Rightarrow> string \<Rightarrow> UpdateLineRequest option \<Rightarrow> store \<Rightarrow> http_resp \<times> store" where
  "handleUpdateLine e number body s =
     (case body of
        None \<Rightarrow> ((400, err_json ''bad request''), s)
      | Some req \<Rightarrow>
          (case UpdateLine s number (ul_DisplayName req) (ul_Number req) of
             Inl err \<Rightarrow> ((400, err_json (ae_text e err)), s)
           | Inr s' \<Rightarrow> ((200, ok_json), s')))"

definition handleDeleteLine :: "'w admin_env \<Rightarrow> string \<Rightarrow> store \<Rightarrow> http_resp \<times> store" where
  "handleDeleteLine e number s =
     (case DeleteLineByNumber s number of
        Inl err \<Rightarrow> ((400, err_json (ae_text e err)), s)
      | Inr s' \<Rightarrow> ((200, ok_json), s'))"

definition handleFreeNumbers :: "'w admin_env \<Rightarrow> string \<Rightarrow> store \<Rightarrow> http_resp" where
  "handleFreeNumbers e qcount s =
     (let count = Atoi qcount; count = (if count \<le> 0 \<or> 50 < count then 12 else count)
      in case RandomFreeNumbers (ae_draw e) s (nat count) of
           Inl err \<Rightarrow> (500, err_json (ae_text e err))
         | Inr nums \<Rightarrow> (200, JObj [(''numbers'', JArr (map JStr nums))]))"

section \<open>Provisioning\<close>

definition token_json :: "ProvisionTokenView \<Rightarrow> json" where
  "token_json v = JObj [(''token_hash'', JStr (tv_token_hash v)), (''number'', JStr (tv_number v)),
     (''display_name'', JStr (tv_display_name v)), (''notes'', JStr (tv_notes v)), (''created_by'', JStr (tv_created_by v)),
     (''created_at'', JInt (tv_created_at v)), (''expires_at'', JInt (tv_expires_at v)), (''status'', JStr (tv_status v))]"

definition handleListProvisions :: "'w admin_env \<Rightarrow> string \<Rightarrow> store \<Rightarrow> http_resp" where
  "handleListProvisions e qlimit s =
     (let limit = Atoi qlimit; limit = (if limit \<le> 0 \<or> 200 < limit then 100 else limit)
      in case ListProvisionTokens s limit of
           Inl err \<Rightarrow> (500, err_json (ae_text e err))
         | Inr tokens \<Rightarrow> (200, JObj [(''tokens'', JArr (map token_json tokens))]))"

definition newToken :: "bytes option \<Rightarrow> string option" where
  "newToken rand = map_option RawURLEncode rand"

text \<open>\<open>host[:strings.LastIndexByte(host, ':')]\<close>, the whole string when there is no colon.\<close>

definition before_last_colon :: "string \<Rightarrow> string" where
  "before_last_colon host =
     (if CHR '':'' \<in> set host then rev (tl (dropWhile (\<lambda>c. c \<noteq> CHR '':'') (rev host))) else host)"

definition ws_address :: "admin_opts \<Rightarrow> http_req \<Rightarrow> string" where
  "ws_address ao r =
     (let wsAddr = TrimSpace (ao_PublicAddress ao) in
      if wsAddr \<noteq> [] then wsAddr
      else let host = before_last_colon (h_host r);
               host = (if host = [] then ''localhost'' else host);
               port = (if ao_SignalingPort ao \<le> 0 then 9100 else ao_SignalingPort ao)
           in host @ '':'' @ fmt_d port)"

definition provisionURI :: "admin_opts \<Rightarrow> http_req \<Rightarrow> string \<Rightarrow> string \<Rightarrow> string \<times> string" where
  "provisionURI ao r token name =
     (let wsAddr = ws_address ao r;
          scheme = (if h_tls r then ''wss'' else ''ws'');
          server = scheme @ ''://'' @ wsAddr @ ''/ws'';
          host = before_last_colon wsAddr
      in (''ocnksim://'' @ host @ ''/?'' @
            query_encode ((if name \<noteq> [] then [(''name'', name)] else []) @ [(''server'', server), (''token'', token)]),
          host))"

record CreateProvisionRequest =
  cp_Number :: string
  cp_DisplayName :: string
  cp_Notes :: string
  cp_ValidHours :: int

definition valid_hours :: "int \<Rightarrow> int" where
  "valid_hours h = (let h = (if h \<le> 0 then 24 else h) in if h > 24 * 30 then 24 * 30 else h)"

definition provision_json :: "string \<Rightarrow> string \<Rightarrow> string \<Rightarrow> bytes \<Rightarrow> string \<Rightarrow> (string \<times> json) list" where
  "provision_json secret uri host png expires =
     [(''token'', JStr secret), (''url'', JStr uri), (''host'', JStr host),
      (''qr_data'', JStr (''data:image/png;base64,'' @ StdEncode png)), (''expires_at'', JStr expires)]"

definition mint ::
  "'w admin_env \<Rightarrow> http_req \<Rightarrow> string \<Rightarrow> CreateProvisionRequest \<Rightarrow> string \<Rightarrow> store \<Rightarrow> http_resp \<times> store" where
  "mint e r user req number s =
     (case newToken (ae_rand e) of
        None \<Rightarrow> ((500, err_json (ae_text e ErrRand)), s)
      | Some secret \<Rightarrow>
          let ttl = secs (valid_hours (cp_ValidHours req) * 3600) in
          (case NewProvisionToken s (ae_now e) (HashToken secret) number (cp_DisplayName req) (cp_Notes req) user ttl of
             Inl err \<Rightarrow>
               ((if err = ErrNumberTaken then (409, err_json ''that number is already in use or reserved'')
                 else (500, err_json (ae_text e err))), s)
           | Inr s' \<Rightarrow>
               let (uri, host) = provisionURI (ae_opts e) r secret (cp_DisplayName req) in
               (case ae_qr e uri 280 of
                  None \<Rightarrow> ((500, err_json ''failed to render QR code''), s')
                | Some png \<Rightarrow>
                    ((201, JObj (provision_json secret uri host png (ae_rfc3339 e (ae_now e + ttl)) @
                             [(''number'', JStr number)])), s'))))"

definition handleCreateProvision ::
  "'w admin_env \<Rightarrow> http_req \<Rightarrow> CreateProvisionRequest option \<Rightarrow> string \<Rightarrow> store \<Rightarrow> http_resp \<times> store" where
  "handleCreateProvision e r body user s =
     (case body of
        None \<Rightarrow> ((400, err_json ''bad request''), s)
      | Some req \<Rightarrow>
          let number = TrimSpace (cp_Number req) in
          if number = [] then mint e r user req number s
          else (case NumberAvailable s number of
                  Inl err \<Rightarrow> ((500, err_json (ae_text e err)), s)
                | Inr False \<Rightarrow> ((409, err_json ''that number is already in use or reserved''), s)
                | Inr True \<Rightarrow> mint e r user req number s))"

definition handleRevokeProvision :: "'w admin_env \<Rightarrow> string \<Rightarrow> store \<Rightarrow> http_resp \<times> store" where
  "handleRevokeProvision e tid s =
     (case RevokeProvisionToken s tid of
        Inl err \<Rightarrow> ((400, err_json (ae_text e err)), s)
      | Inr s' \<Rightarrow> ((200, ok_json), s'))"

section \<open>Public sign-up: join.go\<close>

definition handleJoinMint :: "'w admin_env \<Rightarrow> http_req \<Rightarrow> string option \<Rightarrow> store \<Rightarrow> http_resp \<times> store" where
  "handleJoinMint e r body s =
     (case body of
        None \<Rightarrow> ((400, err_json ''bad request''), s)
      | Some displayName \<Rightarrow>
          let displayName = take 60 (TrimSpace displayName) in
          (case newToken (ae_rand e) of
             None \<Rightarrow> ((500, err_json ''failed to generate token''), s)
           | Some secret \<Rightarrow>
               let ttl = secs (24 * 3600) in
               (case NewProvisionToken s (ae_now e) (HashToken secret) [] displayName ''web join'' ''web'' ttl of
                  Inl _ \<Rightarrow> ((500, err_json ''failed to create provisioning token''), s)
                | Inr s' \<Rightarrow>
                    let (uri, host) = provisionURI (ae_opts e) r secret displayName in
                    (case ae_qr e uri 320 of
                       None \<Rightarrow> ((500, err_json ''failed to render QR code''), s')
                     | Some png \<Rightarrow>
                         ((201, JObj (provision_json secret uri host png (ae_rfc3339 e (ae_now e + ttl)))), s')))))"

section \<open>Federation: federation.go\<close>

definition handleFederationStatus :: "'w admin_env \<Rightarrow> store \<Rightarrow> http_resp" where
  "handleFederationStatus e s =
     (case GetFederationSettings s of
        Inl err \<Rightarrow> (500, err_json (ae_text e err))
      | Inr fs \<Rightarrow>
          let registryAddr = (if RegistryAddress fs = [] then ao_RegistryAddress (ae_opts e) else RegistryAddress fs);
              area = (case GetSetting s ''area_code'' of Inl _ \<Rightarrow> [] | Inr a \<Rightarrow> a);
              liveArea = (case ao_Area (ae_opts e) of None \<Rightarrow> area | Some a \<Rightarrow> if a \<noteq> [] then a else area)
          in (200, JObj [(''configured'', JBool (registryAddr \<noteq> [])), (''panel_managed'', JBool (RegistryAddress fs \<noteq> [])),
                (''registry_address'', JStr registryAddr), (''registry_insecure'', JBool (RegistryInsecure fs)),
                (''requested_area_code'', JStr (RequestedAreaCode fs)),
                (''federation_public_address'', JStr (FederationPublicAddr fs)), (''area_code'', JStr area),
                (''server_area_code'', JStr liveArea)]))"

definition federation_saved ::
  "'w admin_env \<Rightarrow> FederationSettings \<Rightarrow> string \<Rightarrow> store \<Rightarrow> http_resp \<times> store" where
  "federation_saved e fs area s =
     (case SaveFederationSettings s fs of
        Inl err \<Rightarrow> ((500, err_json (ae_text e err)), s)
      | Inr s1 \<Rightarrow>
          (case SetSetting s1 ''area_code'' area of
             Inl err \<Rightarrow> ((500, err_json (ae_text e err)), s1)
           | Inr s2 \<Rightarrow>
               ((200, JObj
                  (case ao_OnFederated (ae_opts e) of
                     None \<Rightarrow>
                       [(''ok'', JBool True), (''area_code'', JStr area), (''restart_required'', JBool True),
                        (''message'', JStr ''Registered. Restart the OCN server to activate federation.'')]
                   | Some hook \<Rightarrow>
                       (case hook fs area of
                          Some err \<Rightarrow>
                            [(''ok'', JBool True), (''area_code'', JStr area), (''restart_required'', JBool True),
                             (''message'', JStr (''Registered with area code '' @ area @ '' but live activation failed ('' @ err @
                               ''). Restart to apply.''))]
                        | None \<Rightarrow>
                            [(''ok'', JBool True), (''area_code'', JStr area), (''restart_required'', JBool False),
                             (''message'', JStr (''Registered and federated with area code '' @ area @ ''. Active now '' @
                               map char_of [0xE2, 0x80, 0x94 :: nat] @ '' no restart needed.''))]))), s2)))"

definition handleFederationRegister ::
  "'w admin_env \<Rightarrow> 'w \<Rightarrow> FederationSettings option \<Rightarrow> store \<Rightarrow> http_resp \<times> store \<times> 'w" where
  "handleFederationRegister e w body s =
     (case body of
        None \<Rightarrow> ((400, err_json ''bad request''), s, w)
      | Some req \<Rightarrow>
          let fs = \<lparr>RegistryAddress = TrimSpace (RegistryAddress req), RegistryInsecure = RegistryInsecure req,
                    RequestedAreaCode = TrimSpace (RequestedAreaCode req),
                    FederationPublicAddr = TrimSpace (FederationPublicAddr req)\<rparr> in
          if RegistryAddress fs = [] then ((400, err_json ''registry_address is required''), s, w)
          else if FederationPublicAddr fs = []
          then ((400, err_json ''federation_public_address is required (other servers reach you on it)''), s, w)
          else (case ae_load e (ao_ServerKeyPath (ae_opts e)) of
                  Inl err \<Rightarrow> ((500, err_json (''cannot load server key: '' @ err)), s, w)
                | Inr key \<Rightarrow>
                    (case Dial (ae_dial e) (RegistryAddress fs) (RegistryInsecure fs) of
                       Inl err \<Rightarrow> ((502, err_json (''cannot reach registry: '' @ ae_client_text e err)), s, w)
                     | Inr c \<Rightarrow>
                         (case client_RegisterServer (ae_join e) (ao_ServerName (ae_opts e)) ''registered from admin panel''
                                 (FederationPublicAddr fs) (RequestedAreaCode fs) (PublicKey key) of
                            (Inl err, w') \<Rightarrow> ((502, err_json (''registry refused registration: '' @ ae_client_text e err)), s, w')
                          | (Inr area, w') \<Rightarrow> (case federation_saved e fs area s of (resp, s') \<Rightarrow> (resp, s', w'))))))"

definition handleFederationClear :: "'w admin_env \<Rightarrow> store \<Rightarrow> http_resp \<times> store" where
  "handleFederationClear e s =
     (case ClearFederationSettings s of
        Inl err \<Rightarrow> ((500, err_json (ae_text e err)), s)
      | Inr s' \<Rightarrow> ((200, JObj [(''ok'', JBool True), (''restart_required'', JBool True),
                         (''message'', JStr ''Federation settings cleared. Restart to run standalone.'')]), s'))"

section \<open>Routes\<close>

datatype admin_request =
    AJoinMint "string option" | ALogin "LoginRequest option" | ALogout | AMe | APassword "PasswordRequest option"
  | AStats | AListLines string string string | AUpdateLine string "UpdateLineRequest option" | ADeleteLine string
  | AFreeNumbers string | AListProvisions string | ACreateProvision "CreateProvisionRequest option"
  | ARevokeProvision string | AFedStatus | AFedRegister "FederationSettings option" | AFedClear

definition panel :: "'w admin_env \<Rightarrow> 'w \<Rightarrow> http_req \<Rightarrow> admin_request \<Rightarrow> store \<Rightarrow> http_resp \<times> store \<times> 'w" where
  "panel e w r rq s =
     (let auth = (\<lambda>h. case requireAuth (ae_now e) r h s of (resp, s') \<Rightarrow> (resp, s', w));
          query = (\<lambda>f. auth (\<lambda>_ s. (f s, s)))
      in case rq of
           AJoinMint body \<Rightarrow> (case handleJoinMint e r body s of (resp, s') \<Rightarrow> (resp, s', w))
         | ALogin body \<Rightarrow> (case handleLogin e body s of (resp, s') \<Rightarrow> (resp, s', w))
         | ALogout \<Rightarrow> auth (\<lambda>_. handleLogout r)
         | AMe \<Rightarrow> auth handleMe
         | APassword body \<Rightarrow> auth (handlePassword e body)
         | AStats \<Rightarrow> query (handleStats e)
         | AListLines search off lim \<Rightarrow> query (handleListLines e search off lim)
         | AUpdateLine num body \<Rightarrow> auth (\<lambda>_. handleUpdateLine e num body)
         | ADeleteLine num \<Rightarrow> auth (\<lambda>_. handleDeleteLine e num)
         | AFreeNumbers cnt \<Rightarrow> query (handleFreeNumbers e cnt)
         | AListProvisions lim \<Rightarrow> query (handleListProvisions e lim)
         | ACreateProvision body \<Rightarrow> auth (handleCreateProvision e r body)
         | ARevokeProvision tid \<Rightarrow> auth (\<lambda>_. handleRevokeProvision e tid)
         | AFedStatus \<Rightarrow> query (handleFederationStatus e)
         | AFedRegister body \<Rightarrow>
             (case SessionUsername s (ae_now e) (bearer_token r) of
                (Inl _, s') \<Rightarrow> ((401, err_json ''not authenticated''), s', w)
              | (Inr _, s') \<Rightarrow> handleFederationRegister e w body s')
         | AFedClear \<Rightarrow> auth (\<lambda>_. handleFederationClear e))"

end
