(* ===== verification/Admin_Props.thy ===== *)
theory Admin_Props
  imports Admin_Panel
begin

text \<open>
  Properties of the exchange's operator panel, and of the panel together with the store and the
  registry it works on.
\<close>

section \<open>Lemmas\<close>

definition json_field :: "json \<Rightarrow> string \<Rightarrow> json option" where
  "json_field j k = (case j of JObj kvs \<Rightarrow> map_of kvs k | _ \<Rightarrow> None)"

lemma valid_hours_bounds: "1 \<le> valid_hours h \<and> valid_hours h \<le> 720"
  by (simp add: valid_hours_def Let_def)

lemma session_lookup_tables:
  assumes "SessionUsername s now t = (res, s')"
  shows "users s' = users s" "provisioning_tokens s' = provisioning_tokens s" "settings s' = settings s"
    "admin_accounts s' = admin_accounts s" "voicemail s' = voicemail s" "dm_outbox s' = dm_outbox s" "db_up s' = db_up s"
  using assms by (auto simp: SessionUsername_def drop_session_def split: if_splits option.splits)

text \<open>What a minted token is.\<close>

definition minted :: "'w admin_env \<Rightarrow> string \<Rightarrow> CreateProvisionRequest \<Rightarrow> string \<Rightarrow> string \<Rightarrow> ProvisionToken" where
  "minted e user req number secret =
     \<lparr>TokenHash = HashToken secret, TNumber = nullIfEmpty number, TDisplayName = cp_DisplayName req, Notes = cp_Notes req,
      CreatedBy = user, TCreatedAt = unix_secs (ae_now e),
      ExpiresAt = unix_secs (ae_now e + secs (valid_hours (cp_ValidHours req) * 3600)), Status = ''issued'',
      ClaimedPubKey = None, ClaimedAt = None\<rparr>"

lemma NewProvisionToken_result:
  assumes "NewProvisionToken s now th number dn notes by ttl = Inr s'"
  shows "db_up s" "find (\<lambda>t. TokenHash t = th) (provisioning_tokens s) = None"
    "s' = s\<lparr>provisioning_tokens := provisioning_tokens s @ [\<lparr>TokenHash = th, TNumber = nullIfEmpty number,
       TDisplayName = dn, Notes = notes, CreatedBy = by, TCreatedAt = unix_secs now, ExpiresAt = unix_secs (now + ttl),
       Status = ''issued'', ClaimedPubKey = None, ClaimedAt = None\<rparr>]\<rparr>"
  using assms by (auto simp: NewProvisionToken_def Let_def find_None_iff split: if_splits)

lemma mint_cases:
  assumes "mint e r user req number s = (resp, s')"
  obtains (refused) "s' = s" "fst resp \<noteq> 201"
  | (issued) secret where "newToken (ae_rand e) = Some secret"
      "NewProvisionToken s (ae_now e) (HashToken secret) number (cp_DisplayName req) (cp_Notes req) user
         (secs (valid_hours (cp_ValidHours req) * 3600)) = Inr s'"
      "s' = s\<lparr>provisioning_tokens := provisioning_tokens s @ [minted e user req number secret]\<rparr>"
      "resp = (case ae_qr e (fst (provisionURI (ae_opts e) r secret (cp_DisplayName req))) 280 of
         None \<Rightarrow> (500, err_json ''failed to render QR code'')
       | Some png \<Rightarrow> (201, JObj (provision_json secret (fst (provisionURI (ae_opts e) r secret (cp_DisplayName req)))
           (snd (provisionURI (ae_opts e) r secret (cp_DisplayName req))) png
           (ae_rfc3339 e (ae_now e + secs (valid_hours (cp_ValidHours req) * 3600))) @ [(''number'', JStr number)])))"
proof (cases "newToken (ae_rand e)")
  case None
  then show ?thesis using assms refused by (auto simp: mint_def)
next
  case (Some secret)
  show ?thesis
  proof (cases "NewProvisionToken s (ae_now e) (HashToken secret) number (cp_DisplayName req) (cp_Notes req) user
      (secs (valid_hours (cp_ValidHours req) * 3600))")
    case (Inl err)
    then show ?thesis using assms Some refused by (auto simp: mint_def Let_def split: if_splits)
  next
    case (Inr s1)
    then have "s1 = s'" using assms Some by (auto simp: mint_def Let_def split: prod.splits option.splits)
    with Inr show ?thesis
      using assms Some NewProvisionToken_result(3) [OF Inr]
      by (intro issued [OF Some]) (auto simp: mint_def minted_def Let_def split: prod.splits option.splits)
  qed
qed

lemma handleCreateProvision_minted:
  assumes "handleCreateProvision e r (Some req) user s = (resp, s')" and "fst resp \<in> {201, 500}" and "s' \<noteq> s"
  shows "mint e r user req (TrimSpace (cp_Number req)) s = (resp, s')"
    and "TrimSpace (cp_Number req) \<noteq> [] \<longrightarrow> NumberAvailable s (TrimSpace (cp_Number req)) = Inr True"
  using assms by (auto simp: handleCreateProvision_def Let_def split: if_splits sum.splits bool.splits)

lemma activate_minted:
  assumes "find (\<lambda>t. TokenHash t = HashToken secret) (provisioning_tokens s) = None" and "db_up s"
    and "unix_secs now' \<le> ExpiresAt (minted e user req number secret)" and "number \<noteq> []"
    and "count_number s number = 0" and "pk \<notin> KSimPublicKey ` set (users s)"
  shows "\<exists>s2. ProvisionUser rnd (s\<lparr>provisioning_tokens := provisioning_tokens s @ [minted e user req number secret]\<rparr>)
    now' (HashToken secret) pk area nm = Inr (number, s2)"
proof -
  let ?s = "s\<lparr>provisioning_tokens := provisioning_tokens s @ [minted e user req number secret]\<rparr>"
  have f: "find (\<lambda>t. TokenHash t = HashToken secret) (provisioning_tokens ?s) = Some (minted e user req number secret)"
    using assms(1) by (simp add: find_append minted_def)
  have num: "TNumber (minted e user req number secret) = Some number" "Status (minted e user req number secret) = ''issued''"
    using assms(4) by (simp_all add: minted_def nullIfEmpty_def)
  have free: "count_number ?s number = 0" "number \<notin> Number ` set (users s)"
    using assms(5) count_number_0 [of s number] by (auto simp: count_number_def)
  have "\<exists>s2. provisionUserOnce (rnd 0) ?s now' (HashToken secret) pk area nm = Inr (number, s2)"
    using assms(2,3,4,6) f num free by (auto simp: provisionUserOnce_def insert_user_def)
  then show ?thesis using ProvisionUser_first [of "HashToken secret" rnd ?s] by auto
qed

section \<open>Properties\<close>

text \<open>
  C20. What the operator hands out works: when the panel answers a provisioning request for a number
  with 201, the answer carries the secret, only its hash is stored, and any device with a new key
  that activates with that secret before the chosen time (one hour to thirty days) is given exactly
  the number the operator chose, whatever the random source does.
\<close>

theorem provision_activates:
  assumes "handleCreateProvision e r (Some req) user s = ((201, j), s1)"
    and "TrimSpace (cp_Number req) \<noteq> []" and "pk \<notin> KSimPublicKey ` set (users s)"
    and "unix_secs now' \<le> unix_secs (ae_now e + secs (valid_hours (cp_ValidHours req) * 3600))"
  shows "\<exists>secret s2. json_field j ''token'' = Some (JStr secret) \<and>
    (\<exists>t. provisioning_tokens s1 = provisioning_tokens s @ [t] \<and> TokenHash t = HashToken secret \<and> CreatedBy t = user) \<and>
    ProvisionUser rnd s1 now' (HashToken secret) pk area nm = Inr (TrimSpace (cp_Number req), s2) \<and>
    1 \<le> valid_hours (cp_ValidHours req) \<and> valid_hours (cp_ValidHours req) \<le> 720"
proof -
  let ?n = "TrimSpace (cp_Number req)"
  have m: "NumberAvailable s ?n = Inr True \<and> mint e r user req ?n s = ((201, j), s1)"
    using assms(1,2) by (auto simp: handleCreateProvision_def Let_def split: sum.splits bool.splits)
  then have "mint e r user req ?n s = ((201, j), s1)" ..
  then show ?thesis
  proof (cases rule: mint_cases)
    case (issued secret)
    have "\<exists>s2. ProvisionUser rnd s1 now' (HashToken secret) pk area nm = Inr (?n, s2)"
      unfolding issued(3) using m assms(2-4) NewProvisionToken_result(1,2) [OF issued(2)]
      by (intro activate_minted) (auto simp: minted_def NumberAvailable_def split: if_splits)
    moreover have "json_field j ''token'' = Some (JStr secret)"
      using issued(4) by (auto simp: json_field_def provision_json_def split: option.splits)
    moreover have "\<exists>t. provisioning_tokens s1 = provisioning_tokens s @ [t] \<and> TokenHash t = HashToken secret \<and> CreatedBy t = user"
      using issued(3) by (simp add: minted_def)
    ultimately show ?thesis using valid_hours_bounds by blast
  qed simp
qed

definition sample_opts :: admin_opts where
  "sample_opts = \<lparr>ao_Online = None, ao_OnlineCount = 0, ao_SignalingPort = 9100, ao_PublicAddress = ''ocn.example:9100'',
     ao_AreaCode = ''440'', ao_ServerName = ''Lakeside'', ao_ServerKeyPath = ''server.key'', ao_Area = None,
     ao_RegistryAddress = [], ao_OnFederated = None\<rparr>"

definition sample_admin :: "registry_server admin_env" where
  "sample_admin = \<lparr>ae_opts = sample_opts, ae_now = secs 1000, ae_gen = Some, ae_cmp = (=), ae_rand = Some (replicate 32 5),
     ae_draw = (\<lambda>_. 0), ae_qr = (\<lambda>_ _. Some []), ae_rfc3339 = (\<lambda>_. []), ae_text = (\<lambda>_. []),
     ae_load = (\<lambda>_. Inr lake_key), ae_dial = (\<lambda>_ _. True), ae_join = RegisterOCNServer (\<lambda>_. 0) (secs 1000) empty_registry,
     ae_client_text = (\<lambda>_. [])\<rparr>"

definition sample_http :: http_req where
  "sample_http = \<lparr>h_authorization = [], h_host = ''ocn.example:8080'', h_tls = False\<rparr>"

definition sample_provision_req :: CreateProvisionRequest where
  "sample_provision_req = \<lparr>cp_Number = ''5551234'', cp_DisplayName = ''Ann'', cp_Notes = [], cp_ValidHours = 0\<rparr>"

lemma trim_5551234: "TrimSpace ''5551234'' = ''5551234''"
  by (rule TrimSpace_digits) (simp add: is_digit_def)

lemma sample_created:
  "\<exists>j s1. handleCreateProvision sample_admin sample_http (Some sample_provision_req) ''admin'' empty_store = ((201, j), s1)"
  by (simp add: handleCreateProvision_def sample_provision_req_def trim_5551234 NumberAvailable_def count_number_def
      count_reserved_def empty_store_def mint_def newToken_def sample_admin_def NewProvisionToken_def Let_def
      split: prod.split)

theorem provision_activates_witness:
  "\<exists>j s1 secret s2. handleCreateProvision sample_admin sample_http (Some sample_provision_req) ''admin'' empty_store = ((201, j), s1) \<and>
     ProvisionUser (\<lambda>_ _. 0) s1 (secs 2000) (HashToken secret) [7] ''440'' ''Ann'' = Inr (''5551234'', s2)"
proof -
  obtain j s1 where c: "handleCreateProvision sample_admin sample_http (Some sample_provision_req) ''admin'' empty_store = ((201, j), s1)"
    using sample_created by blast
  have "[7] \<notin> KSimPublicKey ` set (users empty_store)" by (simp add: empty_store_def)
  moreover have "unix_secs (secs 2000) \<le> unix_secs (ae_now sample_admin + secs (valid_hours (cp_ValidHours sample_provision_req) * 3600))"
    by (simp add: sample_admin_def sample_provision_req_def valid_hours_def Let_def unix_secs_def secs_def)
  ultimately show ?thesis
    using provision_activates [OF c, of "[7]" "secs 2000" "\<lambda>_ _. 0" "''440''" "''Ann''"] c
    by (auto simp: sample_provision_req_def trim_5551234)
qed

text \<open>
  The link in the QR code says what it should: whatever the display name and the address contain,
  taking its query apart gives back exactly the name (when there is one), the WebSocket address of
  the exchange, with the transport of the panel request, and the secret token.
\<close>

theorem provision_link_roundtrip:
  "\<exists>q. fst (provisionURI ao r token name) = ''ocnksim://'' @ snd (provisionURI ao r token name) @ ''/?'' @ q \<and>
     parse_query q = (if name \<noteq> [] then [(''name'', name)] else []) @
       [(''server'', (if h_tls r then ''wss'' else ''ws'') @ ''://'' @ ws_address ao r @ ''/ws''), (''token'', token)]"
  by (simp add: provisionURI_def Let_def parse_query_encode)

text \<open>
  A provisioning request whose QR code cannot be rendered is answered with an error, but its
  token stays issued: the secret appears in no answer, so nobody can activate it, and the number is
  refused to every later request.
\<close>

theorem qr_failure_reserves:
  assumes "handleCreateProvision e r (Some req) user s = ((500, j), s1)" and "s1 \<noteq> s"
    and "TrimSpace (cp_Number req) \<noteq> []"
  shows "j = err_json ''failed to render QR code'' \<and> NumberAvailable s (TrimSpace (cp_Number req)) = Inr True \<and>
    NumberAvailable s1 (TrimSpace (cp_Number req)) = Inr False \<and>
    (\<forall>e' r' user'. handleCreateProvision e' r' (Some req) user' s1 =
       ((409, err_json ''that number is already in use or reserved''), s1))"
proof -
  let ?n = "TrimSpace (cp_Number req)"
  have m: "mint e r user req ?n s = ((500, j), s1)" and av: "NumberAvailable s ?n = Inr True"
    using handleCreateProvision_minted [OF assms(1) _ assms(2)] assms(3) by auto
  from m show ?thesis
  proof (cases rule: mint_cases)
    case (issued secret)
    have "0 < count_reserved s1 ?n" "count_number s1 ?n = 0" "db_up s1"
      using issued(3) av assms(3)
      by (auto simp: count_reserved_def count_number_def minted_def nullIfEmpty_def NumberAvailable_def split: if_splits)
    then have "NumberAvailable s1 ?n = Inr False" by (simp add: NumberAvailable_def)
    with issued(4) av assms(3) show ?thesis by (simp add: handleCreateProvision_def split: option.splits)
  qed (use assms(2) in simp)
qed

theorem qr_failure_reserves_witness:
  "\<exists>s1. handleCreateProvision (sample_admin\<lparr>ae_qr := \<lambda>_ _. None\<rparr>) sample_http (Some sample_provision_req) ''admin'' empty_store =
       ((500, err_json ''failed to render QR code''), s1) \<and> NumberAvailable s1 ''5551234'' = Inr False"
proof -
  obtain s1 where c: "handleCreateProvision (sample_admin\<lparr>ae_qr := \<lambda>_ _. None\<rparr>) sample_http (Some sample_provision_req) ''admin'' empty_store =
       ((500, err_json ''failed to render QR code''), s1)" and n: "s1 \<noteq> empty_store"
    by (simp add: handleCreateProvision_def sample_provision_req_def trim_5551234 NumberAvailable_def count_number_def
      count_reserved_def empty_store_def mint_def newToken_def sample_admin_def NewProvisionToken_def Let_def
      split: prod.split)
  with qr_failure_reserves [OF c n] show ?thesis by (auto simp: sample_provision_req_def trim_5551234)
qed

text \<open>
  C21. The panel is closed without a session. A request that carries no unexpired session token is
  answered with 401 and changes neither lines, tokens, settings, accounts, mail nor the registry,
  except for the two public ones: a login answers 200 only for an account whose password matches,
  and the sign-up page adds at most one activation token, which reserves no number and expires
  after a day.
\<close>

theorem admin_panel_closed:
  assumes "\<And>u. fst (SessionUsername s (ae_now e) (bearer_token r)) \<noteq> Inr u"
    and "panel e w r rq s = ((code, j), s', w')"
  shows "users s' = users s \<and> settings s' = settings s \<and> voicemail s' = voicemail s \<and> dm_outbox s' = dm_outbox s \<and> w' = w \<and>
    (case rq of
       ALogin body \<Rightarrow> provisioning_tokens s' = provisioning_tokens s \<and>
         (code = 200 \<longrightarrow> (\<exists>req a. body = Some req \<and> account s (lr_Username req) = Some a \<and>
            ae_cmp e (PasswordHash a) (lr_Password req)))
     | AJoinMint _ \<Rightarrow> provisioning_tokens s' = provisioning_tokens s \<or>
         (\<exists>t. provisioning_tokens s' = provisioning_tokens s @ [t] \<and> TNumber t = None \<and>
            ExpiresAt t = unix_secs (ae_now e + secs (24 * 3600)))
     | _ \<Rightarrow> code = 401 \<and> provisioning_tokens s' = provisioning_tokens s \<and> admin_accounts s' = admin_accounts s)"
proof -
  obtain err s0 where l: "SessionUsername s (ae_now e) (bearer_token r) = (Inl err, s0)"
    using assms(1) by (cases "SessionUsername s (ae_now e) (bearer_token r)") (metis fst_conv sum.exhaust)
  note same = session_lookup_tables [OF l]
  have "requireAuth (ae_now e) r h s = ((401, err_json ''not authenticated''), s0)" for h
    using l by (simp add: requireAuth_def)
  note closed = this
  show ?thesis
  proof (cases rq)
    case (AJoinMint body)
    then show ?thesis using assms(2)
      by (auto simp: panel_def handleJoinMint_def nullIfEmpty_def Let_def dest: NewProvisionToken_result(3)
          split: option.splits sum.splits prod.splits)
  next
    case (ALogin body)
    then show ?thesis using assms(2)
      by (auto simp: panel_def handleLogin_def VerifyAdminLogin_def CreateSession_def update_account_def Let_def
          split: option.splits sum.splits prod.splits if_splits)
  qed (use assms(2) l same in \<open>auto simp: panel_def closed\<close>)
qed

theorem admin_panel_closed_witness:
  "\<exists>j s' w'. panel sample_admin empty_registry sample_http (ADeleteLine ''5551234'') sample_line = ((401, j), s', w') \<and> users s' = users sample_line"
proof -
  obtain code j s' w' where p: "panel sample_admin empty_registry sample_http (ADeleteLine ''5551234'') sample_line = ((code, j), s', w')"
    by (cases "panel sample_admin empty_registry sample_http (ADeleteLine ''5551234'') sample_line") auto
  have "fst (SessionUsername sample_line (ae_now sample_admin) (bearer_token sample_http)) \<noteq> Inr u" for u
    by (simp add: SessionUsername_def bearer_token_def has_prefix_def sample_http_def)
  from admin_panel_closed [OF this p] have "code = 401" "users s' = users sample_line" by simp_all
  with p show ?thesis by blast
qed

lemma federation_register_joined:
  assumes "ae_join e = RegisterOCNServer rnd now w" and "handleFederationRegister e w (Some req) s = ((code, j), s', w')"
    and "db_up s"
  shows "if code = 200
    then \<exists>key area. ae_load e (ao_ServerKeyPath (ae_opts e)) = Inr key \<and> GetSetting s' ''area_code'' = Inr area \<and>
      key_of w' area = Some (PublicKey key) \<and> Route (route_call w') area = Inr (TrimSpace (FederationPublicAddr req)) \<and>
      GetFederationSettings s' = Inr \<lparr>RegistryAddress = TrimSpace (RegistryAddress req), RegistryInsecure = RegistryInsecure req,
        RequestedAreaCode = TrimSpace (RequestedAreaCode req), FederationPublicAddr = TrimSpace (FederationPublicAddr req)\<rparr>
    else s' = s"
proof (cases "code = 200")
  case True
  obtain key area where k: "ae_load e (ao_ServerKeyPath (ae_opts e)) = Inr key"
    and c: "client_RegisterServer (ae_join e) (ao_ServerName (ae_opts e)) ''registered from admin panel''
        (TrimSpace (FederationPublicAddr req)) (TrimSpace (RequestedAreaCode req)) (PublicKey key) = (Inr area, w')"
    and f: "federation_saved e \<lparr>RegistryAddress = TrimSpace (RegistryAddress req), RegistryInsecure = RegistryInsecure req,
        RequestedAreaCode = TrimSpace (RequestedAreaCode req), FederationPublicAddr = TrimSpace (FederationPublicAddr req)\<rparr> area s = ((code, j), s')"
    using assms(2) True
    by (auto simp: handleFederationRegister_def Let_def split: if_splits sum.splits prod.splits)
  have "Route (route_call w') area = Inr (TrimSpace (FederationPublicAddr req))" "key_of w' area = Some (PublicKey key)"
    using client_register_route [OF c [unfolded assms(1)]] by blast+
  moreover have "GetSetting s' ''area_code'' = Inr area \<and> GetFederationSettings s' = Inr \<lparr>RegistryAddress = TrimSpace (RegistryAddress req),
      RegistryInsecure = RegistryInsecure req, RequestedAreaCode = TrimSpace (RequestedAreaCode req),
      FederationPublicAddr = TrimSpace (FederationPublicAddr req)\<rparr>"
    using f True assms(3)
    by (auto simp: federation_saved_def SaveFederationSettings_def SetSetting_def GetSetting_def GetFederationSettings_def
        FormatBool_def keyRegistryAddress_def keyRegistryInsecure_def keyRegistryAreaCode_def keyFedPublic_def split: if_splits)
  ultimately show ?thesis using True k by auto
next
  case False
  then show ?thesis using assms(2,3)
    by (auto simp: handleFederationRegister_def federation_saved_def SaveFederationSettings_def SetSetting_def Let_def
        split: if_splits sum.splits prod.splits)
qed

text \<open>The registry's row of an exchange that joined from its panel.\<close>

lemma federation_register_row:
  assumes "ae_join e = RegisterOCNServer rnd now w" and "handleFederationRegister e w (Some req) s = ((200, j), s', w')"
    and "ae_load e (ao_ServerKeyPath (ae_opts e)) = Inr key" and "GetSetting s' ''area_code'' = Inr area" and "db_up s"
  shows "\<exists>r. server_of (rs_store w') area = Some r \<and> SiStatus r = ''ACTIVE'' \<and> SiPublicKey r = PublicKey key \<and>
    SiServerAddr r = TrimSpace (FederationPublicAddr req) \<and> AllowedArea area"
proof -
  obtain code where c: "client_RegisterServer (RegisterOCNServer rnd now w) (ao_ServerName (ae_opts e)) ''registered from admin panel''
        (TrimSpace (FederationPublicAddr req)) (TrimSpace (RequestedAreaCode req)) (PublicKey key) = (Inr code, w')"
    and f: "federation_saved e \<lparr>RegistryAddress = TrimSpace (RegistryAddress req), RegistryInsecure = RegistryInsecure req,
        RequestedAreaCode = TrimSpace (RequestedAreaCode req), FederationPublicAddr = TrimSpace (FederationPublicAddr req)\<rparr> code s = ((200, j), s')"
    using assms(1-3) by (auto simp: handleFederationRegister_def Let_def split: if_splits sum.splits prod.splits)
  have "code = area"
    using f assms(4,5) by (auto simp: federation_saved_def SaveFederationSettings_def SetSetting_def GetSetting_def)
  then show ?thesis using client_register_joined [OF c] by blast
qed

text \<open>
  Joining the network from the panel, with the registry: when the panel answers 200, the exchange's
  key owns the area code that was stored, every other exchange is routed to the address the operator
  entered, and the settings the next start reads are those the operator entered; when the panel
  answers anything else, the stored settings and area code are as before, unless the database
  failed.
\<close>

theorem panel_joins_network:
  assumes "ae_join e = RegisterOCNServer rnd now w" and "handleFederationRegister e w (Some req) s = ((code, j), s', w')"
    and "db_up s"
  shows "if code = 200
    then \<exists>key area. ae_load e (ao_ServerKeyPath (ae_opts e)) = Inr key \<and> GetSetting s' ''area_code'' = Inr area \<and>
      key_of w' area = Some (PublicKey key) \<and> Route (route_call w') area = Inr (TrimSpace (FederationPublicAddr req)) \<and>
      GetFederationSettings s' = Inr \<lparr>RegistryAddress = TrimSpace (RegistryAddress req), RegistryInsecure = RegistryInsecure req,
        RequestedAreaCode = TrimSpace (RequestedAreaCode req), FederationPublicAddr = TrimSpace (FederationPublicAddr req)\<rparr>
    else s' = s"
  using assms by (rule federation_register_joined)

definition sample_fed :: FederationSettings where
  "sample_fed = \<lparr>RegistryAddress = ''reg:7443'', RegistryInsecure = False, RequestedAreaCode = ''440'', FederationPublicAddr = ''lake:9110''\<rparr>"

lemma trim_sample_fed: "TrimSpace ''reg:7443'' = ''reg:7443''" "TrimSpace ''lake:9110'' = ''lake:9110''"
  by (rule TrimSpace_plain, simp add: graphic_char_def)+

lemma sample_joins:
  "\<exists>j s' w'. handleFederationRegister sample_admin empty_registry (Some sample_fed) empty_store = ((200, j), s', w') \<and>
     GetSetting s' ''area_code'' = Inr ''440'' \<and> reg_up (rs_store w')"
proof -
  let ?req = "\<lparr>rq_Name = ''Lakeside'', rq_Description = ''registered from admin panel'', rq_ServerAddress = ''lake:9110'',
       rq_RequestedAreaCode = ''440'', rq_PublicKey = replicate 32 1\<rparr>"
  obtain w0 where w0: "RegisterOCNServer (\<lambda>_. 0) (secs 1000) empty_registry ?req =
      (Inr \<lparr>rp_Success = True, rp_AssignedAreaCode = ''440'', rp_ErrorMessage = None\<rparr>, w0)" and up: "reg_up (rs_store w0)"
    by (simp add: sample_registry_defs RegisterOCNServer_def RegisterServer_def area_440 area_exists_def insert_server_def Let_def)
  then have c: "client_RegisterServer (ae_join sample_admin) ''Lakeside'' ''registered from admin panel'' ''lake:9110'' ''440''
      (PublicKey lake_key) = (Inr ''440'', w0)"
    by (simp add: client_RegisterServer_def sample_admin_def lake_key_def)
  obtain j s' where f: "federation_saved sample_admin sample_fed ''440'' empty_store = ((200, j), s')"
      "GetSetting s' ''area_code'' = Inr ''440''"
    by (simp add: federation_saved_def SaveFederationSettings_def SetSetting_def GetSetting_def empty_store_def)
  have "ae_load sample_admin p = Inr lake_key" "ae_dial sample_admin a b" "ao_ServerName (ae_opts sample_admin) = ''Lakeside''" for p a b
    by (simp_all add: sample_admin_def sample_opts_def)
  then have "handleFederationRegister sample_admin empty_registry (Some sample_fed) empty_store = ((200, j), s', w0)"
    using c f(1) by (simp add: handleFederationRegister_def sample_fed_def trim_sample_fed area_440 Dial_def Let_def)
  with f(2) up show ?thesis by blast
qed

lemma sample_join_env: "ae_join sample_admin = RegisterOCNServer (\<lambda>_. 0) (secs 1000) empty_registry" "db_up empty_store"
  "ae_load sample_admin (ao_ServerKeyPath (ae_opts sample_admin)) = Inr lake_key"
  by (simp_all add: sample_admin_def empty_store_def)

theorem panel_joins_network_witness:
  "\<exists>j s' w'. handleFederationRegister sample_admin empty_registry (Some sample_fed) empty_store = ((200, j), s', w') \<and>
     Route (route_call w') ''440'' = Inr ''lake:9110'' \<and> GetSetting s' ''area_code'' = Inr ''440''"
proof -
  obtain j s' w' where h: "handleFederationRegister sample_admin empty_registry (Some sample_fed) empty_store = ((200, j), s', w')"
    "GetSetting s' ''area_code'' = Inr ''440''" using sample_joins by blast
  from panel_joins_network [OF sample_join_env(1) h(1) sample_join_env(2)] h show ?thesis by (auto simp: sample_fed_def trim_sample_fed)
qed

end
