(* ===== verification/Startup.thy ===== *)
theory Startup
  imports Admin_Props Sig_State
begin

text \<open>
  Configuration and start of an exchange (\<open>ocnserver/config/config.go\<close>, \<open>cmd/ocnserver/main.go\<close>): the
  effective federation settings, the server key, the registration with the registry at boot, the
  wiring of the signaling server, the hosted service numbers, joining while running, and the choice
  of the inter-server listener.

  \<open>log.Fatalf\<close> is a value of \<open>fatal\<close>. The file system is a map from paths to contents; TLS certificates
  and listening sockets are parameters. The configuration is read over its defaults from JSON text. The signal handler is not
  modelled.
\<close>

section \<open>config.go\<close>

record ServiceNumberConfig =
  sc_Name :: string
  sc_Phrase :: string
  sc_Conference :: bool

record Config =
  cf_Host :: string
  cf_Port :: int
  cf_AreaCode :: string
  cf_ServerName :: string
  cf_Description :: string
  cf_ServerKeyPath :: string
  cf_DatabasePath :: string
  cf_TLSCertFile :: string
  cf_TLSKeyFile :: string
  cf_VoicemailPath :: string
  cf_MaxVoicemailDuration :: int
  cf_RingTimeoutSeconds :: int
  cf_PendingCallTimeoutSeconds :: int
  cf_AdminHost :: string
  cf_AdminPort :: int
  cf_PublicAddress :: string
  cf_RegistryAddress :: string
  cf_RegistryAreaCode :: string
  cf_RegistryInsecure :: bool
  cf_FedAddr :: string
  cf_FedPublicAddr :: string
  cf_FedInsecure :: bool
  cf_ServiceNumbers :: "(string, ServiceNumberConfig) gomap"

definition DefaultConfig :: Config where
  "DefaultConfig = \<lparr>cf_Host = ''0.0.0.0'', cf_Port = 9100, cf_AreaCode = [], cf_ServerName = ''OCN Server'',
     cf_Description = ''Default OCN server'', cf_ServerKeyPath = ''server.key'', cf_DatabasePath = ''ocnserver.db'',
     cf_TLSCertFile = [], cf_TLSKeyFile = [], cf_VoicemailPath = ''voicemail/'', cf_MaxVoicemailDuration = 120,
     cf_RingTimeoutSeconds = 15, cf_PendingCallTimeoutSeconds = 15, cf_AdminHost = ''0.0.0.0'', cf_AdminPort = 8080,
     cf_PublicAddress = [], cf_RegistryAddress = [], cf_RegistryAreaCode = [], cf_RegistryInsecure = False,
     cf_FedAddr = '':9110'', cf_FedPublicAddr = [], cf_FedInsecure = False, cf_ServiceNumbers = []\<rparr>"

datatype read_file = NotExist | ReadError string | Contents bytes

definition enc_ServiceNumberConfig :: "ServiceNumberConfig \<Rightarrow> jvalue" where
  "enc_ServiceNumberConfig s = VObj [(''name'', VStr (sc_Name s)), (''phrase'', VStr (sc_Phrase s)), (''conference'', VBool (sc_Conference s))]"

definition dec_ServiceNumberConfig :: "jvalue \<Rightarrow> ServiceNumberConfig \<Rightarrow> ServiceNumberConfig option" where
  "dec_ServiceNumberConfig = d_struct [fld ''name'' sc_Name (\<lambda>v s. s\<lparr>sc_Name := v\<rparr>) d_string,
     fld ''phrase'' sc_Phrase (\<lambda>v s. s\<lparr>sc_Phrase := v\<rparr>) d_string, fld ''conference'' sc_Conference (\<lambda>v s. s\<lparr>sc_Conference := v\<rparr>) d_bool]"

text \<open>A map is written with its keys in order.\<close>

definition enc_Config :: "Config \<Rightarrow> jvalue" where
  "enc_Config c = VObj ([(''host'', VStr (cf_Host c)), (''port'', e_int (cf_Port c)), (''area_code'', VStr (cf_AreaCode c)),
     (''server_name'', VStr (cf_ServerName c)), (''description'', VStr (cf_Description c)), (''server_key_path'', VStr (cf_ServerKeyPath c)),
     (''database_path'', VStr (cf_DatabasePath c))] @
     omit_str ''tls_cert_file'' (cf_TLSCertFile c) @ omit_str ''tls_key_file'' (cf_TLSKeyFile c) @
     [(''voicemail_path'', VStr (cf_VoicemailPath c)), (''max_voicemail_duration_seconds'', e_int (cf_MaxVoicemailDuration c))] @
     omit_int ''ring_timeout_seconds'' (cf_RingTimeoutSeconds c) @ omit_int ''pending_call_timeout_seconds'' (cf_PendingCallTimeoutSeconds c) @
     omit_str ''admin_host'' (cf_AdminHost c) @ omit_int ''admin_port'' (cf_AdminPort c) @ omit_str ''public_address'' (cf_PublicAddress c) @
     omit_str ''registry_address'' (cf_RegistryAddress c) @ omit_str ''registry_area_code'' (cf_RegistryAreaCode c) @
     omit_bool ''registry_insecure'' (cf_RegistryInsecure c) @
     omit_str ''federation_addr'' (cf_FedAddr c) @ omit_str ''federation_public_address'' (cf_FedPublicAddr c) @
     omit_bool ''federation_insecure'' (cf_FedInsecure c) @
     (if cf_ServiceNumbers c = [] then []
      else [(''service_numbers'', VObj (map (map_prod id enc_ServiceNumberConfig) (sort_key fst (cf_ServiceNumbers c))))]))"

definition config_fields :: "Config field list" where
  "config_fields =
     [fld ''host'' cf_Host (\<lambda>v c. c\<lparr>cf_Host := v\<rparr>) d_string,
      fld ''port'' cf_Port (\<lambda>v c. c\<lparr>cf_Port := v\<rparr>) (d_int 64),
      fld ''area_code'' cf_AreaCode (\<lambda>v c. c\<lparr>cf_AreaCode := v\<rparr>) d_string,
      fld ''server_name'' cf_ServerName (\<lambda>v c. c\<lparr>cf_ServerName := v\<rparr>) d_string,
      fld ''description'' cf_Description (\<lambda>v c. c\<lparr>cf_Description := v\<rparr>) d_string,
      fld ''server_key_path'' cf_ServerKeyPath (\<lambda>v c. c\<lparr>cf_ServerKeyPath := v\<rparr>) d_string,
      fld ''database_path'' cf_DatabasePath (\<lambda>v c. c\<lparr>cf_DatabasePath := v\<rparr>) d_string,
      fld ''tls_cert_file'' cf_TLSCertFile (\<lambda>v c. c\<lparr>cf_TLSCertFile := v\<rparr>) d_string,
      fld ''tls_key_file'' cf_TLSKeyFile (\<lambda>v c. c\<lparr>cf_TLSKeyFile := v\<rparr>) d_string,
      fld ''voicemail_path'' cf_VoicemailPath (\<lambda>v c. c\<lparr>cf_VoicemailPath := v\<rparr>) d_string,
      fld ''max_voicemail_duration_seconds'' cf_MaxVoicemailDuration (\<lambda>v c. c\<lparr>cf_MaxVoicemailDuration := v\<rparr>) (d_int 64),
      fld ''ring_timeout_seconds'' cf_RingTimeoutSeconds (\<lambda>v c. c\<lparr>cf_RingTimeoutSeconds := v\<rparr>) (d_int 64),
      fld ''pending_call_timeout_seconds'' cf_PendingCallTimeoutSeconds (\<lambda>v c. c\<lparr>cf_PendingCallTimeoutSeconds := v\<rparr>) (d_int 64),
      fld ''admin_host'' cf_AdminHost (\<lambda>v c. c\<lparr>cf_AdminHost := v\<rparr>) d_string,
      fld ''admin_port'' cf_AdminPort (\<lambda>v c. c\<lparr>cf_AdminPort := v\<rparr>) (d_int 64),
      fld ''public_address'' cf_PublicAddress (\<lambda>v c. c\<lparr>cf_PublicAddress := v\<rparr>) d_string,
      fld ''registry_address'' cf_RegistryAddress (\<lambda>v c. c\<lparr>cf_RegistryAddress := v\<rparr>) d_string,
      fld ''registry_area_code'' cf_RegistryAreaCode (\<lambda>v c. c\<lparr>cf_RegistryAreaCode := v\<rparr>) d_string,
      fld ''registry_insecure'' cf_RegistryInsecure (\<lambda>v c. c\<lparr>cf_RegistryInsecure := v\<rparr>) d_bool,
      fld ''federation_addr'' cf_FedAddr (\<lambda>v c. c\<lparr>cf_FedAddr := v\<rparr>) d_string,
      fld ''federation_public_address'' cf_FedPublicAddr (\<lambda>v c. c\<lparr>cf_FedPublicAddr := v\<rparr>) d_string,
      fld ''federation_insecure'' cf_FedInsecure (\<lambda>v c. c\<lparr>cf_FedInsecure := v\<rparr>) d_bool,
      fld ''service_numbers'' cf_ServiceNumbers (\<lambda>v c. c\<lparr>cf_ServiceNumbers := v\<rparr>)
        (d_map dec_ServiceNumberConfig \<lparr>sc_Name = [], sc_Phrase = [], sc_Conference = False\<rparr>)]"

definition dec_Config :: "jvalue \<Rightarrow> Config \<Rightarrow> Config option" where
  "dec_Config = d_struct config_fields"

definition LoadConfig :: "read_file \<Rightarrow> string + Config" where
  "LoadConfig file =
     (case file of
        NotExist \<Rightarrow> Inr DefaultConfig
      | ReadError e \<Rightarrow> Inl e
      | Contents data \<Rightarrow>
          (case Unmarshal dec_Config DefaultConfig (bytes_str data) of None \<Rightarrow> Inl ''json'' | Some cfg \<Rightarrow> Inr cfg))"

text \<open>What \<open>Save\<close> writes to the file.\<close>

definition cfg_Save :: "Config \<Rightarrow> bytes" where
  "cfg_Save c = str_bytes (json_indent (enc_Config c) 0)"

definition Address :: "Config \<Rightarrow> string" where
  "Address c = cf_Host c @ '':'' @ fmt_d (cf_Port c)"

definition AdminAddress :: "Config \<Rightarrow> string" where
  "AdminAddress c = cf_AdminHost c @ '':'' @ fmt_d (cf_AdminPort c)"

section \<open>main.go: key and federation\<close>

record flags =
  fl_fcmCreds :: string
  fl_registryAddr :: string
  fl_registryArea :: string
  fl_registryInsecure :: bool
  fl_fedAddr :: string
  fl_fedPublic :: string
  fl_fedInsecure :: bool

datatype fatal =
    FatalGenerate | FatalSaveKey ksim_error | FatalLoadKey ksim_error | FatalSettings store_error
  | FatalConfig string | FatalStore store_error | FatalConnect client_error | FatalRegistration client_error | FatalPersist store_error

definition server_key ::
  "gcm \<Rightarrow> pbkdf \<Rightarrow> (KSimFile \<Rightarrow> bytes option) \<Rightarrow> (bytes \<Rightarrow> KSimFile option) \<Rightarrow> randomness \<Rightarrow> randomness \<Rightarrow> gotime \<Rightarrow>
   KSim option \<Rightarrow> Config \<Rightarrow> disk \<Rightarrow> fatal + (KSim \<times> disk)" where
  "server_key g kdf marshal unmarshal r1 r2 now generated cfg d =
     (let saved =
        (if d (cf_ServerKeyPath cfg) = None then
           (case generated of
              None \<Rightarrow> Inl FatalGenerate
            | Some k \<Rightarrow>
                (case SaveFile g kdf marshal r1 r2 now d k (cf_ServerKeyPath cfg) (cf_ServerName cfg) (cf_ServerName cfg) [] [] of
                   Inl e \<Rightarrow> Inl (FatalSaveKey e) | Inr d' \<Rightarrow> Inr d'))
         else Inr d)
      in case saved of
           Inl e \<Rightarrow> Inl e
         | Inr d' \<Rightarrow>
             (case LoadFile g kdf unmarshal d' (cf_ServerKeyPath cfg) [] of
                Inl e \<Rightarrow> Inl (FatalLoadKey e) | Inr (k, _) \<Rightarrow> Inr (k, d')))"

definition effective_federation :: "flags \<Rightarrow> Config \<Rightarrow> FederationSettings \<Rightarrow> FederationSettings" where
  "effective_federation fl cfg fs =
     (let regAddress = (if fl_registryAddr fl = [] then cf_RegistryAddress cfg else fl_registryAddr fl);
          reqArea = (if fl_registryArea fl = [] then cf_RegistryAreaCode cfg else fl_registryArea fl);
          regInsecure = (fl_registryInsecure fl \<or> cf_RegistryInsecure cfg);
          fedPublicAddr = (if fl_fedPublic fl = [] then cf_FedPublicAddr cfg else fl_fedPublic fl)
      in if RegistryAddress fs \<noteq> [] then
           \<lparr>RegistryAddress = (if regAddress = [] then RegistryAddress fs else regAddress),
            RegistryInsecure = (if \<not> fl_registryInsecure fl \<and> \<not> cf_RegistryInsecure cfg then RegistryInsecure fs else regInsecure),
            RequestedAreaCode = (if reqArea = [] then RequestedAreaCode fs else reqArea),
            FederationPublicAddr = (if fedPublicAddr = [] then FederationPublicAddr fs else fedPublicAddr)\<rparr>
         else \<lparr>RegistryAddress = regAddress, RegistryInsecure = regInsecure, RequestedAreaCode = reqArea,
                FederationPublicAddr = fedPublicAddr\<rparr>)"

definition boot_area :: "store \<Rightarrow> string \<Rightarrow> string" where
  "boot_area s reqArea = (case GetSetting s ''area_code'' of Inl _ \<Rightarrow> reqArea | Inr a \<Rightarrow> if a \<noteq> [] then a else reqArea)"

definition boot_federation ::
  "(string \<Rightarrow> bool \<Rightarrow> bool) \<Rightarrow> (RegisterOCNServerRequest \<Rightarrow> (grpc_error + RegisterOCNServerResponse) \<times> 'w) \<Rightarrow>
   flags \<Rightarrow> Config \<Rightarrow> KSim \<Rightarrow> store \<Rightarrow> 'w \<Rightarrow> (fatal + (registry_client option \<times> string \<times> store)) \<times> 'w" where
  "boot_federation dial_ok join fl cfg key s w =
     (case GetFederationSettings s of
        Inl e \<Rightarrow> (Inl (FatalSettings e), w)
      | Inr fs \<Rightarrow>
          let ef = effective_federation fl cfg fs in
          if RegistryAddress ef = [] then (Inr (None, cf_AreaCode cfg, s), w)
          else (case Dial dial_ok (RegistryAddress ef) (RegistryInsecure ef) of
                  Inl e \<Rightarrow> (Inl (FatalConnect e), w)
                | Inr c \<Rightarrow>
                    (case client_RegisterServer join (cf_ServerName cfg) (cf_Description cfg) (FederationPublicAddr ef)
                            (boot_area s (RequestedAreaCode ef)) (PublicKey key) of
                       (Inl e, w') \<Rightarrow> (Inl (FatalRegistration e), w')
                     | (Inr area, w') \<Rightarrow>
                         (case SetSetting s ''area_code'' area of
                            Inl e \<Rightarrow> (Inl (FatalPersist e), w')
                          | Inr s1 \<Rightarrow>
                              (Inr (Some (SetIdentity c key), area,
                                 case UpdateAreaCodeForUsers s1 area of Inl _ \<Rightarrow> s1 | Inr s2 \<Rightarrow> s2), w')))))"

section \<open>main.go: the server\<close>

datatype push_choice = PushFCM | PushRegistry registry_client | PushNone

definition choose_pusher :: "bool \<Rightarrow> registry_client option \<Rightarrow> string \<Rightarrow> push_choice" where
  "choose_pusher fcm reg area =
     (if fcm then PushFCM else case reg of Some c \<Rightarrow> PushRegistry (SetArea c area) | None \<Rightarrow> PushNone)"

definition setup_voicemail :: "randomness \<Rightarrow> Config \<Rightarrow> Server \<Rightarrow> Server" where
  "setup_voicemail rnd cfg srv =
     (case vm_EnsureMasterSecret rnd (vm_NewManager True (secs (cf_MaxVoicemailDuration cfg)) True) (s_store srv) of
        (Inl _, _, s) \<Rightarrow> srv\<lparr>s_store := s\<rparr>
      | (Inr _, vm, s) \<Rightarrow> SetVoicemail (srv\<lparr>s_store := s\<rparr>) (Some vm))"

definition setup_dm :: "randomness \<Rightarrow> Server \<Rightarrow> Server" where
  "setup_dm rnd srv =
     (case dm_EnsureMasterSecret rnd dm_NewManager (s_store srv) of
        (Inl _, _, s) \<Rightarrow> srv\<lparr>s_store := s\<rparr>
      | (Inr _, m, s) \<Rightarrow> SetDM (srv\<lparr>s_store := s\<rparr>) (Some m))"

definition setup_registry :: "client_error + PbICEServer list \<Rightarrow> registry_client option \<Rightarrow> Server \<Rightarrow> Server" where
  "setup_registry ice reg srv =
     (case reg of
        None \<Rightarrow> srv
      | Some _ \<Rightarrow>
          let srv = SetRegistry srv True in
          (case ice of
             Inl _ \<Rightarrow> srv
           | Inr servers \<Rightarrow>
               if 0 < length servers
               then srv_SetICEServers srv
                      (map (\<lambda>s. \<lparr>iURLs = pi_Urls s, iUsername = pi_Username s, iCredential = pi_Credential s\<rparr>) servers)
               else srv))"

definition host_service :: "string option \<Rightarrow> string \<times> ServiceNumberConfig \<Rightarrow> Server \<Rightarrow> Server" where
  "host_service enc_err fc srv =
     (case fc of (full, c) \<Rightarrow>
        if length full \<noteq> 10 \<or> \<not> (take 3 full = ''800'' \<or> take 3 full = ''900'') then srv
        else if sc_Conference c then
          (case NewConferenceService enc_err (sc_Name c) (sc_Phrase c) of
             Inl _ \<Rightarrow> srv | Inr svc \<Rightarrow> RegisterNetworkService srv full (Conf svc))
        else RegisterNetworkService srv full (Echo (NewAnnouncementService (sc_Name c) (sc_Phrase c))))"

definition host_services :: "string option \<Rightarrow> Config \<Rightarrow> Server \<Rightarrow> Server" where
  "host_services enc_err cfg srv = fold (host_service enc_err) (cf_ServiceNumbers cfg) srv"

definition boot_server ::
  "randomness \<Rightarrow> randomness \<Rightarrow> client_error + PbICEServer list \<Rightarrow> string option \<Rightarrow> bool \<Rightarrow> flags \<Rightarrow> Config \<Rightarrow>
   registry_client option \<Rightarrow> string \<Rightarrow> store \<Rightarrow> Server" where
  "boot_server r1 r2 ice enc_err fcm fl cfg reg area s =
     (let objs = [(0, Echo NewEchoService), (1, Echo NewNumberAnnounceService)];
          regs = Register (\<lambda>_. e_code NewNumberAnnounceService) 1 (Register (\<lambda>_. e_code NewEchoService) 0 []);
          srv = NewServer s NewAuthManager area regs objs (choose_pusher fcm reg area \<noteq> PushNone);
          srv = SetCallTimeouts srv (secs (cf_RingTimeoutSeconds cfg)) (secs (cf_PendingCallTimeoutSeconds cfg));
          srv = setup_dm r2 (setup_voicemail r1 cfg srv);
          srv = host_services enc_err cfg (setup_registry ice reg srv)
      in SetFedInsecure srv (fl_fedInsecure fl \<or> cf_FedInsecure cfg))"

definition applyFederation ::
  "(string \<Rightarrow> bool \<Rightarrow> bool) \<Rightarrow> KSim \<Rightarrow> bool \<Rightarrow> FederationSettings \<Rightarrow> string \<Rightarrow> Server \<Rightarrow> client_error + (registry_client \<times> Server)" where
  "applyFederation dial_ok srvKey hasLocalPush fs area srv =
     (case Dial dial_ok (RegistryAddress fs) (RegistryInsecure fs) of
        Inl e \<Rightarrow> Inl e
      | Inr c \<Rightarrow>
          let regLive = SetArea (SetIdentity c srvKey) area;
              srv = SetRegistry srv True;
              srv = (if \<not> hasLocalPush then SetPusher srv True else srv);
              srv = SetAreaCode srv area
          in Inr (regLive,
               case UpdateAreaCodeForUsers (s_store srv) area of Inl _ \<Rightarrow> srv | Inr s \<Rightarrow> srv\<lparr>s_store := s\<rparr>))"

datatype listener = NoListener | PlainListener string | TlsListener string

definition startFederationGRPC :: "(string \<Rightarrow> string \<Rightarrow> bool) \<Rightarrow> (string \<Rightarrow> bool) \<Rightarrow> string \<Rightarrow> bool \<Rightarrow> Config \<Rightarrow> listener" where
  "startFederationGRPC load_cert listen_ok listen plaintext cfg =
     (if listen = [] then NoListener
      else if \<not> plaintext \<and> (cf_TLSCertFile cfg = [] \<or> cf_TLSKeyFile cfg = []) then NoListener
      else if \<not> plaintext \<and> \<not> load_cert (cf_TLSCertFile cfg) (cf_TLSKeyFile cfg) then NoListener
      else if \<not> listen_ok listen then NoListener
      else if plaintext then PlainListener listen else TlsListener listen)"

definition federation_listener :: "(string \<Rightarrow> string \<Rightarrow> bool) \<Rightarrow> (string \<Rightarrow> bool) \<Rightarrow> flags \<Rightarrow> Config \<Rightarrow> listener" where
  "federation_listener load_cert listen_ok fl cfg =
     startFederationGRPC load_cert listen_ok (if fl_fedAddr fl = [] then cf_FedAddr cfg else fl_fedAddr fl)
       (fl_fedInsecure fl \<or> cf_FedInsecure cfg) cfg"

section \<open>main.go: from the flags to the running exchange\<close>

text \<open>What the start of an exchange takes from its surroundings.\<close>

record 'w boot_env =
  be_now :: gotime
  be_bcrypt :: "string \<Rightarrow> string option"
  be_gcm :: gcm
  be_kdf :: pbkdf
  be_marshal :: "KSimFile \<Rightarrow> bytes option"
  be_unmarshal :: "bytes \<Rightarrow> KSimFile option"
  be_generate :: "KSim option"
  be_rand :: "nat \<Rightarrow> randomness"
  be_dial :: "string \<Rightarrow> bool \<Rightarrow> bool"
  be_join :: "RegisterOCNServerRequest \<Rightarrow> (grpc_error + RegisterOCNServerResponse) \<times> 'w"
  be_ice :: "client_error + PbICEServer list"
  be_fcm :: "string + provider"
  be_encoder :: "string option"
  be_cert :: "string \<Rightarrow> string \<Rightarrow> bool"
  be_listen :: "string \<Rightarrow> bool"
  be_text :: "client_error \<Rightarrow> string"

record exchange =
  ex_key :: KSim
  ex_area :: string
  ex_registry :: "registry_client option"
  ex_server :: Server
  ex_admin :: admin_opts
  ex_listener :: listener

definition local_push :: "'w boot_env \<Rightarrow> flags \<Rightarrow> bool" where
  "local_push e fl \<longleftrightarrow> fl_fcmCreds fl \<noteq> [] \<and> (case be_fcm e of Inl _ \<Rightarrow> False | Inr _ \<Rightarrow> True)"

definition admin_options :: "'w boot_env \<Rightarrow> flags \<Rightarrow> Config \<Rightarrow> KSim \<Rightarrow> string \<Rightarrow> string \<Rightarrow> Server \<Rightarrow> admin_opts" where
  "admin_options e fl cfg key area regAddress srv =
     \<lparr>ao_Online = Some (\<lambda>num. num \<in> OnlineNumbers srv), ao_OnlineCount = card (OnlineNumbers srv),
      ao_SignalingPort = cf_Port cfg, ao_PublicAddress = cf_PublicAddress cfg, ao_AreaCode = area, ao_ServerName = cf_ServerName cfg,
      ao_ServerKeyPath = cf_ServerKeyPath cfg, ao_Area = Some (areaCode srv), ao_RegistryAddress = regAddress,
      ao_OnFederated = Some (\<lambda>fs a. case applyFederation (be_dial e) key (local_push e fl) fs a srv of
        Inl err \<Rightarrow> Some (be_text e err) | Inr _ \<Rightarrow> None)\<rparr>"

definition ocn_main :: "'w boot_env \<Rightarrow> flags \<Rightarrow> read_file \<Rightarrow> disk \<Rightarrow> store \<Rightarrow> 'w \<Rightarrow> (fatal + exchange \<times> disk) \<times> 'w" where
  "ocn_main e fl file d s w =
     (case LoadConfig file of Inl err \<Rightarrow> (Inl (FatalConfig err), w) | Inr cfg \<Rightarrow>
     (case store_New (be_bcrypt e) (be_now e) s of Inl err \<Rightarrow> (Inl (FatalStore err), w) | Inr s \<Rightarrow>
     (case server_key (be_gcm e) (be_kdf e) (be_marshal e) (be_unmarshal e) (be_rand e 0) (be_rand e 1) (be_now e)
             (be_generate e) cfg d of Inl err \<Rightarrow> (Inl err, w) | Inr (key, d) \<Rightarrow>
     (case boot_federation (be_dial e) (be_join e) fl cfg key s w of (Inl err, w) \<Rightarrow> (Inl err, w) | (Inr (reg, area, s'), w) \<Rightarrow>
        let fcm = local_push e fl;
            srv = boot_server (be_rand e 2) (be_rand e 3) (be_ice e) (be_encoder e) fcm fl cfg reg area s';
            regAddress = (case GetFederationSettings s of Inl _ \<Rightarrow> [] | Inr fs \<Rightarrow> RegistryAddress (effective_federation fl cfg fs))
        in (Inr (\<lparr>ex_key = key, ex_area = area, ex_registry = reg, ex_server = srv,
                  ex_admin = admin_options e fl cfg key area regAddress srv,
                  ex_listener = federation_listener (be_cert e) (be_listen e) fl cfg\<rparr>, d), w)))))"

text \<open>The two public pages; names are written into the text as they are.\<close>

definition quoted :: "string \<Rightarrow> string" where "quoted s = [CHR 0x22] @ s @ [CHR 0x22]"

definition health_page :: "string \<Rightarrow> Config \<Rightarrow> string" where
  "health_page area cfg = ''{'' @ quoted ''status'' @ '':'' @ quoted ''ok'' @ '','' @ quoted ''area_code'' @ '':'' @ quoted area @ '','' @
     quoted ''server'' @ '':'' @ quoted (cf_ServerName cfg) @ ''}''"

definition info_page :: "string \<Rightarrow> Config \<Rightarrow> store \<Rightarrow> string" where
  "info_page area cfg s = ''{'' @ quoted ''area_code'' @ '':'' @ quoted area @ '','' @ quoted ''name'' @ '':'' @ quoted (cf_ServerName cfg) @ '','' @
     quoted ''description'' @ '':'' @ quoted (cf_Description cfg) @ '','' @ quoted ''users'' @ '':'' @
     fmt_d (case CountUsers s of Inl _ \<Rightarrow> 0 | Inr n \<Rightarrow> int n) @ ''}''"

section \<open>main.go: what is served where\<close>

datatype exchange_page = WsPage | HealthPage string | InfoPage string | NoPage

text \<open>The routes of the public port; the patterns have no trailing slash and match the path alone.\<close>

definition exchange_mux :: "string \<Rightarrow> Config \<Rightarrow> store \<Rightarrow> string \<Rightarrow> exchange_page" where
  "exchange_mux area cfg s path =
     (if path = ''/ws'' then WsPage
      else if path = ''/health'' then HealthPage (health_page area cfg)
      else if path = ''/info'' then InfoPage (info_page area cfg s)
      else NoPage)"

text \<open>
  The panel's port and the public port. A port that cannot be opened, or a certificate that cannot be loaded, ends the process.
\<close>

definition exchange_serve :: "(string \<Rightarrow> string \<Rightarrow> bool) \<Rightarrow> (string \<Rightarrow> bool) \<Rightarrow> Config \<Rightarrow> string + listener \<times> listener" where
  "exchange_serve load_cert listen_ok cfg =
     (if \<not> listen_ok (AdminAddress cfg) then Inl ''Admin panel failed''
      else if cf_TLSCertFile cfg \<noteq> [] \<and> cf_TLSKeyFile cfg \<noteq> [] then
        (if load_cert (cf_TLSCertFile cfg) (cf_TLSKeyFile cfg) \<and> listen_ok (Address cfg)
         then Inr (PlainListener (AdminAddress cfg), TlsListener (Address cfg)) else Inl ''tls'')
      else if listen_ok (Address cfg) then Inr (PlainListener (AdminAddress cfg), PlainListener (Address cfg))
      else Inl ''listen'')"

end
