(* ===== verification/Startup_Props.thy ===== *)
theory Startup_Props
  imports Startup
begin

text \<open>
  Properties of starting an exchange, alone and together with the panel and the registry.
\<close>

section \<open>Lemmas\<close>

lemma key_of_server: "key_of w area = Some k \<longleftrightarrow> (\<exists>r. server_of (rs_store w) area = Some r \<and> SiPublicKey r = k)"
  by (auto simp: key_of_def)

lemma register_again:
  assumes "key_of w area = Some pub" and "AllowedArea area" and "reg_up (rs_store w)" and "addr \<noteq> []" and "length pub = 32"
  shows "\<exists>w'. client_RegisterServer (RegisterOCNServer rnd now w) name desc addr area pub = (Inr area, w')"
  using assms AllowedArea_trim [OF assms(2)]
  by (auto simp: key_of_server client_RegisterServer_def RegisterOCNServer_def RegisterServer_def request_info_def
      area_exists_iff server_of_def [symmetric] Let_def)

lemma register_other_key:
  assumes "key_of w area = Some pub'" and "pub' \<noteq> pub" and "AllowedArea area" and "reg_up (rs_store w)"
    and "addr \<noteq> []" and "length pub = 32"
  shows "client_RegisterServer (RegisterOCNServer rnd now w) name desc addr area pub =
    (Inl (RegistryRefused (Some ErrAreaTaken)), w)"
  using assms AllowedArea_trim [OF assms(3)]
  by (auto simp: key_of_server client_RegisterServer_def RegisterOCNServer_def RegisterServer_def request_info_def
      area_exists_iff server_of_def [symmetric] Let_def)

lemma boot_registers:
  assumes "GetFederationSettings s = Inr fs" and "RegistryAddress (effective_federation fl cfg fs) \<noteq> []"
    and "dial_ok (RegistryAddress (effective_federation fl cfg fs)) (RegistryInsecure (effective_federation fl cfg fs))"
    and "client_RegisterServer join (cf_ServerName cfg) (cf_Description cfg) (FederationPublicAddr (effective_federation fl cfg fs))
      (boot_area s (RequestedAreaCode (effective_federation fl cfg fs))) (PublicKey key) = (res, w')"
    and "db_up s"
  shows "boot_federation dial_ok join fl cfg key s w =
    (case res of
       Inl e \<Rightarrow> (Inl (FatalRegistration e), w')
     | Inr area \<Rightarrow>
         (Inr (Some \<lparr>rc_address = RegistryAddress (effective_federation fl cfg fs), rc_key = Some key, rc_area = []\<rparr>, area,
            case UpdateAreaCodeForUsers (s\<lparr>settings := aput ''area_code'' area (settings s)\<rparr>) area of
              Inl _ \<Rightarrow> s\<lparr>settings := aput ''area_code'' area (settings s)\<rparr> | Inr s2 \<Rightarrow> s2), w'))"
  using assms by (simp add: boot_federation_def Dial_def SetIdentity_def SetSetting_def Let_def split: sum.split)

lemma backfilled:
  assumes "db_up s" and "area \<noteq> []" and "UpdateAreaCodeForUsers s area = Inr s'"
  shows "list_all (\<lambda>u. AreaCode u \<noteq> []) (users s') \<and> map Number (users s') = map Number (users s)"
  using assms by (auto simp: UpdateAreaCodeForUsers_def list_all_iff comp_def if_distrib cong: if_cong)

text \<open>What the wiring of the server leaves alone.\<close>

lemma host_service_keeps:
  "areaCode (host_service ee fc srv) = areaCode srv" "s_reg (host_service ee fc srv) = s_reg srv"
  "s_pusher (host_service ee fc srv) = s_pusher srv" "iceServers (host_service ee fc srv) = iceServers srv"
  by (auto simp: host_service_def RegisterNetworkService_def split: prod.split sum.split)

lemma host_services_keeps:
  "areaCode (host_services ee cfg srv) = areaCode srv \<and> s_reg (host_services ee cfg srv) = s_reg srv \<and>
   s_pusher (host_services ee cfg srv) = s_pusher srv \<and> iceServers (host_services ee cfg srv) = iceServers srv"
proof -
  have "areaCode (fold (host_service ee) fcs srv) = areaCode srv \<and> s_reg (fold (host_service ee) fcs srv) = s_reg srv \<and>
     s_pusher (fold (host_service ee) fcs srv) = s_pusher srv \<and> iceServers (fold (host_service ee) fcs srv) = iceServers srv" for fcs
    by (induction fcs arbitrary: srv) (simp_all add: host_service_keeps)
  then show ?thesis by (simp add: host_services_def)
qed

lemma setup_keeps:
  "areaCode (setup_voicemail r cfg srv) = areaCode srv" "s_reg (setup_voicemail r cfg srv) = s_reg srv"
  "s_pusher (setup_voicemail r cfg srv) = s_pusher srv" "iceServers (setup_voicemail r cfg srv) = iceServers srv"
  "areaCode (setup_dm r srv) = areaCode srv" "s_reg (setup_dm r srv) = s_reg srv"
  "s_pusher (setup_dm r srv) = s_pusher srv" "iceServers (setup_dm r srv) = iceServers srv"
  by (simp_all add: setup_voicemail_def setup_dm_def SetVoicemail_def SetDM_def split: prod.split sum.split)

definition to_ice :: "PbICEServer \<Rightarrow> IceServer" where
  "to_ice s = \<lparr>iURLs = pi_Urls s, iUsername = pi_Username s, iCredential = pi_Credential s\<rparr>"

lemma boot_server_federated:
  "areaCode (boot_server r1 r2 (Inr ice) ee fcm fl cfg (Some c) area s) = area \<and>
   s_reg (boot_server r1 r2 (Inr ice) ee fcm fl cfg (Some c) area s) \<and>
   s_pusher (boot_server r1 r2 (Inr ice) ee fcm fl cfg (Some c) area s) \<and>
   iceServers (boot_server r1 r2 (Inr ice) ee fcm fl cfg (Some c) area s) = map to_ice ice"
  by (simp add: boot_server_def Let_def host_services_keeps setup_keeps setup_registry_def SetFedInsecure_def SetRegistry_def
      srv_SetICEServers_def SetCallTimeouts_def NewServer_def choose_pusher_def to_ice_def)

text \<open>The managers of a started server, and what they leave in the store.\<close>

definition vm_of :: "Config \<Rightarrow> vm_manager" where
  "vm_of cfg = vm_NewManager True (secs (cf_MaxVoicemailDuration cfg)) True"

lemma wiring_stores:
  "s_store (host_services ee cfg srv) = s_store srv \<and> s_vm (host_services ee cfg srv) = s_vm srv \<and> s_dmm (host_services ee cfg srv) = s_dmm srv"
  "s_store (setup_registry ice reg srv) = s_store srv \<and> s_vm (setup_registry ice reg srv) = s_vm srv \<and> s_dmm (setup_registry ice reg srv) = s_dmm srv"
proof -
  have one: "s_store (host_service ee fc srv) = s_store srv \<and> s_vm (host_service ee fc srv) = s_vm srv \<and> s_dmm (host_service ee fc srv) = s_dmm srv"
    for fc srv by (auto simp: host_service_def RegisterNetworkService_def split: prod.split sum.split)
  have "s_store (fold (host_service ee) fcs srv) = s_store srv \<and> s_vm (fold (host_service ee) fcs srv) = s_vm srv \<and>
     s_dmm (fold (host_service ee) fcs srv) = s_dmm srv" for fcs srv
    by (induction fcs arbitrary: srv) (simp_all add: one)
  then show "s_store (host_services ee cfg srv) = s_store srv \<and> s_vm (host_services ee cfg srv) = s_vm srv \<and> s_dmm (host_services ee cfg srv) = s_dmm srv"
    by (simp add: host_services_def)
qed (simp add: setup_registry_def SetRegistry_def srv_SetICEServers_def Let_def split: option.split sum.split)

lemma boot_managers:
  assumes "vm_EnsureMasterSecret r1 (vm_of cfg) s = (Inr (), vm, sa)"
  obtains m where "s_store (boot_server r1 r2 ice ee fcm fl cfg reg area s) = sa" "s_vm (boot_server r1 r2 ice ee fcm fl cfg reg area s) = Some vm"
    "s_dmm (boot_server r1 r2 ice ee fcm fl cfg reg area s) = Some m" "dm_master m = vm_master vm"
proof -
  obtain k e where k: "vm_master vm = Some k" "GetSetting sa MasterSecretKey = Inr e" "e \<noteq> []" "StdDecode e = Some k"
    using vm_secret.ensure_ok [OF assms] by blast
  then have d: "dm_EnsureMasterSecret r2 dm_NewManager sa = (Inr (), dm_NewManager\<lparr>dm_master := Some k, dm_loaded := True\<rparr>, sa)"
    by (simp add: dm_EnsureMasterSecret_def)
  show thesis
    by (rule that [of "dm_NewManager\<lparr>dm_master := Some k, dm_loaded := True\<rparr>"])
      (use assms d k(1) in \<open>simp_all add: boot_server_def Let_def wiring_stores SetFedInsecure_def setup_dm_def setup_voicemail_def
        SetDM_def SetVoicemail_def SetCallTimeouts_def NewServer_def vm_of_def\<close>)
qed

lemma boot_no_voicemail:
  assumes "vm_EnsureMasterSecret r1 (vm_of cfg) s = (Inl err, vm, sa)"
  shows "s_vm (boot_server r1 r2 ice ee fcm fl cfg reg area s) = None"
  using assms by (simp add: boot_server_def Let_def wiring_stores SetFedInsecure_def setup_dm_def setup_voicemail_def
      SetDM_def SetVoicemail_def SetCallTimeouts_def NewServer_def vm_of_def split: prod.split sum.split)

lemma vm_Ensure_other:
  "vm_EnsureMasterSecret r m s = (x, m', s') \<Longrightarrow> k \<noteq> MasterSecretKey \<Longrightarrow> GetSetting s' k = GetSetting s k"
  by (auto simp: vm_EnsureMasterSecret_def SetSetting_def GetSetting_def split: sum.splits if_splits option.splits)

lemma vm_Ensure_federation:
  assumes "vm_EnsureMasterSecret r m s = (x, m', s')"
  shows "GetFederationSettings s' = GetFederationSettings s"
proof -
  have "GetSetting s' k = GetSetting s k" if "k \<in> {keyRegistryAddress, keyRegistryInsecure, keyRegistryAreaCode, keyFedPublic}" for k
    using that by (intro vm_Ensure_other [OF assms])
      (auto simp: MasterSecretKey_def keyRegistryAddress_def keyRegistryInsecure_def keyRegistryAreaCode_def keyFedPublic_def)
  then show ?thesis by (simp add: GetFederationSettings_def cong: sum.case_cong)
qed

lemma server_key_again:
  assumes "server_key g kdf marshal unmarshal r1 r2 now gen cfg d = Inr (key, d1)"
  shows "server_key g kdf marshal' unmarshal r1' r2' now' gen' cfg d1 = Inr (key, d1)"
  using assms by (auto simp: server_key_def LoadFile_def Let_def split: if_splits option.splits sum.splits prod.splits)

lemma store_New_again:
  assumes "store_New gen now s = Inr s1"
  shows "admin_accounts s1 \<noteq> []" "db_up s1" "settings s1 = settings s" "users s1 = users s" "admin_accounts s \<noteq> [] \<Longrightarrow> s1 = s"
    "admin_accounts s2 \<noteq> [] \<Longrightarrow> db_up s2 \<Longrightarrow> store_New gen' now' s2 = Inr s2"
  using assms by (auto simp: store_New_def ensureDefaultAdmin_def split: if_splits option.splits)

section \<open>Properties\<close>

text \<open>
  C9. Federation survives a restart. After an exchange joined from its panel, whatever the registry
  serves in the meantime, as long as nobody presents a deregistration signed with the exchange's
  key: the next start of the exchange, with no registry of its own in the flags and the
  configuration, gets the same area code again, the whole network is routed to the address entered
  in the panel, and every line carries an area code.
\<close>

theorem federation_survives_restart:
  assumes join: "ae_join e = RegisterOCNServer rnd now w0" "handleFederationRegister e w0 (Some req) s0 = ((200, j), s, w)" "db_up s0"
      "ae_load e (ao_ServerKeyPath (ae_opts e)) = Inr key" "GetSetting s ''area_code'' = Inr area"
    and meantime: "\<forall>nr \<in> set nrs. \<not> signed_off ed (PublicKey key) area nr" "reg_up (rs_store (fold (reg_apply ed) nrs w))"
    and own: "fl_registryAddr fl = []" "cf_RegistryAddress cfg = []" "fl_fedPublic fl = []" "cf_FedPublicAddr cfg = []"
    and reach: "\<And>a i. dial_ok a i"
  shows "\<exists>c s' w'. boot_federation dial_ok (RegisterOCNServer rnd' now' (fold (reg_apply ed) nrs w)) fl cfg key s (fold (reg_apply ed) nrs w) =
      (Inr (Some c, area, s'), w') \<and>
    Route (route_call w') area = Inr (TrimSpace (FederationPublicAddr req)) \<and> list_all (\<lambda>u. AreaCode u \<noteq> []) (users s')"
proof -
  let ?w = "fold (reg_apply ed) nrs w" and ?addr = "TrimSpace (FederationPublicAddr req)"
  let ?fs = "\<lparr>RegistryAddress = TrimSpace (RegistryAddress req), RegistryInsecure = RegistryInsecure req,
        RequestedAreaCode = TrimSpace (RequestedAreaCode req), FederationPublicAddr = ?addr\<rparr>"
  have joined: "key_of w area = Some (PublicKey key)" "GetFederationSettings s = Inr ?fs"
    using federation_register_joined [OF join(1,2,3)] join(4,5) by auto
  obtain code where c: "client_RegisterServer (RegisterOCNServer rnd now w0) (ao_ServerName (ae_opts e)) ''registered from admin panel''
        ?addr (TrimSpace (RequestedAreaCode req)) (PublicKey key) = (Inr code, w)"
    and ne: "?addr \<noteq> []" "TrimSpace (RegistryAddress req) \<noteq> []"
    and saved: "federation_saved e ?fs code s0 = ((200, j), s)"
    using join by (auto simp: handleFederationRegister_def Let_def split: if_splits sum.splits prod.splits)
  have "code = area" and up: "db_up s"
    using saved join(3,5)
    by (auto simp: federation_saved_def SaveFederationSettings_def SetSetting_def GetSetting_def)
  then have area: "AllowedArea area" "length (PublicKey key) = 32"
    using client_register_joined [OF c] by auto
  then have area_ne: "area \<noteq> []" by (auto simp: AllowedArea_def)
  have k: "key_of ?w area = Some (PublicKey key)" by (rule reg_run_key [OF joined(1) meantime(1)])
  have ef: "RegistryAddress (effective_federation fl cfg ?fs) \<noteq> []" "FederationPublicAddr (effective_federation fl cfg ?fs) = ?addr"
    "boot_area s a = area" for a
    using own ne join(5) area_ne by (simp_all add: effective_federation_def boot_area_def Let_def)
  obtain w' where r: "client_RegisterServer (RegisterOCNServer rnd' now' ?w) (cf_ServerName cfg) (cf_Description cfg) ?addr area (PublicKey key) = (Inr area, w')"
    using register_again [OF k area(1) meantime(2) ne(1) area(2)] by blast
  let ?s1 = "s\<lparr>settings := aput ''area_code'' area (settings s)\<rparr>"
  have "\<exists>s2. UpdateAreaCodeForUsers ?s1 area = Inr s2" using up area_ne by (simp add: UpdateAreaCodeForUsers_def)
  then obtain s2 where s2: "UpdateAreaCodeForUsers ?s1 area = Inr s2" ..
  have "Route (route_call w') area = Inr ?addr" by (rule client_register_route(1) [OF r])
  moreover have "list_all (\<lambda>u. AreaCode u \<noteq> []) (users s2)" using backfilled [OF _ area_ne s2] up by simp
  ultimately show ?thesis
    using boot_registers [OF joined(2) ef(1), of dial_ok "RegisterOCNServer rnd' now' ?w" key "Inr area" w' ?w] reach r s2 up ef(2,3) by simp
qed

definition no_flags :: flags where
  "no_flags = \<lparr>fl_fcmCreds = [], fl_registryAddr = [], fl_registryArea = [], fl_registryInsecure = False,
     fl_fedAddr = [], fl_fedPublic = [], fl_fedInsecure = False\<rparr>"

theorem federation_survives_restart_witness:
  "\<exists>j s w c s' w'. handleFederationRegister sample_admin empty_registry (Some sample_fed) empty_store = ((200, j), s, w) \<and>
     boot_federation (\<lambda>_ _. True) (RegisterOCNServer (\<lambda>_. 0) (secs 5000) w) no_flags DefaultConfig lake_key s w = (Inr (Some c, ''440'', s'), w') \<and>
     Route (route_call w') ''440'' = Inr ''lake:9110''"
proof -
  obtain j s w where h: "handleFederationRegister sample_admin empty_registry (Some sample_fed) empty_store = ((200, j), s, w)"
    "GetSetting s ''area_code'' = Inr ''440''" "reg_up (rs_store w)" using sample_joins by blast
  have "fl_registryAddr no_flags = []" "cf_RegistryAddress DefaultConfig = []" "fl_fedPublic no_flags = []" "cf_FedPublicAddr DefaultConfig = []"
    by (simp_all add: no_flags_def DefaultConfig_def)
  from federation_survives_restart [OF sample_join_env(1) h(1) sample_join_env(2,3) h(2), of "[]" reg_ed, OF _ _ this, of "\<lambda>_ _. True" "\<lambda>_. 0" "secs 5000"] h
  show ?thesis by (auto simp: sample_fed_def trim_sample_fed)
qed

text \<open>
  C34. An exchange that lost its area code cannot start. When the area code stored at the first
  registration belongs to another key at the registry, the start ends with a fatal error, whatever
  area code the flags, the configuration or the panel request: the stored code overrides them all,
  and clearing the federation settings in the panel keeps it.
\<close>

theorem lost_area_stops_start:
  assumes "db_up s" and "GetSetting s ''area_code'' = Inr area" and "AllowedArea area"
    and "GetFederationSettings s = Inr fs" and "RegistryAddress (effective_federation fl cfg fs) \<noteq> []"
    and "FederationPublicAddr (effective_federation fl cfg fs) \<noteq> []" and "\<And>a i. dial_ok a i"
    and "key_of w area = Some k" and "k \<noteq> PublicKey key" and "length (PublicKey key) = 32" and "reg_up (rs_store w)"
  shows "boot_federation dial_ok (RegisterOCNServer rnd now w) fl cfg key s w =
      (Inl (FatalRegistration (RegistryRefused (Some ErrAreaTaken))), w) \<and>
    (\<forall>s'. ClearFederationSettings s = Inr s' \<longrightarrow> GetSetting s' ''area_code'' = Inr area)"
proof -
  have "boot_area s a = area" for a using assms(2,3) by (auto simp: boot_area_def AllowedArea_def)
  then have "boot_federation dial_ok (RegisterOCNServer rnd now w) fl cfg key s w =
      (Inl (FatalRegistration (RegistryRefused (Some ErrAreaTaken))), w)"
    using boot_registers [OF assms(4,5), of dial_ok "RegisterOCNServer rnd now w" key]
      register_other_key [OF assms(8,9,3,11,6,10)] assms(1,7) by simp
  moreover have "ClearFederationSettings s = Inr s' \<Longrightarrow> GetSetting s' ''area_code'' = Inr area" for s'
    using assms(1,2)
    by (auto simp: ClearFederationSettings_def GetSetting_def keyRegistryAddress_def keyRegistryInsecure_def
        keyRegistryAreaCode_def keyFedPublic_def)
  ultimately show ?thesis by blast
qed

theorem lost_area_stops_start_witness:
  "\<exists>s. boot_federation (\<lambda>_ _. True) (RegisterOCNServer (\<lambda>_. 0) 0 lakeside)
     (no_flags\<lparr>fl_registryAddr := ''reg:7443'', fl_registryArea := ''441'', fl_fedPublic := ''me:9110''\<rparr>) DefaultConfig
     \<lparr>PublicKey = replicate 32 2, PrivateKey = replicate 64 2\<rparr> s lakeside = (Inl (FatalRegistration (RegistryRefused (Some ErrAreaTaken))), lakeside)"
proof -
  let ?s = "empty_store\<lparr>settings := [(''area_code'', ''440'')]\<rparr>"
  let ?fl = "no_flags\<lparr>fl_registryAddr := ''reg:7443'', fl_registryArea := ''441'', fl_fedPublic := ''me:9110''\<rparr>"
  have s: "db_up ?s" "GetSetting ?s ''area_code'' = Inr ''440''"
    "GetFederationSettings ?s = Inr \<lparr>RegistryAddress = [], RegistryInsecure = False, RequestedAreaCode = [], FederationPublicAddr = []\<rparr>"
    by (simp_all add: empty_store_def GetSetting_def GetFederationSettings_def keyRegistryAddress_def keyRegistryInsecure_def
        keyRegistryAreaCode_def keyFedPublic_def)
  have k: "key_of lakeside ''440'' = Some (replicate 32 1)" "reg_up (rs_store lakeside)"
    "(replicate 32 1 :: bytes) \<noteq> replicate 32 2"
    by (simp_all add: key_of_def server_of_def sample_registry_defs)
  have "RegistryAddress (effective_federation ?fl DefaultConfig fs) \<noteq> []" "FederationPublicAddr (effective_federation ?fl DefaultConfig fs) \<noteq> []" for fs
    by (simp_all add: effective_federation_def no_flags_def Let_def)
  from lost_area_stops_start [OF s(1,2) area_440(1) s(3) this, of "\<lambda>_ _. True" lakeside "replicate 32 1"
      "\<lparr>PublicKey = replicate 32 2, PrivateKey = replicate 64 2\<rparr>" "\<lambda>_. 0" 0] k
  show ?thesis by auto
qed


definition idle_exchange :: Server where
  "idle_exchange = boot_server None None (Inr []) None False no_flags DefaultConfig None [] empty_store"


lemma default_listener_off: "federation_listener load_cert listen_ok no_flags DefaultConfig = NoListener"
  by (simp add: federation_listener_def startFederationGRPC_def no_flags_def DefaultConfig_def)


definition sample_boot :: "KSimFile \<Rightarrow> unit boot_env" where
  "sample_boot f = \<lparr>be_now = 0, be_bcrypt = Some, be_gcm = plain_gcm, be_kdf = (\<lambda>p s i n. replicate n 0),
     be_marshal = (\<lambda>_. None), be_unmarshal = (\<lambda>_. Some f), be_generate = None, be_rand = (\<lambda>_. Some (\<lambda>_. 7)), be_dial = (\<lambda>_ _. True),
     be_join = (\<lambda>_. (Inl GCrash, ())), be_ice = Inr [], be_fcm = Inl [], be_encoder = None, be_cert = (\<lambda>_ _. True), be_listen = (\<lambda>_. True),
     be_text = (\<lambda>_. [])\<rparr>"


section \<open>The public pages\<close>

text \<open>Text that JSON carries without escapes.\<close>

definition plain_text :: "string \<Rightarrow> bool" where
  "plain_text s \<longleftrightarrow> list_all (\<lambda>c. 32 \<le> ord c \<and> ord c < 128 \<and> c \<notin> {CHR 0x22, CHR 0x5C, CHR ''<'', CHR ''>'', CHR ''&''}) s"

lemma quote_plain: "plain_text s \<Longrightarrow> quote_body s = s"
proof (induction s)
  case (Cons c s)
  have c: "32 \<le> ord c" "ord c < 128" "c \<notin> {CHR 0x22, CHR 0x5C, CHR ''<'', CHR ''>'', CHR ''&''}" and s: "plain_text s"
    using Cons.prems by (simp_all add: plain_text_def)
  have "c \<notin> {CHR 0x08, CHR 0x0C, CHR 0x0A, CHR 0x0D, CHR 0x09}" using c(1) by auto
  then have "esc_ascii c = [c]" using c by (simp add: esc_ascii_def)
  moreover have "rune_len (c # s) = 1" using c(2) by (simp add: rune_len.simps)
  ultimately show ?case using Cons.IH [OF s] by (simp add: quote_body.simps [of "c # s"] esc_rune_def)
qed (simp add: quote_body.simps)

lemma quoted_plain: "plain_text s \<Longrightarrow> quoted s = quote_str s"
  by (simp add: quoted_def quote_str_def quote_plain)

lemma plain_utf8: "plain_text s \<Longrightarrow> utf8 s"
  by (rule to_valid_ascii) (auto simp: plain_text_def list_all_iff)

lemma plain_names: "plain_text ''status''" "plain_text ''ok''" "plain_text ''area_code''" "plain_text ''server''" "plain_text ''name''"
    "plain_text ''description''" "plain_text ''users''"
  by (simp_all add: plain_text_def)

lemma print_pages:
  assumes "plain_text area" "plain_text (cf_ServerName cfg)" "plain_text (cf_Description cfg)"
  shows "health_page area cfg = json_print (VObj [(''status'', VStr ''ok''), (''area_code'', VStr area), (''server'', VStr (cf_ServerName cfg))])"
    "info_page area cfg s = json_print (VObj [(''area_code'', VStr area), (''name'', VStr (cf_ServerName cfg)), (''description'', VStr (cf_Description cfg)),
       (''users'', e_int (case CountUsers s of Inl _ \<Rightarrow> 0 | Inr n \<Rightarrow> int n))])"
  using assms by (simp_all add: health_page_def info_page_def quoted_plain plain_names)

text \<open>
  The pages \<open>/health\<close> and \<open>/info\<close> are JSON with the members of the source as long as the names of the exchange need
  no escapes; a server name with a quotation mark can change the status the page reports.
\<close>

theorem public_pages_json:
  assumes "plain_text area" "plain_text (cf_ServerName cfg)" "plain_text (cf_Description cfg)"
  shows "json_parse (health_page area cfg) =
      Some (VObj [(''status'', VStr ''ok''), (''area_code'', VStr area), (''server'', VStr (cf_ServerName cfg))]) \<and>
    json_parse (info_page area cfg s) = Some (VObj [(''area_code'', VStr area), (''name'', VStr (cf_ServerName cfg)),
      (''description'', VStr (cf_Description cfg)), (''users'', e_int (case CountUsers s of Inl _ \<Rightarrow> 0 | Inr n \<Rightarrow> int n))])"
proof -
  have v: "value_ok (Suc 0) (VObj [(''status'', VStr ''ok''), (''area_code'', VStr area), (''server'', VStr (cf_ServerName cfg))])"
    "value_ok (Suc 0) (VObj [(''area_code'', VStr area), (''name'', VStr (cf_ServerName cfg)), (''description'', VStr (cf_Description cfg)),
       (''users'', e_int (case CountUsers s of Inl _ \<Rightarrow> 0 | Inr n \<Rightarrow> int n))])"
    using assms [THEN plain_utf8] by (simp_all add: ok_simps)
  show ?thesis
    unfolding print_pages [OF assms]
    using parse_ok(1) [OF value_ok_json [OF v(1)]] parse_ok(1) [OF value_ok_json [OF v(2)]] by (simp add: maxNestingDepth_def del: json_print.simps)
qed

lemma health_page_injection:
  "json_parse (health_page ''440'' (DefaultConfig\<lparr>cf_ServerName := ''x'' @ quoted '','' @ ''status'' @ quoted '':'' @ ''down''\<rparr>)) =
     Some (VObj [(''status'', VStr ''ok''), (''area_code'', VStr ''440''), (''server'', VStr ''x''), (''status'', VStr ''down'')])"
proof -
  let ?j = "VObj [(''status'', VStr ''ok''), (''area_code'', VStr ''440''), (''server'', VStr ''x''), (''status'', VStr ''down'')]"
  have "health_page ''440'' (DefaultConfig\<lparr>cf_ServerName := ''x'' @ quoted '','' @ ''status'' @ quoted '':'' @ ''down''\<rparr>) = json_print ?j"
    using quoted_plain [of "''440''"] quoted_plain [of "''x''"] quoted_plain [of "''down''"] plain_names [THEN quoted_plain]
    by (simp add: health_page_def plain_text_def) (simp add: quoted_def quote_str_def)
  moreover have "value_ok (Suc 0) ?j" by (simp add: ok_simps)
  ultimately show ?thesis using parse_ok(1) [OF value_ok_json, of "Suc 0" ?j] by (simp add: maxNestingDepth_def)
qed

lemma panel_never_tls: "exchange_serve load_cert listen_ok cfg = Inr (admin_l, public_l) \<Longrightarrow> admin_l = PlainListener (AdminAddress cfg)"
  by (auto simp: exchange_serve_def split: if_splits)

section \<open>The configuration file\<close>

text \<open>Text in UTF-8, numbers of 64 bits, and the service numbers as an ordered list of distinct entries.\<close>

definition ok_Config :: "Config \<Rightarrow> bool" where
  "ok_Config c \<longleftrightarrow>
     (\<forall>s\<in>set [cf_Host c, cf_AreaCode c, cf_ServerName c, cf_Description c, cf_ServerKeyPath c, cf_DatabasePath c, cf_TLSCertFile c, cf_TLSKeyFile c,
        cf_VoicemailPath c, cf_AdminHost c, cf_PublicAddress c, cf_RegistryAddress c, cf_RegistryAreaCode c, cf_FedAddr c, cf_FedPublicAddr c]. utf8 s) \<and>
     (\<forall>n\<in>set [cf_Port c, cf_MaxVoicemailDuration c, cf_RingTimeoutSeconds c, cf_PendingCallTimeoutSeconds c, cf_AdminPort c]. - (2 ^ 63) \<le> n \<and> n < 2 ^ 63) \<and>
     (\<forall>(k, s)\<in>set (cf_ServiceNumbers c). utf8 k \<and> utf8 (sc_Name s) \<and> utf8 (sc_Phrase s)) \<and>
     sorted (map fst (cf_ServiceNumbers c)) \<and> distinct (map fst (cf_ServiceNumbers c))"

text \<open>The configuration with its empty optional settings set to their defaults.\<close>

definition with_defaults :: "Config \<Rightarrow> Config" where
  "with_defaults c = c\<lparr>cf_RingTimeoutSeconds := (if cf_RingTimeoutSeconds c = 0 then 15 else cf_RingTimeoutSeconds c),
     cf_PendingCallTimeoutSeconds := (if cf_PendingCallTimeoutSeconds c = 0 then 15 else cf_PendingCallTimeoutSeconds c),
     cf_AdminHost := (if cf_AdminHost c = [] then ''0.0.0.0'' else cf_AdminHost c),
     cf_AdminPort := (if cf_AdminPort c = 0 then 8080 else cf_AdminPort c),
     cf_FedAddr := (if cf_FedAddr c = [] then '':9110'' else cf_FedAddr c)\<rparr>"

lemma config_field:
  "find_field config_fields ''host'' = Some (\<lambda>j c. map_option (\<lambda>v. c\<lparr>cf_Host := v\<rparr>) (d_string j (cf_Host c)))"
  "find_field config_fields ''port'' = Some (\<lambda>j c. map_option (\<lambda>v. c\<lparr>cf_Port := v\<rparr>) (d_int 64 j (cf_Port c)))"
  "find_field config_fields ''area_code'' = Some (\<lambda>j c. map_option (\<lambda>v. c\<lparr>cf_AreaCode := v\<rparr>) (d_string j (cf_AreaCode c)))"
  "find_field config_fields ''server_name'' = Some (\<lambda>j c. map_option (\<lambda>v. c\<lparr>cf_ServerName := v\<rparr>) (d_string j (cf_ServerName c)))"
  "find_field config_fields ''description'' = Some (\<lambda>j c. map_option (\<lambda>v. c\<lparr>cf_Description := v\<rparr>) (d_string j (cf_Description c)))"
  "find_field config_fields ''server_key_path'' = Some (\<lambda>j c. map_option (\<lambda>v. c\<lparr>cf_ServerKeyPath := v\<rparr>) (d_string j (cf_ServerKeyPath c)))"
  "find_field config_fields ''database_path'' = Some (\<lambda>j c. map_option (\<lambda>v. c\<lparr>cf_DatabasePath := v\<rparr>) (d_string j (cf_DatabasePath c)))"
  "find_field config_fields ''tls_cert_file'' = Some (\<lambda>j c. map_option (\<lambda>v. c\<lparr>cf_TLSCertFile := v\<rparr>) (d_string j (cf_TLSCertFile c)))"
  "find_field config_fields ''tls_key_file'' = Some (\<lambda>j c. map_option (\<lambda>v. c\<lparr>cf_TLSKeyFile := v\<rparr>) (d_string j (cf_TLSKeyFile c)))"
  "find_field config_fields ''voicemail_path'' = Some (\<lambda>j c. map_option (\<lambda>v. c\<lparr>cf_VoicemailPath := v\<rparr>) (d_string j (cf_VoicemailPath c)))"
  "find_field config_fields ''max_voicemail_duration_seconds'' = Some (\<lambda>j c. map_option (\<lambda>v. c\<lparr>cf_MaxVoicemailDuration := v\<rparr>) (d_int 64 j (cf_MaxVoicemailDuration c)))"
  "find_field config_fields ''ring_timeout_seconds'' = Some (\<lambda>j c. map_option (\<lambda>v. c\<lparr>cf_RingTimeoutSeconds := v\<rparr>) (d_int 64 j (cf_RingTimeoutSeconds c)))"
  "find_field config_fields ''pending_call_timeout_seconds'' = Some (\<lambda>j c. map_option (\<lambda>v. c\<lparr>cf_PendingCallTimeoutSeconds := v\<rparr>) (d_int 64 j (cf_PendingCallTimeoutSeconds c)))"
  "find_field config_fields ''admin_host'' = Some (\<lambda>j c. map_option (\<lambda>v. c\<lparr>cf_AdminHost := v\<rparr>) (d_string j (cf_AdminHost c)))"
  "find_field config_fields ''admin_port'' = Some (\<lambda>j c. map_option (\<lambda>v. c\<lparr>cf_AdminPort := v\<rparr>) (d_int 64 j (cf_AdminPort c)))"
  "find_field config_fields ''public_address'' = Some (\<lambda>j c. map_option (\<lambda>v. c\<lparr>cf_PublicAddress := v\<rparr>) (d_string j (cf_PublicAddress c)))"
  "find_field config_fields ''registry_address'' = Some (\<lambda>j c. map_option (\<lambda>v. c\<lparr>cf_RegistryAddress := v\<rparr>) (d_string j (cf_RegistryAddress c)))"
  "find_field config_fields ''registry_area_code'' = Some (\<lambda>j c. map_option (\<lambda>v. c\<lparr>cf_RegistryAreaCode := v\<rparr>) (d_string j (cf_RegistryAreaCode c)))"
  "find_field config_fields ''registry_insecure'' = Some (\<lambda>j c. map_option (\<lambda>v. c\<lparr>cf_RegistryInsecure := v\<rparr>) (d_bool j (cf_RegistryInsecure c)))"
  "find_field config_fields ''federation_addr'' = Some (\<lambda>j c. map_option (\<lambda>v. c\<lparr>cf_FedAddr := v\<rparr>) (d_string j (cf_FedAddr c)))"
  "find_field config_fields ''federation_public_address'' = Some (\<lambda>j c. map_option (\<lambda>v. c\<lparr>cf_FedPublicAddr := v\<rparr>) (d_string j (cf_FedPublicAddr c)))"
  "find_field config_fields ''federation_insecure'' = Some (\<lambda>j c. map_option (\<lambda>v. c\<lparr>cf_FedInsecure := v\<rparr>) (d_bool j (cf_FedInsecure c)))"
  "find_field config_fields ''service_numbers'' = Some (\<lambda>j c. map_option (\<lambda>v. c\<lparr>cf_ServiceNumbers := v\<rparr>) (d_map dec_ServiceNumberConfig \<lparr>sc_Name = [], sc_Phrase = [], sc_Conference = False\<rparr> j (cf_ServiceNumbers c)))"
  by (simp_all add: config_fields_def find_field_def fld_def)

lemma dec_enc_Config:
  assumes "ok_Config c"
  shows "dec_Config (enc_Config c) DefaultConfig = Some (with_defaults c)"
proof -
  have s: "d_map dec_ServiceNumberConfig z (VObj (map (map_prod id enc_ServiceNumberConfig) (sort_key fst (cf_ServiceNumbers c)))) [] =
      Some (cf_ServiceNumbers c)" for z
  proof -
    have "sort_key fst (cf_ServiceNumbers c) = cf_ServiceNumbers c" using assms by (simp add: ok_Config_def sorted_sort_id sort_key_id_if_sorted)
    moreover have "dec_ServiceNumberConfig (enc_ServiceNumberConfig v) z = Some v" for v
      by (simp add: dec_ServiceNumberConfig_def enc_ServiceNumberConfig_def json_simps)
    ultimately show ?thesis
      using d_entries_new [of "cf_ServiceNumbers c" dec_ServiceNumberConfig enc_ServiceNumberConfig z "[]"] assms by (simp add: d_map_def ok_Config_def)
  qed
  let ?last = "if cf_ServiceNumbers c = [] then []
      else [(''service_numbers'', VObj (map (map_prod id enc_ServiceNumberConfig) (sort_key fst (cf_ServiceNumbers c))))]"
  have l: "d_members config_fields ?last r = Some (r\<lparr>cf_ServiceNumbers := cf_ServiceNumbers c\<rparr>)" if "cf_ServiceNumbers r = []" for r
    using that s by (cases r) (simp add: config_field)
  have r: "- 9223372036854775808 \<le> cf_Port c" "cf_Port c < 9223372036854775808"
      "- 9223372036854775808 \<le> cf_MaxVoicemailDuration c" "cf_MaxVoicemailDuration c < 9223372036854775808"
      "- 9223372036854775808 \<le> cf_RingTimeoutSeconds c" "cf_RingTimeoutSeconds c < 9223372036854775808"
      "- 9223372036854775808 \<le> cf_PendingCallTimeoutSeconds c" "cf_PendingCallTimeoutSeconds c < 9223372036854775808"
      "- 9223372036854775808 \<le> cf_AdminPort c" "cf_AdminPort c < 9223372036854775808"
    using assms by (simp_all add: ok_Config_def)
  have "dec_Config (enc_Config c) DefaultConfig = Some (DefaultConfig\<lparr>cf_Host := cf_Host c, cf_Port := cf_Port c, cf_AreaCode := cf_AreaCode c,
     cf_ServerName := cf_ServerName c, cf_Description := cf_Description c, cf_ServerKeyPath := cf_ServerKeyPath c, cf_DatabasePath := cf_DatabasePath c,
     cf_TLSCertFile := cf_TLSCertFile c, cf_TLSKeyFile := cf_TLSKeyFile c, cf_VoicemailPath := cf_VoicemailPath c,
     cf_MaxVoicemailDuration := cf_MaxVoicemailDuration c, cf_RingTimeoutSeconds := or_old (cf_RingTimeoutSeconds c = 0) 15 (cf_RingTimeoutSeconds c),
     cf_PendingCallTimeoutSeconds := or_old (cf_PendingCallTimeoutSeconds c = 0) 15 (cf_PendingCallTimeoutSeconds c),
     cf_AdminHost := or_old (cf_AdminHost c = []) ''0.0.0.0'' (cf_AdminHost c), cf_AdminPort := or_old (cf_AdminPort c = 0) 8080 (cf_AdminPort c),
     cf_PublicAddress := cf_PublicAddress c, cf_RegistryAddress := cf_RegistryAddress c, cf_RegistryAreaCode := cf_RegistryAreaCode c,
     cf_RegistryInsecure := cf_RegistryInsecure c, cf_FedAddr := or_old (cf_FedAddr c = []) '':9110'' (cf_FedAddr c),
     cf_FedPublicAddr := cf_FedPublicAddr c, cf_FedInsecure := cf_FedInsecure c, cf_ServiceNumbers := cf_ServiceNumbers c\<rparr>)"
    by (simp add: dec_Config_def enc_Config_def DefaultConfig_def d_struct_def config_field d_basic d_members_omit_field l r split del: if_split)
  then show ?thesis by (simp add: with_defaults_def DefaultConfig_def or_old_def split del: if_split)
qed

lemma enc_Config_ok:
  assumes "ok_Config c"
  shows "json_ok (enc_Config c)"
proof -
  have s: "value_ok (Suc 0) (enc_ServiceNumberConfig v) \<longleftrightarrow> utf8 (sc_Name v) \<and> utf8 (sc_Phrase v)" for v
    by (simp add: enc_ServiceNumberConfig_def ok_simps)
  have "members_ok (Suc 0) (map (map_prod id enc_ServiceNumberConfig) (sort_key fst (cf_ServiceNumbers c)))"
    using assms by (auto simp: ok_Config_def members_ok_def s)
  then have "value_ok (Suc (Suc (Suc 0))) (enc_Config c)"
    using assms by (simp add: ok_Config_def enc_Config_def ok_simps)
  then show ?thesis by (rule value_ok_json) (simp add: maxNestingDepth_def)
qed

text \<open>
  A configuration that is saved and loaded again is the same, except that an optional setting saved as empty or zero comes
  back as its default: an exchange whose inter-server listener was switched off gets it back.
\<close>

theorem config_saved:
  assumes "ok_Config c"
  shows "LoadConfig (Contents (cfg_Save c)) = Inr (with_defaults c) \<and>
    (with_defaults c = c \<longleftrightarrow> cf_RingTimeoutSeconds c \<noteq> 0 \<and> cf_PendingCallTimeoutSeconds c \<noteq> 0 \<and> cf_AdminHost c \<noteq> [] \<and> cf_AdminPort c \<noteq> 0 \<and> cf_FedAddr c \<noteq> [])"
proof
  show "LoadConfig (Contents (cfg_Save c)) = Inr (with_defaults c)"
    by (simp add: LoadConfig_def cfg_Save_def Unmarshal_def parse_indent_ok [OF enc_Config_ok [OF assms]] dec_enc_Config [OF assms])
  have "with_defaults c = c \<longleftrightarrow> cf_RingTimeoutSeconds (with_defaults c) = cf_RingTimeoutSeconds c \<and>
      cf_PendingCallTimeoutSeconds (with_defaults c) = cf_PendingCallTimeoutSeconds c \<and> cf_AdminHost (with_defaults c) = cf_AdminHost c \<and>
      cf_AdminPort (with_defaults c) = cf_AdminPort c \<and> cf_FedAddr (with_defaults c) = cf_FedAddr c"
    by (cases c) (simp add: with_defaults_def)
  also have "\<dots> \<longleftrightarrow> cf_RingTimeoutSeconds c \<noteq> 0 \<and> cf_PendingCallTimeoutSeconds c \<noteq> 0 \<and> cf_AdminHost c \<noteq> [] \<and> cf_AdminPort c \<noteq> 0 \<and> cf_FedAddr c \<noteq> []"
    by (auto simp: with_defaults_def)
  finally show "with_defaults c = c \<longleftrightarrow> cf_RingTimeoutSeconds c \<noteq> 0 \<and> cf_PendingCallTimeoutSeconds c \<noteq> 0 \<and> cf_AdminHost c \<noteq> [] \<and> cf_AdminPort c \<noteq> 0 \<and> cf_FedAddr c \<noteq> []" .
qed

theorem config_saved_witness:
  "LoadConfig (Contents (cfg_Save (DefaultConfig\<lparr>cf_FedAddr := []\<rparr>))) = Inr DefaultConfig"
proof -
  have "ok_Config (DefaultConfig\<lparr>cf_FedAddr := []\<rparr>)" by (simp add: ok_Config_def DefaultConfig_def ok_simps)
  moreover have "with_defaults (DefaultConfig\<lparr>cf_FedAddr := []\<rparr>) = DefaultConfig" by (simp add: with_defaults_def DefaultConfig_def)
  ultimately show ?thesis using config_saved by metis
qed

end
