(* ===== verification/Registry_Main.thy ===== *)
theory Registry_Main
  imports Registry_Svc Http
begin

text \<open>
  Start of the registry server (\<open>registry_server/main.go\<close>) and its embedded TURN relay
  (\<open>internal/turn/turn.go\<close>): the STUN list, the checks and the credentials of the relay, what is
  advertised to clients, and the routing of the web site.

  The relay itself (\<open>pion/turn\<close>), sockets and certificates are parameters; \<open>auth_key\<close> is
  \<open>turn.GenerateAuthKey\<close>. Errors that end the process are \<open>Inl\<close>.
\<close>

section \<open>turn.go\<close>

record turn_options =
  tu_PublicIP :: string
  tu_UDPAddr :: string
  tu_TCPAddr :: string
  tu_Realm :: string
  tu_Username :: string
  tu_Password :: string

record turn_env =
  te_parse_ip :: "string \<Rightarrow> bool"
  te_udp :: "string \<Rightarrow> string option"
  te_tcp :: "string \<Rightarrow> string option"
  te_start :: "string option"

record turn_server =
  ts_Realm :: string
  ts_Username :: string
  ts_Password :: string
  ts_RelayAddress :: string
  ts_Listeners :: "(string \<times> string) list"

definition turn_Start :: "turn_env \<Rightarrow> turn_options \<Rightarrow> string + turn_server" where
  "turn_Start te o' =
     (if tu_PublicIP o' = [] then Inl ''turn public ip required''
      else let realm = (if tu_Realm o' = [] then ''ocn'' else tu_Realm o') in
        if tu_Username o' = [] \<or> tu_Password o' = [] then Inl ''turn username/password required''
        else if \<not> te_parse_ip te (tu_PublicIP o') then Inl ''invalid public ip''
        else (case te_udp te (tu_UDPAddr o') of
                Some e \<Rightarrow> Inl (''turn udp listen: '' @ e)
              | None \<Rightarrow>
                  (case (if tu_TCPAddr o' \<noteq> [] then te_tcp te (tu_TCPAddr o') else None) of
                     Some e \<Rightarrow> Inl (''turn tcp listen: '' @ e)
                   | None \<Rightarrow>
                       (case te_start te of
                          Some e \<Rightarrow> Inl (''start turn server: '' @ e)
                        | None \<Rightarrow>
                            Inr \<lparr>ts_Realm = realm, ts_Username = tu_Username o', ts_Password = tu_Password o',
                                 ts_RelayAddress = tu_PublicIP o',
                                 ts_Listeners = (''udp4'', tu_UDPAddr o') #
                                   (if tu_TCPAddr o' \<noteq> [] then [(''tcp4'', tu_TCPAddr o')] else [])\<rparr>))))"

definition turn_auth :: "(string \<Rightarrow> string \<Rightarrow> string \<Rightarrow> bytes) \<Rightarrow> turn_server \<Rightarrow> string \<Rightarrow> string \<Rightarrow> bytes option" where
  "turn_auth auth_key ts username realm =
     (if username = ts_Username ts then Some (auth_key (ts_Username ts) realm (ts_Password ts)) else None)"

section \<open>main.go\<close>

record reg_flags =
  rf_domain :: string
  rf_stun :: string
  rf_turnUDP :: string
  rf_turnTCP :: string
  rf_turnIP :: string
  rf_turnUser :: string
  rf_turnPass :: string
  rf_turnHost :: string

definition stun_list :: "string \<Rightarrow> string list" where
  "stun_list s = filter (\<lambda>t. t \<noteq> []) (map TrimSpace (split_on (CHR '','') s))"

definition advertised_turn :: "reg_flags \<Rightarrow> string" where
  "advertised_turn fl =
     (if rf_turnHost fl \<noteq> [] then rf_turnHost fl
      else let p = (if has_prefix (rf_turnUDP fl) '':'' then drop 1 (rf_turnUDP fl) else rf_turnUDP fl)
           in rf_domain fl @ '':'' @ p)"

definition registry_main ::
  "turn_env \<Rightarrow> reg_flags \<Rightarrow> registry_store \<Rightarrow> provider option option \<Rightarrow> string + (registry_server \<times> turn_server option)" where
  "registry_main te fl st pusher =
     (let svc = reg_New st pusher (stun_list (rf_stun fl)) in
      if rf_turnIP fl = [] then Inr (svc, None)
      else case turn_Start te \<lparr>tu_PublicIP = rf_turnIP fl, tu_UDPAddr = rf_turnUDP fl, tu_TCPAddr = rf_turnTCP fl,
                  tu_Realm = ''ocn'', tu_Username = rf_turnUser fl, tu_Password = rf_turnPass fl\<rparr> of
             Inl e \<Rightarrow> Inl (''TURN: '' @ e)
           | Inr ts \<Rightarrow> Inr (SetTURN svc (advertised_turn fl) (rf_turnUser fl) (rf_turnPass fl), Some ts))"

text \<open>
  The start up to the listeners: the store, the push client if credentials are given (\<open>push\<close> is the result of creating
  it), the service and the relay.
\<close>

definition registry_start ::
  "(string \<Rightarrow> string option) \<Rightarrow> gotime \<Rightarrow> turn_env \<Rightarrow> string \<Rightarrow> string + provider \<Rightarrow> reg_flags \<Rightarrow> registry_store \<Rightarrow>
   string + (registry_server \<times> turn_server option)" where
  "registry_start gen now te fcmCreds push fl s =
     (case reg_Open gen now s of
        Inl e \<Rightarrow> Inl ''open store''
      | Inr st \<Rightarrow>
          if fcmCreds \<noteq> [] then
            (case push of Inl e \<Rightarrow> Inl (''init push: '' @ e) | Inr p \<Rightarrow> registry_main te fl st (Some (Some p)))
          else registry_main te fl st None)"

definition hostPolicy :: "string \<Rightarrow> string \<Rightarrow> bool" where
  "hostPolicy domain host \<longleftrightarrow> host = domain \<or> host = ''www.'' @ domain"

definition redirectHTTPS :: "string \<Rightarrow> string \<Rightarrow> string" where
  "redirectHTTPS host requestURI = ''https://'' @ takeWhile (\<lambda>c. c \<noteq> CHR '':'') host @ requestURI"

datatype web_page = AdminPanel | AdminRedirect | JoinProxy string | Health | Index | PageNotFound

definition webMux :: "(string \<Rightarrow> bool) \<Rightarrow> string \<Rightarrow> string \<Rightarrow> web_page" where
  "webMux url_ok joinTarget path =
     (if has_prefix path ''/admin/'' then AdminPanel
      else if path = ''/admin'' then AdminRedirect
      else if path = ''/join'' \<and> joinTarget \<noteq> [] \<and> url_ok joinTarget then JoinProxy joinTarget
      else if path = ''/healthz'' then Health
      else if path = ''/'' then Index
      else PageNotFound)"

text \<open>What a listener serves: the registry service, the web site, or the redirect to HTTPS beside the ACME challenges.\<close>

datatype served = GrpcService | WebSite | AcmeRedirect

record reg_addrs =
  ra_httpAddr :: string
  ra_httpsAddr :: string
  ra_grpcAddr :: string
  ra_cacheDir :: string
  ra_plaintext :: bool

definition cache_dir :: "reg_addrs \<Rightarrow> string" where
  "cache_dir fl = (if ra_cacheDir fl = [] then ''certs'' else ra_cacheDir fl)"

text \<open>
  The listeners, as address, TLS and content. The gRPC port is opened before the others; a port that cannot be opened
  ends the process.
\<close>

definition registry_listen :: "(string \<Rightarrow> bool) \<Rightarrow> reg_addrs \<Rightarrow> string + (string \<times> bool \<times> served) list" where
  "registry_listen listen_ok fl =
     (if \<not> listen_ok (ra_grpcAddr fl) then Inl ''grpc listen''
      else if ra_plaintext fl then
        (if \<not> listen_ok (ra_httpAddr fl) then Inl ''http''
         else Inr [(ra_grpcAddr fl, False, GrpcService), (ra_httpAddr fl, False, WebSite)])
      else if \<not> listen_ok (ra_httpsAddr fl) then Inl ''https serve''
      else if \<not> listen_ok (ra_httpAddr fl) then Inl ''http serve''
      else Inr [(ra_grpcAddr fl, True, GrpcService), (ra_httpsAddr fl, True, WebSite), (ra_httpAddr fl, False, AcmeRedirect)])"

datatype web_answer = Page web_page | Moved string | AcmeChallenge

text \<open>The answer of a web listener; ACME challenges are answered by the certificate manager before the redirect.\<close>

definition web_answer_of :: "(string \<Rightarrow> bool) \<Rightarrow> string \<Rightarrow> served \<Rightarrow> string \<Rightarrow> string \<Rightarrow> string \<Rightarrow> web_answer option" where
  "web_answer_of url_ok joinTarget sv host path requestURI =
     (case sv of
        GrpcService \<Rightarrow> None
      | WebSite \<Rightarrow> Some (Page (webMux url_ok joinTarget path))
      | AcmeRedirect \<Rightarrow> Some (if has_prefix path ''/.well-known/acme-challenge/'' then AcmeChallenge else Moved (redirectHTTPS host requestURI)))"

section \<open>Properties\<close>

text \<open>
  Outside the development mode nothing but the redirect travels in the clear: a listener without TLS answers no request with
  a page, in particular none with the operator panel.
\<close>

theorem registry_in_the_clear:
  assumes "registry_listen listen_ok fl = Inr ls" and "\<not> ra_plaintext fl" and "(addr, False, sv) \<in> set ls"
  shows "sv = AcmeRedirect \<and> (\<forall>host path uri. \<nexists>p. web_answer_of url_ok joinTarget sv host path uri = Some (Page p))"
  using assms by (auto simp: registry_listen_def web_answer_of_def split: if_splits)

lemma turn_Start_result:
  "turn_Start te o' = Inr ts \<Longrightarrow>
   ts_Username ts = tu_Username o' \<and> ts_Password ts = tu_Password o' \<and> tu_Username o' \<noteq> [] \<and> tu_Password o' \<noteq> []"
  by (auto simp: turn_Start_def Let_def split: if_splits option.splits)

text \<open>
  The relay accepts what the registry hands out, and only that: when the registry runs a TURN
  relay, exactly one of the ICE servers it lists is that relay, the key the relay computes for the
  listed user name is the key of the listed credential, no other user name has a key, and neither
  is empty; when it does not, no listed server asks for a credential.
\<close>

theorem turn_credentials_match:
  assumes "registry_main te fl st pusher = Inr (svc, relay)"
  shows "case relay of
      None \<Rightarrow> list_all (\<lambda>i. pi_Username i = [] \<and> pi_Credential i = []) (fst (GetICECandidates svc))
    | Some ts \<Rightarrow> \<exists>i. filter (\<lambda>i. pi_Username i \<noteq> []) (fst (GetICECandidates svc)) = [i] \<and> pi_Credential i \<noteq> [] \<and>
        (\<forall>realm. turn_auth auth_key ts (pi_Username i) realm = Some (auth_key (pi_Username i) realm (pi_Credential i))) \<and>
        (\<forall>u realm. u \<noteq> pi_Username i \<longrightarrow> turn_auth auth_key ts u realm = None)"
proof (cases relay)
  case None
  then have "svc = reg_New st pusher (stun_list (rf_stun fl))"
    using assms by (auto simp: registry_main_def Let_def split: if_splits sum.splits)
  with None show ?thesis by (auto simp: GetICECandidates_def reg_New_def list_all_iff)
next
  case (Some ts)
  then have svc: "svc = SetTURN (reg_New st pusher (stun_list (rf_stun fl))) (advertised_turn fl) (rf_turnUser fl) (rf_turnPass fl)"
    and "ts_Username ts = rf_turnUser fl \<and> ts_Password ts = rf_turnPass fl \<and> rf_turnUser fl \<noteq> [] \<and> rf_turnPass fl \<noteq> []"
    using assms by (auto simp: registry_main_def Let_def dest!: turn_Start_result split: if_splits sum.splits)
  moreover have "advertised_turn fl \<noteq> []" by (simp add: advertised_turn_def Let_def)
  ultimately show ?thesis using Some
    by (simp add: GetICECandidates_def SetTURN_def reg_New_def turn_auth_def)
qed

definition sample_turn_flags :: reg_flags where
  "sample_turn_flags = \<lparr>rf_domain = ''ocn.example'', rf_stun = ''stun.example:3478'', rf_turnUDP = '':3478'', rf_turnTCP = '':3478'',
     rf_turnIP = ''192.0.2.1'', rf_turnUser = ''ocn'', rf_turnPass = ''pw'', rf_turnHost = []\<rparr>"

definition blank_registry :: registry_store where
  "blank_registry = \<lparr>reg_up = True, ocn_servers = [], service_numbers = [], reg_accounts = [], reg_sessions = []\<rparr>"

theorem turn_credentials_match_witness:
  "\<exists>svc ts. registry_main \<lparr>te_parse_ip = \<lambda>_. True, te_udp = \<lambda>_. None, te_tcp = \<lambda>_. None, te_start = None\<rparr>
       sample_turn_flags blank_registry None = Inr (svc, Some ts) \<and>
     (\<exists>i. filter (\<lambda>i. pi_Username i \<noteq> []) (fst (GetICECandidates svc)) = [i] \<and>
        turn_auth (\<lambda>u r p. str_bytes p) ts (pi_Username i) ''ocn'' = Some (str_bytes (pi_Credential i)))"
proof -
  have "\<exists>svc ts. registry_main \<lparr>te_parse_ip = \<lambda>_. True, te_udp = \<lambda>_. None, te_tcp = \<lambda>_. None, te_start = None\<rparr>
       sample_turn_flags blank_registry None = Inr (svc, Some ts)"
    by (simp add: registry_main_def turn_Start_def sample_turn_flags_def Let_def)
  then obtain svc ts where m: "registry_main \<lparr>te_parse_ip = \<lambda>_. True, te_udp = \<lambda>_. None, te_tcp = \<lambda>_. None, te_start = None\<rparr>
       sample_turn_flags blank_registry None = Inr (svc, Some ts)" by blast
  from turn_credentials_match [OF m, of "\<lambda>u r p. str_bytes p"] m show ?thesis by auto
qed

end
