(* ===== verification/Spec2Isabelle.thy ===== *)
theory Spec2Isabelle
  imports Media Wire Sig_Network Startup_Props Registry_Main
begin

text \<open>
  \<^bold>\<open>OpenCarrier Network: a verification development.\<close>

  \<^bold>\<open>The program.\<close> An OpenCarrier \<^emph>\<open>exchange\<close> (\<open>src/ocnserver\<close>) is a telephone exchange for devices that
  hold an Ed25519 key. A device connects by WebSocket, proves possession of its key, is given a line with a
  seven-digit number, and then places WebRTC calls, leaves and plays voicemail and sends direct messages.
  The exchange hosts services under star codes and 800/900 numbers (echo, announcements, conferences) and is run from
  an operator panel. A \<^emph>\<open>registry\<close> (\<open>src/registry_server\<close>) joins exchanges to a network: it gives each one an area code, tells where
  an area code or a service number is hosted, relays push notifications and runs a TURN relay. Exchanges call
  each other over bidirectional streams (\<^emph>\<open>bridges\<close>) found through the registry.

  The parts interact as follows. The signaling server calls the authentication manager, the store, the message managers,
  the hosted services and the recorder; it finds other exchanges through the registry client and talks to them
  over bridges. The panel works on the same store and joins the network through the registry client. Start-up reads
  the configuration and the settings the panel stored, and wires the parts together.

  \<^bold>\<open>Theories, bottom up.\<close>

  \<^item> \<open>OCN_Prelude\<close>: Go's built-in data and the generic lemmas; the locale \<open>invariant_system\<close> (reachable states of a step
    relation and invariants by rule induction), interpreted for the lines, the mail queue, authentication, the signaling
    server and the registry. \<open>Go_Crypto\<close>: SHA-256, HMAC, base64 and hexadecimal as computed functions.
    \<open>Go_Json\<close>, \<open>Json_Codec\<close>: JSON text as \<open>encoding/json\<close> writes and reads it, down to escapes and UTF-8, and how values are
    moved into structs; the locale \<open>json_codec\<close> is the contract of an encoder and a decoder, interpreted for the requests of devices
    and the sealed messages. \<open>Http\<close>: bearer tokens, JSON answers and URL encoding as the panels use them.
  \<^item> \<open>Numbers\<close> (\<open>internal/numbers/allocator.go\<close>): formatting, parsing and allocation of numbers.
  \<^item> \<open>Ogg\<close> (\<open>internal/voicemail/ogg.go\<close>), \<open>Tts\<close> (\<open>internal/services/tts.go\<close>), \<open>Services\<close> (\<open>internal/services\<close>),
    \<open>Recorder\<close> (\<open>internal/voicemail/recorder.go\<close>): audio containers at the byte level, the page checksum on 32-bit
    words, the conference mixer on 16-bit samples, and the services behind the contract \<open>call_service\<close>. \<open>Media\<close>
    (\<open>services/copus.go\<close> and the loops of \<open>echo.go\<close>, \<open>conference.go\<close>, \<open>recorder.go\<close> that write packets): what callers hear.
  \<^item> \<open>Session_Spec\<close>: the contract of panel sessions, with two providers. \<open>Store_Lines\<close>, \<open>Store_Mail\<close>, \<open>Store_Admin\<close>
    (\<open>internal/store\<close>): the tables of an exchange; the locale \<open>mailbox\<close> is what the two message tables promise.
  \<^item> \<open>Crypt\<close> (\<open>internal/crypt\<close>, \<open>ksim/crypto.go\<close>, \<open>voicemail/secret.go\<close>), \<open>Identity\<close> (\<open>internal/ksim\<close>, \<open>internal/auth\<close>),
    \<open>Managers\<close> (\<open>voicemail/manager.go\<close>, \<open>internal/dm/dm.go\<close>): sealing at rest, identity files, challenges, and the
    managers that seal what the mailbox tables keep.
  \<^item> \<open>Sig_State\<close>, \<open>Sig_Voice\<close>, \<open>Sig_Bridge\<close>, \<open>Sig_Calls\<close>, \<open>Sig_Messages\<close> (\<open>internal/signaling\<close>: \<open>server.go\<close>, \<open>bridge.go\<close>,
    \<open>relaydm.go\<close>, \<open>messages.go\<close>): every handler of the signaling server over a heap of connections. \<open>Sig_Frame\<close> has
    the dispatcher and what each handler leaves alone, \<open>Sig_Inv\<close> what each keeps, \<open>Signaling\<close> the transition system
    and the presence specification, \<open>Sig_Props\<close>, \<open>Sig_Flows\<close> and \<open>Sig_Network\<close> the properties of the server, of whole
    calls on one exchange, and of two exchanges together. \<open>Probe\<close> (\<open>cmd/wsprobe/main.go\<close>) is the test device, the other
    side of the signaling protocol, run against the server. \<open>Wire\<close> (\<open>messages.go\<close>) has the JSON tags of all messages: the frames on
    the connection, byte for byte, with the server and the test device on both ends.
  \<^item> \<open>Registry_Store\<close>, \<open>Push\<close>, \<open>Registry_Svc\<close>, \<open>Registry_Panel\<close>, \<open>Registry_Main\<close> (\<open>src/registry_server\<close>, and
    \<open>ocnserver/internal/fcm\<close>, \<open>internal/push\<close>): the registry's tables, service, panel, relay and web routing. \<open>Registry_Props\<close> is
    the registry as a transition system. \<open>Registry_Client\<close> (\<open>ocnserver/internal/registry\<close>) is the client of an exchange,
    joined with the service.
  \<^item> \<open>Admin_Panel\<close>, \<open>Admin_Props\<close> (\<open>ocnserver/internal/admin\<close>): every handler of the panel and of public sign-up.
    \<open>Startup\<close>, \<open>Startup_Props\<close> (\<open>ocnserver/config\<close>, \<open>cmd/ocnserver/main.go\<close>): the configuration file, boot (\<open>ocn_main\<close>), joining
    while running, the listeners and the public pages.
  \<^item> This theory: the network as a whole, from the panel of one exchange to a call from another.

  \<^bold>\<open>How the code is modelled.\<close> A struct is a record, a table the list of its rows, a pointer to a connection or
  a service a reference into an explicit heap, an error a value of a sum type; a run-time panic, a deadlock and
  \<open>log.Fatalf\<close> are results of their own, so that a theorem that says a handler returns excludes them. Go strings and byte
  slices are lists of 8-bit characters and of bytes. Go's \<open>int\<close> is unbounded where the values are lengths, counters and
  times; integers whose width matters (checksums, granule positions, samples, page fields) are words. Time is an argument.

  \<^bold>\<open>What the lemmas show.\<close>

  \<^item> Signaling: the server refines the presence machine \<open>pres_step\<close>; its invariant holds in every reachable state; the exact
    causes of a crash or deadlock; calls, voicemail routing, messages and expiry from the first message to the last, on one
    exchange and across two.
  \<^item> Registry: the tables stay sound and no request crashes it; an area code leaves its key only by a signed deregistration;
    registration routes; assignment ends with a code exactly when one is left; and three weaknesses of its authentication.
  \<^item> Storage: uniqueness of lines, tokens used once, messages kept until acknowledged, mailboxes isolated, and
    sealed messages read back as they were written, also after a restart; a recording is stored and plays what was said.
  \<^item> Authentication: a response is accepted only for a fresh, outstanding challenge, and once; a device that holds the key of
    a line, connects and answers in time is registered and owns the number, in the bytes both sides send.
  \<^item> Wire format: the requests the handlers can be given are exactly those with text in UTF-8, and each is the decoding of its own
    frame; every message of the server has a frame that determines it; the test device on text behaves as the one on messages.
  \<^item> Panel and start-up: without a session the panel changes nothing it should not; provisioning leads to activation;
    an exchange that joined gets its area code back at the next start; a restart keeps key, tables and secrets.
  \<^item> Audio: the checksum equals polynomial division, containers parse back, a recording is a bounded prefix, a conference mix is
    the sum of the other voices.

  \<^bold>\<open>Bounds.\<close> No definition here runs on fuel that could end early. Loops over data are structural recursion or
  have a termination proof. The bounds that occur are the code's own: 64 messages in a send queue (a message to a full
  queue is dropped), 500 random draws of an area code before the scan from 200 to 999, the random attempts of the
  number allocator, 255 segments of an Ogg page, the limits on a recording and on a message. Retry loops take their
  random draws as an argument.

  \<^bold>\<open>Parameters.\<close> Code outside the repository enters as arguments, with its documented behaviour as named hypotheses of the
  theorems that need it: Ed25519, bcrypt, AES-GCM, PBKDF2, the WebRTC library, the Opus codec, \<open>espeak\<close> and \<open>ffmpeg\<close>, the
  Firebase sender, the transport of gRPC, QR rendering, the JSON of the identity file (it holds a calendar date) and of panel requests,
  certificates, random bytes. In the theorems
  that span an exchange and the registry, the registry is not a parameter but the model of it.

  \<^bold>\<open>Not modelled.\<close> Code generated from the protocol files (its messages are records); sockets, TLS and ACME behind the
  listeners, the reverse proxy, static pages, the format of the database file, operating-system signals and log output: they are calls into
  libraries with no logic of the program's own. The relay itself is a library. A handler runs from start to end before
  the next one, so races between handlers that the code's locks leave open are outside the model; where a handler starts
  a goroutine or a timer, its later run is an event of its own. SQL is modelled by the effect of each statement, not by a
  semantics of SQL. Media packets are modelled where the program looks into them (services, recorder), not the streams
  between devices, which bypass the exchange.
\<close>

section \<open>The network as a whole\<close>

text \<open>The world of an exchange whose registry client talks to the registry \<open>w\<close>.\<close>

definition network_ext :: "registry_server \<Rightarrow> ext \<Rightarrow> ext" where
  "network_ext w x = x\<lparr>x_route := (\<lambda>area. case Route (route_call w) area of Inl _ \<Rightarrow> None | Inr addr \<Rightarrow> Some addr),
     x_resolve := (\<lambda>full. case client_ResolveService (resolve_call w) full of Inl _ \<Rightarrow> None | Inr addr \<Rightarrow> Some addr)\<rparr>"

text \<open>
  C8. From the panel of one exchange to the telephone of another: once an exchange has joined the
  network from its panel, and as long as the registry receives neither a deregistration signed with
  its key nor a registration of its area code under its key, any subscriber of any other federated
  exchange who dials a number of its area code is bridged to the address the operator entered, with
  the dialed number and the caller's own number and area.
\<close>

theorem joined_exchange_is_called:
  assumes join: "ae_join e = RegisterOCNServer rnd now w0" "handleFederationRegister e w0 (Some req) s0 = ((200, j), s, w)"
      "ae_load e (ao_ServerKeyPath (ae_opts e)) = Inr key" "GetSetting s ''area_code'' = Inr area" "db_up s0"
    and meantime: "\<forall>nr \<in> set nrs. \<not> signed_off ed (PublicKey key) area nr \<and> \<not> renewed (PublicKey key) area nr"
      "w1 = fold (reg_apply ed) nrs w" "reg_up (rs_store w1)"
    and caller: "user_of A c = Some u" "\<not> IsServiceCode dest" "ParseNumber dest (areaCode A) = Inr (area, num)" "areaCode A \<noteq> []"
      "area \<noteq> areaCode A" "s_reg A"
    and transport: "\<And>a i. x_dial x a i" "\<And>a. x_bridge x a" "\<And>st ev. x_send x st ev"
  shows "\<exists>A1 ev. handleCall (network_ext w1 x) A c \<lparr>cr_Destination = dest, cr_Offer = off\<rparr> = Done A1 \<and>
    TrimSpace (FederationPublicAddr req) \<in> set (gConns A1) \<and> wire A1 = wire A @ [(counter A, ev)] \<and>
    ev_Type ev = INCOMING \<and> ev_Destination ev = num \<and>
    ev_CallerNumber ev = Some \<lparr>pn_AreaCode = areaCode A, pn_Number = Number u\<rparr>"
proof -
  let ?addr = "TrimSpace (FederationPublicAddr req)" and ?x = "network_ext w1 x"
  obtain r where r: "server_of (rs_store w) area = Some r" "SiStatus r = ''ACTIVE''" "SiPublicKey r = PublicKey key"
      "SiServerAddr r = ?addr" "AllowedArea area"
    using federation_register_row [OF join] by blast
  have "server_of (rs_store w1) area = Some r"
    unfolding meantime(2) by (rule reg_run_row [OF r(1,5)]) (use meantime(1) r(3) in simp)
  then have "GetRoute (rs_store w1) area = Inr r" using r(2) meantime(3) by (simp add: GetRoute_of)
  then have route: "x_route ?x area = Some ?addr" using r(4) by (simp add: network_ext_def Route_joined)
  have "can_cross ?x A c u dest area num"
    using caller transport route r(5) by (auto simp: can_cross_def network_ext_def AllowedArea_def)
  then show ?thesis
  proof (rule cross_dial [where off = off])
    fix A1
    assume "handleCall ?x A c \<lparr>cr_Destination = dest, cr_Offer = off\<rparr> = Done A1"
      "wire A1 = wire A @ [(counter A, incoming A u (x_name ?x (Suc (counter A))) num off)]"
      "\<And>a. x_route ?x area = Some a \<Longrightarrow> a \<in> set (gConns A1)"
    with route show ?thesis by (auto simp: incoming_def blank_event_def)
  qed
qed

theorem joined_exchange_is_called_witness:
  "\<exists>w A1. handleCall (network_ext w sample_ext) (sample_home\<lparr>areaCode := ''216''\<rparr>) 1 \<lparr>cr_Destination = ''440-555-0001'', cr_Offer = None\<rparr> = Done A1 \<and>
     ''lake:9110'' \<in> set (gConns A1)"
proof -
  obtain j s w where h: "handleFederationRegister sample_admin empty_registry (Some sample_fed) empty_store = ((200, j), s, w)"
    "GetSetting s ''area_code'' = Inr ''440''" "reg_up (rs_store w)" using sample_joins by blast
  let ?A = "sample_home\<lparr>areaCode := ''216''\<rparr>"
  have c: "user_of ?A 1 = Some ann" "\<not> IsServiceCode ''440-555-0001''" "ParseNumber ''440-555-0001'' (areaCode ?A) = Inr (''440'', ''5550001'')"
    "areaCode ?A \<noteq> []" "''440'' \<noteq> areaCode ?A" "s_reg ?A"
    by (simp_all add: sample_home_defs user_of_def client_def IsServiceCode_def ParseNumber_def strip_dashes_def)
  have t: "\<And>a i. x_dial sample_ext a i" "\<And>a. x_bridge sample_ext a" "\<And>st ev. x_send sample_ext st ev"
    by (simp_all add: sample_ext_def)
  have "fold (reg_apply reg_ed) [] w = w" by simp
  from joined_exchange_is_called [OF sample_join_env(1) h(1) sample_join_env(3) h(2) sample_join_env(2), of "[]" reg_ed, OF _ refl _ c t, of None] h(3)
  show ?thesis by (auto simp: sample_fed_def trim_sample_fed)
qed

end
